(* ===== verification/Prelude.thy ===== *)
theory Prelude
  imports Complex_Main "HOL-Library.Multiset" "HOL-Library.List_Lexorder" "HOL-Library.Char_ord"
    "HOL-Library.Product_Lexorder" "HOL-Library.Option_ord" "HOL-Library.Word"
begin

text \<open>
  Prelude of the development: the type synonyms for Rust's scalar types, the result type,
  decimal printing, the model of a \<open>std::collections::HashMap\<close> and the generic lemmas on lists,
  stable sorting and multisets that the component theories share.

  Orders. Rust compares \<open>String\<close> by bytes lexicographically, \<open>Option\<close> with \<open>None\<close> first and
  tuples lexicographically; the library instances of \<open>List_Lexorder\<close>, \<open>Char_ord\<close>,
  \<open>Option_ord\<close> and \<open>Product_Lexorder\<close> are exactly these orders. A \<open>Uuid\<close> is 128 bits and is
  compared by its bytes, most significant first, which is the unsigned order of \<open>128 word\<close>.
\<close>

section \<open>Scalar types and results\<close>

type_synonym uuid = "128 word"

text \<open>\<open>DateTime<Utc>\<close>: an instant, compared linearly.\<close>

type_synonym timestamp = int

text \<open>
  \<open>i32\<close> values are integers in range; \<open>x += 1\<close> wraps around in the release profile, which has no overflow
  checks.
\<close>

type_synonym i32 = int

definition i32_wrap :: "int \<Rightarrow> i32" where
  "i32_wrap n = (n + 2 ^ 31) mod 2 ^ 32 - 2 ^ 31"

lemma i32_wrap_id [simp]: "- (2 ^ 31) \<le> n \<Longrightarrow> n < 2 ^ 31 \<Longrightarrow> i32_wrap n = n"
  by (simp add: i32_wrap_def)

lemma i32_wrap_range: "- (2 ^ 31) \<le> i32_wrap n \<and> i32_wrap n < 2 ^ 31"
  using pos_mod_bound [of "2 ^ 32" "n + 2 ^ 31"] pos_mod_sign [of "2 ^ 32" "n + 2 ^ 31"] by (simp add: i32_wrap_def)

type_synonym usize = nat

text \<open>\<open>Result<T, E>\<close> is a sum: \<open>Inl\<close> the error, \<open>Inr\<close> the value.\<close>

type_synonym ('e, 'a) result = "'e + 'a"

named_theorems model_simps \<open>equations that unfold the operations of the model\<close>

section \<open>Decimal printing\<close>

definition digit_char :: "nat \<Rightarrow> char" where
  "digit_char d = char_of (48 + d)"

fun show_nat :: "nat \<Rightarrow> string" where
  "show_nat n = (if n < 10 then [digit_char n] else show_nat (n div 10) @ [digit_char (n mod 10)])"

declare show_nat.simps [simp del]

definition show_int :: "int \<Rightarrow> string" where
  "show_int i = (if i < 0 then ''-'' @ show_nat (nat (- i)) else show_nat (nat i))"

definition show_bool :: "bool \<Rightarrow> string" where
  "show_bool b = (if b then ''true'' else ''false'')"

text \<open>\<open>parts.join(sep)\<close>.\<close>

fun join :: "string \<Rightarrow> string list \<Rightarrow> string" where
  "join sep [] = []"
| "join sep [p] = p"
| "join sep (p # q # ps) = p @ sep @ join sep (q # ps)"

text \<open>\<open>haystack.contains(needle)\<close>.\<close>

fun str_contains :: "string \<Rightarrow> string \<Rightarrow> bool" where
  "str_contains [] needle = (needle = [])"
| "str_contains (c # cs) needle = (take (length needle) (c # cs) = needle \<or> str_contains cs needle)"

text \<open>\<open>{:?}\<close> of a string without control characters and of a vector of such strings.\<close>

definition debug_string :: "string \<Rightarrow> string" where
  "debug_string s = [CHR 0x22] @ concat (map (\<lambda>c. if c = CHR 0x22 \<or> c = CHR 0x5C then [CHR 0x5C, c] else [c]) s) @ [CHR 0x22]"

definition debug_strings :: "string list \<Rightarrow> string" where
  "debug_strings ss = ''['' @ join '', '' (map debug_string ss) @ '']''"

lemma show_nat_nonempty [simp]: "show_nat n \<noteq> []"
  by (subst show_nat.simps) simp

text \<open>Different numbers have different decimals.\<close>

lemma digit_code: "n < 10 \<Longrightarrow> of_char (digit_char n) = 48 + n"
  by (simp add: digit_char_def of_char_of take_bit_nat_eq_self)

lemma digit_char_eq: "m < 10 \<Longrightarrow> n < 10 \<Longrightarrow> digit_char m = digit_char n \<longleftrightarrow> m = n"
  by (metis digit_code add_left_imp_eq)

lemma digit_char_minus: "n < 10 \<Longrightarrow> digit_char n \<noteq> CHR ''-''"
  using digit_code [of n] by auto

lemma show_nat_inj: "show_nat m = show_nat n \<longleftrightarrow> m = n"
proof
  show "show_nat m = show_nat n \<Longrightarrow> m = n"
  proof (induction m arbitrary: n rule: show_nat.induct)
    case (1 m)
    show ?case
    proof (cases "m < 10 \<or> n < 10")
      case True
      with 1(2) show ?thesis
        by (cases "m < 10"; cases "n < 10")
          (auto simp: show_nat.simps [of m] show_nat.simps [of n] digit_char_eq Cons_eq_append_conv append_eq_Cons_conv)
    next
      case False
      with 1(2) have "show_nat (m div 10) = show_nat (n div 10)" "m mod 10 = n mod 10"
        by (simp_all add: show_nat.simps [of m] show_nat.simps [of n] digit_char_eq)
      with 1(1) False have "m div 10 = n div 10" "m mod 10 = n mod 10" by auto
      then show ?thesis by (metis div_mult_mod_eq)
    qed
  qed
qed simp

lemma hd_show_nat: "hd (show_nat n) \<noteq> CHR ''-''"
  by (induction n rule: show_nat.induct) (subst show_nat.simps, simp add: digit_char_minus)

lemma show_int_inj: "show_int i = show_int j \<longleftrightarrow> i = j"
  using hd_show_nat [of "nat i"] hd_show_nat [of "nat j"]
  by (cases "i < 0"; cases "j < 0") (auto simp: show_int_def show_nat_inj dest!: arg_cong [of _ _ hd])

section \<open>Hash maps\<close>

text \<open>
  A \<open>HashMap\<close> is its list of entries, with pairwise different keys. Its iteration order is
  unspecified: a loop over a map goes through \<open>it m\<close>, where the parameter \<open>it\<close> permutes the
  entries. \<open>hash_iteration it\<close> is what the documentation of the standard library promises.
\<close>

type_synonym ('k, 'v) hmap = "('k \<times> 'v) list"

type_synonym ('k, 'v) hash_iter = "('k, 'v) hmap \<Rightarrow> ('k, 'v) hmap"

definition hash_iteration :: "('k, 'v) hash_iter \<Rightarrow> bool" where
  "hash_iteration it \<longleftrightarrow> (\<forall>m. mset (it m) = mset m)"

fun hm_insert :: "'k \<Rightarrow> 'v \<Rightarrow> ('k, 'v) hmap \<Rightarrow> ('k, 'v) hmap" where
  "hm_insert k v [] = [(k, v)]"
| "hm_insert k v ((k', v') # m) = (if k = k' then (k, v) # m else (k', v') # hm_insert k v m)"

definition hm_remove :: "'k \<Rightarrow> ('k, 'v) hmap \<Rightarrow> ('k, 'v) hmap" where
  "hm_remove k m = filter (\<lambda>e. fst e \<noteq> k) m"

text \<open>\<open>m.get(k)\<close> is \<open>map_of m k\<close>; the counting loop \<open>*m.entry(k).or_insert(0) += 1\<close>.\<close>

definition bump :: "'k \<Rightarrow> ('k, nat) hmap \<Rightarrow> ('k, nat) hmap" where
  "bump k m = hm_insert k (case map_of m k of None \<Rightarrow> 1 | Some n \<Rightarrow> n + 1) m"

definition counts :: "'k list \<Rightarrow> ('k, nat) hmap" where
  "counts ks = fold bump ks []"

lemma map_of_hm_insert [simp]: "map_of (hm_insert k v m) = (map_of m)(k \<mapsto> v)"
  by (induction m) (auto simp: fun_eq_iff)

lemma keys_hm_insert [simp]: "fst ` set (hm_insert k v m) = insert k (fst ` set m)"
proof (induction m)
  case (Cons e m)
  then show ?case by (cases e) auto
qed simp

lemma distinct_hm_insert [simp]: "distinct (map fst m) \<Longrightarrow> distinct (map fst (hm_insert k v m))"
proof (induction m)
  case Nil
  then show ?case by simp
next
  case (Cons e m)
  then show ?case
    by (cases e) auto
qed

lemma hm_insert_fresh: "k \<notin> fst ` set m \<Longrightarrow> hm_insert k v m = m @ [(k, v)]"
  by (induction m) auto

lemma map_of_hm_remove [simp]: "map_of (hm_remove k m) = (map_of m)(k := None)"
  by (induction m) (auto simp: hm_remove_def fun_eq_iff)

lemma distinct_hm_remove [simp]: "distinct (map fst m) \<Longrightarrow> distinct (map fst (hm_remove k m))"
  by (induction m) (auto simp: hm_remove_def)

lemma map_of_bump: "map_of (bump k m) = (map_of m)(k \<mapsto> (case map_of m k of None \<Rightarrow> 1 | Some n \<Rightarrow> n + 1))"
  by (simp add: bump_def)

lemma map_of_fold_bump:
  "map_of (fold bump ks m) k =
     (if k \<in> set ks then Some ((case map_of m k of None \<Rightarrow> 0 | Some n \<Rightarrow> n) + count_list ks k)
      else map_of m k)"
proof (induction ks arbitrary: m)
  case Nil
  then show ?case by simp
next
  case (Cons a ks)
  then show ?case by (auto simp: map_of_bump split: option.splits)
qed

lemma map_of_counts: "map_of (counts ks) k = (if k \<in> set ks then Some (count_list ks k) else None)"
  by (simp add: counts_def map_of_fold_bump)

lemma counts_eq_1: "map_of (counts ks) k = Some 1 \<longleftrightarrow> count_list ks k = 1"
  by (auto simp: map_of_counts count_list_0_iff)

lemma mset_iter: "hash_iteration it \<Longrightarrow> mset (it m) = mset m"
  by (simp add: hash_iteration_def)

lemma set_iter: "hash_iteration it \<Longrightarrow> set (it m) = set m"
  by (metis mset_iter set_mset_mset)

lemma distinct_iter: "hash_iteration it \<Longrightarrow> distinct (map fst m) \<Longrightarrow> distinct (map fst (it m))"
  by (metis mset_iter mset_eq_imp_distinct_iff mset_map)

lemma hash_iteration_id [simp]: "hash_iteration (\<lambda>m. m)"
  by (simp add: hash_iteration_def)

lemma hash_iteration_rev [simp]: "hash_iteration rev"
  by (simp add: hash_iteration_def)

section \<open>Stable sorting\<close>

text \<open>
  \<open>sort_by_key\<close> of the standard library is stable, as \<^const>\<open>sort_key\<close> is. A stable sort
  is determined by the sublists of equal keys.
\<close>

lemma sort_key_cong_filter:
  assumes "\<And>k. filter (\<lambda>x. f x = k) xs = filter (\<lambda>x. f x = k) ys"
  shows "sort_key f xs = sort_key f ys"
proof (rule properties_for_sort_key)
  have "count (mset xs) x = count (mset ys) x" for x
  proof -
    have "count (mset (filter (\<lambda>y. f y = f x) xs)) x = count (mset (filter (\<lambda>y. f y = f x) ys)) x"
      by (simp add: assms)
    then show ?thesis by simp
  qed
  then show "mset (sort_key f ys) = mset xs"
    by (simp add: multiset_eq_iff)
next
  fix k
  assume "k \<in> set (sort_key f ys)"
  have "filter (\<lambda>x. f x = f k) (sort_key f ys) = filter (\<lambda>x. f x = f k) ys"
    by (rule sort_key_stable)
  also have "\<dots> = filter (\<lambda>x. f x = f k) xs"
    by (simp add: assms)
  finally show "filter (\<lambda>x. f k = f x) (sort_key f ys) = filter (\<lambda>x. f k = f x) xs"
    by (simp add: eq_commute)
next
  show "sorted (map f (sort_key f ys))" by simp
qed

lemma filter_le1_mset_eq:
  assumes "mset xs = mset ys" and "\<And>x y. x \<in> set xs \<Longrightarrow> y \<in> set xs \<Longrightarrow> P x \<Longrightarrow> P y \<Longrightarrow> x = y"
  shows "filter P xs = filter P ys"
proof -
  have eq: "mset (filter P xs) = mset (filter P ys)"
    by (simp add: assms(1))
  then have set: "set (filter P xs) = set (filter P ys)" and len: "length (filter P xs) = length (filter P ys)"
    by (metis set_mset_mset, metis size_mset)
  have one: "x = y" if "x \<in> set (filter P xs)" "y \<in> set (filter P xs)" for x y
    using that assms(2) by auto
  show ?thesis
  proof (rule nth_equalityI)
    fix i
    assume i: "i < length (filter P xs)"
    then have "filter P xs ! i \<in> set (filter P xs)" and "filter P ys ! i \<in> set (filter P xs)"
      by (metis nth_mem, metis len nth_mem set)
    then show "filter P xs ! i = filter P ys ! i"
      by (rule one)
  qed (rule len)
qed

section \<open>Lists and multisets\<close>

lemma mset_filter_split: "mset (filter P xs) + mset (filter (\<lambda>x. \<not> P x) xs) = mset xs"
  by (induction xs) auto

lemma count_list_one_filter: "count_list xs x = length (filter (\<lambda>y. y = x) xs)"
  by (induction xs) auto

lemma count_list_map_one:
  assumes "count_list (map f xs) (f a) = 1" and "a \<in> set xs" and "b \<in> set xs" and "f b = f a"
  shows "a = b"
proof -
  obtain us vs where xs: "xs = us @ a # vs"
    using assms(2) by (auto dest: split_list)
  with assms(1) have "f a \<notin> set (map f us)" and "f a \<notin> set (map f vs)"
    by (auto simp: count_list_0_iff)
  then have "f b \<notin> f ` set us" and "f b \<notin> f ` set vs"
    using assms(4) by auto
  with assms(3) xs show ?thesis
    by auto
qed

lemma find_Some_mem: "List.find P xs = Some x \<Longrightarrow> x \<in> set xs \<and> P x"
  by (auto simp: find_Some_iff)

lemma map_filter_alt: "List.map_filter f xs = map (the \<circ> f) (filter (\<lambda>x. f x \<noteq> None) xs)"
  by (induction xs) (auto simp: List.map_filter_simps split: option.splits)

lemma mset_map_filter_cong: "mset xs = mset ys \<Longrightarrow> mset (List.map_filter f xs) = mset (List.map_filter f ys)"
  by (simp add: map_filter_alt)

lemma map_filter_append: "List.map_filter f (xs @ ys) = List.map_filter f xs @ List.map_filter f ys"
  by (simp add: map_filter_alt)

lemma map_filter_map: "List.map_filter f (map g xs) = List.map_filter (f \<circ> g) xs"
  by (induction xs) (auto simp: List.map_filter_simps split: option.splits)

lemma map_filter_None: "(\<And>x. x \<in> set xs \<Longrightarrow> f x = None) \<Longrightarrow> List.map_filter f xs = []"
  by (induction xs) (auto simp: List.map_filter_simps)

lemma map_filter_Some: "(\<And>x. x \<in> set xs \<Longrightarrow> f x = Some (g x)) \<Longrightarrow> List.map_filter f xs = map g xs"
  by (induction xs) (auto simp: List.map_filter_simps)

end
