(* ===== verification/Intent_Types.thy ===== *)
theory Intent_Types
  imports Prelude
begin

text \<open>
  The domain types of \<open>crates/intent-rebase-types/src/intent.rs\<close> and the error enum of
  \<open>error.rs\<close>. A struct is a record whose fields carry a prefix for the struct (Rust scopes field
  names by type, HOL does not); an enum is a datatype with the source's constructors, written
  \<open>Enum.Constructor\<close> where two enums share a name. The type variable \<open>'j\<close> stands for
  \<open>serde_json::Value\<close>, a third-party type of which the sources use equality only.
\<close>

section \<open>Finite \<open>f64\<close> values\<close>

text \<open>
  The value of a finite \<open>f64\<close> is a rational number; which rationals are representable and how
  arithmetic rounds is modelled in the theory \<open>Binary64\<close>.
\<close>

type_synonym f64 = rat

section \<open>Enumerations\<close>

datatype ChangeChannel = UserEdit | Webhook | PolicyUpdate | SystemNormalization

datatype IntentStatus = Active | Archived | Superseded

datatype VersionStatus = Draft | Active | Rejected | Superseded

datatype ClauseType = Functional | NonFunctional | Policy | Budget | Time

datatype ConstraintOperator =
    Eq | Neq | Lt | Lte | Gt | Gte | Contains | NotContains | Regex | Custom

datatype ClausePriority = Must | Should | Could

datatype RiskTier = Low | Medium | High | Critical

datatype Urgency = Low | Medium | High | Critical

datatype TradeoffDimension = Speed | Cost | Quality | Risk | Compatibility | Latency

datatype TradeoffPreference = Prioritize | Balance | Minimize | Maximize

section \<open>The intent payload\<close>

record SourceRef =
  sr_ref_type :: string
  sr_id :: string

record DocRef =
  dr_ref_type :: string
  dr_id :: string
  dr_uri :: "string option"

record ActorRef =
  ar_actor_type :: string
  ar_actor_id :: string

record IntentObjective =
  io_summary :: string
  io_success_statement :: string
  io_domain :: string

record IntentScope =
  in_scope :: "string list"
  out_of_scope :: "string list"

record 'j Constraint =
  c_clause_id :: "uuid option"
  c_constraint_type :: ClauseType
  c_key :: string
  c_operator :: ConstraintOperator
  c_value :: 'j
  c_rationale :: "string option"
  c_priority :: ClausePriority

record 'j IntentConstraints =
  ic_functional :: "'j Constraint list"
  ic_non_functional :: "'j Constraint list"
  ic_policy :: "'j Constraint list"
  ic_budget :: "'j Constraint list"
  ic_time :: "'j Constraint list"

record AcceptanceCriterion =
  ac_clause_id :: "uuid option"
  ac_description :: string
  ac_priority :: ClausePriority

record AcceptanceCriteria =
  ac_required :: "AcceptanceCriterion list"
  ac_optional :: "AcceptanceCriterion list"

record ActionRef =
  a_action :: string
  a_target :: "string option"

record ApprovalRuleRef =
  r_rule_id :: string
  r_description :: string

record IntentAuthority =
  ia_allowed_actions :: "ActionRef list"
  ia_forbidden_actions :: "ActionRef list"
  ia_approval_requirements :: "ApprovalRuleRef list"

record Tradeoff =
  t_dimension :: TradeoffDimension
  t_preference :: TradeoffPreference

record IntentPreferences =
  ip_tradeoffs :: "Tradeoff list"

record IntentReferences =
  ir_specs :: "DocRef list"
  ir_tickets :: "DocRef list"
  ir_repos :: "DocRef list"
  ir_policies :: "DocRef list"

record IntentAssumptions =
  ias_explicit :: "string list"

record IntentMetadataV1 =
  im_risk_tier :: RiskTier
  im_urgency :: Urgency
  im_confidence :: f64

record 'j IntentPayload =
  p_objective :: IntentObjective
  p_scope :: IntentScope
  p_constraints :: "'j IntentConstraints"
  p_acceptance_criteria :: AcceptanceCriteria
  p_authority :: IntentAuthority
  p_preferences :: IntentPreferences
  p_references :: IntentReferences
  p_assumptions :: IntentAssumptions
  p_metadata :: IntentMetadataV1

record Intent =
  i_id :: uuid
  i_tenant_id :: uuid
  i_workflow_id :: uuid
  i_current_version :: i32
  i_status :: IntentStatus
  i_created_at :: timestamp
  i_created_by :: ActorRef
  i_source_refs :: "SourceRef list"
  i_tags :: "string list"

record 'j IntentVersion =
  v_id :: uuid
  v_intent_id :: uuid
  v_version_number :: i32
  v_parent_version_id :: "uuid option"
  v_created_at :: timestamp
  v_created_by :: ActorRef
  v_change_reason :: string
  v_change_channel :: ChangeChannel
  v_status :: VersionStatus
  v_hash :: string
  v_payload :: "'j IntentPayload"

section \<open>Errors\<close>

datatype (plugins only: size code) IntentRebaseError =
    IntentNotFound uuid
  | IntentVersionNotFound uuid
  | ArtifactNotFound uuid
  | GraphNodeNotFound uuid
  | GraphEdgeNotFound uuid
  | GraphIntegrityError string
  | InvalidIntentVersion string
  | RebaseConflict string
  | StorageError string
  | BrokerError string
  | SerializationError string
  | InvalidHeader string
  | ConcurrencyConflict uuid
  | Internal string
  | InvalidIngestRequest string
  | ArtifactTraceabilityEmpty
  | Unauthorized string
  | InvalidApiKey string
  | ApprovalRequestNotFound uuid
  | ApprovalRequestNotPending uuid string
  | CheckpointNotFound uuid
  | PolicySnapshotNotFound uuid
  | CompensationActionNotFound uuid
  | SideEffectNotFound uuid
  | UnknownEffectClass string
  | InvalidCompensationActionTransition string string string
  | CompensationActionNotExecutable uuid
  | CompensationActionConcurrencyConflict uuid
  | CompensationActionNotReapprovable uuid string
  | CompensationActionRetryExhausted uuid i32
  | CompensationActionNonRetryableError uuid string
  | OrchestrationRunNotFound uuid
  | RollbackRecordNotFound uuid
  | QuotaExceeded uuid string i32 i32
  | TenantNotFound uuid
  | TenantNotFoundBySlug string
  | ForensicBundleNotFound uuid
  | InvalidForensicBundleStatusTransition string string string
  | WebhookSubscriptionNotFound uuid

type_synonym 'a ire_result = "(IntentRebaseError, 'a) result"

text \<open>The messages of \<open>#[error(...)]\<close>; \<open>us\<close> prints a \<open>Uuid\<close>.\<close>

definition display_IntentRebaseError :: "(uuid \<Rightarrow> string) \<Rightarrow> IntentRebaseError \<Rightarrow> string" where
  "display_IntentRebaseError us err =
     (case err of
        IntentNotFound a \<Rightarrow> ''intent not found: '' @ us a
      | IntentVersionNotFound a \<Rightarrow> ''intent version not found: '' @ us a
      | ArtifactNotFound a \<Rightarrow> ''artifact not found: '' @ us a
      | GraphNodeNotFound a \<Rightarrow> ''graph node not found: '' @ us a
      | GraphEdgeNotFound a \<Rightarrow> ''graph edge not found: '' @ us a
      | GraphIntegrityError a \<Rightarrow> ''graph integrity error: '' @ a
      | InvalidIntentVersion a \<Rightarrow> ''invalid intent version: '' @ a
      | RebaseConflict a \<Rightarrow> ''rebase conflict detected: '' @ a
      | StorageError a \<Rightarrow> ''storage error: '' @ a
      | BrokerError a \<Rightarrow> ''broker error: '' @ a
      | SerializationError a \<Rightarrow> ''serialization error: '' @ a
      | InvalidHeader a \<Rightarrow> ''invalid request header: '' @ a
      | ConcurrencyConflict a \<Rightarrow> ''optimistic concurrency conflict: intent '' @ us a @ '' has been modified''
      | Internal a \<Rightarrow> ''internal error: '' @ a
      | InvalidIngestRequest a \<Rightarrow> ''invalid ingest request: '' @ a
      | ArtifactTraceabilityEmpty \<Rightarrow> ''artifact must have at least one IntentVersion dependency''
      | Unauthorized a \<Rightarrow> ''unauthorized: '' @ a
      | InvalidApiKey a \<Rightarrow> ''invalid API key: '' @ a
      | ApprovalRequestNotFound a \<Rightarrow> ''approval request not found: '' @ us a
      | ApprovalRequestNotPending a b \<Rightarrow> ''approval request '' @ us a @ '' is not pending (current status: '' @ b @ '')''
      | CheckpointNotFound a \<Rightarrow> ''checkpoint not found: '' @ us a
      | PolicySnapshotNotFound a \<Rightarrow> ''policy snapshot not found: '' @ us a
      | CompensationActionNotFound a \<Rightarrow> ''compensation action not found: '' @ us a
      | SideEffectNotFound a \<Rightarrow> ''side effect not found: '' @ us a
      | UnknownEffectClass a \<Rightarrow> ''unknown effect class: '' @ a
      | InvalidCompensationActionTransition a b c \<Rightarrow> ''invalid compensation action transition from '' @ a @ '' to '' @ b @ '': '' @ c
      | CompensationActionNotExecutable a \<Rightarrow> ''compensation action '' @ us a @ '' is not in Approved state for execution''
      | CompensationActionConcurrencyConflict a \<Rightarrow> ''concurrency conflict updating compensation action '' @ us a
      | CompensationActionNotReapprovable a b \<Rightarrow> ''compensation action '' @ us a @ '' cannot be reapproved: '' @ b
      | CompensationActionRetryExhausted a b \<Rightarrow> ''compensation action '' @ us a @ '' has exhausted retry budget ('' @ show_int b @ '' attempts)''
      | CompensationActionNonRetryableError a b \<Rightarrow> ''compensation action '' @ us a @ '' failed with non-retryable error: '' @ b
      | OrchestrationRunNotFound a \<Rightarrow> ''orchestration run not found: '' @ us a
      | RollbackRecordNotFound a \<Rightarrow> ''rollback record not found: '' @ us a
      | QuotaExceeded a b c d \<Rightarrow> ''quota exceeded: tenant '' @ us a @ '' has '' @ show_int c @ ''/'' @ show_int d @ '' '' @ b @ '' (limit: '' @ show_int d @ '')''
      | TenantNotFound a \<Rightarrow> ''tenant not found: '' @ us a
      | TenantNotFoundBySlug a \<Rightarrow> ''tenant not found with slug: '' @ a
      | ForensicBundleNotFound a \<Rightarrow> ''forensic bundle not found: '' @ us a
      | InvalidForensicBundleStatusTransition a b c \<Rightarrow> ''invalid forensic bundle status transition from '' @ a @ '' to '' @ b @ '': '' @ c
      | WebhookSubscriptionNotFound a \<Rightarrow> ''webhook subscription not found: '' @ us a)"

end
