(* ===== verification/Matching.thy ===== *)
theory Matching
  imports Prelude
begin

text \<open>
  The contract of conservative matching. The four list diffs of
  \<open>crates/rebase-engine/src/diff.rs\<close> (constraints, acceptance criteria, action references,
  approval rules) share one scheme: items whose key occurs once on a side are candidates for
  matching; a candidate pair with equal keys is unchanged or modified; every other item is
  removed or added; the entries are sorted stably by a key. \<open>key_diff\<close> states the scheme once,
  as the specification that the four definitions are proved to follow, and the locale
  \<open>conservative_diff\<close> holds its laws: the result does not depend on the iteration order of the
  hash maps, it is sorted, and it is a patch.
\<close>

section \<open>The scheme\<close>

text \<open>\<open>key x = None\<close> says that the item \<open>x\<close> has no identity to match by.\<close>

definition matchable :: "('a \<Rightarrow> 'k option) \<Rightarrow> 'a list \<Rightarrow> 'a \<Rightarrow> bool" where
  "matchable key xs x \<longleftrightarrow> (case key x of None \<Rightarrow> False | Some k \<Rightarrow> count_list (map key xs) (Some k) = 1)"

definition uniques :: "('a \<Rightarrow> 'k option) \<Rightarrow> 'a list \<Rightarrow> 'a list" where
  "uniques key xs = filter (matchable key xs) xs"

definition ambiguous :: "('a \<Rightarrow> 'k option) \<Rightarrow> 'a list \<Rightarrow> 'a list" where
  "ambiguous key xs = filter (\<lambda>x. \<not> matchable key xs x) xs"

definition by_key :: "('a \<Rightarrow> 'k option) \<Rightarrow> 'a list \<Rightarrow> ('k, 'a) hmap" where
  "by_key key xs = map (\<lambda>x. (the (key x), x)) (uniques key xs)"

definition key_diff ::
  "('a \<Rightarrow> 'k option) \<Rightarrow> ('a \<Rightarrow> 'a \<Rightarrow> bool) \<Rightarrow> ('k \<Rightarrow> 'a \<Rightarrow> 'a \<Rightarrow> 'd) \<Rightarrow> ('a \<Rightarrow> 'd) \<Rightarrow> ('a \<Rightarrow> 'd) \<Rightarrow>
   ('d \<Rightarrow> 's::linorder) \<Rightarrow> ('k, 'a) hash_iter \<Rightarrow> ('k, 'a) hash_iter \<Rightarrow> 'a list \<Rightarrow> 'a list \<Rightarrow> 'd list"
where
  "key_diff key eq modified removed added srt itb ita before after =
     (let bm = by_key key before; am = by_key key after in
      sort_key srt
        (concat (map (\<lambda>(k, b). case map_of am k of
             Some a \<Rightarrow> if eq b a then [] else [modified k b a] | None \<Rightarrow> []) (itb bm))
         @ map (\<lambda>(k, b). removed b) (filter (\<lambda>(k, b). map_of am k = None) (itb bm))
         @ map (\<lambda>(k, a). added a) (filter (\<lambda>(k, a). map_of bm k = None) (ita am))
         @ map removed (ambiguous key before)
         @ map added (ambiguous key after)))"

section \<open>Unique keys\<close>

lemma uniques_ambiguous: "mset (uniques key xs) + mset (ambiguous key xs) = mset xs"
  unfolding uniques_def ambiguous_def by (rule mset_filter_split)

lemma matchable_key: "matchable key xs x \<Longrightarrow> \<exists>k. key x = Some k"
  by (auto simp: matchable_def split: option.splits)

lemma matchable_inj:
  assumes "matchable key xs x" and "x \<in> set xs" and "y \<in> set xs" and "key y = key x"
  shows "x = y"
  using assms by (intro count_list_map_one [of key xs]) (auto simp: matchable_def split: option.splits)

lemma distinct_uniques_keys: "distinct (map key (uniques key xs))"
proof -
  have "count (mset (map key (uniques key xs))) k = (if k \<in> set (map key (uniques key xs)) then 1 else 0)" for k
  proof (cases "k \<in> set (map key (uniques key xs))")
    case True
    then obtain y where y: "y \<in> set (uniques key xs)" "k = key y" by auto
    then have "count_list (map key xs) k = 1"
      by (auto simp: uniques_def matchable_def split: option.splits)
    moreover have "count_list (map key (filter P xs)) k \<le> count_list (map key xs) k" for P
      by (induction xs) auto
    ultimately have "count_list (map key (uniques key xs)) k \<le> 1"
      unfolding uniques_def by metis
    moreover have "count_list (map key (uniques key xs)) k \<noteq> 0"
      using True by (simp add: count_list_0_iff)
    ultimately show ?thesis
      using True by (simp add: count_mset del: mset_map)
  next
    case False
    then show ?thesis by (simp add: count_mset count_list_0_iff del: mset_map)
  qed
  then show ?thesis
    unfolding distinct_count_atmost_1 by blast
qed

lemma keys_by_key: "map fst (by_key key xs) = map (the \<circ> key) (uniques key xs)"
  by (simp add: by_key_def)

lemma distinct_by_key [simp]: "distinct (map fst (by_key key xs))"
proof -
  have "inj_on (the \<circ> key) (set (uniques key xs))"
  proof (rule inj_onI)
    fix x y
    assume x: "x \<in> set (uniques key xs)" and y: "y \<in> set (uniques key xs)"
      and eq: "(the \<circ> key) x = (the \<circ> key) y"
    then obtain k l where "key x = Some k" and "key y = Some l"
      by (auto simp: uniques_def dest!: matchable_key)
    with eq have "key y = key x" by simp
    with x y show "x = y"
      by (intro matchable_inj [of key xs]) (auto simp: uniques_def)
  qed
  moreover have "distinct (uniques key xs)"
    using distinct_uniques_keys [of key xs] by (simp add: distinct_map)
  ultimately show ?thesis
    by (simp add: distinct_map keys_by_key)
qed

lemma by_key_mem:
  "(k, x) \<in> set (by_key key xs) \<longleftrightarrow> x \<in> set xs \<and> matchable key xs x \<and> key x = Some k"
  by (force simp: by_key_def uniques_def dest: matchable_key)

lemma map_of_by_key:
  "map_of (by_key key xs) k = Some x \<longleftrightarrow> x \<in> set xs \<and> matchable key xs x \<and> key x = Some k"
  by (simp only: map_of_eq_Some_iff [OF distinct_by_key] by_key_mem)

section \<open>The steps of the code\<close>

text \<open>The loops of the code that compute the uniques, their map and the unmatched entries.\<close>

lemma filter_counts_uniques:
  "filter (\<lambda>x. case key x of None \<Rightarrow> False | Some k \<Rightarrow> map_of (counts (map key xs)) (Some k) = Some 1) xs
   = uniques key xs"
  unfolding uniques_def matchable_def by (simp only: counts_eq_1)

lemma filter_counts_ambiguous:
  "filter (\<lambda>x. \<not> (case key x of None \<Rightarrow> False | Some k \<Rightarrow> map_of (counts (map key xs)) (Some k) = Some 1)) xs
   = ambiguous key xs"
  unfolding ambiguous_def matchable_def by (simp only: counts_eq_1)

lemma count_list_map_Some: "count_list (map (\<lambda>x. Some (f x)) xs) (Some k) = count_list (map f xs) k"
  by (induction xs) auto

lemma filter_counts_total:
  "filter (\<lambda>x. map_of (counts (map f xs)) (f x) = Some 1) xs = uniques (\<lambda>x. Some (f x)) xs"
  "filter (\<lambda>x. map_of (counts (map f xs)) (f x) \<noteq> Some 1) xs = ambiguous (\<lambda>x. Some (f x)) xs"
  unfolding uniques_def ambiguous_def matchable_def
  by (simp_all only: counts_eq_1 count_list_map_Some option.case)

lemma fold_insert_distinct:
  assumes "distinct (map f xs)" and "fst ` set m \<inter> f ` set xs = {}"
  shows "fold (\<lambda>x m. hm_insert (f x) x m) xs m = m @ map (\<lambda>x. (f x, x)) xs"
  using assms
proof (induction xs arbitrary: m)
  case Nil
  then show ?case by simp
next
  case (Cons x xs)
  then show ?case by (auto simp: hm_insert_fresh)
qed

lemma fold_insert_by_key:
  "fold (\<lambda>x m. case key x of None \<Rightarrow> m | Some k \<Rightarrow> hm_insert k x m) (uniques key xs) [] = by_key key xs"
proof -
  have "fold (\<lambda>x m. case key x of None \<Rightarrow> m | Some k \<Rightarrow> hm_insert k x m) (uniques key xs) []
      = fold (\<lambda>x m. hm_insert ((the \<circ> key) x) x m) (uniques key xs) []"
    by (rule fold_cong) (auto simp: uniques_def fun_eq_iff dest!: matchable_key)
  also have "\<dots> = by_key key xs"
    using distinct_by_key [of key xs] by (subst fold_insert_distinct) (simp_all add: by_key_def comp_def)
  finally show ?thesis .
qed

lemma fold_insert_by_key_total:
  "fold (\<lambda>x m. hm_insert (f x) x m) (uniques (\<lambda>x. Some (f x)) xs) [] = by_key (\<lambda>x. Some (f x)) xs"
  using fold_insert_by_key [of "\<lambda>x. Some (f x)" xs] by simp

lemma unmatched_before:
  "filter (\<lambda>(k, b). k \<notin> set (filter (\<lambda>k. map_of am k \<noteq> None) (map fst bs))) bs
   = filter (\<lambda>(k, b). map_of am k = None) bs"
  by (rule filter_cong) force+

lemma unmatched_after:
  assumes "set bs = set bm" and "set as \<subseteq> set am"
  shows "filter (\<lambda>(k, a). k \<notin> set (filter (\<lambda>k. map_of am k \<noteq> None) (map fst bs))) as
   = filter (\<lambda>(k, a). map_of bm k = None) as"
proof (rule filter_cong [OF refl])
  fix e
  assume "e \<in> set as"
  then obtain k a where e: "e = (k, a)" "(k, a) \<in> set am"
    using assms(2) by (metis prod.collapse subsetD)
  then have "map_of am k \<noteq> None"
    by (metis option.distinct(1) weak_map_of_SomeI)
  then show "(case e of (k, a) \<Rightarrow> k \<notin> set (filter (\<lambda>k. map_of am k \<noteq> None) (map fst bs))) =
      (case e of (k, a) \<Rightarrow> map_of bm k = None)"
    by (simp add: e(1) assms(1) map_of_eq_None_iff)
qed

section \<open>The laws\<close>

text \<open>The five segments of the unsorted result, over the iterated entries \<open>bs\<close> and \<open>as\<close>.\<close>

definition changed_pairs :: "('a \<Rightarrow> 'a \<Rightarrow> bool) \<Rightarrow> ('k, 'a) hmap \<Rightarrow> ('k, 'a) hmap \<Rightarrow> ('k, 'a) hmap" where
  "changed_pairs eq am bs = filter (\<lambda>(k, b). case map_of am k of None \<Rightarrow> False | Some a \<Rightarrow> \<not> eq b a) bs"

lemma concat_changed:
  "concat (map (\<lambda>(k, b). case map_of am k of
       Some a \<Rightarrow> if eq b a then [] else [modified k b a] | None \<Rightarrow> []) bs)
   = map (\<lambda>(k, b). modified k b (the (map_of am k))) (changed_pairs eq am bs)"
  by (induction bs) (auto simp: changed_pairs_def split: option.splits)

locale conservative_diff =
  fixes key :: "'a \<Rightarrow> 'k option"
    and eq :: "'a \<Rightarrow> 'a \<Rightarrow> bool"
    and modified :: "'k \<Rightarrow> 'a \<Rightarrow> 'a \<Rightarrow> 'd"
    and removed :: "'a \<Rightarrow> 'd"
    and added :: "'a \<Rightarrow> 'd"
    and srt :: "'d \<Rightarrow> 's::linorder"
    and skey :: "'k \<Rightarrow> 's"
    and bef :: "'d \<Rightarrow> 'a option"
    and aft :: "'d \<Rightarrow> 'a option"
  assumes eq_same_key: "key x = Some k \<Longrightarrow> key y = Some k \<Longrightarrow> eq x y \<longleftrightarrow> x = y"
    and skey_inj: "skey k = skey l \<Longrightarrow> k = l"
    and srt_modified: "key b = Some k \<Longrightarrow> srt (modified k b a) = skey k"
    and srt_removed: "key b = Some k \<Longrightarrow> srt (removed b) = skey k"
    and srt_added: "key a = Some k \<Longrightarrow> srt (added a) = skey k"
    and bef_modified: "bef (modified k b a) = Some b"
    and aft_modified: "aft (modified k b a) = Some a"
    and bef_removed: "bef (removed b) = Some b"
    and aft_removed: "aft (removed b) = None"
    and bef_added: "bef (added a) = None"
    and aft_added: "aft (added a) = Some a"
begin

abbreviation bmap :: "'a list \<Rightarrow> ('k, 'a) hmap" where
  "bmap xs \<equiv> by_key key xs"

abbreviation the_diff ::
  "('k, 'a) hash_iter \<Rightarrow> ('k, 'a) hash_iter \<Rightarrow> 'a list \<Rightarrow> 'a list \<Rightarrow> 'd list" where
  "the_diff \<equiv> key_diff key eq modified removed added srt"

lemma the_diff_sorted: "sorted (map srt (the_diff itb ita before after))"
  by (simp add: key_diff_def Let_def)

text \<open>Two entries of a segment with the same sort key come from the same entry of the map.\<close>

lemma segment_functional:
  assumes "\<And>k x. (k, x) \<in> set (bmap xs) \<Longrightarrow> srt (g (k, x)) = skey k"
    and "d \<in> g ` set (bmap xs)" and "e \<in> g ` set (bmap xs)" and "srt d = srt e"
  shows "d = e"
proof -
  obtain k x l y where d: "(k, x) \<in> set (bmap xs)" "d = g (k, x)"
    and e: "(l, y) \<in> set (bmap xs)" "e = g (l, y)"
    using assms(2,3) by force
  with assms(1,4) have "k = l" by (metis skey_inj)
  with d e have "x = y"
    using eq_key_imp_eq_value [OF distinct_by_key] by metis
  with \<open>k = l\<close> d e show ?thesis by simp
qed

lemma segment_cong:
  assumes "hash_iteration it" and "hash_iteration it'"
    and "\<And>k x. (k, x) \<in> set (bmap xs) \<Longrightarrow> srt (g (k, x)) = skey k"
  shows "filter (\<lambda>d. srt d = s) (map g (filter P (it (bmap xs))))
       = filter (\<lambda>d. srt d = s) (map g (filter P (it' (bmap xs))))"
proof (rule filter_le1_mset_eq)
  show "mset (map g (filter P (it (bmap xs)))) = mset (map g (filter P (it' (bmap xs))))"
    by (simp add: mset_iter assms(1,2))
next
  fix d e
  assume "d \<in> set (map g (filter P (it (bmap xs))))" and "e \<in> set (map g (filter P (it (bmap xs))))"
    and "srt d = s" and "srt e = s"
  then show "d = e"
    by (intro segment_functional [of xs g, OF assms(3)]) (auto simp: set_iter assms(1))
qed

lemma the_diff_order_independent:
  assumes it: "hash_iteration itb" "hash_iteration ita" "hash_iteration itb'" "hash_iteration ita'"
  shows "the_diff itb ita before after = the_diff itb' ita' before after"
proof -
  have k: "key x = Some k" if "(k, x) \<in> set (bmap xs)" for k x xs
    using that by (simp add: by_key_mem)
  note seg = segment_cong [where g = "\<lambda>(k, b). modified k b (f k)" for f, OF it(1) it(3)]
    segment_cong [where g = "\<lambda>(k, b). removed b", OF it(1) it(3)]
    segment_cong [where g = "\<lambda>(k, a). added a", OF it(2) it(4)]
  show ?thesis
    unfolding key_diff_def Let_def concat_changed
  proof (rule sort_key_cong_filter, unfold filter_append changed_pairs_def)
    fix s
    show "filter (\<lambda>x. srt x = s) (map (\<lambda>(k, b). modified k b (the (map_of (bmap after) k)))
            (filter (\<lambda>(k, b). case map_of (bmap after) k of None \<Rightarrow> False | Some a \<Rightarrow> \<not> eq b a) (itb (bmap before)))) @
          filter (\<lambda>x. srt x = s) (map (\<lambda>(k, y). removed y)
            (filter (\<lambda>(k, b). map_of (bmap after) k = None) (itb (bmap before)))) @
          filter (\<lambda>x. srt x = s) (map (\<lambda>(k, y). added y)
            (filter (\<lambda>(k, a). map_of (bmap before) k = None) (ita (bmap after)))) @
          filter (\<lambda>x. srt x = s) (map removed (ambiguous key before)) @
          filter (\<lambda>x. srt x = s) (map added (ambiguous key after)) =
          filter (\<lambda>x. srt x = s) (map (\<lambda>(k, b). modified k b (the (map_of (bmap after) k)))
            (filter (\<lambda>(k, b). case map_of (bmap after) k of None \<Rightarrow> False | Some a \<Rightarrow> \<not> eq b a) (itb' (bmap before)))) @
          filter (\<lambda>x. srt x = s) (map (\<lambda>(k, y). removed y)
            (filter (\<lambda>(k, b). map_of (bmap after) k = None) (itb' (bmap before)))) @
          filter (\<lambda>x. srt x = s) (map (\<lambda>(k, y). added y)
            (filter (\<lambda>(k, a). map_of (bmap before) k = None) (ita' (bmap after)))) @
          filter (\<lambda>x. srt x = s) (map removed (ambiguous key before)) @
          filter (\<lambda>x. srt x = s) (map added (ambiguous key after))"
      by (intro arg_cong2 [of _ _ _ _ "(@)"] refl seg) (auto simp: srt_modified srt_removed srt_added k)
  qed
qed

text \<open>The entries of the result, by segment.\<close>

lemma mem_the_diff:
  assumes "hash_iteration itb" and "hash_iteration ita"
  shows "d \<in> set (the_diff itb ita before after) \<longleftrightarrow>
    (\<exists>k b a. map_of (bmap before) k = Some b \<and> map_of (bmap after) k = Some a \<and> b \<noteq> a \<and> d = modified k b a) \<or>
    (\<exists>k b. map_of (bmap before) k = Some b \<and> map_of (bmap after) k = None \<and> d = removed b) \<or>
    (\<exists>k a. map_of (bmap after) k = Some a \<and> map_of (bmap before) k = None \<and> d = added a) \<or>
    (\<exists>b \<in> set (ambiguous key before). d = removed b) \<or>
    (\<exists>a \<in> set (ambiguous key after). d = added a)"
proof -
  have eq: "eq b a \<longleftrightarrow> b = a" if "map_of (bmap xs) k = Some b" "map_of (bmap ys) k = Some a" for xs ys k a b
    using that by (auto simp: map_of_by_key intro!: eq_same_key)
  have 1: "d \<in> set (map (\<lambda>(k, b). modified k b (the (map_of (bmap after) k)))
        (changed_pairs eq (bmap after) (itb (bmap before)))) \<longleftrightarrow>
      (\<exists>k b a. map_of (bmap before) k = Some b \<and> map_of (bmap after) k = Some a \<and> b \<noteq> a \<and> d = modified k b a)"
    (is "?l \<longleftrightarrow> ?r")
  proof
    assume ?l
    then obtain k b where kb: "(k, b) \<in> set (bmap before)" "d = modified k b (the (map_of (bmap after) k))"
      "case map_of (bmap after) k of None \<Rightarrow> False | Some a \<Rightarrow> \<not> eq b a"
      by (auto simp: changed_pairs_def set_iter assms)
    then obtain a where a: "map_of (bmap after) k = Some a" "\<not> eq b a"
      by (cases "map_of (bmap after) k") (auto simp del: map_of_eq_Some_iff)
    moreover have b: "map_of (bmap before) k = Some b"
      using kb by simp
    moreover have "b \<noteq> a"
      using eq [OF b a(1)] a(2) by blast
    moreover have "d = modified k b a"
      using kb(2) a(1) by (simp del: map_of_eq_Some_iff)
    ultimately show ?r by blast
  next
    assume ?r
    then obtain k b a where b: "map_of (bmap before) k = Some b" and a: "map_of (bmap after) k = Some a"
      and ne: "b \<noteq> a" and d: "d = modified k b a" by blast
    have "(k, b) \<in> set (changed_pairs eq (bmap after) (itb (bmap before)))"
      using map_of_SomeD [OF b] eq [OF b a] ne a
      by (simp add: changed_pairs_def set_iter assms del: map_of_eq_Some_iff)
    then show ?l
      using d a by (force simp del: map_of_eq_Some_iff)
  qed
  have 2: "d \<in> set (map (\<lambda>(k, b). removed b) (filter (\<lambda>(k, b). map_of (bmap after) k = None) (itb (bmap before)))) \<longleftrightarrow>
      (\<exists>k b. map_of (bmap before) k = Some b \<and> map_of (bmap after) k = None \<and> d = removed b)"
    by (auto simp: set_iter assms image_iff)
  have 3: "d \<in> set (map (\<lambda>(k, a). added a) (filter (\<lambda>(k, a). map_of (bmap before) k = None) (ita (bmap after)))) \<longleftrightarrow>
      (\<exists>k a. map_of (bmap after) k = Some a \<and> map_of (bmap before) k = None \<and> d = added a)"
    by (auto simp: set_iter assms image_iff)
  have 4: "d \<in> set (map f xs) \<longleftrightarrow> (\<exists>x \<in> set xs. d = f x)" for f :: "'a \<Rightarrow> 'd" and xs
    by auto
  show ?thesis
    unfolding key_diff_def Let_def concat_changed set_sort set_append Un_iff 1 2 3 4 ..
qed

text \<open>
  The patch law. \<open>befores\<close> and \<open>afters\<close> are the items an entry list takes away and puts in.
  Unchanged items are exactly the entries the two key maps have in common.
\<close>

lemma common_entries: "mset (filter (\<lambda>e. e \<in> set (bmap ys)) (bmap xs)) = mset (filter (\<lambda>e. e \<in> set (bmap xs)) (bmap ys))"
proof -
  have "distinct (bmap zs)" for zs
    using distinct_by_key [of key zs] by (simp add: distinct_map)
  then show ?thesis
    by (intro set_eq_iff_mset_eq_distinct [THEN iffD1]) auto
qed

lemma changed_or_missing:
  assumes "set bs \<subseteq> set (bmap xs)"
    and "\<And>k x y. map_of (bmap xs) k = Some x \<Longrightarrow> map_of (bmap ys) k = Some y \<Longrightarrow> e x y \<longleftrightarrow> x = y"
  shows "mset (changed_pairs e (bmap ys) bs) + mset (filter (\<lambda>(k, b). map_of (bmap ys) k = None) bs)
      = mset (filter (\<lambda>p. p \<notin> set (bmap ys)) bs)"
  using assms(1)
proof (induction bs)
  case Nil
  then show ?case by (simp add: changed_pairs_def)
next
  case (Cons p bs)
  obtain k b where p: "p = (k, b)" by force
  with Cons.prems have b: "map_of (bmap xs) k = Some b" by simp
  show ?case
  proof (cases "map_of (bmap ys) k")
    case None
    then have "p \<notin> set (bmap ys)"
      by (metis p map_of_eq_Some_iff distinct_by_key option.distinct(1))
    with Cons None p show ?thesis by (simp add: changed_pairs_def)
  next
    case (Some a)
    have "p \<in> set (bmap ys) \<longleftrightarrow> b = a"
      using Some p by (metis distinct_by_key map_of_eq_Some_iff option.inject)
    with Cons Some p assms(2) [OF b Some] show ?thesis
      by (simp add: changed_pairs_def)
  qed
qed

lemma eq_common_key:
  "map_of (bmap xs) k = Some x \<Longrightarrow> map_of (bmap ys) k = Some y \<Longrightarrow> eq x y \<longleftrightarrow> x = y"
  using eq_same_key by (simp add: by_key_mem)

lemma changed_pairs_flip:
  "mset (map (\<lambda>(k, b). (k, the (map_of (bmap ys) k))) (changed_pairs eq (bmap ys) (bmap xs)))
   = mset (changed_pairs (\<lambda>y x. eq x y) (bmap xs) (bmap ys))"
proof (rule set_eq_iff_mset_eq_distinct [THEN iffD1])
  let ?f = "\<lambda>(k, b::'a). (k, the (map_of (bmap ys) k))"
  have d: "distinct (map fst (changed_pairs e m (bmap zs)))" for e m zs
    unfolding changed_pairs_def by (rule distinct_map_filter) simp
  have "map fst (map ?f l) = map fst l" for l
    by (simp add: case_prod_beta comp_def)
  then have "distinct (map fst (map ?f (changed_pairs eq (bmap ys) (bmap xs))))"
    by (simp only: d)
  then show "distinct (map ?f (changed_pairs eq (bmap ys) (bmap xs)))"
    unfolding distinct_map [of fst] by (rule conjunct1)
  show "distinct (changed_pairs (\<lambda>y x. eq x y) (bmap xs) (bmap ys))"
    using d unfolding distinct_map [of fst] by (rule conjunct1)
  show "set (map ?f (changed_pairs eq (bmap ys) (bmap xs)))
      = set (changed_pairs (\<lambda>y x. eq x y) (bmap xs) (bmap ys))"
  proof (rule set_eqI)
    fix p :: "'k \<times> 'a"
    obtain k y where p: "p = (k, y)" by (cases p)
    have mem: "(k, x) \<in> set (changed_pairs e (bmap us) (bmap zs)) \<longleftrightarrow>
        (k, x) \<in> set (bmap zs) \<and> (\<exists>y. (k, y) \<in> set (bmap us) \<and> \<not> e x y)" for k x e us zs
    proof (cases "map_of (bmap us) k")
      case None
      then have "(k, y) \<notin> set (bmap us)" for y
        by (force simp: map_of_eq_None_iff)
      with None show ?thesis by (simp add: changed_pairs_def)
    next
      case (Some a)
      then have "(k, y) \<in> set (bmap us) \<longleftrightarrow> y = a" for y
        by (metis distinct_by_key map_of_eq_Some_iff option.inject)
      with Some show ?thesis by (simp add: changed_pairs_def)
    qed
    have "p \<in> set (map ?f (changed_pairs eq (bmap ys) (bmap xs))) \<longleftrightarrow>
        (\<exists>b. (k, b) \<in> set (changed_pairs eq (bmap ys) (bmap xs)) \<and> y = the (map_of (bmap ys) k))"
      by (force simp: p)
    also have "\<dots> \<longleftrightarrow> (\<exists>b. (k, b) \<in> set (bmap xs) \<and> (k, y) \<in> set (bmap ys) \<and> \<not> eq b y)"
      unfolding mem by (metis distinct_by_key map_of_eq_Some_iff option.sel)
    also have "\<dots> \<longleftrightarrow> p \<in> set (changed_pairs (\<lambda>y x. eq x y) (bmap xs) (bmap ys))"
      unfolding p mem by blast
    finally show "p \<in> set (map ?f (changed_pairs eq (bmap ys) (bmap xs))) \<longleftrightarrow>
        p \<in> set (changed_pairs (\<lambda>y x. eq x y) (bmap xs) (bmap ys))" .
  qed
qed

lemma befores_the_diff:
  assumes "hash_iteration itb" and "hash_iteration ita"
  shows "mset (List.map_filter bef (the_diff itb ita before after)) =
     image_mset snd (mset (filter (\<lambda>e. e \<notin> set (bmap after)) (bmap before))) + mset (ambiguous key before)"
proof -
  have "mset (List.map_filter bef (the_diff itb ita before after)) =
      image_mset snd (mset (changed_pairs eq (bmap after) (itb (bmap before)))
        + mset (filter (\<lambda>(k, b). map_of (bmap after) k = None) (itb (bmap before)))) + mset (ambiguous key before)"
    unfolding key_diff_def Let_def concat_changed
    by (subst mset_map_filter_cong [OF mset_sort])
      (simp add: map_filter_append map_filter_map comp_def case_prod_beta bef_modified bef_removed bef_added
        map_filter_None [of _ "\<lambda>_. None"] map_filter_Some [of _ _ snd] map_filter_Some [of _ _ "\<lambda>x. x"])
  also have "mset (changed_pairs eq (bmap after) (itb (bmap before)))
        + mset (filter (\<lambda>(k, b). map_of (bmap after) k = None) (itb (bmap before)))
      = mset (filter (\<lambda>e. e \<notin> set (bmap after)) (itb (bmap before)))"
    by (rule changed_or_missing [where xs = before, OF _ eq_common_key]) (simp add: set_iter assms)
  finally show ?thesis
    by (simp add: mset_iter assms)
qed

lemma afters_the_diff:
  assumes "hash_iteration itb" and "hash_iteration ita"
  shows "mset (List.map_filter aft (the_diff itb ita before after)) =
     image_mset snd (mset (filter (\<lambda>e. e \<notin> set (bmap before)) (bmap after))) + mset (ambiguous key after)"
proof -
  let ?new = "\<lambda>(k, b). (k, the (map_of (bmap after) k))"
  have "mset (List.map_filter aft (the_diff itb ita before after)) =
      image_mset snd (mset (map ?new (changed_pairs eq (bmap after) (itb (bmap before))))
        + mset (filter (\<lambda>(k, b). map_of (bmap before) k = None) (ita (bmap after)))) + mset (ambiguous key after)"
    unfolding key_diff_def Let_def concat_changed
    by (subst mset_map_filter_cong [OF mset_sort])
      (simp add: map_filter_append map_filter_map comp_def case_prod_beta image_mset.compositionality aft_modified aft_removed aft_added
        map_filter_None [of _ "\<lambda>_. None"] map_filter_Some [of _ _ snd] map_filter_Some [of _ _ "\<lambda>x. x"]
        map_filter_Some [of _ _ "\<lambda>e. the (map_of (bmap after) (fst e))"])
  also have "mset (map ?new (changed_pairs eq (bmap after) (itb (bmap before))))
      = mset (map ?new (changed_pairs eq (bmap after) (bmap before)))"
    by (simp add: changed_pairs_def mset_iter assms)
  also have "\<dots> = mset (changed_pairs (\<lambda>y x. eq x y) (bmap before) (bmap after))"
    by (rule changed_pairs_flip)
  also have "mset (filter (\<lambda>(k, b). map_of (bmap before) k = None) (ita (bmap after)))
      = mset (filter (\<lambda>(k, b). map_of (bmap before) k = None) (bmap after))"
    by (simp add: mset_iter assms)
  also have "mset (changed_pairs (\<lambda>y x. eq x y) (bmap before) (bmap after)) + \<dots>
      = mset (filter (\<lambda>e. e \<notin> set (bmap before)) (bmap after))"
    by (rule changed_or_missing [where xs = after]) (auto simp del: map_of_eq_Some_iff simp: eq_common_key)
  finally show ?thesis .
qed

lemma items_split:
  "mset xs = image_mset snd (mset (filter (\<lambda>e. e \<in> set (bmap ys)) (bmap xs)))
     + image_mset snd (mset (filter (\<lambda>e. e \<notin> set (bmap ys)) (bmap xs))) + mset (ambiguous key xs)"
proof -
  have "mset (uniques key xs) = image_mset snd (mset (bmap xs))"
    by (simp add: by_key_def comp_def flip: mset_map)
  also have "mset (bmap xs) = mset (filter (\<lambda>e. e \<in> set (bmap ys)) (bmap xs)) + mset (filter (\<lambda>e. e \<notin> set (bmap ys)) (bmap xs))"
    by (simp only: mset_filter_split)
  finally have u: "mset (uniques key xs) = image_mset snd (mset (filter (\<lambda>e. e \<in> set (bmap ys)) (bmap xs)) + mset (filter (\<lambda>e. e \<notin> set (bmap ys)) (bmap xs)))" .
  show ?thesis
    unfolding uniques_ambiguous [of key xs, symmetric] u image_mset_union ..
qed

theorem the_diff_patch:
  assumes "hash_iteration itb" and "hash_iteration ita"
  shows "mset (List.map_filter bef (the_diff itb ita before after)) \<subseteq># mset before"
    and "mset after = mset before - mset (List.map_filter bef (the_diff itb ita before after))
           + mset (List.map_filter aft (the_diff itb ita before after))"
proof -
  let ?common = "image_mset snd (mset (filter (\<lambda>e. e \<in> set (bmap after)) (bmap before)))"
  have b: "mset before = ?common + mset (List.map_filter bef (the_diff itb ita before after))"
    using items_split [of before after] by (simp add: befores_the_diff [OF assms])
  have a: "mset after = ?common + mset (List.map_filter aft (the_diff itb ita before after))"
    using items_split [of after before] by (simp add: afters_the_diff [OF assms] common_entries flip: mset_filter)
  show "mset (List.map_filter bef (the_diff itb ita before after)) \<subseteq># mset before"
    by (simp add: b)
  show "mset after = mset before - mset (List.map_filter bef (the_diff itb ita before after))
           + mset (List.map_filter aft (the_diff itb ita before after))"
    by (subst a, subst b) simp
qed

text \<open>The result is empty exactly when every item has an identity and nothing changed.\<close>

lemma the_diff_empty_iff:
  assumes "hash_iteration itb" and "hash_iteration ita"
  shows "the_diff itb ita before after = [] \<longleftrightarrow>
    ambiguous key before = [] \<and> ambiguous key after = [] \<and> mset before = mset after"
proof
  assume empty: "the_diff itb ita before after = []"
  then have "d \<notin> set (the_diff itb ita before after)" for d by simp
  then have "ambiguous key before = []" and "ambiguous key after = []"
    unfolding mem_the_diff [OF assms] by (metis empty_set last_in_set)+
  then show "ambiguous key before = [] \<and> ambiguous key after = [] \<and> mset before = mset after"
    using the_diff_patch(2) [OF assms, of after before] empty by (simp add: List.map_filter_simps)
next
  assume *: "ambiguous key before = [] \<and> ambiguous key after = [] \<and> mset before = mset after"
  then have "count_list (map key before) k = count_list (map key after) k" for k
    by (metis count_mset mset_map)
  then have "set (bmap before) = set (bmap after)"
    using * by (auto simp: by_key_mem matchable_def dest: mset_eq_setD split: option.splits)
  then have "map_of (bmap before) = map_of (bmap after)"
    by (intro map_of_eqI) (auto simp: distinct_by_key)
  with * have "d \<notin> set (the_diff itb ita before after)" for d
    unfolding mem_the_diff [OF assms] by (auto simp del: map_of_eq_Some_iff)
  then show "the_diff itb ita before after = []"
    by (meson last_in_set)
qed

end

end
