(* ===== verification/Diff.thy ===== *)
theory Diff
  imports Intent_Types Matching
begin

text \<open>
  The semantic diff of \<open>crates/rebase-engine/src/diff.rs\<close>: the diff types, the merge loop on
  sorted scope items, the four keyed list diffs and the diff of two intent versions. Each keyed
  diff is written out as the code has it; the iteration order of its two hash maps is a parameter
  (\<open>itb\<close> for the map of the earlier version, \<open>ita\<close> for that of the later one). Each is then
  proved to follow the scheme of the theory \<open>Matching\<close>, and the locale \<open>conservative_diff\<close> is
  interpreted on it.
\<close>

section \<open>Types\<close>

datatype ChangeType = Added | Removed | Modified

record 'j ConstraintDiff =
  cd_clause_id :: "uuid option"
  cd_change_type :: ChangeType
  cd_constraint_type :: ClauseType
  cd_key :: string
  cd_after :: "'j Constraint option"
  cd_before :: "'j Constraint option"

record 'j ConstraintsDiff =
  csd_functional :: "'j ConstraintDiff list"
  csd_non_functional :: "'j ConstraintDiff list"
  csd_policy :: "'j ConstraintDiff list"
  csd_budget :: "'j ConstraintDiff list"
  csd_time :: "'j ConstraintDiff list"

record AcceptanceCriterionDiff =
  acd_clause_id :: "uuid option"
  acd_change_type :: ChangeType
  acd_priority :: string
  acd_after :: "AcceptanceCriterion option"
  acd_before :: "AcceptanceCriterion option"

record AcceptanceCriteriaDiff =
  acsd_required :: "AcceptanceCriterionDiff list"
  acsd_optional :: "AcceptanceCriterionDiff list"

record ActionRefDiff =
  ard_change_type :: ChangeType
  ard_action :: string
  ard_target :: "string option"
  ard_before :: "ActionRef option"
  ard_after :: "ActionRef option"

record ApprovalRuleDiff =
  rd_change_type :: ChangeType
  rd_rule_id :: string
  rd_description :: string
  rd_before :: "ApprovalRuleRef option"
  rd_after :: "ApprovalRuleRef option"

record AuthorityDiff =
  aud_allowed_actions :: "ActionRefDiff list"
  aud_forbidden_actions :: "ActionRefDiff list"
  aud_approval_requirements :: "ApprovalRuleDiff list"

record ScopeItemsDiff =
  si_added :: "string list"
  si_removed :: "string list"

record ScopeDiff =
  sd_in_scope :: ScopeItemsDiff
  sd_out_of_scope :: ScopeItemsDiff

record 'j IntentVersionDiff =
  ivd_scope :: ScopeDiff
  ivd_constraints :: "'j ConstraintsDiff"
  ivd_acceptance_criteria :: AcceptanceCriteriaDiff
  ivd_authority :: AuthorityDiff

section \<open>Scope items\<close>

text \<open>
  The \<open>while\<close> loop over the two sorted vectors; the indices \<open>before_idx\<close> and \<open>after_idx\<close> are
  the suffixes still to read.
\<close>

fun diff_string_loop :: "string list \<Rightarrow> string list \<Rightarrow> string list \<Rightarrow> string list \<Rightarrow> ScopeItemsDiff" where
  "diff_string_loop (b # bs) [] added removed = diff_string_loop bs [] added (removed @ [b])"
| "diff_string_loop [] (a # as) added removed = diff_string_loop [] as (added @ [a]) removed"
| "diff_string_loop (b # bs) (a # as) added removed =
     (if b < a then diff_string_loop bs (a # as) added (removed @ [b])
      else if b > a then diff_string_loop (b # bs) as (added @ [a]) removed
      else diff_string_loop bs as added removed)"
| "diff_string_loop [] [] added removed = \<lparr>si_added = added, si_removed = removed\<rparr>"

definition diff_string_lists :: "string list \<Rightarrow> string list \<Rightarrow> ScopeItemsDiff" where
  "diff_string_lists before after = diff_string_loop (sort before) (sort after) [] []"

definition diff_scope :: "IntentScope \<Rightarrow> IntentScope \<Rightarrow> ScopeDiff" where
  "diff_scope before after =
     \<lparr>sd_in_scope = diff_string_lists (in_scope before) (in_scope after),
      sd_out_of_scope = diff_string_lists (out_of_scope before) (out_of_scope after)\<rparr>"

section \<open>Constraints\<close>

definition constraints_equal :: "'j Constraint \<Rightarrow> 'j Constraint \<Rightarrow> bool" where
  "constraints_equal a b \<longleftrightarrow>
     c_key a = c_key b \<and> c_operator a = c_operator b \<and> c_value a = c_value b \<and>
     c_constraint_type a = c_constraint_type b \<and> c_priority a = c_priority b \<and>
     c_rationale a = c_rationale b"

definition diff_constraints ::
  "(uuid, 'j Constraint) hash_iter \<Rightarrow> (uuid, 'j Constraint) hash_iter \<Rightarrow>
   'j Constraint list \<Rightarrow> 'j Constraint list \<Rightarrow> 'j ConstraintDiff list"
where
  "diff_constraints itb ita before after =
     (let before_id_count = counts (map c_clause_id before);
          after_id_count = counts (map c_clause_id after);
          before_is_unique = (\<lambda>c. case c_clause_id c of None \<Rightarrow> False
            | Some i \<Rightarrow> map_of before_id_count (Some i) = Some 1);
          after_is_unique = (\<lambda>c. case c_clause_id c of None \<Rightarrow> False
            | Some i \<Rightarrow> map_of after_id_count (Some i) = Some 1);
          before_unique = filter before_is_unique before;
          before_ambiguous = filter (\<lambda>c. \<not> before_is_unique c) before;
          after_unique = filter after_is_unique after;
          after_ambiguous = filter (\<lambda>c. \<not> after_is_unique c) after;
          before_by_unique_id = fold (\<lambda>c m. case c_clause_id c of None \<Rightarrow> m
            | Some i \<Rightarrow> hm_insert i c m) before_unique [];
          after_by_unique_id = fold (\<lambda>c m. case c_clause_id c of None \<Rightarrow> m
            | Some i \<Rightarrow> hm_insert i c m) after_unique [];
          matched = filter (\<lambda>i. map_of after_by_unique_id i \<noteq> None) (map fst (itb before_by_unique_id));
          removed = (\<lambda>c. \<lparr>cd_clause_id = c_clause_id c, cd_change_type = Removed,
            cd_constraint_type = c_constraint_type c, cd_key = c_key c,
            cd_after = None, cd_before = Some c\<rparr>);
          added = (\<lambda>c. \<lparr>cd_clause_id = c_clause_id c, cd_change_type = Added,
            cd_constraint_type = c_constraint_type c, cd_key = c_key c,
            cd_after = Some c, cd_before = None\<rparr>)
      in sort_key cd_clause_id
        (concat (map (\<lambda>(i, before_c). case map_of after_by_unique_id i of
             Some after_c \<Rightarrow> if constraints_equal before_c after_c then []
               else [\<lparr>cd_clause_id = Some i, cd_change_type = Modified,
                      cd_constraint_type = c_constraint_type before_c, cd_key = c_key before_c,
                      cd_after = Some after_c, cd_before = Some before_c\<rparr>]
           | None \<Rightarrow> []) (itb before_by_unique_id))
         @ map (\<lambda>(i, before_c). (removed before_c)\<lparr>cd_clause_id := Some i\<rparr>)
             (filter (\<lambda>(i, c). i \<notin> set matched) (itb before_by_unique_id))
         @ map (\<lambda>(i, after_c). (added after_c)\<lparr>cd_clause_id := Some i\<rparr>)
             (filter (\<lambda>(i, c). i \<notin> set matched) (ita after_by_unique_id))
         @ map removed before_ambiguous
         @ map added after_ambiguous))"

definition diff_constraints_section ::
  "(string \<Rightarrow> (uuid, 'j Constraint) hash_iter) \<Rightarrow> 'j IntentConstraints \<Rightarrow> 'j IntentConstraints \<Rightarrow>
   'j ConstraintsDiff"
where
  "diff_constraints_section it before after =
     \<lparr>csd_functional = diff_constraints (it ''functional.before'') (it ''functional.after'')
        (ic_functional before) (ic_functional after),
      csd_non_functional = diff_constraints (it ''non_functional.before'') (it ''non_functional.after'')
        (ic_non_functional before) (ic_non_functional after),
      csd_policy = diff_constraints (it ''policy.before'') (it ''policy.after'')
        (ic_policy before) (ic_policy after),
      csd_budget = diff_constraints (it ''budget.before'') (it ''budget.after'')
        (ic_budget before) (ic_budget after),
      csd_time = diff_constraints (it ''time.before'') (it ''time.after'')
        (ic_time before) (ic_time after)\<rparr>"

section \<open>Acceptance criteria\<close>

definition acceptance_criteria_equal :: "AcceptanceCriterion \<Rightarrow> AcceptanceCriterion \<Rightarrow> bool" where
  "acceptance_criteria_equal a b \<longleftrightarrow>
     ac_description a = ac_description b \<and> ac_priority a = ac_priority b"

text \<open>\<open>format!("{:?}", priority)\<close>: the derived \<open>Debug\<close> prints the variant name.\<close>

fun debug_ClausePriority :: "ClausePriority \<Rightarrow> string" where
  "debug_ClausePriority Must = ''Must''"
| "debug_ClausePriority Should = ''Should''"
| "debug_ClausePriority Could = ''Could''"

definition diff_acceptance_criteria ::
  "(uuid, AcceptanceCriterion) hash_iter \<Rightarrow> (uuid, AcceptanceCriterion) hash_iter \<Rightarrow>
   AcceptanceCriterion list \<Rightarrow> AcceptanceCriterion list \<Rightarrow> AcceptanceCriterionDiff list"
where
  "diff_acceptance_criteria itb ita before after =
     (let before_id_count = counts (map ac_clause_id before);
          after_id_count = counts (map ac_clause_id after);
          before_is_unique = (\<lambda>c. case ac_clause_id c of None \<Rightarrow> False
            | Some i \<Rightarrow> map_of before_id_count (Some i) = Some 1);
          after_is_unique = (\<lambda>c. case ac_clause_id c of None \<Rightarrow> False
            | Some i \<Rightarrow> map_of after_id_count (Some i) = Some 1);
          before_unique = filter before_is_unique before;
          before_ambiguous = filter (\<lambda>c. \<not> before_is_unique c) before;
          after_unique = filter after_is_unique after;
          after_ambiguous = filter (\<lambda>c. \<not> after_is_unique c) after;
          before_by_unique_id = fold (\<lambda>c m. case ac_clause_id c of None \<Rightarrow> m
            | Some i \<Rightarrow> hm_insert i c m) before_unique [];
          after_by_unique_id = fold (\<lambda>c m. case ac_clause_id c of None \<Rightarrow> m
            | Some i \<Rightarrow> hm_insert i c m) after_unique [];
          matched = filter (\<lambda>i. map_of after_by_unique_id i \<noteq> None) (map fst (itb before_by_unique_id));
          removed = (\<lambda>c. \<lparr>acd_clause_id = ac_clause_id c, acd_change_type = Removed,
            acd_priority = debug_ClausePriority (ac_priority c),
            acd_after = None, acd_before = Some c\<rparr>);
          added = (\<lambda>c. \<lparr>acd_clause_id = ac_clause_id c, acd_change_type = Added,
            acd_priority = debug_ClausePriority (ac_priority c),
            acd_after = Some c, acd_before = None\<rparr>)
      in sort_key acd_clause_id
        (concat (map (\<lambda>(i, before_c). case map_of after_by_unique_id i of
             Some after_c \<Rightarrow> if acceptance_criteria_equal before_c after_c then []
               else [\<lparr>acd_clause_id = Some i, acd_change_type = Modified,
                      acd_priority = debug_ClausePriority (ac_priority before_c),
                      acd_after = Some after_c, acd_before = Some before_c\<rparr>]
           | None \<Rightarrow> []) (itb before_by_unique_id))
         @ map (\<lambda>(i, c). (removed c)\<lparr>acd_clause_id := Some i\<rparr>)
             (filter (\<lambda>(i, c). i \<notin> set matched) (itb before_by_unique_id))
         @ map (\<lambda>(i, c). (added c)\<lparr>acd_clause_id := Some i\<rparr>)
             (filter (\<lambda>(i, c). i \<notin> set matched) (ita after_by_unique_id))
         @ map removed before_ambiguous
         @ map added after_ambiguous))"

definition diff_acceptance_criteria_section ::
  "(string \<Rightarrow> (uuid, AcceptanceCriterion) hash_iter) \<Rightarrow> AcceptanceCriteria \<Rightarrow> AcceptanceCriteria \<Rightarrow>
   AcceptanceCriteriaDiff"
where
  "diff_acceptance_criteria_section it before after =
     \<lparr>acsd_required = diff_acceptance_criteria (it ''required.before'') (it ''required.after'')
        (ac_required before) (ac_required after),
      acsd_optional = diff_acceptance_criteria (it ''optional.before'') (it ''optional.after'')
        (ac_optional before) (ac_optional after)\<rparr>"

section \<open>Authority\<close>

definition action_refs_equal :: "ActionRef \<Rightarrow> ActionRef \<Rightarrow> bool" where
  "action_refs_equal a b \<longleftrightarrow> a_action a = a_action b \<and> a_target a = a_target b"

definition diff_action_refs ::
  "(string \<times> string option, ActionRef) hash_iter \<Rightarrow> (string \<times> string option, ActionRef) hash_iter \<Rightarrow>
   ActionRef list \<Rightarrow> ActionRef list \<Rightarrow> ActionRefDiff list"
where
  "diff_action_refs itb ita before after =
     (let before_key_count = counts (map (\<lambda>a. (a_action a, a_target a)) before);
          after_key_count = counts (map (\<lambda>a. (a_action a, a_target a)) after);
          before_unique = filter (\<lambda>a. map_of before_key_count (a_action a, a_target a) = Some 1) before;
          before_ambiguous = filter (\<lambda>a. map_of before_key_count (a_action a, a_target a) \<noteq> Some 1) before;
          after_unique = filter (\<lambda>a. map_of after_key_count (a_action a, a_target a) = Some 1) after;
          after_ambiguous = filter (\<lambda>a. map_of after_key_count (a_action a, a_target a) \<noteq> Some 1) after;
          before_by_unique_key = fold (\<lambda>a m. hm_insert (a_action a, a_target a) a m) before_unique [];
          after_by_unique_key = fold (\<lambda>a m. hm_insert (a_action a, a_target a) a m) after_unique [];
          matched = filter (\<lambda>k. map_of after_by_unique_key k \<noteq> None) (map fst (itb before_by_unique_key));
          removed = (\<lambda>a. \<lparr>ard_change_type = Removed, ard_action = a_action a, ard_target = a_target a,
            ard_before = Some a, ard_after = None\<rparr>);
          added = (\<lambda>a. \<lparr>ard_change_type = Added, ard_action = a_action a, ard_target = a_target a,
            ard_before = None, ard_after = Some a\<rparr>)
      in sort_key (\<lambda>d. (ard_action d, ard_target d))
        (concat (map (\<lambda>(k, before_a). case map_of after_by_unique_key k of
             Some after_a \<Rightarrow> if action_refs_equal before_a after_a then []
               else [\<lparr>ard_change_type = Modified, ard_action = a_action before_a,
                      ard_target = a_target before_a,
                      ard_before = Some before_a, ard_after = Some after_a\<rparr>]
           | None \<Rightarrow> []) (itb before_by_unique_key))
         @ map (\<lambda>(k, a). removed a) (filter (\<lambda>(k, a). k \<notin> set matched) (itb before_by_unique_key))
         @ map (\<lambda>(k, a). added a) (filter (\<lambda>(k, a). k \<notin> set matched) (ita after_by_unique_key))
         @ map removed before_ambiguous
         @ map added after_ambiguous))"

definition approval_rules_equal :: "ApprovalRuleRef \<Rightarrow> ApprovalRuleRef \<Rightarrow> bool" where
  "approval_rules_equal a b \<longleftrightarrow> r_rule_id a = r_rule_id b \<and> r_description a = r_description b"

definition diff_approval_rules ::
  "(string, ApprovalRuleRef) hash_iter \<Rightarrow> (string, ApprovalRuleRef) hash_iter \<Rightarrow>
   ApprovalRuleRef list \<Rightarrow> ApprovalRuleRef list \<Rightarrow> ApprovalRuleDiff list"
where
  "diff_approval_rules itb ita before after =
     (let before_id_count = counts (map r_rule_id before);
          after_id_count = counts (map r_rule_id after);
          before_unique = filter (\<lambda>a. map_of before_id_count (r_rule_id a) = Some 1) before;
          before_ambiguous = filter (\<lambda>a. map_of before_id_count (r_rule_id a) \<noteq> Some 1) before;
          after_unique = filter (\<lambda>a. map_of after_id_count (r_rule_id a) = Some 1) after;
          after_ambiguous = filter (\<lambda>a. map_of after_id_count (r_rule_id a) \<noteq> Some 1) after;
          before_by_unique_id = fold (\<lambda>a m. hm_insert (r_rule_id a) a m) before_unique [];
          after_by_unique_id = fold (\<lambda>a m. hm_insert (r_rule_id a) a m) after_unique [];
          matched = filter (\<lambda>k. map_of after_by_unique_id k \<noteq> None) (map fst (itb before_by_unique_id));
          removed = (\<lambda>a. \<lparr>rd_change_type = Removed, rd_rule_id = r_rule_id a,
            rd_description = r_description a, rd_before = Some a, rd_after = None\<rparr>);
          added = (\<lambda>a. \<lparr>rd_change_type = Added, rd_rule_id = r_rule_id a,
            rd_description = r_description a, rd_before = None, rd_after = Some a\<rparr>)
      in sort_key rd_rule_id
        (concat (map (\<lambda>(k, before_a). case map_of after_by_unique_id k of
             Some after_a \<Rightarrow> if approval_rules_equal before_a after_a then []
               else [\<lparr>rd_change_type = Modified, rd_rule_id = r_rule_id before_a,
                      rd_description = r_description before_a,
                      rd_before = Some before_a, rd_after = Some after_a\<rparr>]
           | None \<Rightarrow> []) (itb before_by_unique_id))
         @ map (\<lambda>(k, a). removed a) (filter (\<lambda>(k, a). k \<notin> set matched) (itb before_by_unique_id))
         @ map (\<lambda>(k, a). added a) (filter (\<lambda>(k, a). k \<notin> set matched) (ita after_by_unique_id))
         @ map removed before_ambiguous
         @ map added after_ambiguous))"

text \<open>
  The iteration orders of every hash map a diff of two versions builds: one permutation per
  kind of map and per place (named by section and side) where such a map is built.
\<close>

record 'j hash_orders =
  ho_constraint :: "string \<Rightarrow> (uuid, 'j Constraint) hash_iter"
  ho_criterion :: "string \<Rightarrow> (uuid, AcceptanceCriterion) hash_iter"
  ho_action :: "string \<Rightarrow> (string \<times> string option, ActionRef) hash_iter"
  ho_rule :: "string \<Rightarrow> (string, ApprovalRuleRef) hash_iter"

definition hash_orders_ok :: "'j hash_orders \<Rightarrow> bool" where
  "hash_orders_ok ho \<longleftrightarrow>
     (\<forall>s. hash_iteration (ho_constraint ho s)) \<and> (\<forall>s. hash_iteration (ho_criterion ho s)) \<and>
     (\<forall>s. hash_iteration (ho_action ho s)) \<and> (\<forall>s. hash_iteration (ho_rule ho s))"

definition diff_authority :: "'j hash_orders \<Rightarrow> IntentAuthority \<Rightarrow> IntentAuthority \<Rightarrow> AuthorityDiff" where
  "diff_authority ho before after =
     \<lparr>aud_allowed_actions = diff_action_refs (ho_action ho ''allowed.before'') (ho_action ho ''allowed.after'')
        (ia_allowed_actions before) (ia_allowed_actions after),
      aud_forbidden_actions = diff_action_refs (ho_action ho ''forbidden.before'') (ho_action ho ''forbidden.after'')
        (ia_forbidden_actions before) (ia_forbidden_actions after),
      aud_approval_requirements = diff_approval_rules (ho_rule ho ''before'') (ho_rule ho ''after'')
        (ia_approval_requirements before) (ia_approval_requirements after)\<rparr>"

section \<open>Intent versions\<close>

definition diff_intent_version ::
  "'j hash_orders \<Rightarrow> 'j IntentVersion \<Rightarrow> 'j IntentVersion \<Rightarrow> 'j IntentVersionDiff" where
  "diff_intent_version ho before after =
     \<lparr>ivd_scope = diff_scope (p_scope (v_payload before)) (p_scope (v_payload after)),
      ivd_constraints = diff_constraints_section (ho_constraint ho)
        (p_constraints (v_payload before)) (p_constraints (v_payload after)),
      ivd_acceptance_criteria = diff_acceptance_criteria_section (ho_criterion ho)
        (p_acceptance_criteria (v_payload before)) (p_acceptance_criteria (v_payload after)),
      ivd_authority = diff_authority ho (p_authority (v_payload before)) (p_authority (v_payload after))\<rparr>"

text \<open>
  \<open>RebaseEngine::compute_diff\<close> and its synchronous twin \<open>compute_diff_sync\<close> have the same body.
\<close>

definition compute_diff ::
  "'j hash_orders \<Rightarrow> 'j IntentVersion \<Rightarrow> 'j IntentVersion \<Rightarrow> 'j IntentVersionDiff ire_result" where
  "compute_diff ho from_version to_version =
     (if v_version_number to_version \<le> v_version_number from_version then
        Inl (InvalidIntentVersion (''to_version ('' @ show_int (v_version_number to_version) @
          '') must be greater than from_version ('' @ show_int (v_version_number from_version) @ '')''))
      else if v_intent_id from_version \<noteq> v_intent_id to_version then
        Inl (InvalidIntentVersion ''Cannot diff versions from different intents'')
      else Inr (diff_intent_version ho from_version to_version))"

end
