(* ===== verification/Binary64.thy ===== *)
theory Binary64
  imports Intent_Types "HOL-Library.Log_Nat"
begin

text \<open>
  Rounding of \<open>f64\<close> arithmetic. Every arithmetic operation, literal and \<open>usize as f64\<close> cast of the
  program is the exact rational result rounded to the nearest number with a 53 bit significand, ties
  to even. The scores of the program are quotients of counts, sums of three such quotients and decimal
  literals: they are zero or between \<open>2\<^sup>-\<^sup>6\<^sup>4\<close> and \<open>2\<^sup>6\<^sup>5\<close>, far from the subnormal and the overflow range,
  so the exponent range of the format plays no role and is left out.

  The locale \<open>f64_rounding\<close> is what clients rely on: rounding is monotone, keeps integers of
  at most 53 bits and the half, and has relative error at most \<open>2\<^sup>-\<^sup>5\<^sup>3\<close>. It is interpreted on the executable \<open>rnd\<close>.
\<close>

section \<open>Rounding to nearest even\<close>

definition round_even :: "rat \<Rightarrow> int" where
  "round_even q = (let f = \<lfloor>q\<rfloor>; r = q - of_int f in
     if r < 1 / 2 then f else if r > 1 / 2 then f + 1 else if even f then f else f + 1)"

definition pow2 :: "int \<Rightarrow> rat" where
  "pow2 e = (if 0 \<le> e then 2 ^ nat e else 1 / 2 ^ nat (- e))"

text \<open>The binary exponent of a positive rational, \<open>2\<^sup>e \<le> x < 2\<^sup>e\<^sup>+\<^sup>1\<close>.\<close>

definition exponent :: "rat \<Rightarrow> int" where
  "exponent x = (let nd = quotient_of x; e = bitlen (fst nd) - bitlen (snd nd) in
     if pow2 e \<le> x then e else e - 1)"

definition rnd_pos :: "rat \<Rightarrow> f64" where
  "rnd_pos x = of_int (round_even (x * pow2 (52 - exponent x))) * pow2 (exponent x - 52)"

definition rnd :: "rat \<Rightarrow> f64" where
  "rnd x = (if x = 0 then 0 else if 0 < x then rnd_pos x else - rnd_pos (- x))"

text \<open>The same for \<open>f32\<close>, whose significand has 24 bits.\<close>

definition rnd32_pos :: "rat \<Rightarrow> rat" where
  "rnd32_pos x = of_int (round_even (x * pow2 (23 - exponent x))) * pow2 (exponent x - 23)"

definition rnd32 :: "rat \<Rightarrow> rat" where
  "rnd32 x = (if x = 0 then 0 else if 0 < x then rnd32_pos x else - rnd32_pos (- x))"

lemma round_even_bounds: "\<bar>of_int (round_even q) - q\<bar> \<le> 1 / 2"
proof -
  have "of_int \<lfloor>q\<rfloor> \<le> q" "q < of_int \<lfloor>q\<rfloor> + 1" by linarith+
  then show ?thesis unfolding round_even_def Let_def by (cases "even \<lfloor>q\<rfloor>"; auto)
qed

lemma round_even_of_int [simp]: "round_even (of_int i) = i"
  by (simp add: round_even_def)

lemma round_even_mono:
  assumes "p \<le> q"
  shows "round_even p \<le> round_even q"
proof (cases "\<lfloor>p\<rfloor> = \<lfloor>q\<rfloor>")
  case True
  with assms show ?thesis by (auto simp: round_even_def Let_def)
next
  case False
  with assms have "\<lfloor>p\<rfloor> + 1 \<le> \<lfloor>q\<rfloor>" by (meson floor_mono le_less not_less zless_imp_add1_zle)
  moreover have "round_even p \<le> \<lfloor>p\<rfloor> + 1" and "\<lfloor>q\<rfloor> \<le> round_even q"
    by (simp_all add: round_even_def Let_def)
  ultimately show ?thesis by linarith
qed

section \<open>Powers of two and exponents\<close>

lemma pow2_powi: "pow2 e = 2 powi e"
  by (simp add: pow2_def power_int_def power_one_over inverse_eq_divide)

lemma pow2_pos [simp]: "0 < pow2 e"
  by (simp add: pow2_def)

lemma pow2_nonneg [simp]: "0 \<le> pow2 e"
  using pow2_pos [of e] by linarith

lemma pow2_neq_0 [simp]: "pow2 e \<noteq> 0"
  using pow2_pos [of e] by linarith

lemma pow2_add: "pow2 (d + e) = pow2 d * pow2 e"
  by (simp add: pow2_powi power_int_add)

lemma pow2_mono: "d \<le> e \<Longrightarrow> pow2 d \<le> pow2 e"
  by (simp add: pow2_powi power_int_increasing)

lemma pow2_strict: "pow2 d < pow2 e \<Longrightarrow> d < e"
  using pow2_mono [of e d] by (meson not_le)

lemma pow2_cancel [simp]: "pow2 (d - e) * pow2 (e - d) = 1" "x * pow2 (d - e) * pow2 (e - d) = x"
  using pow2_add [of "d - e" "e - d"] by (simp_all add: pow2_def mult.assoc)

lemma exponent_bounds:
  assumes "0 < x"
  shows "pow2 (exponent x) \<le> x" and "x < pow2 (exponent x + 1)"
proof -
  obtain n d where nd: "quotient_of x = (n, d)" by force
  then have d: "0 < d" by (rule quotient_of_denom_pos)
  have x: "x = of_int n / of_int d" using nd by (rule quotient_of_div)
  with assms d have n: "0 < n" by (simp add: zero_less_divide_iff)
  let ?e = "bitlen n - bitlen d"
  have pos: "1 \<le> bitlen n" "1 \<le> bitlen d"
    using bitlen_eq_zero_iff [of n] bitlen_eq_zero_iff [of d] bitlen_nonneg [of n] bitlen_nonneg [of d] n d
    by linarith+
  have bounds: "pow2 (bitlen m - 1) \<le> of_int m" "of_int m < pow2 (bitlen m)" if "0 < m" "1 \<le> bitlen m" for m
  proof -
    have "of_int (2 ^ nat (bitlen m - 1)) \<le> (of_int m :: rat)" "(of_int m :: rat) < of_int (2 ^ nat (bitlen m))"
      using bitlen_bounds [OF that(1)] by (simp_all only: of_int_le_iff of_int_less_iff)
    with that(2) show "pow2 (bitlen m - 1) \<le> of_int m" "of_int m < pow2 (bitlen m)"
      by (simp_all add: pow2_def)
  qed
  have "pow2 (?e - 1) * of_int d \<le> pow2 (?e - 1) * pow2 (bitlen d)"
    using bounds(2) [OF d pos(2)] by (intro mult_left_mono) auto
  also have "\<dots> = pow2 (bitlen n - 1)" by (simp flip: pow2_add)
  also have "\<dots> \<le> of_int n" using bounds(1) [OF n pos(1)] .
  finally have lower: "pow2 (?e - 1) \<le> x" using d by (simp add: x pos_le_divide_eq)
  have "of_int n < pow2 (?e + 1) * pow2 (bitlen d - 1)"
    using bounds(2) [OF n pos(1)] by (simp flip: pow2_add)
  also have "\<dots> \<le> pow2 (?e + 1) * of_int d"
    using bounds(1) [OF d pos(2)] by (intro mult_left_mono) auto
  finally have upper: "x < pow2 (?e + 1)" using d by (simp add: x pos_divide_less_eq)
  show "pow2 (exponent x) \<le> x" and "x < pow2 (exponent x + 1)"
    using lower upper by (auto simp: exponent_def nd Let_def)
qed

lemma exponent_mono: "0 < x \<Longrightarrow> x \<le> y \<Longrightarrow> exponent x \<le> exponent y"
  using exponent_bounds [of x] exponent_bounds [of y] pow2_strict [of "exponent x" "exponent y + 1"]
  by fastforce

section \<open>Properties of rounding\<close>

lemma rnd_pos_bounds:
  assumes "0 < x"
  shows "pow2 (exponent x) \<le> rnd_pos x" and "rnd_pos x \<le> pow2 (exponent x + 1)"
proof -
  let ?e = "exponent x"
  have scale: "pow2 (52 - ?e) * pow2 ?e = of_int (2 ^ 52)" "pow2 (52 - ?e) * pow2 (?e + 1) = of_int (2 ^ 53)"
    by (simp_all flip: pow2_add) (simp_all add: pow2_def)
  have lo: "of_int (2 ^ 52) \<le> x * pow2 (52 - ?e)" and hi: "x * pow2 (52 - ?e) \<le> of_int (2 ^ 53)"
    unfolding scale [symmetric] using exponent_bounds [OF assms] by (simp_all add: mult.commute)
  have "2 ^ 52 \<le> round_even (x * pow2 (52 - ?e))" and "round_even (x * pow2 (52 - ?e)) \<le> 2 ^ 53"
    using round_even_mono [OF lo] round_even_mono [OF hi] by (simp_all only: round_even_of_int)
  then have "of_int (2 ^ 52) * pow2 (?e - 52) \<le> rnd_pos x" and "rnd_pos x \<le> of_int (2 ^ 53) * pow2 (?e - 52)"
    unfolding rnd_pos_def by (intro mult_right_mono; simp only: of_int_le_iff pow2_nonneg)+
  then show "pow2 ?e \<le> rnd_pos x" and "rnd_pos x \<le> pow2 (?e + 1)"
    unfolding scale [symmetric] by (simp_all add: mult.assoc mult.commute mult.left_commute add.commute flip: pow2_add)
qed

lemma rnd_pos_error:
  assumes "0 < x"
  shows "\<bar>rnd_pos x - x\<bar> \<le> x / 2 ^ 53"
proof -
  let ?e = "exponent x"
  have "rnd_pos x - x = (of_int (round_even (x * pow2 (52 - ?e))) - x * pow2 (52 - ?e)) * pow2 (?e - 52)"
    by (simp add: rnd_pos_def left_diff_distrib)
  then have "\<bar>rnd_pos x - x\<bar> \<le> 1 / 2 * pow2 (?e - 52)"
    using round_even_bounds [of "x * pow2 (52 - ?e)"] by (simp only: abs_mult) (simp add: mult_right_mono)
  also have "\<dots> = pow2 ?e / 2 ^ 53"
    using pow2_add [of ?e "-52"] by (simp add: pow2_def)
  also have "\<dots> \<le> x / 2 ^ 53"
    using exponent_bounds(1) [OF assms] by (intro divide_right_mono) auto
  finally show ?thesis .
qed

lemma rnd_pos_mono:
  assumes "0 < x" and "x \<le> y"
  shows "rnd_pos x \<le> rnd_pos y"
proof (cases "exponent x = exponent y")
  case True
  then show ?thesis
    using assms by (simp add: rnd_pos_def round_even_mono mult_right_mono)
next
  case False
  with exponent_mono [OF assms] have "exponent x + 1 \<le> exponent y" by simp
  with rnd_pos_bounds(2) [OF assms(1)] rnd_pos_bounds(1) [of y] pow2_mono [of "exponent x + 1" "exponent y"] assms
  show ?thesis by linarith
qed

lemma rnd_pos_nonneg: "0 < x \<Longrightarrow> 0 < rnd_pos x"
  using rnd_pos_bounds(1) [of x] pow2_pos [of "exponent x"] by linarith

lemma rnd_mono: "x \<le> y \<Longrightarrow> rnd x \<le> rnd y"
  using rnd_pos_nonneg [of y] rnd_pos_nonneg [of "- x"] rnd_pos_mono [of x y] rnd_pos_mono [of "- y" "- x"]
  by (auto simp: rnd_def split: if_splits)

lemma rnd_error: "\<bar>rnd x - x\<bar> \<le> \<bar>x\<bar> / 2 ^ 53"
  using rnd_pos_error [of x] rnd_pos_error [of "- x"] by (auto simp: rnd_def abs_if split: if_splits)

text \<open>Integers of at most 53 bits and the half are representable.\<close>

lemma rnd_of_nat:
  assumes "n < 2 ^ 53"
  shows "rnd (of_nat n) = of_nat n"
proof (cases "n = 0")
  case False
  let ?e = "exponent (of_nat n)"
  have "pow2 ?e \<le> of_nat n" using exponent_bounds(1) [of "of_nat n"] False by simp
  also have "\<dots> < of_nat (2 ^ 53)" using assms by (simp only: of_nat_less_iff)
  finally have "?e < 53" by (intro pow2_strict) (simp add: pow2_def)
  then have "of_nat n * pow2 (52 - ?e) = of_int (int n * 2 ^ nat (52 - ?e))"
    by (simp add: pow2_def)
  then have "rnd_pos (of_nat n) = of_nat n * pow2 (52 - ?e) * pow2 (?e - 52)"
    unfolding rnd_pos_def by (simp only: round_even_of_int)
  with False show ?thesis by (simp add: rnd_def)
qed (simp add: rnd_def)

lemma rnd_half: "rnd (1 / 2) = 1 / 2"
  by code_simp

locale f64_rounding =
  fixes round :: "rat \<Rightarrow> rat"
  assumes mono: "x \<le> y \<Longrightarrow> round x \<le> round y"
    and error: "\<bar>round x - x\<bar> \<le> \<bar>x\<bar> / 2 ^ 53"
    and of_nat: "n < 2 ^ 53 \<Longrightarrow> round (of_nat n) = of_nat n"
    and half: "round (1 / 2) = 1 / 2"
begin

lemma zero [simp]: "round 0 = 0"
  using error [of 0] by simp

lemma one [simp]: "round 1 = 1"
  using of_nat [of 1] by simp

lemma nonneg: "0 \<le> x \<Longrightarrow> 0 \<le> round x"
  using mono [of 0 x] by simp

lemma at_most_1: "x \<le> 1 \<Longrightarrow> round x \<le> 1"
  using mono [of x 1] by simp

lemma at_least_half: "1 / 2 \<le> x \<Longrightarrow> 1 / 2 \<le> round x"
  using mono [of "1 / 2" x] by (simp add: half)

lemma lower: "0 \<le> x \<Longrightarrow> x - x / 2 ^ 53 \<le> round x"
  using error [of x] unfolding abs_le_iff by linarith

lemma upper: "0 \<le> x \<Longrightarrow> round x \<le> x + x / 2 ^ 53"
  using error [of x] unfolding abs_le_iff by linarith

end

interpretation rnd: f64_rounding rnd
  by unfold_locales (rule rnd_mono rnd_error rnd_of_nat rnd_half; assumption?)+

section \<open>The operations the program uses\<close>

text \<open>\<open>n as f64\<close>, \<open>a / b\<close>, \<open>a * b\<close>, \<open>a + b\<close> and \<open>x.clamp(lo, hi)\<close> on finite values.\<close>

definition f64_of_usize :: "usize \<Rightarrow> f64" where
  "f64_of_usize n = rnd (of_nat n)"

definition f64_div :: "f64 \<Rightarrow> f64 \<Rightarrow> f64" where
  "f64_div a b = rnd (a / b)"

definition f64_mul :: "f64 \<Rightarrow> f64 \<Rightarrow> f64" where
  "f64_mul a b = rnd (a * b)"

definition f64_add :: "f64 \<Rightarrow> f64 \<Rightarrow> f64" where
  "f64_add a b = rnd (a + b)"

definition f64_clamp :: "f64 \<Rightarrow> f64 \<Rightarrow> f64 \<Rightarrow> f64" where
  "f64_clamp x lo hi = (if x < lo then lo else if x > hi then hi else x)"

lemmas f64_ops = f64_of_usize_def f64_div_def f64_mul_def f64_add_def

end
