(* ===== verification/Risk.thy ===== *)
theory Risk
  imports Diff Binary64
begin

text \<open>
  Risk analysis of a diff: the types of \<open>crates/rebase-engine/src/risk.rs\<close> and the rules of
  \<open>rules.rs\<close>, in the order of the source. A loop over a slice with mutable locals is a fold whose
  step function is named after the loop; \<open>(Severity, MatchingStats)\<close> results are pairs.
\<close>

section \<open>Types (risk.rs)\<close>

datatype Severity = Low | Medium | High | Critical

text \<open>The derived \<open>PartialOrd\<close> compares by declaration order.\<close>

fun severity_rank :: "Severity \<Rightarrow> nat" where
  "severity_rank Low = 0"
| "severity_rank Medium = 1"
| "severity_rank High = 2"
| "severity_rank Critical = 3"

lemma severity_rank_inj [simp]: "severity_rank a = severity_rank b \<longleftrightarrow> a = b"
  by (cases a; cases b) simp_all

instantiation Severity :: linorder
begin

definition less_eq_Severity :: "Severity \<Rightarrow> Severity \<Rightarrow> bool" where
  "less_eq_Severity a b \<longleftrightarrow> severity_rank a \<le> severity_rank b"

definition less_Severity :: "Severity \<Rightarrow> Severity \<Rightarrow> bool" where
  "less_Severity a b \<longleftrightarrow> severity_rank a < severity_rank b"

instance
  by standard (auto simp: less_eq_Severity_def less_Severity_def)

end

instantiation Severity :: "{order_bot, order_top}"
begin

definition bot_Severity :: Severity where "bot_Severity = Low"

definition top_Severity :: Severity where "top_Severity = Critical"

instance
proof
  fix a :: Severity
  show "bot \<le> a" by (simp add: bot_Severity_def less_eq_Severity_def)
  show "a \<le> top" by (cases a) (simp_all add: top_Severity_def less_eq_Severity_def)
qed

end

lemmas severity_order = less_eq_Severity_def less_Severity_def

lemma severity_bounds [simp]: "Severity.Low \<le> s" "s \<le> Severity.Critical"
  using bot_least [of s] top_greatest [of s] by (simp_all add: bot_Severity_def top_Severity_def)

lemma Critical_le [simp]: "Severity.Critical \<le> s \<longleftrightarrow> s = Severity.Critical"
  by (cases s) (simp_all add: severity_order)

definition to_risk_tier :: "Severity \<Rightarrow> RiskTier" where
  "to_risk_tier s = (case s of Severity.Low \<Rightarrow> RiskTier.Low | Severity.Medium \<Rightarrow> RiskTier.Medium
     | Severity.High \<Rightarrow> RiskTier.High | Severity.Critical \<Rightarrow> RiskTier.Critical)"

datatype ManualReviewReason =
    CriticalSeverity
  | HighSeverityAuthorityChange
  | LowConfidence f64 f64
  | PolicyConstraintChanged
  | MultipleHighSeverityChanges usize
  | ApprovalRequirementRemoved

record SectionRisk =
  sr_section :: string
  sr_severity :: Severity
  sr_change_count :: usize
  sr_high_priority_changes :: usize

record DiffRiskAnalysis =
  ra_severity :: Severity
  ra_confidence :: f64
  ra_manual_review :: bool
  ra_manual_review_reasons :: "ManualReviewReason list"
  ra_section_risks :: "SectionRisk list"
  ra_rationale :: "string option"

record RiskConfig =
  confidence_threshold :: f64
  max_high_severity_before_manual_review :: usize

definition RiskConfig_default :: RiskConfig where
  "RiskConfig_default =
     \<lparr>confidence_threshold = rnd (7 / 10), max_high_severity_before_manual_review = 3\<rparr>"

section \<open>Matching statistics (rules.rs)\<close>

record MatchingStats =
  total_changes :: usize
  unique_clause_id_match :: usize
  ambiguous_match :: usize
  no_match :: usize
  ms_removed :: usize

definition MatchingStats_default :: MatchingStats where
  "MatchingStats_default = \<lparr>total_changes = 0, unique_clause_id_match = 0, ambiguous_match = 0,
     no_match = 0, ms_removed = 0\<rparr>"

text \<open>\<open>impl AddAssign\<close>.\<close>

definition stats_add :: "MatchingStats \<Rightarrow> MatchingStats \<Rightarrow> MatchingStats" where
  "stats_add s r = \<lparr>total_changes = total_changes s + total_changes r,
     unique_clause_id_match = unique_clause_id_match s + unique_clause_id_match r,
     ambiguous_match = ambiguous_match s + ambiguous_match r,
     no_match = no_match s + no_match r,
     ms_removed = ms_removed s + ms_removed r\<rparr>"

text \<open>The loops over the categories add every field but \<open>removed\<close>.\<close>

definition stats_add_category :: "MatchingStats \<Rightarrow> MatchingStats \<Rightarrow> MatchingStats" where
  "stats_add_category s r = s\<lparr>total_changes := total_changes s + total_changes r,
     unique_clause_id_match := unique_clause_id_match s + unique_clause_id_match r,
     ambiguous_match := ambiguous_match s + ambiguous_match r,
     no_match := no_match s + no_match r\<rparr>"

definition add_unique :: "MatchingStats \<Rightarrow> MatchingStats" where
  "add_unique s = s\<lparr>unique_clause_id_match := unique_clause_id_match s + 1\<rparr>"

definition add_ambiguous :: "MatchingStats \<Rightarrow> MatchingStats" where
  "add_ambiguous s = s\<lparr>ambiguous_match := ambiguous_match s + 1\<rparr>"

definition add_no_match :: "MatchingStats \<Rightarrow> MatchingStats" where
  "add_no_match s = s\<lparr>no_match := no_match s + 1\<rparr>"

definition add_removed :: "MatchingStats \<Rightarrow> MatchingStats" where
  "add_removed s = s\<lparr>ms_removed := ms_removed s + 1\<rparr>"

lemmas stats_defs = stats_add_def stats_add_category_def add_unique_def add_ambiguous_def
  add_no_match_def add_removed_def MatchingStats_default_def

section \<open>Scope\<close>

definition analyze_scope_risk :: "ScopeDiff \<Rightarrow> Severity \<times> MatchingStats" where
  "analyze_scope_risk scope_diff =
     (let ins = sd_in_scope scope_diff; out = sd_out_of_scope scope_diff;
          in_scope_changes = length (si_added ins) + length (si_removed ins);
          out_of_scope_changes = length (si_added out) + length (si_removed out);
          total = in_scope_changes + out_of_scope_changes;
          stats = MatchingStats_default\<lparr>total_changes := total\<rparr>
      in if total = 0 then (Severity.Low, stats)
         else
           let severity = Severity.Low;
               severity = (if si_added ins \<noteq> [] then Severity.Medium else severity);
               severity = (if si_removed ins \<noteq> [] then Severity.Medium else severity);
               severity = (if si_added out \<noteq> [] \<or> si_removed out \<noteq> [] then Severity.Medium else severity)
           in (severity, stats\<lparr>ambiguous_match := total\<rparr>))"

section \<open>Constraints\<close>

definition is_must_constraint :: "'j Constraint option \<Rightarrow> bool" where
  "is_must_constraint c = (case c of Some c \<Rightarrow> c_priority c = Must | None \<Rightarrow> False)"

definition compute_constraint_severity :: "'j ConstraintDiff \<Rightarrow> Severity" where
  "compute_constraint_severity d =
     (case cd_change_type d of
        Added \<Rightarrow> if is_must_constraint (cd_after d) then Severity.High else Severity.Medium
      | Removed \<Rightarrow> Severity.Medium
      | Modified \<Rightarrow> if is_must_constraint (cd_after d) then Severity.High else Severity.Medium)"

text \<open>\<open>a.or(b)\<close> on options.\<close>

definition option_or :: "'a option \<Rightarrow> 'a option \<Rightarrow> 'a option" where
  "option_or a b = (case a of Some x \<Rightarrow> Some x | None \<Rightarrow> b)"

definition constraint_loop ::
  "'j ConstraintDiff \<Rightarrow> Severity \<times> usize \<times> MatchingStats \<Rightarrow> Severity \<times> usize \<times> MatchingStats" where
  "constraint_loop d = (\<lambda>(severity, high_priority_changes, stats).
     (let s = compute_constraint_severity d in if s > severity then s else severity,
      if is_must_constraint (option_or (cd_before d) (cd_after d)) then high_priority_changes + 1
      else high_priority_changes,
      if cd_clause_id d \<noteq> None \<and> cd_change_type d = Modified then add_unique stats
      else if cd_clause_id d = None then add_ambiguous stats
      else if cd_change_type d = Added \<or> cd_change_type d = Removed then add_no_match stats
      else stats))"

definition analyze_constraint_category :: "string \<Rightarrow> 'j ConstraintDiff list \<Rightarrow> Severity \<times> MatchingStats" where
  "analyze_constraint_category category_name ds =
     (let stats0 = MatchingStats_default\<lparr>total_changes := length ds\<rparr>;
          (severity, high_priority_changes, stats) = fold constraint_loop ds (Severity.Low, 0, stats0);
          severity = (if category_name = ''policy'' \<and> ds \<noteq> [] \<and> severity < Severity.High
            then Severity.High else severity);
          severity = (if category_name = ''policy'' \<and> high_priority_changes > 0
            then Severity.Critical else severity)
      in (severity, stats))"

definition category_step :: "Severity \<times> MatchingStats \<Rightarrow> Severity \<times> MatchingStats \<Rightarrow> Severity \<times> MatchingStats" where
  "category_step cat acc = (if fst cat > fst acc then fst cat else fst acc, stats_add_category (snd acc) (snd cat))"

definition analyze_constraints_risk :: "'j ConstraintsDiff \<Rightarrow> Severity \<times> MatchingStats" where
  "analyze_constraints_risk cs =
     fold (\<lambda>(category_name, ds). category_step (analyze_constraint_category category_name ds))
       [(''functional'', csd_functional cs), (''non_functional'', csd_non_functional cs),
        (''policy'', csd_policy cs), (''budget'', csd_budget cs), (''time'', csd_time cs)]
       (Severity.Low, MatchingStats_default)"

section \<open>Acceptance criteria\<close>

definition compute_acceptance_criterion_severity :: "AcceptanceCriterionDiff \<Rightarrow> Severity" where
  "compute_acceptance_criterion_severity d =
     (case acd_change_type d of
        Added \<Rightarrow> if str_contains (acd_priority d) ''Must'' then Severity.High else Severity.Medium
      | Removed \<Rightarrow> Severity.Medium
      | Modified \<Rightarrow> (case acd_after d of
            Some after \<Rightarrow> if ac_priority after = Must then Severity.High else Severity.Medium
          | None \<Rightarrow> Severity.Medium))"

definition criterion_loop ::
  "AcceptanceCriterionDiff \<Rightarrow> Severity \<times> MatchingStats \<Rightarrow> Severity \<times> MatchingStats" where
  "criterion_loop d = (\<lambda>(severity, stats).
     (let s = compute_acceptance_criterion_severity d in if s > severity then s else severity,
      if acd_clause_id d \<noteq> None \<and> acd_change_type d = Modified then add_unique stats
      else if acd_clause_id d = None then add_ambiguous stats
      else add_no_match stats))"

definition analyze_acceptance_criterion_category ::
  "string \<Rightarrow> AcceptanceCriterionDiff list \<Rightarrow> Severity \<times> MatchingStats" where
  "analyze_acceptance_criterion_category category_name ds =
     (let stats0 = MatchingStats_default\<lparr>total_changes := length ds\<rparr>;
          (severity, stats) = fold criterion_loop ds (Severity.Low, stats0);
          severity = (if category_name = ''required'' \<and> ds \<noteq> [] \<and> severity < Severity.Medium
            then Severity.Medium else severity)
      in (severity, stats))"

definition analyze_acceptance_criteria_risk :: "AcceptanceCriteriaDiff \<Rightarrow> Severity \<times> MatchingStats" where
  "analyze_acceptance_criteria_risk ac =
     fold (\<lambda>(category_name, ds). category_step (analyze_acceptance_criterion_category category_name ds))
       [(''required'', acsd_required ac), (''optional'', acsd_optional ac)]
       (Severity.Low, MatchingStats_default)"

section \<open>Authority\<close>

definition action_refs_loop ::
  "string \<Rightarrow> ActionRefDiff \<Rightarrow> Severity \<times> MatchingStats \<Rightarrow> Severity \<times> MatchingStats" where
  "action_refs_loop section_name d = (\<lambda>(severity, stats).
     let s = (case ard_change_type d of
           Added \<Rightarrow> Severity.Medium
         | Removed \<Rightarrow> if section_name = ''forbidden_actions'' then Severity.Critical else Severity.High
         | Modified \<Rightarrow> Severity.Medium);
         stats = (if ard_change_type d = Modified then add_unique stats
           else if ard_before d = None \<or> ard_after d = None then add_no_match stats else stats);
         stats = (if ard_change_type d = Removed then add_removed stats else stats)
     in (if s > severity then s else severity, stats))"

definition analyze_action_refs_risk :: "string \<Rightarrow> ActionRefDiff list \<Rightarrow> Severity \<times> MatchingStats" where
  "analyze_action_refs_risk section_name ds =
     fold (action_refs_loop section_name) ds
       (Severity.Low, MatchingStats_default\<lparr>total_changes := length ds\<rparr>)"

definition approval_rules_loop ::
  "ApprovalRuleDiff \<Rightarrow> Severity \<times> MatchingStats \<Rightarrow> Severity \<times> MatchingStats" where
  "approval_rules_loop d = (\<lambda>(severity, stats).
     let s = (case rd_change_type d of
           Added \<Rightarrow> Severity.Medium | Removed \<Rightarrow> Severity.Critical | Modified \<Rightarrow> Severity.High);
         stats = (if rd_change_type d = Modified then add_unique stats else add_no_match stats);
         stats = (if rd_change_type d = Removed then add_removed stats else stats)
     in (if s > severity then s else severity, stats))"

definition analyze_approval_rules_risk :: "ApprovalRuleDiff list \<Rightarrow> Severity \<times> MatchingStats" where
  "analyze_approval_rules_risk ds =
     fold approval_rules_loop ds
       (Severity.Low, MatchingStats_default\<lparr>total_changes := length ds\<rparr>)"

definition analyze_authority_risk :: "AuthorityDiff \<Rightarrow> Severity \<times> MatchingStats" where
  "analyze_authority_risk au =
     (let stats = MatchingStats_default;
          (allowed_severity, allowed_stats) = analyze_action_refs_risk ''allowed_actions'' (aud_allowed_actions au);
          overall = allowed_severity;
          stats = stats_add stats allowed_stats;
          (forbidden_severity, forbidden_stats) =
            analyze_action_refs_risk ''forbidden_actions'' (aud_forbidden_actions au);
          overall = (if forbidden_severity > overall then forbidden_severity else overall);
          stats = stats_add stats forbidden_stats;
          overall = (if ms_removed forbidden_stats > 0 \<and> overall < Severity.Critical
            then Severity.Critical else overall);
          (approval_severity, approval_stats) = analyze_approval_rules_risk (aud_approval_requirements au);
          overall = (if approval_severity > overall then approval_severity else overall);
          stats = stats_add stats approval_stats;
          overall = (if ms_removed approval_stats > 0 \<and> overall < Severity.Critical
            then Severity.Critical else overall);
          overall = (if total_changes stats > 0 \<and> overall < Severity.High then Severity.High else overall)
      in (overall, stats))"

section \<open>The analysis of a diff\<close>

definition compute_confidence :: "MatchingStats \<Rightarrow> f64" where
  "compute_confidence stats =
     (if total_changes stats = 0 then 1
      else
        let total = f64_of_usize (total_changes stats);
            unique_ratio = f64_div (f64_of_usize (unique_clause_id_match stats)) total;
            ambiguous_ratio = f64_div (f64_of_usize (ambiguous_match stats)) total;
            no_match_ratio = f64_div (f64_of_usize (no_match stats)) total;
            confidence = f64_add (f64_add (f64_mul unique_ratio (rnd 1)) (f64_mul ambiguous_ratio (rnd (1 / 2))))
              (f64_mul no_match_ratio (rnd (8 / 10)))
        in f64_clamp confidence (rnd 0) (rnd 1))"

definition compute_overall_severity :: "(string \<times> Severity) list \<Rightarrow> Severity" where
  "compute_overall_severity section_severities =
     fold (\<lambda>(_, severity) overall. if severity > overall then severity else overall)
       section_severities Severity.Low"

definition should_manual_review ::
  "Severity \<Rightarrow> f64 \<Rightarrow> (string \<times> Severity) list \<Rightarrow> bool \<Rightarrow> bool \<Rightarrow> RiskConfig \<Rightarrow>
   bool \<times> ManualReviewReason list"
where
  "should_manual_review severity confidence section_severities policy_changed approval_removed config =
     (let reasons = [];
          reasons = (if severity = Severity.Critical then reasons @ [CriticalSeverity] else reasons);
          reasons = (if confidence < confidence_threshold config
            then reasons @ [LowConfidence confidence (confidence_threshold config)] else reasons);
          reasons = (if policy_changed then reasons @ [PolicyConstraintChanged] else reasons);
          high_severity_count = length (filter (\<lambda>(_, s). s = Severity.High \<or> s = Severity.Critical)
            section_severities);
          reasons = (if high_severity_count \<ge> max_high_severity_before_manual_review config
            then reasons @ [MultipleHighSeverityChanges high_severity_count] else reasons);
          reasons = (if approval_removed then reasons @ [ApprovalRequirementRemoved] else reasons)
      in (reasons \<noteq> [], reasons))"

definition generate_rationale :: "Severity \<Rightarrow> f64 \<Rightarrow> (string \<times> Severity) list \<Rightarrow> string option" where
  "generate_rationale severity confidence section_severities =
     (if (\<forall>e \<in> set section_severities. snd e = Severity.Low) \<and> confidence \<ge> rnd (95 / 100) then
        Some ''No semantic changes detected - identical content with matching clause IDs''
      else
        let parts = (case severity of
              Severity.Critical \<Rightarrow> [''critical severity changes detected'']
            | Severity.High \<Rightarrow> [''high severity changes in authority or constraints'']
            | Severity.Medium \<Rightarrow> [''moderate changes to scope or acceptance criteria'']
            | Severity.Low \<Rightarrow> [''minor or clarification changes'']);
            parts = (if confidence < rnd (7 / 10)
              then parts @ [''low confidence due to ambiguous clause matching''] else parts)
        in if parts \<noteq> [] then Some (join ''; '' parts) else None)"

definition policy_changed_in :: "'j ConstraintsDiff \<Rightarrow> bool" where
  "policy_changed_in cs \<longleftrightarrow>
     (\<exists>d \<in> set (csd_policy cs). cd_change_type d \<noteq> Modified \<or>
        map_option c_priority (cd_before d) \<noteq> map_option c_priority (cd_after d)) \<or> csd_policy cs \<noteq> []"

definition section_risk :: "string \<Rightarrow> Severity \<Rightarrow> MatchingStats \<Rightarrow> SectionRisk" where
  "section_risk name severity stats = \<lparr>sr_section = name, sr_severity = severity,
     sr_change_count = total_changes stats,
     sr_high_priority_changes = total_changes stats - unique_clause_id_match stats\<rparr>"

definition analyze_diff_risk_with_config ::
  "ScopeDiff \<Rightarrow> 'j ConstraintsDiff \<Rightarrow> AcceptanceCriteriaDiff \<Rightarrow> AuthorityDiff \<Rightarrow> RiskConfig \<Rightarrow> DiffRiskAnalysis"
where
  "analyze_diff_risk_with_config scope_diff constraints_diff ac_diff authority_diff config =
     (let (scope_severity, scope_stats) = analyze_scope_risk scope_diff;
          scope_risk = \<lparr>sr_section = ''scope'', sr_severity = scope_severity,
            sr_change_count = total_changes scope_stats, sr_high_priority_changes = 0\<rparr>;
          total_stats = stats_add MatchingStats_default scope_stats;
          (constraints_severity, constraints_stats) = analyze_constraints_risk constraints_diff;
          total_stats = stats_add total_stats constraints_stats;
          policy_changed = policy_changed_in constraints_diff;
          (ac_severity, ac_stats) = analyze_acceptance_criteria_risk ac_diff;
          total_stats = stats_add total_stats ac_stats;
          (authority_severity, authority_stats) = analyze_authority_risk authority_diff;
          total_stats = stats_add total_stats authority_stats;
          section_severities = [(''scope'', scope_severity), (''constraints'', constraints_severity),
            (''acceptance_criteria'', ac_severity), (''authority'', authority_severity)];
          section_risks = [scope_risk, section_risk ''constraints'' constraints_severity constraints_stats,
            section_risk ''acceptance_criteria'' ac_severity ac_stats,
            section_risk ''authority'' authority_severity authority_stats];
          severity = compute_overall_severity section_severities;
          confidence = compute_confidence total_stats;
          approval_removed = (\<exists>r \<in> set (aud_approval_requirements authority_diff). rd_change_type r = Removed);
          (manual_review, manual_review_reasons) = should_manual_review severity confidence
            section_severities policy_changed approval_removed config;
          rationale = generate_rationale severity confidence section_severities
      in \<lparr>ra_severity = severity, ra_confidence = confidence, ra_manual_review = manual_review,
          ra_manual_review_reasons = manual_review_reasons,
          ra_section_risks = filter (\<lambda>r. sr_change_count r > 0) section_risks,
          ra_rationale = rationale\<rparr>)"

definition analyze_diff_risk ::
  "ScopeDiff \<Rightarrow> 'j ConstraintsDiff \<Rightarrow> AcceptanceCriteriaDiff \<Rightarrow> AuthorityDiff \<Rightarrow> DiffRiskAnalysis" where
  "analyze_diff_risk scope_diff constraints_diff ac_diff authority_diff =
     analyze_diff_risk_with_config scope_diff constraints_diff ac_diff authority_diff RiskConfig_default"

section \<open>The engine's entry point\<close>

definition compute_diff_with_risk ::
  "'j hash_orders \<Rightarrow> 'j IntentVersion \<Rightarrow> 'j IntentVersion \<Rightarrow>
   ('j IntentVersionDiff \<times> DiffRiskAnalysis) ire_result" where
  "compute_diff_with_risk ho from_version to_version =
     (case compute_diff ho from_version to_version of
        Inl e \<Rightarrow> Inl e
      | Inr d \<Rightarrow> Inr (d, analyze_diff_risk (ivd_scope d) (ivd_constraints d)
          (ivd_acceptance_criteria d) (ivd_authority d)))"

end
