(* ===== verification/Graph_Types.thy ===== *)
theory Graph_Types
  imports Intent_Types
begin

text \<open>
  The dependency graph types of \<open>crates/intent-rebase-types/src/graph.rs\<close>: nodes, edges, requests,
  filters, traversal and propagation options, classification results and the affected items preview
  that the planner reads. \<open>'j\<close> stands for \<open>serde_json::Value\<close>.
\<close>

section \<open>Nodes and edges\<close>

datatype (plugins only: size code) SideEffectClass =
    S2ExternalReversible | S0PureRead | S1InternalReversible | S3ExternalPartiallyReversible | S4Irreversible

datatype (plugins only: size code) ExternalRefType =
    Intent | IntentVersion | Artifact | Approval | PolicySnapshot | SideEffect | Checkpoint

datatype (plugins only: size code) NodeType =
    Intent | IntentVersion | Artifact | Approval | PolicySnapshot | SideEffect | Checkpoint | Workflow | Generic

datatype (plugins only: size code) NodeState = Active | Stale | Invalid | Archived

datatype (plugins only: size code) EdgeType =
    DependsOn | Produces | Approves | Triggers | Defines | GeneratedFrom | ValidatedBy | GovernedBy
  | DerivedFrom | StoredIn | Supersedes | Blocks | Compensates

record ExternalRef =
  er_ref_type :: ExternalRefType
  er_ref_id :: uuid

record 'j GraphNode =
  gn_id :: uuid
  gn_tenant_id :: uuid
  gn_workflow_id :: uuid
  gn_node_type :: NodeType
  gn_external_ref :: "ExternalRef option"
  gn_label :: string
  gn_state :: NodeState
  gn_properties :: 'j
  gn_created_at :: timestamp

record 'j GraphEdge =
  ge_id :: uuid
  ge_tenant_id :: uuid
  ge_workflow_id :: uuid
  ge_from_node_id :: uuid
  ge_to_node_id :: uuid
  ge_edge_type :: EdgeType
  ge_properties :: 'j
  ge_created_at :: timestamp

section \<open>Requests and filters\<close>

record 'j CreateGraphNodeRequest =
  nr_tenant_id :: uuid
  nr_workflow_id :: uuid
  nr_node_type :: NodeType
  nr_external_ref :: "ExternalRef option"
  nr_label :: string
  nr_properties :: "'j option"

record 'j CreateGraphEdgeRequest =
  eq_tenant_id :: uuid
  eq_workflow_id :: uuid
  eq_from_node_id :: uuid
  eq_to_node_id :: uuid
  eq_edge_type :: EdgeType
  eq_properties :: "'j option"

record GraphNodeFilter =
  nf_tenant_id :: "uuid option"
  nf_workflow_id :: "uuid option"
  nf_node_type :: "NodeType option"
  nf_state :: "NodeState option"

record GraphEdgeFilter =
  ef_tenant_id :: "uuid option"
  ef_workflow_id :: "uuid option"
  ef_from_node_id :: "uuid option"
  ef_to_node_id :: "uuid option"
  ef_edge_type :: "EdgeType option"

section \<open>Traversal\<close>

record GraphPath =
  gp_node_ids :: "uuid list"
  gp_edge_ids :: "uuid list"

definition GraphPath_len :: "GraphPath \<Rightarrow> usize" where
  "GraphPath_len p = length (gp_node_ids p) - 1"

record ReachabilityResult =
  reachable_nodes :: "uuid list"
  incoming_edges :: "uuid list"

record CycleDetectionResult =
  has_cycle :: bool
  cycle_path :: "uuid list option"

record TraversalOptions =
  to_max_depth :: "usize option"
  to_edge_types :: "EdgeType list option"
  to_node_types :: "NodeType list option"
  to_include_start :: bool

definition TraversalOptions_default :: TraversalOptions where
  "TraversalOptions_default =
     \<lparr>to_max_depth = None, to_edge_types = None, to_node_types = None, to_include_start = True\<rparr>"

section \<open>Ingestor requests\<close>

record SideEffectCaptureContext =
  sc_source_intent_id :: uuid
  sc_source_intent_version :: i32
  sc_effect_type :: string
  sc_target :: string
  sc_effect_class :: "SideEffectClass option"
  sc_idempotency_key :: "string option"

record 'j ArtifactIngestRequest =
  ai_tenant_id :: uuid
  ai_workflow_id :: uuid
  ai_external_ref :: ExternalRef
  ai_label :: string
  ai_depends_on_intent_versions :: "uuid list"
  ai_properties :: "'j option"
  ai_side_effect_context :: "SideEffectCaptureContext option"

record 'j ApprovalIngestRequest =
  pi_tenant_id :: uuid
  pi_workflow_id :: uuid
  pi_external_ref :: ExternalRef
  pi_label :: string
  pi_governed_by_policy_snapshot :: "uuid option"
  pi_intent_version_id :: "uuid option"
  pi_properties :: "'j option"

record 'j SideEffectIngestRequest =
  si_tenant_id :: uuid
  si_workflow_id :: uuid
  si_external_ref :: ExternalRef
  si_label :: string
  si_triggered_by_task :: uuid
  si_derived_from_intent_version :: "uuid option"
  si_approval_snapshot_id :: "uuid option"
  si_properties :: "'j option"

record 'j IngestorResult =
  igr_node :: "'j GraphNode"
  igr_edges :: "'j GraphEdge list"

section \<open>Propagation\<close>

datatype (plugins only: size code) EdgeDirection = Incoming | Outgoing | Both

record PropagationConfig =
  pc_max_depth :: "usize option"
  pc_traversable_edge_types :: "EdgeType list"
  pc_traversable_directions :: "EdgeDirection list"
  pc_target_node_types :: "NodeType list"

definition PropagationConfig_default :: PropagationConfig where
  "PropagationConfig_default =
     \<lparr>pc_max_depth = Some 3,
      pc_traversable_edge_types = [DependsOn, Triggers, GeneratedFrom, ValidatedBy],
      pc_traversable_directions = [Both],
      pc_target_node_types = [NodeType.Artifact, NodeType.Approval, NodeType.SideEffect, NodeType.Generic]\<rparr>"

section \<open>Classification and affected items\<close>

datatype (plugins only: size code) AffectedItemsStatus = Available | Unavailable

datatype (plugins only: size code) ClassificationImpact = Direct | Transitive | Unchanged

record AffectedItem =
  af_node_id :: uuid
  af_label :: string
  af_impact :: ClassificationImpact
  af_reason :: string
  af_external_ref :: "ExternalRef option"

record AffectedItemsPreview =
  ap_status :: AffectedItemsStatus
  affected_artifacts :: "AffectedItem list"
  affected_approvals :: "AffectedItem list"
  ap_side_effects :: "AffectedItem list"

definition AffectedItemsPreview_unavailable :: AffectedItemsPreview where
  "AffectedItemsPreview_unavailable =
     \<lparr>ap_status = Unavailable, affected_artifacts = [], affected_approvals = [], ap_side_effects = []\<rparr>"

definition from_classification ::
  "AffectedItem list \<Rightarrow> AffectedItem list \<Rightarrow> AffectedItem list \<Rightarrow> AffectedItemsPreview" where
  "from_classification artifacts approvals side_effects =
     \<lparr>ap_status = Available, affected_artifacts = artifacts, affected_approvals = approvals,
      ap_side_effects = side_effects\<rparr>"

record 'j ClassifiedNode =
  cn_node :: "'j GraphNode"
  cn_impact :: ClassificationImpact
  cn_reason :: string

record ClassifyRequest =
  cr_start_node_id :: uuid
  cr_max_depth :: "usize option"
  cr_target_node_types :: "NodeType list option"
  cr_propagation_config :: "PropagationConfig option"

record 'j ClassificationResult =
  classified_nodes :: "'j ClassifiedNode list"
  cl_start_node_id :: uuid
  cl_max_depth :: usize

end
