(* ===== verification/Planner.thy ===== *)
theory Planner
  imports Risk Graph_Types
begin

text \<open>
  The rebase planner, \<open>crates/rebase-engine/src/planner.rs\<close>, and the entry points \<open>generate_plan\<close> and
  \<open>generate_plan_with_risk\<close> of \<open>lib.rs\<close>: decision class, rationale, section decisions, risk level and
  the heuristic baselines for checkpoints, approvals and compensation.

  Two text formats are parameters, collected in the record \<open>formats\<close>: the hyphenated form of a
  \<open>Uuid\<close> (third-party crate) and the shortest decimal form of an \<open>f64\<close>. They only enter the
  human-readable rationales.
\<close>

section \<open>Text\<close>

record formats =
  uuid_str :: "uuid \<Rightarrow> string"
  f64_debug :: "f64 \<Rightarrow> string"

text \<open>\<open>s.replace(pat, rep)\<close> for a non-empty pattern: leftmost, non-overlapping.\<close>

function str_replace :: "string \<Rightarrow> string \<Rightarrow> string \<Rightarrow> string" where
  "str_replace pat rep [] = []"
| "str_replace pat rep (c # cs) =
     (if pat \<noteq> [] \<and> take (length pat) (c # cs) = pat then rep @ str_replace pat rep (drop (length pat) (c # cs))
      else c # str_replace pat rep cs)"
  by pat_completeness auto

termination
  by (relation "measure (\<lambda>(pat, rep, s). length s)") (auto simp: neq_Nil_conv)

text \<open>\<open>to_lowercase\<close> of ASCII text.\<close>

definition ascii_lower :: "string \<Rightarrow> string" where
  "ascii_lower = map (\<lambda>c. if 65 \<le> (of_char c :: nat) \<and> (of_char c :: nat) \<le> 90 then char_of ((of_char c :: nat) + 32) else c)"

definition debug_Severity :: "Severity \<Rightarrow> string" where
  "debug_Severity s = (case s of Severity.Low \<Rightarrow> ''Low'' | Severity.Medium \<Rightarrow> ''Medium''
     | Severity.High \<Rightarrow> ''High'' | Severity.Critical \<Rightarrow> ''Critical'')"

text \<open>\<open>{:.0}\<close> of an \<open>f64\<close> rounds the value to the nearest integer, ties to even.\<close>

definition fixed0 :: "f64 \<Rightarrow> string" where
  "fixed0 x = show_int (round_even x)"

definition debug_ManualReviewReason :: "formats \<Rightarrow> ManualReviewReason \<Rightarrow> string" where
  "debug_ManualReviewReason fm r =
     (case r of
        CriticalSeverity \<Rightarrow> ''CriticalSeverity''
      | HighSeverityAuthorityChange \<Rightarrow> ''HighSeverityAuthorityChange''
      | LowConfidence c t \<Rightarrow> ''LowConfidence { confidence: '' @ f64_debug fm c @ '', threshold: '' @ f64_debug fm t @ '' }''
      | PolicyConstraintChanged \<Rightarrow> ''PolicyConstraintChanged''
      | MultipleHighSeverityChanges n \<Rightarrow> ''MultipleHighSeverityChanges { count: '' @ show_nat n @ '' }''
      | ApprovalRequirementRemoved \<Rightarrow> ''ApprovalRequirementRemoved'')"

definition debug_ExternalRefType :: "ExternalRefType \<Rightarrow> string" where
  "debug_ExternalRefType t =
     (case t of ExternalRefType.Intent \<Rightarrow> ''Intent'' | ExternalRefType.IntentVersion \<Rightarrow> ''IntentVersion''
      | ExternalRefType.Artifact \<Rightarrow> ''Artifact'' | ExternalRefType.Approval \<Rightarrow> ''Approval''
      | ExternalRefType.PolicySnapshot \<Rightarrow> ''PolicySnapshot'' | ExternalRefType.SideEffect \<Rightarrow> ''SideEffect''
      | ExternalRefType.Checkpoint \<Rightarrow> ''Checkpoint'')"

definition debug_ExternalRef :: "formats \<Rightarrow> ExternalRef \<Rightarrow> string" where
  "debug_ExternalRef fm r = ''ExternalRef { ref_type: '' @ debug_ExternalRefType (er_ref_type r) @
     '', ref_id: '' @ uuid_str fm (er_ref_id r) @ '' }''"

text \<open>The em dash of the messages, in UTF-8.\<close>

definition em_dash :: string where
  "em_dash = [CHR 0xE2, CHR 0x80, CHR 0x94]"

section \<open>Types\<close>

datatype DecisionClass = A | B | C | D | E

definition description :: "DecisionClass \<Rightarrow> string" where
  "description dc = (case dc of
       A \<Rightarrow> ''No semantic changes '' @ em_dash @ '' no rebase needed''
     | B \<Rightarrow> ''Soft review recommended '' @ em_dash @ '' no immediate invalidation''
     | C \<Rightarrow> ''Partial repair candidate '' @ em_dash @ '' limited scope changes''
     | D \<Rightarrow> ''Compensation and repair needed '' @ em_dash @ '' manual review advised''
     | E \<Rightarrow> ''Hard restart required '' @ em_dash @ '' manual handoff needed'')"

definition debug_DecisionClass :: "DecisionClass \<Rightarrow> string" where
  "debug_DecisionClass dc = (case dc of A \<Rightarrow> ''A'' | B \<Rightarrow> ''B'' | C \<Rightarrow> ''C'' | D \<Rightarrow> ''D'' | E \<Rightarrow> ''E'')"

record CheckpointCandidate =
  cc_id :: string
  cc_label :: string
  cc_description :: string
  cc_validated :: bool

record CheckpointSelection =
  cs_ready :: bool
  cs_candidates :: "CheckpointCandidate list"
  cs_selected :: "CheckpointCandidate option"
  cs_rationale :: "string option"

record ApprovalNeedingRevalidation =
  an_node_id :: string
  an_label :: string
  an_original_rule_id :: string
  an_reason :: string

datatype (plugins only: size code) RevalidationStrategy = Deferred | Full | Incremental | Drop | LogNotify

definition debug_RevalidationStrategy :: "RevalidationStrategy \<Rightarrow> string" where
  "debug_RevalidationStrategy s = (case s of Deferred \<Rightarrow> ''Deferred'' | Full \<Rightarrow> ''Full''
     | Incremental \<Rightarrow> ''Incremental'' | Drop \<Rightarrow> ''Drop'' | LogNotify \<Rightarrow> ''LogNotify'')"

record ApprovalRevalidation =
  rv_ready :: bool
  rv_approvals_needing_revalidation :: "ApprovalNeedingRevalidation list"
  rv_strategy :: RevalidationStrategy
  rv_rationale :: "string option"

record CompensationAction =
  ca_id :: string
  ca_label :: string
  ca_description :: string
  ca_reversible :: bool
  ca_priority :: nat

record CompensationReadiness =
  cp_ready :: bool
  cp_potential_actions :: "CompensationAction list"
  cp_has_irreversible_effects :: bool
  cp_rationale :: "string option"

record DeferredFields =
  df_checkpoint_selection :: CheckpointSelection
  df_approval_revalidation :: ApprovalRevalidation
  df_compensation :: CompensationReadiness

record SectionDecision =
  sdn_section :: string
  sdn_change_summary :: string
  sdn_recommended_action :: string

record RebasePlan =
  rp_decision_class :: DecisionClass
  rp_rationale :: string
  rp_section_decisions :: "SectionDecision list"
  rp_affected_items :: AffectedItemsPreview
  rp_deferred :: DeferredFields
  rp_manual_review_recommended :: bool
  rp_risk_tier :: RiskTier
  rp_risk_level :: nat

text \<open>The summary has the fields of \<open>CompensationReadiness\<close>; the conversion copies them.\<close>

record CompensationPlanningSummary =
  cps_ready :: bool
  cps_potential_actions :: "CompensationAction list"
  cps_has_irreversible_effects :: bool
  cps_rationale :: "string option"

definition CompensationPlanningSummary_from :: "CompensationReadiness \<Rightarrow> CompensationPlanningSummary" where
  "CompensationPlanningSummary_from r = \<lparr>cps_ready = cp_ready r, cps_potential_actions = cp_potential_actions r,
     cps_has_irreversible_effects = cp_has_irreversible_effects r, cps_rationale = cp_rationale r\<rparr>"

section \<open>Decision class\<close>

definition is_diff_empty :: "'j IntentVersionDiff \<Rightarrow> bool" where
  "is_diff_empty d =
     (if si_added (sd_in_scope (ivd_scope d)) \<noteq> [] \<or> si_removed (sd_in_scope (ivd_scope d)) \<noteq> [] \<or>
         si_added (sd_out_of_scope (ivd_scope d)) \<noteq> [] \<or> si_removed (sd_out_of_scope (ivd_scope d)) \<noteq> [] then False
      else if csd_functional (ivd_constraints d) \<noteq> [] \<or> csd_non_functional (ivd_constraints d) \<noteq> [] \<or>
         csd_policy (ivd_constraints d) \<noteq> [] \<or> csd_budget (ivd_constraints d) \<noteq> [] \<or>
         csd_time (ivd_constraints d) \<noteq> [] then False
      else if acsd_required (ivd_acceptance_criteria d) \<noteq> [] \<or> acsd_optional (ivd_acceptance_criteria d) \<noteq> [] then False
      else if aud_allowed_actions (ivd_authority d) \<noteq> [] \<or> aud_forbidden_actions (ivd_authority d) \<noteq> [] \<or>
         aud_approval_requirements (ivd_authority d) \<noteq> [] then False
      else True)"

definition compute_decision_class :: "'j IntentVersionDiff \<Rightarrow> DiffRiskAnalysis \<Rightarrow> DecisionClass" where
  "compute_decision_class d risk =
     (if is_diff_empty d then A
      else if ra_severity risk = Severity.Critical then E
      else
        let high_severity_count = length (filter (\<lambda>s. sr_severity s = Severity.High \<or> sr_severity s = Severity.Critical)
              (ra_section_risks risk))
        in if high_severity_count \<ge> 3 then E
           else if ra_severity risk = Severity.High then
             (if ra_manual_review risk \<or> high_severity_count \<ge> 2 then D else C)
           else if ra_severity risk = Severity.Medium then
             (let changed_sections = length (filter (\<lambda>s. sr_change_count s > 0) (ra_section_risks risk))
              in if changed_sections \<ge> 3 \<or> ra_manual_review risk then D
                 else if changed_sections \<ge> 2 then C else B)
           else if ra_severity risk = Severity.Low then (if ra_manual_review risk then B else B)
           else B)"

definition opt_part :: "string option \<Rightarrow> string list" where
  "opt_part r = (case r of Some s \<Rightarrow> [s] | None \<Rightarrow> [])"

definition compute_rationale :: "formats \<Rightarrow> DecisionClass \<Rightarrow> 'j IntentVersionDiff \<Rightarrow> DiffRiskAnalysis \<Rightarrow> string" where
  "compute_rationale fm decision d risk =
     (case decision of
        A \<Rightarrow> ''No semantic changes detected across all sections''
      | B \<Rightarrow> join ''; '' (
          [debug_Severity (ra_severity risk) @ '' severity with '' @
             fixed0 (f64_mul (ra_confidence risk) (rnd 100)) @ ''% confidence''] @
          (if ra_manual_review risk then [''manual review flagged''] else []) @
          opt_part (ra_rationale risk))
      | C \<Rightarrow> join ''; '' (
          [ascii_lower (debug_Severity (ra_severity risk)) @ '' severity changes in '' @
             debug_strings (map sr_section (ra_section_risks risk)) @ '' sections''] @
          opt_part (ra_rationale risk))
      | D \<Rightarrow> join ''; '' (
          [''Manual review or compensation may be required''] @
          (if ra_manual_review risk then
             [''Review reasons: '' @ join '', '' (map (debug_ManualReviewReason fm) (ra_manual_review_reasons risk))]
           else []) @
          opt_part (ra_rationale risk))
      | E \<Rightarrow> join ''; '' ([''Critical or multi-section high severity detected''] @ opt_part (ra_rationale risk)))"

definition count_part :: "string \<Rightarrow> 'a list \<Rightarrow> string \<Rightarrow> string list" where
  "count_part sign xs what = (if xs \<noteq> [] then [sign @ show_nat (length xs) @ what] else [])"

definition compute_section_decisions :: "'j IntentVersionDiff \<Rightarrow> SectionDecision list" where
  "compute_section_decisions d =
     (let ins = sd_in_scope (ivd_scope d); out = sd_out_of_scope (ivd_scope d);
          cs = ivd_constraints d; ac = ivd_acceptance_criteria d; au = ivd_authority d;
          total_constraints = length (csd_functional cs) + length (csd_non_functional cs) + length (csd_policy cs) +
            length (csd_budget cs) + length (csd_time cs);
          total_ac = length (acsd_required ac) + length (acsd_optional ac);
          total_auth = length (aud_allowed_actions au) + length (aud_forbidden_actions au) +
            length (aud_approval_requirements au)
      in (if si_added ins \<noteq> [] \<or> si_removed ins \<noteq> [] \<or> si_added out \<noteq> [] \<or> si_removed out \<noteq> [] then
            [\<lparr>sdn_section = ''scope'',
              sdn_change_summary = join '', '' (count_part ''+'' (si_added ins) '' in_scope'' @
                count_part ''-'' (si_removed ins) '' in_scope'' @
                count_part ''+'' (si_added out) '' out_of_scope'' @
                count_part ''-'' (si_removed out) '' out_of_scope''),
              sdn_recommended_action = ''Review scope deltas before proceeding''\<rparr>] else []) @
         (if total_constraints > 0 then
            [\<lparr>sdn_section = ''constraints'',
              sdn_change_summary = show_nat total_constraints @ '' total constraint changes'',
              sdn_recommended_action = (if csd_policy cs \<noteq> []
                then ''Policy constraint changes '' @ em_dash @ '' verify against governing policies''
                else ''Review constraint changes for impact on execution'')\<rparr>] else []) @
         (if total_ac > 0 then
            [\<lparr>sdn_section = ''acceptance_criteria'',
              sdn_change_summary = show_nat total_ac @ '' acceptance criteria changes'',
              sdn_recommended_action = ''Verify acceptance criteria changes maintain success conditions''\<rparr>] else []) @
         (if total_auth > 0 then
            [\<lparr>sdn_section = ''authority'',
              sdn_change_summary = show_nat total_auth @ '' authority changes'',
              sdn_recommended_action = ''Review authority changes for approval and action implications''\<rparr>] else []))"

definition compute_risk_level :: "DecisionClass \<Rightarrow> DiffRiskAnalysis \<Rightarrow> nat" where
  "compute_risk_level decision risk =
     (case decision of A \<Rightarrow> 1 | B \<Rightarrow> if ra_confidence risk < rnd (1 / 2) then 3 else 2 | C \<Rightarrow> 3 | D \<Rightarrow> 4 | E \<Rightarrow> 5)"

section \<open>Checkpoints\<close>

definition has_affected_items :: "AffectedItemsPreview \<Rightarrow> bool" where
  "has_affected_items p \<longleftrightarrow> ap_status p = Available \<and>
     (affected_artifacts p \<noteq> [] \<or> affected_approvals p \<noteq> [] \<or> ap_side_effects p \<noteq> [])"

definition checkpoint :: "string \<Rightarrow> string \<Rightarrow> string \<Rightarrow> CheckpointCandidate" where
  "checkpoint i l d = \<lparr>cc_id = i, cc_label = l, cc_description = d, cc_validated = False\<rparr>"

definition compute_checkpoint_candidates :: "DecisionClass \<Rightarrow> AffectedItemsPreview \<Rightarrow> CheckpointCandidate list" where
  "compute_checkpoint_candidates dc affected =
     (if dc = A then []
      else
        [checkpoint ''checkpoint-most-recent'' ''Most Recent Checkpoint''
           ''Resume from the most recent checkpoint before changes''] @
        (if has_affected_items affected then
           [checkpoint ''checkpoint-before-invalidation'' ''Before First Invalidation''
              ''Resume before any affected items were invalidated by the changes''] else []) @
        (if dc = D \<or> dc = E then
           [checkpoint ''checkpoint-before-side-effects'' ''Before Side Effects''
              ''Resume before any irreversible side effects were triggered by the changes''] else []) @
        (if dc = E then
           [checkpoint ''checkpoint-last-known-good'' ''Last Known Good State''
              ''Resume from the last fully validated state before issues began''] else []) @
        (if dc = C then
           [checkpoint ''checkpoint-minimal'' ''Minimal Checkpoint''
              ''Resume at the minimal checkpoint needed to repair scope changes''] else []))"

definition build_selection_rationale :: "DecisionClass \<Rightarrow> AffectedItemsPreview \<Rightarrow> string \<Rightarrow> string" where
  "build_selection_rationale dc affected selected_id =
     (let affected_count = (if has_affected_items affected
            then length (affected_artifacts affected) + length (affected_approvals affected) +
              length (ap_side_effects affected) else 0);
          class_reason = (case dc of A \<Rightarrow> ''no semantic changes'' | B \<Rightarrow> ''soft review recommended''
            | C \<Rightarrow> ''partial repair candidate'' | D \<Rightarrow> ''compensation and repair needed''
            | E \<Rightarrow> ''hard restart / manual handoff required'');
          checkpoint_reason =
            (if selected_id = ''checkpoint-most-recent'' then ''closest checkpoint minimizes re-execution''
             else if selected_id = ''checkpoint-before-invalidation'' then ''ensures affected items are in valid state''
             else if selected_id = ''checkpoint-before-side-effects'' then ''avoids irreversible side effect re-execution''
             else if selected_id = ''checkpoint-last-known-good'' then ''provides clean state for manual review''
             else if selected_id = ''checkpoint-minimal'' then ''minimizes scope of repair''
             else ''fallback to most recent checkpoint'');
          name = str_replace ''-'' '' '' (str_replace ''checkpoint-'' [] selected_id)
      in if affected_count > 0
         then ''Selected '' @ name @ '' for '' @ class_reason @ '' with '' @ show_nat affected_count @
           '' affected item(s). '' @ checkpoint_reason
         else ''Selected '' @ name @ '' for '' @ class_reason @ ''. '' @ checkpoint_reason)"

text \<open>
  The inner \<open>match\<close> has an \<open>unreachable!()\<close> arm for class A, after an early return for it: the panic is
  the value \<open>None\<close> of \<open>select_checkpoint_id\<close>.
\<close>

definition select_checkpoint_id :: "CheckpointCandidate list \<Rightarrow> DecisionClass \<Rightarrow> string option" where
  "select_checkpoint_id candidates dc =
     (let has = (\<lambda>i. \<exists>c \<in> set candidates. cc_id c = i) in
      case dc of
        A \<Rightarrow> None
      | B \<Rightarrow> Some ''checkpoint-most-recent''
      | C \<Rightarrow> if has ''checkpoint-minimal'' then Some ''checkpoint-minimal'' else Some ''checkpoint-most-recent''
      | D \<Rightarrow> if has ''checkpoint-before-side-effects'' then Some ''checkpoint-before-side-effects''
          else if has ''checkpoint-before-invalidation'' then Some ''checkpoint-before-invalidation''
          else Some ''checkpoint-most-recent''
      | E \<Rightarrow> if has ''checkpoint-last-known-good'' then Some ''checkpoint-last-known-good''
          else if has ''checkpoint-before-side-effects'' then Some ''checkpoint-before-side-effects''
          else Some ''checkpoint-most-recent'')"

text \<open>\<open>None\<close> is the panic.\<close>

definition select_best_checkpoint ::
  "CheckpointCandidate list \<Rightarrow> DecisionClass \<Rightarrow> AffectedItemsPreview \<Rightarrow> (CheckpointCandidate option \<times> string) option" where
  "select_best_checkpoint candidates dc affected =
     (if candidates = [] then Some (None, ''No checkpoint needed for Class A (no semantic changes)'')
      else if dc = A then Some (None, ''No checkpoint needed for Class A (no semantic changes)'')
      else case select_checkpoint_id candidates dc of
             None \<Rightarrow> None
           | Some selected_id \<Rightarrow> Some (List.find (\<lambda>c. cc_id c = selected_id) candidates,
               build_selection_rationale dc affected selected_id))"

definition with_heuristic :: "DecisionClass \<Rightarrow> AffectedItemsPreview \<Rightarrow> CheckpointSelection option" where
  "with_heuristic dc affected =
     (let candidates = compute_checkpoint_candidates dc affected in
      case select_best_checkpoint candidates dc affected of
        None \<Rightarrow> None
      | Some (selected, rationale) \<Rightarrow> Some \<lparr>cs_ready = False, cs_candidates = candidates,
          cs_selected = selected, cs_rationale = Some rationale\<rparr>)"

section \<open>Approvals and compensation\<close>

definition with_affected_approvals :: "formats \<Rightarrow> DecisionClass \<Rightarrow> AffectedItemsPreview \<Rightarrow> ApprovalRevalidation" where
  "with_affected_approvals fm dc affected =
     (let needing = map (\<lambda>item. \<lparr>an_node_id = uuid_str fm (af_node_id item), an_label = af_label item,
            an_original_rule_id = (case af_external_ref item of Some r \<Rightarrow> debug_ExternalRef fm r | None \<Rightarrow> ''unknown''),
            an_reason = af_reason item\<rparr>) (affected_approvals affected);
          strategy = (case dc of A \<Rightarrow> Drop | B \<Rightarrow> Drop | C \<Rightarrow> Incremental | D \<Rightarrow> Full | E \<Rightarrow> Full);
          rationale = (if needing = [] then Some ''No affected approvals detected''
            else Some (show_nat (length needing) @ '' approval(s) need revalidation (class '' @
              debug_DecisionClass dc @ '', strategy '' @ debug_RevalidationStrategy strategy @ '')''))
      in \<lparr>rv_ready = False, rv_approvals_needing_revalidation = needing, rv_strategy = strategy,
          rv_rationale = rationale\<rparr>)"

definition with_side_effects :: "formats \<Rightarrow> DecisionClass \<Rightarrow> AffectedItemsPreview \<Rightarrow> CompensationReadiness" where
  "with_side_effects fm dc affected =
     (let irreversible = (\<exists>item \<in> set (ap_side_effects affected). af_impact item = Direct \<or> af_impact item = Transitive);
          actions = map (\<lambda>item. \<lparr>ca_id = uuid_str fm (af_node_id item), ca_label = af_label item,
            ca_description = af_reason item, ca_reversible = (af_impact item = Unchanged),
            ca_priority = (case af_impact item of Direct \<Rightarrow> 1 | Transitive \<Rightarrow> 2 | Unchanged \<Rightarrow> 3)\<rparr>)
            (ap_side_effects affected);
          rationale = (if actions = [] then Some ''No side effects requiring compensation''
            else Some (show_nat (length actions) @ '' potential compensation action(s) identified (irreversible: '' @
              show_bool irreversible @ '', class '' @ debug_DecisionClass dc @ '')''))
      in \<lparr>cp_ready = False, cp_potential_actions = actions, cp_has_irreversible_effects = irreversible,
          cp_rationale = rationale\<rparr>)"

definition phase1_baseline :: "formats \<Rightarrow> DecisionClass \<Rightarrow> AffectedItemsPreview \<Rightarrow> DeferredFields option" where
  "phase1_baseline fm dc affected =
     (case with_heuristic dc affected of
        None \<Rightarrow> None
      | Some sel \<Rightarrow> Some \<lparr>df_checkpoint_selection = sel,
          df_approval_revalidation = with_affected_approvals fm dc affected,
          df_compensation = with_side_effects fm dc affected\<rparr>)"

section \<open>The plan\<close>

text \<open>\<open>None\<close> is the panic of the checkpoint selection.\<close>

definition from_diff_and_risk :: "formats \<Rightarrow> 'j IntentVersionDiff \<Rightarrow> DiffRiskAnalysis \<Rightarrow> RebasePlan option" where
  "from_diff_and_risk fm d risk =
     (let decision_class = compute_decision_class d risk;
          rationale = compute_rationale fm decision_class d risk;
          section_decisions = compute_section_decisions d;
          manual_review_recommended = (ra_manual_review risk \<or> ra_severity risk = Severity.Critical \<or>
            ra_severity risk = Severity.High \<or> decision_class \<noteq> A);
          risk_level = compute_risk_level decision_class risk;
          risk_tier = to_risk_tier (ra_severity risk)
      in case phase1_baseline fm decision_class AffectedItemsPreview_unavailable of
           None \<Rightarrow> None
         | Some deferred \<Rightarrow> Some \<lparr>rp_decision_class = decision_class, rp_rationale = rationale,
             rp_section_decisions = section_decisions, rp_affected_items = AffectedItemsPreview_unavailable,
             rp_deferred = deferred, rp_manual_review_recommended = manual_review_recommended,
             rp_risk_tier = risk_tier, rp_risk_level = risk_level\<rparr>)"

definition generate_plan :: "formats \<Rightarrow> 'j IntentVersionDiff \<Rightarrow> RebasePlan option" where
  "generate_plan fm d =
     (let risk = analyze_diff_risk (ivd_scope d) (ivd_constraints d) (ivd_acceptance_criteria d) (ivd_authority d)
      in from_diff_and_risk fm d risk)"

definition generate_plan_with_risk :: "formats \<Rightarrow> 'j IntentVersionDiff \<Rightarrow> DiffRiskAnalysis \<Rightarrow> RebasePlan option" where
  "generate_plan_with_risk fm d risk = from_diff_and_risk fm d risk"

end
