(* ===== verification/Diff_Laws.thy ===== *)
theory Diff_Laws
  imports Diff
begin

text \<open>
  The laws of the semantic diff: the scope diff is the sorted multiset difference, each keyed
  diff follows the conservative matching scheme (interpretations of \<open>conservative_diff\<close>), and
  from these the properties of the diff of two intent versions.
\<close>

section \<open>Scope items\<close>

lemma diff_string_loop_removed:
  assumes "sorted bs" and "sorted as"
  shows "mset (si_removed (diff_string_loop bs as added removed)) = mset removed + (mset bs - mset as)"
  using assms
proof (induction bs as added removed rule: diff_string_loop.induct)
  case (3 b bs a as added removed)
  consider "b < a" | "a < b" | "a = b" by fastforce
  then show ?case
  proof cases
    case 1
    with "3.prems" have "b \<notin># mset (a # as)" by auto
    with 1 3 show ?thesis by (simp add: add_mset_diff_bothsides)
  next
    case 2
    with "3.prems" have "a \<notin># mset (b # bs)" by auto
    then have "mset (b # bs) - mset (a # as) = mset (b # bs) - mset as"
      by (simp add: minus_add_mset_if_not_in_lhs)
    with 2 3 show ?thesis by simp
  next
    case 3
    with "3.IH" "3.prems" show ?thesis by simp
  qed
qed auto

lemma diff_string_loop_added:
  assumes "sorted bs" and "sorted as"
  shows "mset (si_added (diff_string_loop bs as added removed)) = mset added + (mset as - mset bs)"
  using assms
proof (induction bs as added removed rule: diff_string_loop.induct)
  case (3 b bs a as added removed)
  consider "b < a" | "a < b" | "a = b" by fastforce
  then show ?case
  proof cases
    case 1
    with "3.prems" have "b \<notin># mset (a # as)" by auto
    then have "mset (a # as) - mset (b # bs) = mset (a # as) - mset bs"
      by (simp add: minus_add_mset_if_not_in_lhs)
    with 1 3 show ?thesis by simp
  next
    case 2
    with "3.prems" have "a \<notin># mset (b # bs)" by auto
    with 2 3 show ?thesis by (simp add: add_mset_diff_bothsides)
  next
    case 3
    with "3.IH" "3.prems" show ?thesis by simp
  qed
qed auto

lemma diff_string_loop_sorted:
  assumes "sorted (removed @ bs)" and "sorted (added @ as)"
  shows "sorted (si_removed (diff_string_loop bs as added removed))
       \<and> sorted (si_added (diff_string_loop bs as added removed))"
  using assms
proof (induction bs as added removed rule: diff_string_loop.induct)
  case (3 b bs a as added removed)
  have drop: "sorted (xs @ ys)" if "sorted (xs @ y # ys)" for xs ys and y :: string
    using that by (simp add: sorted_append)
  consider "b < a" | "a < b" | "a = b" by fastforce
  then show ?case
    by cases (use 3 drop in simp_all)
qed simp_all

lemma diff_string_lists_eq:
  "diff_string_lists before after =
     \<lparr>si_added = sorted_list_of_multiset (mset after - mset before),
      si_removed = sorted_list_of_multiset (mset before - mset after)\<rparr>"
proof -
  have sort: "xs = sorted_list_of_multiset M" if "sorted xs" "mset xs = M" for xs :: "string list" and M
    by (simp flip: that(2) add: sorted_list_of_multiset_mset sorted_sort_id that(1))
  let ?r = "diff_string_loop (sort before) (sort after) [] []"
  have "si_removed ?r = sorted_list_of_multiset (mset before - mset after)"
    by (rule sort) (simp_all add: diff_string_loop_sorted diff_string_loop_removed)
  moreover have "si_added ?r = sorted_list_of_multiset (mset after - mset before)"
    by (rule sort) (simp_all add: diff_string_loop_sorted diff_string_loop_added)
  ultimately show ?thesis
    by (simp add: diff_string_lists_def)
qed

section \<open>The keyed diffs follow the scheme\<close>

text \<open>The entries the code builds, as functions of the items.\<close>

definition constraint_removed :: "'j Constraint \<Rightarrow> 'j ConstraintDiff" where
  "constraint_removed c = \<lparr>cd_clause_id = c_clause_id c, cd_change_type = Removed,
     cd_constraint_type = c_constraint_type c, cd_key = c_key c, cd_after = None, cd_before = Some c\<rparr>"

definition constraint_added :: "'j Constraint \<Rightarrow> 'j ConstraintDiff" where
  "constraint_added c = \<lparr>cd_clause_id = c_clause_id c, cd_change_type = Added,
     cd_constraint_type = c_constraint_type c, cd_key = c_key c, cd_after = Some c, cd_before = None\<rparr>"

definition constraint_modified :: "uuid \<Rightarrow> 'j Constraint \<Rightarrow> 'j Constraint \<Rightarrow> 'j ConstraintDiff" where
  "constraint_modified i b a = \<lparr>cd_clause_id = Some i, cd_change_type = Modified,
     cd_constraint_type = c_constraint_type b, cd_key = c_key b, cd_after = Some a, cd_before = Some b\<rparr>"

definition criterion_removed :: "AcceptanceCriterion \<Rightarrow> AcceptanceCriterionDiff" where
  "criterion_removed c = \<lparr>acd_clause_id = ac_clause_id c, acd_change_type = Removed,
     acd_priority = debug_ClausePriority (ac_priority c), acd_after = None, acd_before = Some c\<rparr>"

definition criterion_added :: "AcceptanceCriterion \<Rightarrow> AcceptanceCriterionDiff" where
  "criterion_added c = \<lparr>acd_clause_id = ac_clause_id c, acd_change_type = Added,
     acd_priority = debug_ClausePriority (ac_priority c), acd_after = Some c, acd_before = None\<rparr>"

definition criterion_modified :: "uuid \<Rightarrow> AcceptanceCriterion \<Rightarrow> AcceptanceCriterion \<Rightarrow> AcceptanceCriterionDiff" where
  "criterion_modified i b a = \<lparr>acd_clause_id = Some i, acd_change_type = Modified,
     acd_priority = debug_ClausePriority (ac_priority b), acd_after = Some a, acd_before = Some b\<rparr>"

definition action_removed :: "ActionRef \<Rightarrow> ActionRefDiff" where
  "action_removed a = \<lparr>ard_change_type = Removed, ard_action = a_action a, ard_target = a_target a,
     ard_before = Some a, ard_after = None\<rparr>"

definition action_added :: "ActionRef \<Rightarrow> ActionRefDiff" where
  "action_added a = \<lparr>ard_change_type = Added, ard_action = a_action a, ard_target = a_target a,
     ard_before = None, ard_after = Some a\<rparr>"

definition action_modified :: "string \<times> string option \<Rightarrow> ActionRef \<Rightarrow> ActionRef \<Rightarrow> ActionRefDiff" where
  "action_modified k b a = \<lparr>ard_change_type = Modified, ard_action = a_action b, ard_target = a_target b,
     ard_before = Some b, ard_after = Some a\<rparr>"

definition rule_removed :: "ApprovalRuleRef \<Rightarrow> ApprovalRuleDiff" where
  "rule_removed a = \<lparr>rd_change_type = Removed, rd_rule_id = r_rule_id a,
     rd_description = r_description a, rd_before = Some a, rd_after = None\<rparr>"

definition rule_added :: "ApprovalRuleRef \<Rightarrow> ApprovalRuleDiff" where
  "rule_added a = \<lparr>rd_change_type = Added, rd_rule_id = r_rule_id a,
     rd_description = r_description a, rd_before = None, rd_after = Some a\<rparr>"

definition rule_modified :: "string \<Rightarrow> ApprovalRuleRef \<Rightarrow> ApprovalRuleRef \<Rightarrow> ApprovalRuleDiff" where
  "rule_modified k b a = \<lparr>rd_change_type = Modified, rd_rule_id = r_rule_id b,
     rd_description = r_description b, rd_before = Some b, rd_after = Some a\<rparr>"

abbreviation action_key :: "ActionRef \<Rightarrow> (string \<times> string option) option" where
  "action_key \<equiv> \<lambda>a. Some (a_action a, a_target a)"

abbreviation rule_key :: "ApprovalRuleRef \<Rightarrow> string option" where
  "rule_key \<equiv> \<lambda>a. Some (r_rule_id a)"

lemmas entry_defs =
  constraint_removed_def constraint_added_def constraint_modified_def
  criterion_removed_def criterion_added_def criterion_modified_def
  action_removed_def action_added_def action_modified_def
  rule_removed_def rule_added_def rule_modified_def

lemma map_entries_cong:
  assumes "\<And>k x. (k, x) \<in> set xs \<Longrightarrow> f k x = g x"
  shows "map (\<lambda>(k, x). f k x) (filter P xs) = map (\<lambda>(k, x). g x) (filter P xs)"
  by (rule map_cong) (use assms in auto)

lemma iter_by_key_mem: "hash_iteration it \<Longrightarrow> (k, x) \<in> set (it (by_key key xs)) \<Longrightarrow> key x = Some k"
  by (simp add: set_iter by_key_mem)

lemma diff_constraints_eq:
  assumes "hash_iteration itb" and "hash_iteration ita"
  shows "diff_constraints itb ita before after =
    key_diff c_clause_id constraints_equal constraint_modified constraint_removed constraint_added
      cd_clause_id itb ita before after"
  unfolding diff_constraints_def key_diff_def Let_def filter_counts_uniques filter_counts_ambiguous
    fold_insert_by_key unmatched_before
    unmatched_after [OF set_iter [OF assms(1)] equalityD1 [OF set_iter [OF assms(2)]]]
  by (intro arg_cong [of _ _ "sort_key cd_clause_id"] arg_cong2 [of _ _ _ _ "(@)"] map_entries_cong
      map_cong refl arg_cong [of _ _ concat])
    (auto simp: entry_defs fun_eq_iff dest!: iter_by_key_mem [OF assms(1)] iter_by_key_mem [OF assms(2)]
      split: option.splits)

lemma diff_acceptance_criteria_eq:
  assumes "hash_iteration itb" and "hash_iteration ita"
  shows "diff_acceptance_criteria itb ita before after =
    key_diff ac_clause_id acceptance_criteria_equal criterion_modified criterion_removed criterion_added
      acd_clause_id itb ita before after"
  unfolding diff_acceptance_criteria_def key_diff_def Let_def filter_counts_uniques filter_counts_ambiguous
    fold_insert_by_key unmatched_before
    unmatched_after [OF set_iter [OF assms(1)] equalityD1 [OF set_iter [OF assms(2)]]]
  by (intro arg_cong [of _ _ "sort_key acd_clause_id"] arg_cong2 [of _ _ _ _ "(@)"] map_entries_cong
      map_cong refl arg_cong [of _ _ concat])
    (auto simp: entry_defs fun_eq_iff dest!: iter_by_key_mem [OF assms(1)] iter_by_key_mem [OF assms(2)]
      split: option.splits)

lemma diff_action_refs_eq:
  assumes "hash_iteration itb" and "hash_iteration ita"
  shows "diff_action_refs itb ita before after =
    key_diff action_key action_refs_equal action_modified action_removed action_added
      (\<lambda>d. (ard_action d, ard_target d)) itb ita before after"
  unfolding diff_action_refs_def key_diff_def Let_def filter_counts_total fold_insert_by_key_total
    unmatched_before
    unmatched_after [OF set_iter [OF assms(1)] equalityD1 [OF set_iter [OF assms(2)]]] entry_defs ..

lemma diff_approval_rules_eq:
  assumes "hash_iteration itb" and "hash_iteration ita"
  shows "diff_approval_rules itb ita before after =
    key_diff rule_key approval_rules_equal rule_modified rule_removed rule_added
      rd_rule_id itb ita before after"
  unfolding diff_approval_rules_def key_diff_def Let_def filter_counts_total fold_insert_by_key_total
    unmatched_before
    unmatched_after [OF set_iter [OF assms(1)] equalityD1 [OF set_iter [OF assms(2)]]] entry_defs ..

interpretation constraint_diff: conservative_diff c_clause_id constraints_equal constraint_modified
  constraint_removed constraint_added cd_clause_id Some cd_before cd_after
  by unfold_locales (auto simp: entry_defs constraints_equal_def)

interpretation criterion_diff: conservative_diff ac_clause_id acceptance_criteria_equal criterion_modified
  criterion_removed criterion_added acd_clause_id Some acd_before acd_after
  by unfold_locales (auto simp: entry_defs acceptance_criteria_equal_def)

interpretation action_diff: conservative_diff action_key action_refs_equal action_modified
  action_removed action_added "\<lambda>d. (ard_action d, ard_target d)" "\<lambda>k. k" ard_before ard_after
  by unfold_locales (auto simp: entry_defs action_refs_equal_def)

interpretation rule_diff: conservative_diff rule_key approval_rules_equal rule_modified
  rule_removed rule_added rd_rule_id "\<lambda>k. k" rd_before rd_after
  by unfold_locales (auto simp: entry_defs approval_rules_equal_def)

lemmas keyed_diff_eqs =
  diff_constraints_eq diff_acceptance_criteria_eq diff_action_refs_eq diff_approval_rules_eq

lemma diff_constraints_order_independent:
  assumes "hash_iteration itb" "hash_iteration ita" "hash_iteration itb'" "hash_iteration ita'"
  shows "diff_constraints itb ita before after = diff_constraints itb' ita' before after"
  by (simp add: keyed_diff_eqs assms constraint_diff.the_diff_order_independent [OF assms])

lemma diff_acceptance_criteria_order_independent:
  assumes "hash_iteration itb" "hash_iteration ita" "hash_iteration itb'" "hash_iteration ita'"
  shows "diff_acceptance_criteria itb ita before after = diff_acceptance_criteria itb' ita' before after"
  by (simp add: keyed_diff_eqs assms criterion_diff.the_diff_order_independent [OF assms])

lemma diff_action_refs_order_independent:
  assumes "hash_iteration itb" "hash_iteration ita" "hash_iteration itb'" "hash_iteration ita'"
  shows "diff_action_refs itb ita before after = diff_action_refs itb' ita' before after"
  by (simp add: keyed_diff_eqs assms action_diff.the_diff_order_independent [OF assms])

lemma diff_approval_rules_order_independent:
  assumes "hash_iteration itb" "hash_iteration ita" "hash_iteration itb'" "hash_iteration ita'"
  shows "diff_approval_rules itb ita before after = diff_approval_rules itb' ita' before after"
  by (simp add: keyed_diff_eqs assms rule_diff.the_diff_order_independent [OF assms])

section \<open>Example data for the witnesses\<close>

text \<open>
  Two versions of an intent. The later one adds a scope item, changes the policy constraint with
  clause id 7 to priority \<open>Must\<close>, drops a constraint without clause id and removes a forbidden action.
\<close>

definition ex_constraint :: "uuid option \<Rightarrow> ClauseType \<Rightarrow> nat \<Rightarrow> ClausePriority \<Rightarrow> nat Constraint" where
  "ex_constraint i t v p = \<lparr>c_clause_id = i, c_constraint_type = t, c_key = ''k'', c_operator = Lte,
     c_value = v, c_rationale = None, c_priority = p\<rparr>"

definition ex_payload :: "string list \<Rightarrow> nat Constraint list \<Rightarrow> nat Constraint list \<Rightarrow> ActionRef list \<Rightarrow>
    ApprovalRuleRef list \<Rightarrow> nat IntentPayload" where
  "ex_payload scope functional policy forbidden rules =
     \<lparr>p_objective = \<lparr>io_summary = ''s'', io_success_statement = ''t'', io_domain = ''d''\<rparr>,
      p_scope = \<lparr>in_scope = scope, out_of_scope = []\<rparr>,
      p_constraints = \<lparr>ic_functional = functional, ic_non_functional = [], ic_policy = policy,
        ic_budget = [], ic_time = []\<rparr>,
      p_acceptance_criteria = \<lparr>ac_required = [], ac_optional = []\<rparr>,
      p_authority = \<lparr>ia_allowed_actions = [], ia_forbidden_actions = forbidden,
        ia_approval_requirements = rules\<rparr>,
      p_preferences = \<lparr>ip_tradeoffs = []\<rparr>,
      p_references = \<lparr>ir_specs = [], ir_tickets = [], ir_repos = [], ir_policies = []\<rparr>,
      p_assumptions = \<lparr>ias_explicit = []\<rparr>,
      p_metadata = \<lparr>im_risk_tier = RiskTier.Low, im_urgency = Urgency.Low, im_confidence = 1\<rparr>\<rparr>"

definition ex_version :: "i32 \<Rightarrow> nat IntentPayload \<Rightarrow> nat IntentVersion" where
  "ex_version n p = \<lparr>v_id = 100, v_intent_id = 1, v_version_number = n, v_parent_version_id = None,
     v_created_at = 0, v_created_by = \<lparr>ar_actor_type = ''user'', ar_actor_id = ''u''\<rparr>,
     v_change_reason = ''r'', v_change_channel = UserEdit, v_status = VersionStatus.Active,
     v_hash = ''h'', v_payload = p\<rparr>"

definition ex_v1 :: "nat IntentVersion" where
  "ex_v1 = ex_version 1 (ex_payload [''b'', ''a''] [ex_constraint None Functional 3 Should]
     [ex_constraint (Some 7) Policy 1 Should] [\<lparr>a_action = ''deploy'', a_target = None\<rparr>] [])"

definition ex_v2 :: "nat IntentVersion" where
  "ex_v2 = ex_version 2 (ex_payload [''a'', ''c'', ''b''] []
     [ex_constraint (Some 7) Policy 1 Must] [] [])"

definition ex_orders :: "'j hash_orders" where
  "ex_orders = \<lparr>ho_constraint = (\<lambda>_ m. m), ho_criterion = (\<lambda>_ m. m), ho_action = (\<lambda>_ m. m), ho_rule = (\<lambda>_ m. m)\<rparr>"

definition ex_orders_rev :: "'j hash_orders" where
  "ex_orders_rev = \<lparr>ho_constraint = (\<lambda>_. rev), ho_criterion = (\<lambda>_. rev), ho_action = (\<lambda>_. rev), ho_rule = (\<lambda>_. rev)\<rparr>"

lemma ex_orders_ok [simp]: "hash_orders_ok ex_orders" "hash_orders_ok ex_orders_rev"
  by (simp_all add: hash_orders_ok_def ex_orders_def ex_orders_rev_def)

section \<open>Properties\<close>

text \<open>
  C1. The diff of two versions does not depend on the iteration order of the hash maps it builds:
  whatever permutations the maps of the standard library choose, the result is the same value.
\<close>

theorem diff_intent_version_deterministic:
  assumes "hash_orders_ok ho" and "hash_orders_ok ho'"
  shows "diff_intent_version ho before after = diff_intent_version ho' before after"
proof -
  have it: "hash_iteration (ho_constraint ho s)" "hash_iteration (ho_constraint ho' s)"
      "hash_iteration (ho_criterion ho s)" "hash_iteration (ho_criterion ho' s)"
      "hash_iteration (ho_action ho s)" "hash_iteration (ho_action ho' s)"
      "hash_iteration (ho_rule ho s)" "hash_iteration (ho_rule ho' s)" for s
    using assms by (simp_all add: hash_orders_ok_def)
  have "diff_constraints_section (ho_constraint ho) b a = diff_constraints_section (ho_constraint ho') b a" for b a
    unfolding diff_constraints_section_def ConstraintsDiff.ext_inject
    by (intro conjI diff_constraints_order_independent it refl)
  moreover have "diff_acceptance_criteria_section (ho_criterion ho) b a
      = diff_acceptance_criteria_section (ho_criterion ho') b a" for b a
    unfolding diff_acceptance_criteria_section_def AcceptanceCriteriaDiff.ext_inject
    by (intro conjI diff_acceptance_criteria_order_independent it refl)
  moreover have "diff_authority ho b a = diff_authority ho' b a" for b a
    unfolding diff_authority_def AuthorityDiff.ext_inject
    by (intro conjI diff_action_refs_order_independent diff_approval_rules_order_independent it refl)
  ultimately show ?thesis
    by (simp add: diff_intent_version_def)
qed

theorem diff_intent_version_deterministic_witness:
  "diff_intent_version ex_orders ex_v1 ex_v2 = diff_intent_version ex_orders_rev ex_v1 ex_v2"
  by (rule diff_intent_version_deterministic [OF ex_orders_ok])

text \<open>Applying a list of entries to a multiset of items: take away the befores, put in the afters.\<close>

definition patch :: "('d \<Rightarrow> 'a option) \<Rightarrow> ('d \<Rightarrow> 'a option) \<Rightarrow> 'd list \<Rightarrow> 'a multiset \<Rightarrow> 'a multiset" where
  "patch bef aft ds M = M - mset (List.map_filter bef ds) + mset (List.map_filter aft ds)"

lemma constraint_patch:
  assumes "hash_iteration itb" and "hash_iteration ita"
  shows "patch cd_before cd_after (diff_constraints itb ita b a) (mset b) = mset a"
  using constraint_diff.the_diff_patch(2) [OF assms, of a b] by (simp add: patch_def diff_constraints_eq assms)

lemma criterion_patch:
  assumes "hash_iteration itb" and "hash_iteration ita"
  shows "patch acd_before acd_after (diff_acceptance_criteria itb ita b a) (mset b) = mset a"
  using criterion_diff.the_diff_patch(2) [OF assms, of a b] by (simp add: patch_def diff_acceptance_criteria_eq assms)

lemma action_patch:
  assumes "hash_iteration itb" and "hash_iteration ita"
  shows "patch ard_before ard_after (diff_action_refs itb ita b a) (mset b) = mset a"
  using action_diff.the_diff_patch(2) [OF assms, of a b] by (simp add: patch_def diff_action_refs_eq assms)

lemma rule_patch:
  assumes "hash_iteration itb" and "hash_iteration ita"
  shows "patch rd_before rd_after (diff_approval_rules itb ita b a) (mset b) = mset a"
  using rule_diff.the_diff_patch(2) [OF assms, of a b] by (simp add: patch_def diff_approval_rules_eq assms)

text \<open>
  C2. The diff is a lossless patch: in each of the ten keyed lists of the two payloads, taking the
  removed and modified items out of the earlier version and putting the added and modified ones in
  gives exactly the items (with multiplicity) of the later version.
\<close>

theorem diff_intent_version_patch:
  assumes "hash_orders_ok ho" and "d = diff_intent_version ho before after"
    and "cb = p_constraints (v_payload before)" and "ca = p_constraints (v_payload after)"
    and "kb = p_acceptance_criteria (v_payload before)" and "ka = p_acceptance_criteria (v_payload after)"
    and "ab = p_authority (v_payload before)" and "aa = p_authority (v_payload after)"
  shows "patch cd_before cd_after (csd_functional (ivd_constraints d)) (mset (ic_functional cb)) = mset (ic_functional ca) \<and>
    patch cd_before cd_after (csd_non_functional (ivd_constraints d)) (mset (ic_non_functional cb)) = mset (ic_non_functional ca) \<and>
    patch cd_before cd_after (csd_policy (ivd_constraints d)) (mset (ic_policy cb)) = mset (ic_policy ca) \<and>
    patch cd_before cd_after (csd_budget (ivd_constraints d)) (mset (ic_budget cb)) = mset (ic_budget ca) \<and>
    patch cd_before cd_after (csd_time (ivd_constraints d)) (mset (ic_time cb)) = mset (ic_time ca) \<and>
    patch acd_before acd_after (acsd_required (ivd_acceptance_criteria d)) (mset (ac_required kb)) = mset (ac_required ka) \<and>
    patch acd_before acd_after (acsd_optional (ivd_acceptance_criteria d)) (mset (ac_optional kb)) = mset (ac_optional ka) \<and>
    patch ard_before ard_after (aud_allowed_actions (ivd_authority d)) (mset (ia_allowed_actions ab)) = mset (ia_allowed_actions aa) \<and>
    patch ard_before ard_after (aud_forbidden_actions (ivd_authority d)) (mset (ia_forbidden_actions ab)) = mset (ia_forbidden_actions aa) \<and>
    patch rd_before rd_after (aud_approval_requirements (ivd_authority d)) (mset (ia_approval_requirements ab)) = mset (ia_approval_requirements aa)"
  using assms(1)
  by (simp add: assms(2-8) diff_intent_version_def diff_constraints_section_def
      diff_acceptance_criteria_section_def diff_authority_def hash_orders_ok_def
      constraint_patch criterion_patch action_patch rule_patch)

theorem diff_intent_version_patch_witness:
  "patch cd_before cd_after (csd_policy (ivd_constraints (diff_intent_version ex_orders ex_v1 ex_v2)))
     {# ex_constraint (Some 7) Policy 1 Should #} = {# ex_constraint (Some 7) Policy 1 Must #}"
  using diff_intent_version_patch [OF ex_orders_ok(1) refl refl refl refl refl refl refl, of ex_v1 ex_v2]
  by (simp add: ex_v1_def ex_v2_def ex_version_def ex_payload_def)

text \<open>
  C3. The two-pointer loop over the sorted scope lists computes the multiset differences of the two
  lists, each in sorted order: nothing common is reported and every surplus copy is.
\<close>

theorem diff_scope_exact:
  "diff_scope before after =
     \<lparr>sd_in_scope = \<lparr>si_added = sorted_list_of_multiset (mset (in_scope after) - mset (in_scope before)),
        si_removed = sorted_list_of_multiset (mset (in_scope before) - mset (in_scope after))\<rparr>,
      sd_out_of_scope = \<lparr>si_added = sorted_list_of_multiset (mset (out_of_scope after) - mset (out_of_scope before)),
        si_removed = sorted_list_of_multiset (mset (out_of_scope before) - mset (out_of_scope after))\<rparr>\<rparr>"
  by (simp add: diff_scope_def diff_string_lists_eq)

text \<open>
  C4. Matching is conservative: an entry of a constraint diff is \<open>Modified\<close> only for a clause id that
  occurs exactly once in each version, and then it carries the two constraints with that id, whose
  contents differ.
\<close>

theorem diff_constraints_modified_conservative:
  assumes "hash_iteration itb" and "hash_iteration ita"
    and "d \<in> set (diff_constraints itb ita before after)" and "cd_change_type d = Modified"
  shows "\<exists>i b a. cd_clause_id d = Some i \<and> cd_before d = Some b \<and> cd_after d = Some a \<and>
    filter (\<lambda>c. c_clause_id c = Some i) before = [b] \<and> filter (\<lambda>c. c_clause_id c = Some i) after = [a] \<and>
    \<not> constraints_equal b a"
proof -
  have single: "filter (\<lambda>c. c_clause_id c = Some i) xs = [x]"
    if "map_of (by_key c_clause_id xs) i = Some x" for xs x i
  proof -
    have x: "x \<in> set xs" "c_clause_id x = Some i" "count_list (map c_clause_id xs) (Some i) = 1"
      using that by (auto simp: by_key_mem matchable_def)
    from x(3) have "length (filter (\<lambda>c. c_clause_id c = Some i) xs) = 1"
      by (simp add: count_list_one_filter filter_map comp_def)
    then obtain y where "filter (\<lambda>c. c_clause_id c = Some i) xs = [y]"
      by (auto simp: length_Suc_conv)
    moreover have "x \<in> set (filter (\<lambda>c. c_clause_id c = Some i) xs)"
      using x by simp
    ultimately show ?thesis by simp
  qed
  have "d \<in> set (key_diff c_clause_id constraints_equal constraint_modified constraint_removed constraint_added
      cd_clause_id itb ita before after)"
    using assms(3) by (simp add: diff_constraints_eq assms)
  then obtain i b a where b: "map_of (by_key c_clause_id before) i = Some b"
    and a: "map_of (by_key c_clause_id after) i = Some a" and "b \<noteq> a" and d: "d = constraint_modified i b a"
    using assms(4) unfolding constraint_diff.mem_the_diff [OF assms(1,2)] by (auto simp: entry_defs)
  moreover have "\<not> constraints_equal b a"
    using constraint_diff.eq_common_key [OF b a] \<open>b \<noteq> a\<close> by simp
  ultimately show ?thesis
    using single [OF b] single [OF a] by (auto simp: entry_defs)
qed

theorem diff_constraints_modified_conservative_witness:
  "\<exists>d i b a. d \<in> set (diff_constraints (\<lambda>m. m) (\<lambda>m. m)
      [ex_constraint (Some 7) Policy 1 Should] [ex_constraint (Some 7) Policy 1 Must]) \<and>
    cd_clause_id d = Some i \<and> cd_before d = Some b \<and> cd_after d = Some a \<and> \<not> constraints_equal b a"
proof -
  let ?b = "[ex_constraint (Some 7) Policy 1 Should]" and ?a = "[ex_constraint (Some 7) Policy 1 Must]"
  have "diff_constraints (\<lambda>m. m) (\<lambda>m. m) ?b ?a
      = [constraint_modified 7 (ex_constraint (Some 7) Policy 1 Should) (ex_constraint (Some 7) Policy 1 Must)]"
    by (simp add: diff_constraints_def counts_def bump_def ex_constraint_def entry_defs constraints_equal_def)
  then have d: "constraint_modified 7 (ex_constraint (Some 7) Policy 1 Should) (ex_constraint (Some 7) Policy 1 Must)
      \<in> set (diff_constraints (\<lambda>m. m) (\<lambda>m. m) ?b ?a)" by simp
  show ?thesis
    using diff_constraints_modified_conservative [OF _ _ d] d by (auto simp: entry_defs)
qed

lemma action_entry_cases:
  assumes "hash_iteration itb" and "hash_iteration ita"
    and "d \<in> set (diff_action_refs itb ita before after)"
  shows "(ard_change_type d = Removed \<and> ard_after d = None \<and> (\<exists>a \<in> set before. ard_before d = Some a)) \<or>
    (ard_change_type d = Added \<and> ard_before d = None \<and> (\<exists>a \<in> set after. ard_after d = Some a))"
proof -
  have same: "b = a" if "map_of (by_key action_key before) k = Some b" "map_of (by_key action_key after) k = Some a" for k a b
    using that by (auto simp: map_of_by_key)
  have "d \<in> set (key_diff action_key action_refs_equal action_modified action_removed action_added
      (\<lambda>d. (ard_action d, ard_target d)) itb ita before after)"
    using assms(3) by (simp add: diff_action_refs_eq assms)
  then show ?thesis
    unfolding action_diff.mem_the_diff [OF assms(1,2)] map_of_by_key
    by (auto simp: entry_defs ambiguous_def dest: same [unfolded map_of_by_key])
qed

text \<open>An action reference is its own identity: it is matchable when it occurs once.\<close>

lemma action_matchable: "matchable action_key xs a \<longleftrightarrow> count_list xs a = 1"
proof -
  have "count_list (map action_key xs) (Some (a_action a, a_target a)) = count_list xs a"
    by (induction xs) (auto intro: ActionRef.equality)
  then show ?thesis by (simp add: matchable_def)
qed

lemma map_of_action: "map_of (by_key action_key xs) (a_action a, a_target a) = (if count_list xs a = 1 then Some a else None)"
proof (cases "map_of (by_key action_key xs) (a_action a, a_target a)")
  case None
  then have "\<not> (a \<in> set xs \<and> count_list xs a = 1)"
    using map_of_by_key [of action_key xs "(a_action a, a_target a)" a] by (auto simp: action_matchable)
  with None show ?thesis by (auto simp: count_list_0_iff [symmetric])
next
  case (Some b)
  then have "b = a" "count_list xs b = 1"
    by (auto simp: map_of_by_key action_matchable intro: ActionRef.equality)
  with Some show ?thesis by simp
qed

lemma action_segment:
  assumes "hash_iteration it"
  shows "mset (map (\<lambda>(k, a). f a) (filter (\<lambda>(k, a). map_of (by_key action_key ys) k = None) (it (by_key action_key xs)))) +
      mset (map f (ambiguous action_key xs)) =
    image_mset f {# a \<in># mset xs. \<not> (count_list xs a = 1 \<and> count_list ys a = 1) #}"
proof -
  have "mset (map (\<lambda>(k, a). f a) (filter (\<lambda>(k, a). map_of (by_key action_key ys) k = None) (it (by_key action_key xs)))) =
      mset (map (\<lambda>(k, a). f a) (filter (\<lambda>(k, a). map_of (by_key action_key ys) k = None) (by_key action_key xs)))"
    using mset_iter [OF assms] by (simp add: mset_filter)
  also have "map (\<lambda>(k, a). f a) (filter (\<lambda>(k, a). map_of (by_key action_key ys) k = None) (by_key action_key xs)) =
      map f (filter (\<lambda>a. map_of (by_key action_key ys) (a_action a, a_target a) = None) (uniques action_key xs))"
    by (simp add: by_key_def [of _ xs] filter_map comp_def)
  also have "\<dots> = map f (filter (\<lambda>a. count_list xs a = 1 \<and> count_list ys a \<noteq> 1) xs)"
    by (simp only: map_of_action uniques_def action_matchable filter_filter) (rule arg_cong [of _ _ "map f"], rule filter_cong, auto)
  also have "mset \<dots> = image_mset f {# a \<in># mset xs. count_list xs a = 1 \<and> count_list ys a \<noteq> 1 #}"
    by (simp only: mset_map mset_filter)
  also have "\<dots> + mset (map f (ambiguous action_key xs)) =
      image_mset f ({# a \<in># mset xs. count_list xs a = 1 \<and> count_list ys a \<noteq> 1 #} + {# a \<in># mset xs. count_list xs a \<noteq> 1 #})"
    by (simp add: ambiguous_def action_matchable)
  also have "{# a \<in># mset xs. count_list xs a = 1 \<and> count_list ys a \<noteq> 1 #} + {# a \<in># mset xs. count_list xs a \<noteq> 1 #} =
      {# a \<in># mset xs. \<not> (count_list xs a = 1 \<and> count_list ys a = 1) #}"
    by (rule multiset_eqI) simp
  finally show ?thesis .
qed

lemma action_key_diff:
  assumes "hash_iteration itb" and "hash_iteration ita"
  shows "mset (diff_action_refs itb ita before after) =
    image_mset action_removed {# a \<in># mset before. \<not> (count_list before a = 1 \<and> count_list after a = 1) #} +
    image_mset action_added {# a \<in># mset after. \<not> (count_list before a = 1 \<and> count_list after a = 1) #}"
proof -
  have nil: "concat (map (\<lambda>(k, b). case map_of (by_key action_key after) k of
      Some a \<Rightarrow> if action_refs_equal b a then [] else [action_modified k b a] | None \<Rightarrow> []) (itb (by_key action_key before))) = []"
    by (auto simp: concat_eq_Nil_conv action_refs_equal_def map_of_by_key dest!: iter_by_key_mem [OF assms(1)]
        split: option.splits simp del: map_of_eq_Some_iff)
  have swap: "{# a \<in># mset after. \<not> (count_list before a = 1 \<and> count_list after a = 1) #} =
      {# a \<in># mset after. \<not> (count_list after a = 1 \<and> count_list before a = 1) #}"
    by (rule filter_mset_cong) auto
  show ?thesis
    unfolding diff_action_refs_eq [OF assms] key_diff_def Let_def mset_sort nil swap append_Nil mset_append
      action_segment [OF assms(1), of action_removed after before, symmetric]
      action_segment [OF assms(2), of action_added before after, symmetric]
    by (simp only: ac_simps)
qed

text \<open>
  C5. The diff of two lists of action references is exact. An action reference, with its target, is its own identity: the
  references that occur exactly once in both lists are not reported, every other copy in the earlier list is reported as removed and every
  other copy in the later list as added. So there is no \<open>Modified\<close> entry, the branch of \<open>diff_action_refs\<close> that builds one is
  never taken, and a change of the target of an action is reported as a removal and an addition.
\<close>

theorem diff_action_refs_exact:
  assumes "hash_iteration itb" and "hash_iteration ita"
  shows "mset (diff_action_refs itb ita before after) =
    image_mset (\<lambda>a. \<lparr>ard_change_type = Removed, ard_action = a_action a, ard_target = a_target a, ard_before = Some a, ard_after = None\<rparr>)
      {# a \<in># mset before. \<not> (count_list before a = 1 \<and> count_list after a = 1) #} +
    image_mset (\<lambda>a. \<lparr>ard_change_type = Added, ard_action = a_action a, ard_target = a_target a, ard_before = None, ard_after = Some a\<rparr>)
      {# a \<in># mset after. \<not> (count_list before a = 1 \<and> count_list after a = 1) #}"
  using action_key_diff [OF assms] by (simp only: action_removed_def [abs_def] action_added_def [abs_def])

theorem diff_action_refs_exact_witness:
  "mset (diff_action_refs (\<lambda>m. m) rev [\<lparr>a_action = ''a'', a_target = None\<rparr>, \<lparr>a_action = ''b'', a_target = None\<rparr>]
       [\<lparr>a_action = ''b'', a_target = None\<rparr>, \<lparr>a_action = ''a'', a_target = Some ''t''\<rparr>]) =
     {# \<lparr>ard_change_type = Removed, ard_action = ''a'', ard_target = None, ard_before = Some \<lparr>a_action = ''a'', a_target = None\<rparr>, ard_after = None\<rparr>,
        \<lparr>ard_change_type = Added, ard_action = ''a'', ard_target = Some ''t'', ard_before = None,
         ard_after = Some \<lparr>a_action = ''a'', a_target = Some ''t''\<rparr>\<rparr> #}"
  unfolding diff_action_refs_exact [OF hash_iteration_id hash_iteration_rev] by simp

text \<open>A list sorted by an optional key has the items without a key first.\<close>

lemma sorted_None_first:
  fixes f :: "'a \<Rightarrow> 'k::linorder option"
  assumes "sorted (map f xs)"
  shows "xs = filter (\<lambda>x. f x = None) xs @ filter (\<lambda>x. f x \<noteq> None) xs"
  using assms
proof (induction xs)
  case (Cons x xs)
  show ?case
  proof (cases "f x")
    case None
    with Cons show ?thesis by simp
  next
    case (Some k)
    with Cons.prems have "\<forall>y \<in> set xs. f y \<noteq> None"
      by (metis less_eq_option_Some_None list.simps(9) sorted_simps(2) imageI list.set_map)
    with Some show ?thesis by (simp add: filter_empty_conv filter_id_conv)
  qed
qed simp

lemma sort_key_None_first:
  fixes f :: "'a \<Rightarrow> 'k::linorder option"
  shows "sort_key f xs = filter (\<lambda>x. f x = None) xs @ filter (\<lambda>x. f x \<noteq> None) (sort_key f xs)"
  using sorted_None_first [of f "sort_key f xs"] by (simp add: sort_key_stable)

lemma filter_map_None: "filter (\<lambda>d. f d = None) (map g xs) = map g (filter (\<lambda>x. f (g x) = None) xs)"
  by (simp add: filter_map comp_def)

text \<open>
  C6. Items without a clause id are never matched and their entries stand at the head of a constraint
  diff, removals before additions and each in payload order, before every entry that has a clause id:
  the sort by \<open>Option<Uuid>\<close> puts \<open>None\<close> first, where the comment of the code says at the end.
\<close>

theorem diff_constraints_none_first:
  assumes "hash_iteration itb" and "hash_iteration ita"
  shows "\<exists>rest. diff_constraints itb ita before after =
      map constraint_removed (filter (\<lambda>c. c_clause_id c = None) before) @
      map constraint_added (filter (\<lambda>c. c_clause_id c = None) after) @ rest \<and>
    (\<forall>d \<in> set rest. cd_clause_id d \<noteq> None) \<and> sorted (map cd_clause_id rest)"
proof -
  have amb: "filter (\<lambda>c. c_clause_id c = None) (ambiguous c_clause_id xs) = filter (\<lambda>c. c_clause_id c = None) xs"
    for xs :: "'a Constraint list"
    by (auto simp: ambiguous_def matchable_def intro!: filter_cong)
  have key: "c_clause_id c = Some k" if "(k, c) \<in> set (it (by_key c_clause_id xs))" "hash_iteration it"
    for k c it and xs :: "'a Constraint list"
    using that by (simp add: iter_by_key_mem)
  have "diff_constraints itb ita before after =
    map constraint_removed (filter (\<lambda>c. c_clause_id c = None) before) @
    map constraint_added (filter (\<lambda>c. c_clause_id c = None) after) @
    filter (\<lambda>d. cd_clause_id d \<noteq> None) (diff_constraints itb ita before after)"
    unfolding diff_constraints_eq [OF assms] key_diff_def Let_def concat_changed
    by (subst sort_key_None_first)
      (auto simp: filter_map_None entry_defs amb changed_pairs_def filter_empty_conv dest!: key [OF _ assms(1)] key [OF _ assms(2)])
  moreover have "sorted (map cd_clause_id (filter (\<lambda>d. cd_clause_id d \<noteq> None) (diff_constraints itb ita before after)))"
    by (simp add: diff_constraints_def Let_def sorted_filter)
  ultimately show ?thesis by fastforce
qed

theorem diff_constraints_none_first_witness:
  "\<exists>rest. diff_constraints (\<lambda>m. m) rev
      [ex_constraint (Some 7) Policy 1 Should, ex_constraint None Policy 1 Should] [ex_constraint None Policy 2 Must] =
      [constraint_removed (ex_constraint None Policy 1 Should), constraint_added (ex_constraint None Policy 2 Must)] @ rest"
  using diff_constraints_none_first [OF hash_iteration_id hash_iteration_rev,
      of "[ex_constraint (Some 7) Policy 1 Should, ex_constraint None Policy 1 Should]" "[ex_constraint None Policy 2 Must]"]
  by (auto simp: ex_constraint_def)

end
