(* ===== verification/Risk_Laws.thy ===== *)
theory Risk_Laws
  imports Risk Diff_Laws
begin

text \<open>
  What the risk rules compute. The loops keep a running maximum of severities and count every entry
  in exactly one class of the matching statistics; from this follow the bounds of the confidence
  score and the exact conditions for the severities and for manual review.
\<close>

section \<open>The loops\<close>

text \<open>The running maximum.\<close>

lemma run_max: "(if (s::Severity) > t then s else t) = max t s"
  by (auto simp: max_def)

lemma le_fold_max: "(t::Severity) \<le> fold (\<lambda>d s. max s (f d)) ds s \<longleftrightarrow> t \<le> s \<or> (\<exists>d \<in> set ds. t \<le> f d)"
  by (induction ds arbitrary: s) (auto simp: le_max_iff_disj)

text \<open>The statistics of a list of entries that are each counted in at most one class.\<close>

definition tally :: "('d \<Rightarrow> bool) \<Rightarrow> ('d \<Rightarrow> bool) \<Rightarrow> ('d \<Rightarrow> bool) \<Rightarrow> ('d \<Rightarrow> bool) \<Rightarrow> 'd list \<Rightarrow> MatchingStats \<Rightarrow> MatchingStats" where
  "tally U A N R ds st = st\<lparr>unique_clause_id_match := unique_clause_id_match st + length (filter U ds),
     ambiguous_match := ambiguous_match st + length (filter A ds),
     no_match := no_match st + length (filter N ds), ms_removed := ms_removed st + length (filter R ds)\<rparr>"

definition tally1 :: "('d \<Rightarrow> bool) \<Rightarrow> ('d \<Rightarrow> bool) \<Rightarrow> ('d \<Rightarrow> bool) \<Rightarrow> ('d \<Rightarrow> bool) \<Rightarrow> 'd \<Rightarrow> MatchingStats \<Rightarrow> MatchingStats" where
  "tally1 U A N R d st = st\<lparr>unique_clause_id_match := unique_clause_id_match st + of_bool (U d),
     ambiguous_match := ambiguous_match st + of_bool (A d),
     no_match := no_match st + of_bool (N d), ms_removed := ms_removed st + of_bool (R d)\<rparr>"

lemma tally_simps [simp]:
  "tally U A N R [] st = st"
  "tally U A N R (d # ds) st = tally U A N R ds (tally1 U A N R d st)"
  by (simp_all add: tally_def tally1_def)

definition accounted :: "MatchingStats \<Rightarrow> bool" where
  "accounted st \<longleftrightarrow> unique_clause_id_match st + ambiguous_match st + no_match st = total_changes st"

lemma three_way_count:
  assumes "\<forall>d \<in> set ds. (U d \<and> \<not> A d \<and> \<not> N d) \<or> (\<not> U d \<and> A d \<and> \<not> N d) \<or> (\<not> U d \<and> \<not> A d \<and> N d)"
  shows "length (filter U ds) + length (filter A ds) + length (filter N ds) = length ds"
  using assms by (induction ds) auto

lemma accounted_tally:
  assumes "\<forall>d \<in> set ds. (U d \<and> \<not> A d \<and> \<not> N d) \<or> (\<not> U d \<and> A d \<and> \<not> N d) \<or> (\<not> U d \<and> \<not> A d \<and> N d)"
  shows "accounted (tally U A N R ds (MatchingStats_default\<lparr>total_changes := length ds\<rparr>))"
  using three_way_count [OF assms] by (simp add: accounted_def tally_def stats_defs)

lemma accounted_add [simp]:
  "accounted s \<Longrightarrow> accounted r \<Longrightarrow> accounted (stats_add s r)"
  "accounted s \<Longrightarrow> accounted r \<Longrightarrow> accounted (stats_add_category s r)"
  "accounted MatchingStats_default"
  by (simp_all add: accounted_def stats_defs)

lemma total_add [simp]:
  "total_changes (stats_add s r) = total_changes s + total_changes r"
  "total_changes (stats_add_category s r) = total_changes s + total_changes r"
  "total_changes MatchingStats_default = 0"
  by (simp_all add: stats_defs)

lemma total_tally [simp]: "total_changes (tally U A N R ds st) = total_changes st"
  by (simp add: tally_def)

section \<open>The categories\<close>

abbreviation is_modified_pair :: "'k option \<Rightarrow> ChangeType \<Rightarrow> bool" where
  "is_modified_pair i t \<equiv> i \<noteq> None \<and> t = Modified"

abbreviation is_unmatched :: "'k option \<Rightarrow> ChangeType \<Rightarrow> bool" where
  "is_unmatched i t \<equiv> i \<noteq> None \<and> t \<noteq> Modified"

lemma not_Modified: "t \<noteq> Modified \<longleftrightarrow> t = Added \<or> t = Removed"
  by (cases t) simp_all

lemma constraint_fold:
  "fold constraint_loop ds (s, n, st) =
     (fold (\<lambda>d s. max s (compute_constraint_severity d)) ds s,
      n + length (filter (\<lambda>d. is_must_constraint (option_or (cd_before d) (cd_after d))) ds),
      tally (\<lambda>d. is_modified_pair (cd_clause_id d) (cd_change_type d)) (\<lambda>d. cd_clause_id d = None)
        (\<lambda>d. is_unmatched (cd_clause_id d) (cd_change_type d)) (\<lambda>_. False) ds st)"
proof (induction ds arbitrary: s n st)
  case (Cons d ds)
  have "constraint_loop d (s, n, st) = (max s (compute_constraint_severity d),
      n + of_bool (is_must_constraint (option_or (cd_before d) (cd_after d))),
      tally1 (\<lambda>d. is_modified_pair (cd_clause_id d) (cd_change_type d)) (\<lambda>d. cd_clause_id d = None)
        (\<lambda>d. is_unmatched (cd_clause_id d) (cd_change_type d)) (\<lambda>_. False) d st)"
    by (cases "cd_change_type d")
      (simp_all add: constraint_loop_def run_max Let_def tally1_def stats_defs del: not_None_eq)
  with Cons show ?case by (simp del: not_None_eq)
qed simp

lemma analyze_constraint_category_stats:
  shows "accounted (snd (analyze_constraint_category n ds))"
    and "total_changes (snd (analyze_constraint_category n ds)) = length ds"
  by (auto simp: analyze_constraint_category_def constraint_fold Let_def intro!: accounted_tally simp del: not_None_eq)

lemma severity_cut [simp]: "s < Severity.High \<longleftrightarrow> \<not> Severity.High \<le> s" "s < Severity.Medium \<longleftrightarrow> \<not> Severity.Medium \<le> s"
  "s < Severity.Critical \<longleftrightarrow> s \<noteq> Severity.Critical"
  by (simp_all add: not_le less_le)

lemma severity_consts [simp]:
  "Severity.Medium \<le> Severity.High" "\<not> Severity.High \<le> Severity.Medium" "\<not> Severity.Medium \<le> Severity.Low"
  "\<not> Severity.High \<le> Severity.Low"
  by (simp_all add: severity_order)

lemma constraint_severity_cuts:
  "Severity.Medium \<le> compute_constraint_severity d" 
  "compute_constraint_severity d \<noteq> Severity.Critical"
  "Severity.High \<le> compute_constraint_severity d \<longleftrightarrow> cd_change_type d \<noteq> Removed \<and> is_must_constraint (cd_after d)"
  by (auto simp: compute_constraint_severity_def severity_order split: ChangeType.splits)

lemma length_filter_pos: "0 < length (filter P xs) \<longleftrightarrow> (\<exists>x \<in> set xs. P x)"
  by (auto simp: filter_empty_conv)

lemma analyze_constraint_category_severity:
  shows "fst (analyze_constraint_category n ds) = Severity.Critical \<longleftrightarrow>
      n = ''policy'' \<and> (\<exists>d \<in> set ds. is_must_constraint (option_or (cd_before d) (cd_after d)))"
    and "Severity.Medium \<le> fst (analyze_constraint_category n ds) \<longleftrightarrow> ds \<noteq> []"
    and "Severity.High \<le> fst (analyze_constraint_category n ds) \<longleftrightarrow>
      (n = ''policy'' \<and> ds \<noteq> []) \<or> (\<exists>d \<in> set ds. cd_change_type d \<noteq> Removed \<and> is_must_constraint (cd_after d))"
proof -
  let ?s = "fold (\<lambda>d s. max s (compute_constraint_severity d)) ds Severity.Low"
  have c: "?s \<noteq> Severity.Critical"
    using le_fold_max [of Severity.Critical compute_constraint_severity ds Severity.Low]
    by (simp add: constraint_severity_cuts)
  have m: "Severity.Medium \<le> ?s \<longleftrightarrow> ds \<noteq> []"
    by (cases ds) (simp_all add: le_fold_max constraint_severity_cuts)
  have h: "Severity.High \<le> ?s \<longleftrightarrow> (\<exists>d \<in> set ds. cd_change_type d \<noteq> Removed \<and> is_must_constraint (cd_after d))"
    by (simp add: le_fold_max constraint_severity_cuts)
  have must: "\<exists>d \<in> set ds. P d \<Longrightarrow> ds \<noteq> []" for P
    by auto
  show "fst (analyze_constraint_category n ds) = Severity.Critical \<longleftrightarrow>
      n = ''policy'' \<and> (\<exists>d \<in> set ds. is_must_constraint (option_or (cd_before d) (cd_after d)))"
    using c by (auto simp: analyze_constraint_category_def constraint_fold Let_def filter_empty_conv)
  show "Severity.Medium \<le> fst (analyze_constraint_category n ds) \<longleftrightarrow> ds \<noteq> []"
    using m by (auto simp: analyze_constraint_category_def constraint_fold Let_def)
  show "Severity.High \<le> fst (analyze_constraint_category n ds) \<longleftrightarrow>
      (n = ''policy'' \<and> ds \<noteq> []) \<or> (\<exists>d \<in> set ds. cd_change_type d \<noteq> Removed \<and> is_must_constraint (cd_after d))"
    using h by (auto simp: analyze_constraint_category_def constraint_fold Let_def)
qed

lemma criterion_fold:
  "fold criterion_loop ds (s, st) =
     (fold (\<lambda>d s. max s (compute_acceptance_criterion_severity d)) ds s,
      tally (\<lambda>d. is_modified_pair (acd_clause_id d) (acd_change_type d)) (\<lambda>d. acd_clause_id d = None)
        (\<lambda>d. is_unmatched (acd_clause_id d) (acd_change_type d)) (\<lambda>_. False) ds st)"
proof (induction ds arbitrary: s st)
  case (Cons d ds)
  have "criterion_loop d (s, st) = (max s (compute_acceptance_criterion_severity d),
      tally1 (\<lambda>d. is_modified_pair (acd_clause_id d) (acd_change_type d)) (\<lambda>d. acd_clause_id d = None)
        (\<lambda>d. is_unmatched (acd_clause_id d) (acd_change_type d)) (\<lambda>_. False) d st)"
    by (simp add: criterion_loop_def run_max Let_def tally1_def stats_defs del: not_None_eq)
  with Cons show ?case by (simp del: not_None_eq)
qed simp

lemma analyze_acceptance_criterion_category_facts:
  shows "accounted (snd (analyze_acceptance_criterion_category n ds))"
    and "total_changes (snd (analyze_acceptance_criterion_category n ds)) = length ds"
    and "fst (analyze_acceptance_criterion_category n ds) \<noteq> Severity.Critical"
    and "Severity.Medium \<le> fst (analyze_acceptance_criterion_category n ds) \<longleftrightarrow> ds \<noteq> []"
proof -
  let ?s = "fold (\<lambda>d s. max s (compute_acceptance_criterion_severity d)) ds Severity.Low"
  have cut: "Severity.Medium \<le> compute_acceptance_criterion_severity d"
    "compute_acceptance_criterion_severity d \<noteq> Severity.Critical" for d
    by (auto simp: compute_acceptance_criterion_severity_def severity_order split: ChangeType.splits option.splits)
  have c: "?s \<noteq> Severity.Critical"
    using le_fold_max [of Severity.Critical compute_acceptance_criterion_severity ds Severity.Low] by (simp add: cut)
  have m: "Severity.Medium \<le> ?s \<longleftrightarrow> ds \<noteq> []"
    by (cases ds) (simp_all add: le_fold_max cut)
  show "accounted (snd (analyze_acceptance_criterion_category n ds))"
    "total_changes (snd (analyze_acceptance_criterion_category n ds)) = length ds"
    by (auto simp: analyze_acceptance_criterion_category_def criterion_fold Let_def intro!: accounted_tally simp del: not_None_eq)
  show "fst (analyze_acceptance_criterion_category n ds) \<noteq> Severity.Critical"
    using c by (auto simp: analyze_acceptance_criterion_category_def criterion_fold Let_def)
  show "Severity.Medium \<le> fst (analyze_acceptance_criterion_category n ds) \<longleftrightarrow> ds \<noteq> []"
    using m by (auto simp: analyze_acceptance_criterion_category_def criterion_fold Let_def)
qed

text \<open>Entries of the authority lists as \<open>diff_authority\<close> produces them: one side is missing.\<close>

definition action_entry_ok :: "ActionRefDiff \<Rightarrow> bool" where
  "action_entry_ok d \<longleftrightarrow> ard_change_type d \<noteq> Modified \<and> (ard_before d = None \<or> ard_after d = None)"

lemma action_refs_fold:
  "fold (action_refs_loop n) ds (s, st) =
     (fold (\<lambda>d s. max s (case ard_change_type d of Added \<Rightarrow> Severity.Medium
        | Removed \<Rightarrow> if n = ''forbidden_actions'' then Severity.Critical else Severity.High
        | Modified \<Rightarrow> Severity.Medium)) ds s,
      tally (\<lambda>d. ard_change_type d = Modified) (\<lambda>_. False)
        (\<lambda>d. ard_change_type d \<noteq> Modified \<and> (ard_before d = None \<or> ard_after d = None))
        (\<lambda>d. ard_change_type d = Removed) ds st)"
proof (induction ds arbitrary: s st)
  case (Cons d ds)
  have "action_refs_loop n d (s, st) = (max s (case ard_change_type d of Added \<Rightarrow> Severity.Medium
        | Removed \<Rightarrow> if n = ''forbidden_actions'' then Severity.Critical else Severity.High
        | Modified \<Rightarrow> Severity.Medium),
      tally1 (\<lambda>d. ard_change_type d = Modified) (\<lambda>_. False)
        (\<lambda>d. ard_change_type d \<noteq> Modified \<and> (ard_before d = None \<or> ard_after d = None))
        (\<lambda>d. ard_change_type d = Removed) d st)"
    by (cases "ard_change_type d") (simp_all add: action_refs_loop_def run_max Let_def tally1_def stats_defs)
  with Cons show ?case by simp
qed simp

lemma action_severity_critical:
  "(case t of Added \<Rightarrow> Severity.Medium | Removed \<Rightarrow> if f then Severity.Critical else Severity.High
     | Modified \<Rightarrow> Severity.Medium) = Severity.Critical \<longleftrightarrow> f \<and> t = Removed"
  by (cases t) simp_all

lemma rule_severity_critical:
  "(case t of Added \<Rightarrow> Severity.Medium | Removed \<Rightarrow> Severity.Critical | Modified \<Rightarrow> Severity.High)
     = Severity.Critical \<longleftrightarrow> t = Removed"
  by (cases t) simp_all

lemma analyze_action_refs_risk_facts:
  shows "\<forall>d \<in> set ds. action_entry_ok d \<Longrightarrow> accounted (snd (analyze_action_refs_risk n ds))"
    and "total_changes (snd (analyze_action_refs_risk n ds)) = length ds"
    and "0 < ms_removed (snd (analyze_action_refs_risk n ds)) \<longleftrightarrow> (\<exists>d \<in> set ds. ard_change_type d = Removed)"
    and "fst (analyze_action_refs_risk n ds) = Severity.Critical \<longleftrightarrow>
      n = ''forbidden_actions'' \<and> (\<exists>d \<in> set ds. ard_change_type d = Removed)"
    and "Severity.Medium \<le> fst (analyze_action_refs_risk n ds) \<longleftrightarrow> ds \<noteq> []"
proof -
  show "accounted (snd (analyze_action_refs_risk n ds))" if "\<forall>d \<in> set ds. action_entry_ok d"
    using that by (auto simp: analyze_action_refs_risk_def action_refs_fold action_entry_ok_def intro!: accounted_tally)
  show "total_changes (snd (analyze_action_refs_risk n ds)) = length ds"
    by (simp add: analyze_action_refs_risk_def action_refs_fold)
  show "0 < ms_removed (snd (analyze_action_refs_risk n ds)) \<longleftrightarrow> (\<exists>d \<in> set ds. ard_change_type d = Removed)"
    by (auto simp: analyze_action_refs_risk_def action_refs_fold tally_def stats_defs filter_empty_conv)
  show "fst (analyze_action_refs_risk n ds) = Severity.Critical \<longleftrightarrow>
      n = ''forbidden_actions'' \<and> (\<exists>d \<in> set ds. ard_change_type d = Removed)"
    unfolding Critical_le [symmetric] analyze_action_refs_risk_def action_refs_fold fst_conv le_fold_max
    by (simp add: action_severity_critical)
  show "Severity.Medium \<le> fst (analyze_action_refs_risk n ds) \<longleftrightarrow> ds \<noteq> []"
    unfolding analyze_action_refs_risk_def action_refs_fold fst_conv le_fold_max
    by (cases ds) (auto split: ChangeType.splits)
qed

lemma approval_rules_fold:
  "fold approval_rules_loop ds (s, st) =
     (fold (\<lambda>d s. max s (case rd_change_type d of Added \<Rightarrow> Severity.Medium
        | Removed \<Rightarrow> Severity.Critical | Modified \<Rightarrow> Severity.High)) ds s,
      tally (\<lambda>d. rd_change_type d = Modified) (\<lambda>_. False)
        (\<lambda>d. rd_change_type d \<noteq> Modified) (\<lambda>d. rd_change_type d = Removed) ds st)"
proof (induction ds arbitrary: s st)
  case (Cons d ds)
  have "approval_rules_loop d (s, st) = (max s (case rd_change_type d of Added \<Rightarrow> Severity.Medium
        | Removed \<Rightarrow> Severity.Critical | Modified \<Rightarrow> Severity.High),
      tally1 (\<lambda>d. rd_change_type d = Modified) (\<lambda>_. False)
        (\<lambda>d. rd_change_type d \<noteq> Modified) (\<lambda>d. rd_change_type d = Removed) d st)"
    by (cases "rd_change_type d") (simp_all add: approval_rules_loop_def run_max Let_def tally1_def stats_defs)
  with Cons show ?case by simp
qed simp

lemma analyze_approval_rules_risk_facts:
  shows "accounted (snd (analyze_approval_rules_risk ds))"
    and "total_changes (snd (analyze_approval_rules_risk ds)) = length ds"
    and "0 < ms_removed (snd (analyze_approval_rules_risk ds)) \<longleftrightarrow> (\<exists>d \<in> set ds. rd_change_type d = Removed)"
    and "fst (analyze_approval_rules_risk ds) = Severity.Critical \<longleftrightarrow> (\<exists>d \<in> set ds. rd_change_type d = Removed)"
    and "Severity.Medium \<le> fst (analyze_approval_rules_risk ds) \<longleftrightarrow> ds \<noteq> []"
proof -
  show "accounted (snd (analyze_approval_rules_risk ds))"
    by (auto simp: analyze_approval_rules_risk_def approval_rules_fold intro!: accounted_tally)
  show "total_changes (snd (analyze_approval_rules_risk ds)) = length ds"
    by (simp add: analyze_approval_rules_risk_def approval_rules_fold)
  show "0 < ms_removed (snd (analyze_approval_rules_risk ds)) \<longleftrightarrow> (\<exists>d \<in> set ds. rd_change_type d = Removed)"
    by (auto simp: analyze_approval_rules_risk_def approval_rules_fold tally_def stats_defs filter_empty_conv)
  show "fst (analyze_approval_rules_risk ds) = Severity.Critical \<longleftrightarrow> (\<exists>d \<in> set ds. rd_change_type d = Removed)"
    unfolding Critical_le [symmetric] analyze_approval_rules_risk_def approval_rules_fold fst_conv le_fold_max
    by (simp add: rule_severity_critical)
  show "Severity.Medium \<le> fst (analyze_approval_rules_risk ds) \<longleftrightarrow> ds \<noteq> []"
    unfolding analyze_approval_rules_risk_def approval_rules_fold fst_conv le_fold_max
    by (cases ds) (auto split: ChangeType.splits)
qed

section \<open>The sections\<close>

lemma analyze_scope_risk_facts:
  shows "accounted (snd (analyze_scope_risk sd))"
    and "total_changes (snd (analyze_scope_risk sd)) =
      length (si_added (sd_in_scope sd)) + length (si_removed (sd_in_scope sd)) +
      (length (si_added (sd_out_of_scope sd)) + length (si_removed (sd_out_of_scope sd)))"
    and "\<not> Severity.High \<le> fst (analyze_scope_risk sd)"
    and "Severity.Medium \<le> fst (analyze_scope_risk sd) \<longleftrightarrow> 0 < total_changes (snd (analyze_scope_risk sd))"
  by (auto simp: analyze_scope_risk_def Let_def accounted_def stats_defs)

lemma category_step_simps [simp]:
  "fst (category_step cat acc) = max (fst acc) (fst cat)"
  "snd (category_step cat acc) = stats_add_category (snd acc) (snd cat)"
  by (simp_all add: category_step_def run_max)

abbreviation constraint_entries :: "'j ConstraintsDiff \<Rightarrow> 'j ConstraintDiff list" where
  "constraint_entries cs \<equiv> csd_functional cs @ csd_non_functional cs @ csd_policy cs @ csd_budget cs @ csd_time cs"

abbreviation criterion_entries :: "AcceptanceCriteriaDiff \<Rightarrow> AcceptanceCriterionDiff list" where
  "criterion_entries ac \<equiv> acsd_required ac @ acsd_optional ac"

lemma max_eq_Critical: "max a b = Severity.Critical \<longleftrightarrow> a = Severity.Critical \<or> b = Severity.Critical"
  using le_max_iff_disj [of Severity.Critical a b] by simp

lemma analyze_constraints_risk_facts:
  shows "accounted (snd (analyze_constraints_risk cs))"
    and "total_changes (snd (analyze_constraints_risk cs)) = length (constraint_entries cs)"
    and "fst (analyze_constraints_risk cs) = Severity.Critical \<longleftrightarrow>
      (\<exists>d \<in> set (csd_policy cs). is_must_constraint (option_or (cd_before d) (cd_after d)))"
    and "Severity.Medium \<le> fst (analyze_constraints_risk cs) \<longleftrightarrow> constraint_entries cs \<noteq> []"
    and "csd_policy cs \<noteq> [] \<Longrightarrow> Severity.High \<le> fst (analyze_constraints_risk cs)"
  by (auto simp: analyze_constraints_risk_def analyze_constraint_category_stats max_eq_Critical
      analyze_constraint_category_severity le_max_iff_disj)

lemma analyze_acceptance_criteria_risk_facts:
  shows "accounted (snd (analyze_acceptance_criteria_risk ac))"
    and "total_changes (snd (analyze_acceptance_criteria_risk ac)) = length (criterion_entries ac)"
    and "fst (analyze_acceptance_criteria_risk ac) \<noteq> Severity.Critical"
    and "Severity.Medium \<le> fst (analyze_acceptance_criteria_risk ac) \<longleftrightarrow> criterion_entries ac \<noteq> []"
  by (simp_all add: analyze_acceptance_criteria_risk_def analyze_acceptance_criterion_category_facts
      max_eq_Critical le_max_iff_disj)

definition authority_ok :: "AuthorityDiff \<Rightarrow> bool" where
  "authority_ok au \<longleftrightarrow> (\<forall>d \<in> set (aud_allowed_actions au @ aud_forbidden_actions au). action_entry_ok d)"

definition authority_changes :: "AuthorityDiff \<Rightarrow> nat" where
  "authority_changes au =
     length (aud_allowed_actions au) + length (aud_forbidden_actions au) + length (aud_approval_requirements au)"

lemma analyze_authority_risk_facts:
  shows "authority_ok au \<Longrightarrow> accounted (snd (analyze_authority_risk au))"
    and "total_changes (snd (analyze_authority_risk au)) = authority_changes au"
    and "fst (analyze_authority_risk au) = Severity.Critical \<longleftrightarrow>
      (\<exists>d \<in> set (aud_forbidden_actions au). ard_change_type d = Removed) \<or>
      (\<exists>d \<in> set (aud_approval_requirements au). rd_change_type d = Removed)"
    and "Severity.High \<le> fst (analyze_authority_risk au) \<longleftrightarrow> 0 < authority_changes au"
proof -
  obtain a as f fs r rs where
    eq: "analyze_action_refs_risk ''allowed_actions'' (aud_allowed_actions au) = (a, as)"
      "analyze_action_refs_risk ''forbidden_actions'' (aud_forbidden_actions au) = (f, fs)"
      "analyze_approval_rules_risk (aud_approval_requirements au) = (r, rs)"
    by (metis surj_pair)
  note A = analyze_action_refs_risk_facts [where ds = "aud_allowed_actions au" and n = "''allowed_actions''", unfolded eq fst_conv snd_conv]
  note F = analyze_action_refs_risk_facts [where ds = "aud_forbidden_actions au" and n = "''forbidden_actions''", unfolded eq fst_conv snd_conv]
  note R = analyze_approval_rules_risk_facts [where ds = "aud_approval_requirements au", unfolded eq fst_conv snd_conv]
  show "accounted (snd (analyze_authority_risk au))" if "authority_ok au"
    using that A(1) F(1) R(1) by (auto simp: analyze_authority_risk_def eq Let_def authority_ok_def)
  show "total_changes (snd (analyze_authority_risk au)) = authority_changes au"
    using A(2) F(2) R(2) by (simp add: analyze_authority_risk_def eq Let_def authority_changes_def)
  show "fst (analyze_authority_risk au) = Severity.Critical \<longleftrightarrow>
      (\<exists>d \<in> set (aud_forbidden_actions au). ard_change_type d = Removed) \<or>
      (\<exists>d \<in> set (aud_approval_requirements au). rd_change_type d = Removed)"
  proof -
    have "0 < ms_removed fs \<longleftrightarrow> f = Severity.Critical" "0 < ms_removed rs \<longleftrightarrow> r = Severity.Critical" "a \<noteq> Severity.Critical"
      using A(4) F(3,4) R(3,4) by simp_all
    then have "fst (analyze_authority_risk au) = Severity.Critical \<longleftrightarrow> f = Severity.Critical \<or> r = Severity.Critical"
      by (cases a; cases f; cases r) (simp_all add: analyze_authority_risk_def eq Let_def severity_order)
    then show ?thesis using F(4) R(4) by simp
  qed
  have low: "\<not> Severity.Medium \<le> x \<Longrightarrow> \<not> Severity.High \<le> x" for x
    by (cases x) (simp_all add: severity_order)
  show "Severity.High \<le> fst (analyze_authority_risk au) \<longleftrightarrow> 0 < authority_changes au"
    using A(2,5) F(2,3,5) R(2,3,5) low [of a] low [of f] low [of r]
    by (auto simp: analyze_authority_risk_def eq Let_def run_max le_max_iff_disj authority_changes_def)
qed

section \<open>Confidence\<close>

text \<open>A weighted sum of three terms, each step rounded down by a factor \<open>d\<close>.\<close>

lemma weighted_sum_floor:
  fixes d :: rat
  assumes d: "0 \<le> d" "d \<le> 1" and "0 \<le> r"
    and u: "d * p \<le> u" "d * u \<le> x" and a: "d * q \<le> a" "d * (a / 2) \<le> y"
    and n: "d * r \<le> n" "d * (n * w) \<le> z" "0 \<le> w"
    and s: "d * (x + y) \<le> s" "d * (s + z) \<le> t"
  shows "d ^ 4 * (p + q / 2 + r * w) \<le> t"
proof -
  have up: "d * v \<le> v'" if "v \<le> w" "d * w \<le> v'" for v w v'
    using mult_left_mono [OF that(1) d(1)] that(2) by linarith
  have "d * (d * p) \<le> x" by (rule up [OF u])
  moreover have "d * (d * q / 2) \<le> y" by (rule up [OF _ a(2)]) (use a(1) in simp)
  ultimately have xy: "d * (d * p) + d * (d * q / 2) \<le> x + y" by (rule add_mono)
  have z: "d * (d * r * w) \<le> z" by (rule up [OF _ n(2)]) (use n(1,3) in \<open>simp add: mult_right_mono\<close>)
  have "0 \<le> d * (d * r * w)" using d(1) assms(3) n(3) by simp
  then have "d * (d * (d * r * w)) \<le> 1 * (d * (d * r * w))" using d(2) by (rule mult_right_mono [rotated])
  with z have z': "d * (d * (d * r * w)) \<le> z" by simp
  have "d * (d * (d * p) + d * (d * q / 2)) + d * (d * (d * r * w)) \<le> s + z"
    by (rule add_mono [OF up [OF xy s(1)] z'])
  from up [OF this s(2)] show ?thesis
    by (simp add: power4_eq_xxxx algebra_simps)
qed

lemma weight_floor:
  assumes "p + q + r = (1::rat)" "0 \<le> p" "0 \<le> q" "0 \<le> r" "1 / 2 ^ 48 \<le> p + r"
  shows "1 / 2 \<le> (1 - 1 / 2 ^ 53) ^ 4 * (p + q / 2 + r * (79 / 100))"
proof -
  have "1 / 2 + 29 / 100 / 2 ^ 48 \<le> p + q / 2 + r * (79 / 100)" using assms by (simp del: power_numeral)
  then have "(1 - 1 / 2 ^ 53) ^ 4 * (1 / 2 + 29 / 100 / 2 ^ 48) \<le> (1 - 1 / 2 ^ 53) ^ 4 * (p + q / 2 + r * (79 / 100))"
    by (intro mult_left_mono) auto
  moreover have "(1 / 2 :: rat) \<le> (1 - 1 / 2 ^ 53) ^ 4 * (1 / 2 + 29 / 100 / 2 ^ 48)" by (simp add: power_divide)
  ultimately show ?thesis by linarith
qed

lemma confidence_floor:
  assumes "accounted st" and "total_changes st \<le> 2 ^ 48"
  shows "1 / 2 \<le> compute_confidence st"
proof (cases "unique_clause_id_match st + no_match st = 0")
  case True
  have half: "rnd (1 / 2) = 1 / 2" by (rule rnd_half)
  have "rnd (of_nat (total_changes st)) \<noteq> 0" if "total_changes st \<noteq> 0"
    using that assms(2) by (simp add: rnd.of_nat)
  with True assms(1) show ?thesis
    by (auto simp: compute_confidence_def accounted_def f64_ops half f64_clamp_def Let_def)
next
  case False
  define T p q r where "T = (of_nat (total_changes st) :: rat)"
    and "p = of_nat (unique_clause_id_match st) / T" and "q = of_nat (ambiguous_match st) / T"
    and "r = of_nat (no_match st) / T"
  have le: "unique_clause_id_match st \<le> total_changes st" "ambiguous_match st \<le> total_changes st"
    "no_match st \<le> total_changes st" and pos: "0 < total_changes st"
    using assms(1) False by (auto simp: accounted_def)
  have cast: "f64_of_usize n = of_nat n" if "n \<le> total_changes st" for n
    using that assms(2) by (simp add: f64_of_usize_def rnd.of_nat)
  have T: "1 \<le> T" "T \<le> 2 ^ 48"
    using pos assms(2) of_nat_mono [of 1 "total_changes st"] of_nat_mono [OF assms(2)] by (simp_all add: T_def)
  have one: "p + q + r = 1"
    using assms(1) pos by (simp add: p_def q_def r_def T_def accounted_def add_divide_distrib [symmetric] flip: of_nat_add)
  have "1 / 2 ^ 48 \<le> 1 / T" using T by (simp add: frac_le)
  also have "\<dots> \<le> of_nat (unique_clause_id_match st + no_match st) / T"
    using False T by (intro divide_right_mono) auto
  also have "\<dots> = p + r" by (simp add: p_def r_def add_divide_distrib)
  finally have pr: "1 / 2 ^ 48 \<le> p + r" .
  have nonneg: "0 \<le> p" "0 \<le> q" "0 \<le> r" using T by (simp_all add: p_def q_def r_def)
  define u a n c where "u = rnd p" and "a = rnd q" and "n = rnd r" and "c = rnd (8 / 10)"
  have c: "79 / 100 \<le> c" using rnd.lower [of "8 / 10"] by (simp add: c_def)
  let ?d = "1 - 1 / 2 ^ 53 :: rat"
  have lower: "?d * v \<le> rnd v" if "0 \<le> v" for v
    using rnd.lower [OF that] by (simp add: left_diff_distrib)
  have una: "0 \<le> u" "0 \<le> a" "0 \<le> n"
    using nonneg by (simp_all only: u_def a_def n_def rnd.nonneg)
  define x y z where "x = rnd (u * rnd 1)" and "y = rnd (a * rnd (1 / 2))" and "z = rnd (n * c)"
  have xyz: "0 \<le> x" "0 \<le> y" "0 \<le> z"
    using una c by (auto simp: x_def y_def z_def rnd_half intro!: rnd.nonneg)
  have "?d ^ 4 * (p + q / 2 + r * (79 / 100)) \<le> rnd (rnd (x + y) + z)"
  proof (rule weighted_sum_floor [where u = u and x = x and a = a and y = y and n = n and z = z and s = "rnd (x + y)"])
    show "?d * p \<le> u" "?d * q \<le> a" "?d * r \<le> n"
      unfolding u_def a_def n_def using nonneg by (simp_all only: lower)
    show "?d * u \<le> x" "?d * (a / 2) \<le> y"
      using lower [of u] lower [of "a / 2"] una by (simp_all add: x_def y_def rnd_half)
    have "n * (79 / 100) \<le> n * c" using c una(3) by (rule mult_left_mono)
    from rnd.mono [OF this] lower [of "n * (79 / 100)"] una(3) show "?d * (n * (79 / 100)) \<le> z"
      by (simp add: z_def)
    show "?d * (x + y) \<le> rnd (x + y)" "?d * (rnd (x + y) + z) \<le> rnd (rnd (x + y) + z)"
      using xyz by (simp_all only: lower add_nonneg_nonneg rnd.nonneg)
  qed (use nonneg in simp_all)
  with weight_floor [OF one nonneg pr] have "1 / 2 \<le> rnd (rnd (x + y) + z)" by linarith
  moreover have "compute_confidence st = f64_clamp (rnd (rnd (x + y) + z)) 0 1"
    using pos by (simp add: compute_confidence_def Let_def cast le f64_div_def f64_mul_def f64_add_def
        x_def y_def z_def u_def a_def n_def c_def p_def q_def r_def T_def)
  ultimately show ?thesis by (auto simp: f64_clamp_def)
qed

section \<open>The analysis\<close>

text \<open>The number of entries of a diff, counted on its lists and not by the code's statistics.\<close>

definition change_count :: "'j IntentVersionDiff \<Rightarrow> nat" where
  "change_count d =
     length (si_added (sd_in_scope (ivd_scope d))) + length (si_removed (sd_in_scope (ivd_scope d))) +
     (length (si_added (sd_out_of_scope (ivd_scope d))) + length (si_removed (sd_out_of_scope (ivd_scope d)))) +
     length (constraint_entries (ivd_constraints d)) +
     length (criterion_entries (ivd_acceptance_criteria d)) + authority_changes (ivd_authority d)"

definition analysis_stats :: "ScopeDiff \<Rightarrow> 'j ConstraintsDiff \<Rightarrow> AcceptanceCriteriaDiff \<Rightarrow> AuthorityDiff \<Rightarrow> MatchingStats" where
  "analysis_stats sd cs ac au = stats_add (stats_add (stats_add (stats_add MatchingStats_default
     (snd (analyze_scope_risk sd))) (snd (analyze_constraints_risk cs)))
     (snd (analyze_acceptance_criteria_risk ac))) (snd (analyze_authority_risk au))"

definition analysis_sections :: "ScopeDiff \<Rightarrow> 'j ConstraintsDiff \<Rightarrow> AcceptanceCriteriaDiff \<Rightarrow> AuthorityDiff \<Rightarrow> (string \<times> Severity) list" where
  "analysis_sections sd cs ac au = [(''scope'', fst (analyze_scope_risk sd)),
     (''constraints'', fst (analyze_constraints_risk cs)),
     (''acceptance_criteria'', fst (analyze_acceptance_criteria_risk ac)),
     (''authority'', fst (analyze_authority_risk au))]"

lemma analysis_fields:
  "ra_severity (analyze_diff_risk_with_config sd cs ac au cfg) = compute_overall_severity (analysis_sections sd cs ac au)"
  "ra_confidence (analyze_diff_risk_with_config sd cs ac au cfg) = compute_confidence (analysis_stats sd cs ac au)"
  "ra_manual_review (analyze_diff_risk_with_config sd cs ac au cfg) =
     fst (should_manual_review (compute_overall_severity (analysis_sections sd cs ac au))
       (compute_confidence (analysis_stats sd cs ac au)) (analysis_sections sd cs ac au) (policy_changed_in cs)
       (\<exists>r \<in> set (aud_approval_requirements au). rd_change_type r = Removed) cfg)"
  "ra_section_risks (analyze_diff_risk_with_config sd cs ac au cfg) =
     filter (\<lambda>r. sr_change_count r > 0)
       [\<lparr>sr_section = ''scope'', sr_severity = fst (analyze_scope_risk sd),
          sr_change_count = total_changes (snd (analyze_scope_risk sd)), sr_high_priority_changes = 0\<rparr>,
        section_risk ''constraints'' (fst (analyze_constraints_risk cs)) (snd (analyze_constraints_risk cs)),
        section_risk ''acceptance_criteria'' (fst (analyze_acceptance_criteria_risk ac)) (snd (analyze_acceptance_criteria_risk ac)),
        section_risk ''authority'' (fst (analyze_authority_risk au)) (snd (analyze_authority_risk au))]"
  unfolding analyze_diff_risk_with_config_def analysis_stats_def analysis_sections_def Let_def case_prod_beta
  by simp_all

lemma analysis_rationale:
  "ra_rationale (analyze_diff_risk_with_config sd cs ac au cfg) =
     generate_rationale (compute_overall_severity (analysis_sections sd cs ac au))
       (compute_confidence (analysis_stats sd cs ac au)) (analysis_sections sd cs ac au)"
  unfolding analyze_diff_risk_with_config_def analysis_stats_def analysis_sections_def Let_def case_prod_beta
  by simp

lemma overall_severity:
  "compute_overall_severity (analysis_sections sd cs ac au) =
     max (max (max (fst (analyze_scope_risk sd)) (fst (analyze_constraints_risk cs)))
       (fst (analyze_acceptance_criteria_risk ac))) (fst (analyze_authority_risk au))"
  by (simp add: compute_overall_severity_def analysis_sections_def run_max max_absorb2)

lemma accounted_analysis: "authority_ok au \<Longrightarrow> accounted (analysis_stats sd cs ac au)"
  by (simp add: analysis_stats_def analyze_scope_risk_facts analyze_constraints_risk_facts
      analyze_acceptance_criteria_risk_facts analyze_authority_risk_facts)

lemma analysis_total:
  "total_changes (analysis_stats (ivd_scope d) (ivd_constraints d) (ivd_acceptance_criteria d) (ivd_authority d)) = change_count d"
  by (simp add: analysis_stats_def change_count_def analyze_scope_risk_facts(2) analyze_constraints_risk_facts
      analyze_acceptance_criteria_risk_facts analyze_authority_risk_facts)

lemma diff_action_refs_ok:
  "hash_iteration itb \<Longrightarrow> hash_iteration ita \<Longrightarrow> d \<in> set (diff_action_refs itb ita b a) \<Longrightarrow> action_entry_ok d"
  using action_entry_cases [of itb ita d b a] by (auto simp: action_entry_ok_def)

lemma diff_authority_ok: "hash_orders_ok ho \<Longrightarrow> authority_ok (diff_authority ho b a)"
  by (auto simp: authority_ok_def diff_authority_def hash_orders_ok_def intro: diff_action_refs_ok)

abbreviation risk_of :: "'j IntentVersionDiff \<Rightarrow> DiffRiskAnalysis" where
  "risk_of d \<equiv> analyze_diff_risk (ivd_scope d) (ivd_constraints d) (ivd_acceptance_criteria d) (ivd_authority d)"

lemma critical_iff:
  "ra_severity (analyze_diff_risk_with_config sd cs ac au cfg) = Severity.Critical \<longleftrightarrow>
     (\<exists>e \<in> set (csd_policy cs). is_must_constraint (option_or (cd_before e) (cd_after e))) \<or>
     (\<exists>e \<in> set (aud_forbidden_actions au). ard_change_type e = Removed) \<or>
     (\<exists>e \<in> set (aud_approval_requirements au). rd_change_type e = Removed)"
proof -
  have "fst (analyze_scope_risk sd) \<noteq> Severity.Critical"
    using analyze_scope_risk_facts(3) [of sd] by (auto simp: severity_order)
  then show ?thesis
    by (simp add: analysis_fields overall_severity max_eq_Critical analyze_constraints_risk_facts
        analyze_acceptance_criteria_risk_facts analyze_authority_risk_facts)
qed

lemma confidence_at_least_half:
  assumes "hash_orders_ok ho" and "d = diff_intent_version ho before after" and "change_count d \<le> 2 ^ 48"
  shows "1 / 2 \<le> ra_confidence (risk_of d)"
proof -
  have "authority_ok (ivd_authority d)"
    by (simp add: assms(2) diff_intent_version_def diff_authority_ok assms(1))
  then show ?thesis
    unfolding analyze_diff_risk_def analysis_fields
    by (intro confidence_floor accounted_analysis) (simp_all only: analysis_total assms(3))
qed

section \<open>Properties\<close>

text \<open>
  C7. The confidence score of the diff of any two versions lies between 1/2 and 1 in binary64
  arithmetic, for diffs of up to \<open>2\<^sup>4\<^sup>8\<close> entries: every entry is counted in exactly one matching class
  and the rounding errors of the weighted sum never push the score below the weight of an ambiguous match.
\<close>

theorem analyze_diff_risk_confidence_bounds:
  assumes "hash_orders_ok ho" and "d = diff_intent_version ho before after" and "change_count d \<le> 2 ^ 48"
  shows "1 / 2 \<le> ra_confidence (risk_of d) \<and> ra_confidence (risk_of d) \<le> 1"
proof
  show "1 / 2 \<le> ra_confidence (risk_of d)" by (rule confidence_at_least_half [OF assms])
  show "ra_confidence (risk_of d) \<le> 1"
    unfolding analyze_diff_risk_def analysis_fields
    by (simp add: compute_confidence_def f64_clamp_def Let_def)
qed

theorem analyze_diff_risk_confidence_bounds_witness:
  "change_count (diff_intent_version ex_orders ex_v1 ex_v2) = 4 \<and>
   1 / 2 \<le> ra_confidence (risk_of (diff_intent_version ex_orders ex_v1 ex_v2))"
proof -
  have "change_count (diff_intent_version ex_orders ex_v1 ex_v2) = 4" by code_simp
  then show ?thesis
    using analyze_diff_risk_confidence_bounds [OF ex_orders_ok(1) refl, of ex_v1 ex_v2] by simp
qed

text \<open>
  C8. A diff is of critical severity exactly when a policy constraint entry concerns a constraint of
  priority \<open>Must\<close> (of the earlier version if it has one), a forbidden action is removed or an approval
  rule is removed.
\<close>

theorem analyze_diff_risk_critical:
  "ra_severity (analyze_diff_risk_with_config sd cs ac au cfg) = Severity.Critical \<longleftrightarrow>
     (\<exists>e \<in> set (csd_policy cs). is_must_constraint (option_or (cd_before e) (cd_after e))) \<or>
     (\<exists>e \<in> set (aud_forbidden_actions au). ard_change_type e = Removed) \<or>
     (\<exists>e \<in> set (aud_approval_requirements au). rd_change_type e = Removed)"
  by (rule critical_iff)

lemma Low_iff: "s = Severity.Low \<longleftrightarrow> \<not> Severity.Medium \<le> s"
  by (cases s) (simp_all add: severity_order)

lemma sections_low:
  "fst (analyze_scope_risk (ivd_scope d)) = Severity.Low \<and>
   fst (analyze_constraints_risk (ivd_constraints d)) = Severity.Low \<and>
   fst (analyze_acceptance_criteria_risk (ivd_acceptance_criteria d)) = Severity.Low \<and>
   fst (analyze_authority_risk (ivd_authority d)) = Severity.Low \<longleftrightarrow> change_count d = 0"
proof -
  let ?s = "fst (analyze_scope_risk (ivd_scope d))" and ?c = "fst (analyze_constraints_risk (ivd_constraints d))"
    and ?a = "fst (analyze_acceptance_criteria_risk (ivd_acceptance_criteria d))"
    and ?u = "fst (analyze_authority_risk (ivd_authority d))"
  have "Severity.Medium \<le> ?u \<longleftrightarrow> 0 < authority_changes (ivd_authority d)"
  proof (cases "0 < authority_changes (ivd_authority d)")
    case True
    then show ?thesis
      using analyze_authority_risk_facts(4) [of "ivd_authority d"] by (meson order_trans severity_consts(1))
  next
    case False
    then have "ivd_authority d = \<lparr>aud_allowed_actions = [], aud_forbidden_actions = [], aud_approval_requirements = []\<rparr>"
      by (cases "ivd_authority d") (simp add: authority_changes_def)
    then have "?u = Severity.Low"
      by (simp add: analyze_authority_risk_def analyze_action_refs_risk_def analyze_approval_rules_risk_def stats_defs)
    with False show ?thesis by simp
  qed
  then show "?s = Severity.Low \<and> ?c = Severity.Low \<and> ?a = Severity.Low \<and> ?u = Severity.Low \<longleftrightarrow> change_count d = 0"
    unfolding Low_iff by (auto simp: change_count_def analyze_scope_risk_facts(2,4) analyze_constraints_risk_facts(4)
        analyze_acceptance_criteria_risk_facts(4))
qed

lemma low_iff: "ra_severity (risk_of d) = Severity.Low \<longleftrightarrow> change_count d = 0"
  unfolding analyze_diff_risk_def analysis_fields overall_severity sections_low [symmetric]
  by (simp add: Low_iff le_max_iff_disj)

lemma sections_empty_iff: "ra_section_risks (risk_of d) = [] \<longleftrightarrow> change_count d = 0"
  by (auto simp: analyze_diff_risk_def analysis_fields section_risk_def change_count_def analyze_scope_risk_facts(2)
      analyze_constraints_risk_facts(2) analyze_acceptance_criteria_risk_facts(2) analyze_authority_risk_facts(2))

lemma section_severity_le:
  "s \<in> set (ra_section_risks (risk_of d)) \<Longrightarrow> sr_severity s \<le> ra_severity (risk_of d)"
  unfolding analyze_diff_risk_def analysis_fields overall_severity set_filter section_risk_def
  by (auto simp: le_max_iff_disj)

lemma high_count_le:
  assumes "ra_severity (risk_of d) = Severity.Medium"
  shows "length (filter (\<lambda>s. Severity.High \<le> sr_severity s) (ra_section_risks (risk_of d))) = 0"
proof -
  have "\<not> Severity.High \<le> sr_severity s" if "s \<in> set (ra_section_risks (risk_of d))" for s
    using section_severity_le [OF that] assms by (metis order_trans severity_consts(2))
  then show ?thesis by (simp add: filter_empty_conv)
qed

text \<open>The diff has no entry in any of its lists.\<close>

definition no_entries :: "'j IntentVersionDiff \<Rightarrow> bool" where
  "no_entries d \<longleftrightarrow>
     d = \<lparr>ivd_scope = \<lparr>sd_in_scope = \<lparr>si_added = [], si_removed = []\<rparr>, sd_out_of_scope = \<lparr>si_added = [], si_removed = []\<rparr>\<rparr>,
          ivd_constraints = \<lparr>csd_functional = [], csd_non_functional = [], csd_policy = [], csd_budget = [], csd_time = []\<rparr>,
          ivd_acceptance_criteria = \<lparr>acsd_required = [], acsd_optional = []\<rparr>,
          ivd_authority = \<lparr>aud_allowed_actions = [], aud_forbidden_actions = [], aud_approval_requirements = []\<rparr>\<rparr>"

lemma change_count_0: "change_count d = 0 \<longleftrightarrow> no_entries d"
  unfolding no_entries_def
  by (cases d; cases "ivd_scope d"; cases "sd_in_scope (ivd_scope d)"; cases "sd_out_of_scope (ivd_scope d)";
      cases "ivd_constraints d"; cases "ivd_acceptance_criteria d"; cases "ivd_authority d")
    (auto simp: change_count_def authority_changes_def)

lemma no_changes_rationale:
  "ra_rationale (risk_of d) = Some ''No semantic changes detected - identical content with matching clause IDs''
     \<longleftrightarrow> change_count d = 0"
proof -
  have c: "compute_confidence (analysis_stats (ivd_scope d) (ivd_constraints d) (ivd_acceptance_criteria d) (ivd_authority d)) = 1"
    if "change_count d = 0"
    using that by (simp add: compute_confidence_def analysis_total)
  have "rnd (95 / 100) \<le> 1" by (rule rnd.at_most_1) simp
  then show ?thesis
    using c sections_low [of d] by (auto simp: analyze_diff_risk_def analysis_rationale generate_rationale_def analysis_sections_def
        Let_def split: Severity.splits)
qed

text \<open>
  C9. Severity \<open>Low\<close>, an empty list of section risks and the rationale "no semantic changes" are three
  ways the analysis says one thing: the diff has no entry at all, in none of its lists, be it of items in scope or out
  of scope, of constraints, of acceptance criteria or of the authority.
\<close>

theorem analyze_diff_risk_low:
  "(ra_severity (risk_of d) = Severity.Low \<longleftrightarrow> no_entries d) \<and>
   (ra_section_risks (risk_of d) = [] \<longleftrightarrow> no_entries d) \<and>
   (ra_rationale (risk_of d) = Some ''No semantic changes detected - identical content with matching clause IDs''
      \<longleftrightarrow> no_entries d)"
  using low_iff sections_empty_iff no_changes_rationale unfolding change_count_0 by blast

text \<open>Sections of severity \<open>High\<close> or more have changes, so the filtered list keeps them.\<close>

lemma high_sections:
  "length (filter (\<lambda>(_, s). s = Severity.High \<or> s = Severity.Critical) (analysis_sections sd cs ac au)) =
   length (filter (\<lambda>r. Severity.High \<le> sr_severity r) (ra_section_risks (analyze_diff_risk_with_config sd cs ac au cfg)))"
proof -
  have high: "s = Severity.High \<or> s = Severity.Critical \<longleftrightarrow> Severity.High \<le> s" for s
    by (cases s) (simp_all add: severity_order)
  have med: "Severity.High \<le> s \<Longrightarrow> Severity.Medium \<le> s" for s
    by (rule order_trans [OF severity_consts(1)])
  have s: "\<not> Severity.High \<le> fst (analyze_scope_risk sd)"
    by (rule analyze_scope_risk_facts(3))
  have c: "0 < total_changes (snd (analyze_constraints_risk cs))" if "Severity.High \<le> fst (analyze_constraints_risk cs)"
    using med [OF that] unfolding analyze_constraints_risk_facts(2,4) length_greater_0_conv .
  have a: "0 < total_changes (snd (analyze_acceptance_criteria_risk ac))"
    if "Severity.High \<le> fst (analyze_acceptance_criteria_risk ac)"
    using med [OF that] unfolding analyze_acceptance_criteria_risk_facts(2,4) length_greater_0_conv .
  have u: "0 < total_changes (snd (analyze_authority_risk au))" if "Severity.High \<le> fst (analyze_authority_risk au)"
    using that unfolding analyze_authority_risk_facts(2,4) .
  have keep: "filter P (filter Q xs) = filter P xs" if "\<forall>x \<in> set xs. P x \<longrightarrow> Q x" for P Q and xs :: "SectionRisk list"
    using that by (induction xs) auto
  show ?thesis
    unfolding analysis_fields analysis_sections_def high section_risk_def
    by (subst keep) (use s c a u in \<open>simp_all del: neq0_conv\<close>)
qed

lemma should_manual_review_iff:
  "fst (should_manual_review s c secs policy removed cfg) \<longleftrightarrow>
     s = Severity.Critical \<or> c < confidence_threshold cfg \<or> policy \<or>
     max_high_severity_before_manual_review cfg \<le>
       length (filter (\<lambda>(_, s). s = Severity.High \<or> s = Severity.Critical) secs) \<or> removed"
  by (auto simp: should_manual_review_def Let_def)

text \<open>
  C10. Manual review is asked for exactly in four situations: critical severity, confidence below the
  configured threshold, any entry in the policy constraints, or as many sections of severity \<open>High\<close> or more
  as the configuration allows. The fifth test of the code, for removed approval rules, never decides:
  a removed rule already makes the diff critical.
\<close>

theorem analyze_diff_risk_manual_review:
  "ra_manual_review (analyze_diff_risk_with_config sd cs ac au cfg) \<longleftrightarrow>
     ra_severity (analyze_diff_risk_with_config sd cs ac au cfg) = Severity.Critical \<or>
     ra_confidence (analyze_diff_risk_with_config sd cs ac au cfg) < confidence_threshold cfg \<or>
     0 < length (csd_policy cs) \<or>
     max_high_severity_before_manual_review cfg \<le>
       length (filter (\<lambda>r. Severity.High \<le> sr_severity r) (ra_section_risks (analyze_diff_risk_with_config sd cs ac au cfg)))"
proof -
  have "policy_changed_in cs \<longleftrightarrow> 0 < length (csd_policy cs)"
    by (auto simp: policy_changed_in_def)
  moreover have "(\<exists>r \<in> set (aud_approval_requirements au). rd_change_type r = Removed) \<Longrightarrow>
      ra_severity (analyze_diff_risk_with_config sd cs ac au cfg) = Severity.Critical"
    by (simp add: critical_iff)
  ultimately show ?thesis
    unfolding high_sections [symmetric] analysis_fields(1-3) should_manual_review_iff by blast
qed

end
