(* ===== verification/Planner_Laws.thy ===== *)
theory Planner_Laws
  imports Planner Risk_Laws
begin

text \<open>
  What the planner decides. The decision class of a diff with its own risk analysis follows a closed
  table; the plan always exists (the \<open>unreachable!()\<close> arm of the checkpoint selection is never reached);
  removing a restriction forces the highest class end to end.
\<close>

section \<open>Decision classes\<close>

lemma is_diff_empty_iff: "is_diff_empty d \<longleftrightarrow> change_count d = 0"
  by (auto simp: is_diff_empty_def change_count_def authority_changes_def)

text \<open>The number of sections of severity \<open>High\<close> or more, as the planner counts it.\<close>

abbreviation high_count :: "DiffRiskAnalysis \<Rightarrow> nat" where
  "high_count r \<equiv> length (filter (\<lambda>s. Severity.High \<le> sr_severity s) (ra_section_risks r))"

lemma high_or_critical: "s = Severity.High \<or> s = Severity.Critical \<longleftrightarrow> Severity.High \<le> s"
  by (cases s) (simp_all add: severity_order)

lemma compute_decision_class_risk:
  "compute_decision_class d r =
     (if change_count d = 0 then A
      else if ra_severity r = Severity.Critical \<or> 3 \<le> high_count r then E
      else if ra_severity r = Severity.High then (if ra_manual_review r \<or> 2 \<le> high_count r then D else C)
      else if ra_severity r = Severity.Medium then
        (let n = length (filter (\<lambda>s. sr_change_count s > 0) (ra_section_risks r)) in
         if 3 \<le> n \<or> ra_manual_review r then D else if 2 \<le> n then C else B)
      else B)"
  by (simp add: compute_decision_class_def is_diff_empty_iff high_or_critical Let_def)


section \<open>Checkpoints\<close>

lemma with_heuristic_selects:
  "\<exists>sel. with_heuristic dc affected = Some sel \<and> \<not> cs_ready sel \<and>
     (if dc = A then cs_candidates sel = [] \<and> cs_selected sel = None
      else \<exists>c \<in> set (cs_candidates sel). cs_selected sel = Some c)"
  by (cases dc) (auto simp: with_heuristic_def compute_checkpoint_candidates_def select_best_checkpoint_def
      select_checkpoint_id_def checkpoint_def Let_def)

lemma from_diff_and_risk_Some:
  "\<exists>p. from_diff_and_risk fm d r = Some p \<and> rp_decision_class p = compute_decision_class d r \<and>
     rp_risk_level p = compute_risk_level (compute_decision_class d r) r \<and>
     rp_risk_tier p = to_risk_tier (ra_severity r) \<and>
     rp_manual_review_recommended p = (ra_manual_review r \<or> ra_severity r = Severity.Critical \<or>
       ra_severity r = Severity.High \<or> compute_decision_class d r \<noteq> A) \<and>
     with_heuristic (compute_decision_class d r) AffectedItemsPreview_unavailable =
       Some (df_checkpoint_selection (rp_deferred p)) \<and>
     \<not> rv_ready (df_approval_revalidation (rp_deferred p)) \<and> \<not> cp_ready (df_compensation (rp_deferred p))"
proof -
  obtain sel where "with_heuristic (compute_decision_class d r) AffectedItemsPreview_unavailable = Some sel"
    using with_heuristic_selects by blast
  then show ?thesis
    by (simp add: from_diff_and_risk_def phase1_baseline_def with_affected_approvals_def with_side_effects_def Let_def)
qed

section \<open>Removed restrictions\<close>

lemma removed_action_entry:
  assumes "hash_iteration itb" and "hash_iteration ita" and "x \<in> set before" and "x \<notin> set after"
  shows "action_removed x \<in> set (diff_action_refs itb ita before after)"
proof (cases "matchable action_key before x")
  case True
  then have "map_of (by_key action_key before) (a_action x, a_target x) = Some x"
    using assms(3) by (simp add: map_of_by_key)
  moreover have "map_of (by_key action_key after) (a_action x, a_target x) = None"
  proof (rule ccontr)
    assume "\<not> ?thesis"
    then obtain y where "map_of (by_key action_key after) (a_action x, a_target x) = Some y"
      by (auto simp del: map_of_eq_Some_iff)
    then have "y \<in> set after" "a_action y = a_action x" "a_target y = a_target x"
      by (simp_all add: map_of_by_key)
    with assms(4) show False by (metis ActionRef.equality unit.exhaust)
  qed
  ultimately show ?thesis
    unfolding diff_action_refs_eq [OF assms(1,2)] action_diff.mem_the_diff [OF assms(1,2)] by blast
next
  case False
  then have "x \<in> set (ambiguous action_key before)"
    using assms(3) by (simp add: ambiguous_def)
  then show ?thesis
    unfolding diff_action_refs_eq [OF assms(1,2)] action_diff.mem_the_diff [OF assms(1,2)] by blast
qed

lemma removed_rule_entry:
  assumes "hash_iteration itb" and "hash_iteration ita" and "x \<in> set before"
    and "r_rule_id x \<notin> r_rule_id ` set after"
  shows "rule_removed x \<in> set (diff_approval_rules itb ita before after)"
proof (cases "matchable rule_key before x")
  case True
  then have "map_of (by_key rule_key before) (r_rule_id x) = Some x"
    using assms(3) by (simp add: map_of_by_key)
  moreover have "map_of (by_key rule_key after) (r_rule_id x) = None"
    using assms(4) by (force simp: map_of_eq_None_iff by_key_mem)
  ultimately show ?thesis
    unfolding diff_approval_rules_eq [OF assms(1,2)] rule_diff.mem_the_diff [OF assms(1,2)] by blast
next
  case False
  then have "x \<in> set (ambiguous rule_key before)"
    using assms(3) by (simp add: ambiguous_def)
  then show ?thesis
    unfolding diff_approval_rules_eq [OF assms(1,2)] rule_diff.mem_the_diff [OF assms(1,2)] by blast
qed

lemma critical_class:
  assumes "ra_severity (risk_of d) = Severity.Critical"
  shows "compute_decision_class d (risk_of d) = E"
proof -
  have "change_count d \<noteq> 0"
    using low_iff [of d] assms by auto
  with assms show ?thesis by (simp add: compute_decision_class_risk)
qed

text \<open>
  Two lists that a diff reports as unchanged: every item has a key of its own and the lists are
  permutations of one another.
\<close>

definition unchanged_by :: "('a \<Rightarrow> 'k option) \<Rightarrow> 'a list \<Rightarrow> 'a list \<Rightarrow> bool" where
  "unchanged_by key xs ys \<longleftrightarrow> distinct (map key xs) \<and> None \<notin> key ` set xs \<and> mset xs = mset ys"

definition same_intent :: "'j IntentPayload \<Rightarrow> 'j IntentPayload \<Rightarrow> bool" where
  "same_intent p q \<longleftrightarrow>
     mset (in_scope (p_scope p)) = mset (in_scope (p_scope q)) \<and>
     mset (out_of_scope (p_scope p)) = mset (out_of_scope (p_scope q)) \<and>
     unchanged_by c_clause_id (ic_functional (p_constraints p)) (ic_functional (p_constraints q)) \<and>
     unchanged_by c_clause_id (ic_non_functional (p_constraints p)) (ic_non_functional (p_constraints q)) \<and>
     unchanged_by c_clause_id (ic_policy (p_constraints p)) (ic_policy (p_constraints q)) \<and>
     unchanged_by c_clause_id (ic_budget (p_constraints p)) (ic_budget (p_constraints q)) \<and>
     unchanged_by c_clause_id (ic_time (p_constraints p)) (ic_time (p_constraints q)) \<and>
     unchanged_by ac_clause_id (ac_required (p_acceptance_criteria p)) (ac_required (p_acceptance_criteria q)) \<and>
     unchanged_by ac_clause_id (ac_optional (p_acceptance_criteria p)) (ac_optional (p_acceptance_criteria q)) \<and>
     unchanged_by action_key (ia_allowed_actions (p_authority p)) (ia_allowed_actions (p_authority q)) \<and>
     unchanged_by action_key (ia_forbidden_actions (p_authority p)) (ia_forbidden_actions (p_authority q)) \<and>
     unchanged_by rule_key (ia_approval_requirements (p_authority p)) (ia_approval_requirements (p_authority q))"

lemma ambiguous_Nil_iff: "ambiguous key xs = [] \<longleftrightarrow> distinct (map key xs) \<and> None \<notin> key ` set xs"
proof -
  have "distinct ks \<longleftrightarrow> (\<forall>k \<in> set ks. count_list ks k = 1)" for ks :: "'b option list"
    unfolding distinct_count_atmost_1 count_mset by (auto simp: count_list_0_iff)
  then show ?thesis
    by (auto simp: ambiguous_def filter_empty_conv matchable_def image_iff split: option.splits) (metis option.exhaust)+
qed

lemma unchanged_by_iff:
  "ambiguous key xs = [] \<and> ambiguous key ys = [] \<and> mset xs = mset ys \<longleftrightarrow> unchanged_by key xs ys"
proof -
  have "distinct (map key xs) = distinct (map key ys)" "set xs = set ys" if "mset xs = mset ys"
    using that by (metis mset_eq_imp_distinct_iff mset_map, metis mset_eq_setD)
  then show ?thesis
    unfolding unchanged_by_def ambiguous_Nil_iff by metis
qed

lemma scope_unchanged: "si_added (diff_string_lists xs ys) = [] \<and> si_removed (diff_string_lists xs ys) = [] \<longleftrightarrow> mset xs = mset ys"
proof -
  have "sorted_list_of_multiset M = [] \<longleftrightarrow> M = {#}" for M :: "string multiset"
    by (metis mset_sorted_list_of_multiset mset_zero_iff)
  moreover have "mset ys - mset xs = {#} \<and> mset xs - mset ys = {#} \<longleftrightarrow> mset xs = mset ys"
    by (metis Diff_eq_empty_iff_mset subset_mset.eq_iff)
  ultimately show ?thesis by (auto simp: diff_string_lists_eq)
qed

lemma diff_empty_iff:
  assumes "hash_orders_ok ho"
  shows "change_count (diff_intent_version ho before after) = 0 \<longleftrightarrow> same_intent (v_payload before) (v_payload after)"
proof -
  have it: "hash_iteration (ho_constraint ho s)" "hash_iteration (ho_criterion ho s)"
      "hash_iteration (ho_action ho s)" "hash_iteration (ho_rule ho s)" for s
    using assms by (simp_all add: hash_orders_ok_def)
  show ?thesis
    unfolding is_diff_empty_iff [symmetric] is_diff_empty_def same_intent_def unchanged_by_iff [symmetric]
      scope_unchanged [symmetric]
    by (auto simp: diff_intent_version_def diff_scope_def diff_constraints_section_def
        diff_acceptance_criteria_section_def diff_authority_def keyed_diff_eqs it
        constraint_diff.the_diff_empty_iff criterion_diff.the_diff_empty_iff
        action_diff.the_diff_empty_iff rule_diff.the_diff_empty_iff)
qed

text \<open>Concrete text formats for the witnesses.\<close>

definition ex_formats :: formats where
  "ex_formats = \<lparr>uuid_str = (\<lambda>u. show_nat (unat u)), f64_debug = (\<lambda>x. show_int \<lfloor>x\<rfloor>)\<rparr>"

section \<open>Properties\<close>


text \<open>
  C12. The planner never panics and always returns a plan whose checkpoint is sound: outside class A the
  selected checkpoint is one of the candidates, in class A there is no candidate and none is selected. No part of the
  plan claims to be ready: neither the checkpoint selection nor the revalidation of approvals nor the compensation.
\<close>

theorem generate_plan_total:
  "\<exists>p. generate_plan fm d = Some p \<and>
     \<not> cs_ready (df_checkpoint_selection (rp_deferred p)) \<and>
     \<not> rv_ready (df_approval_revalidation (rp_deferred p)) \<and>
     \<not> cp_ready (df_compensation (rp_deferred p)) \<and>
     (if rp_decision_class p = A
      then cs_candidates (df_checkpoint_selection (rp_deferred p)) = [] \<and> cs_selected (df_checkpoint_selection (rp_deferred p)) = None
      else \<exists>c \<in> set (cs_candidates (df_checkpoint_selection (rp_deferred p))).
             cs_selected (df_checkpoint_selection (rp_deferred p)) = Some c)"
proof -
  let ?c = "compute_decision_class d (risk_of d)"
  obtain p where p: "from_diff_and_risk fm d (risk_of d) = Some p" "rp_decision_class p = ?c"
    "with_heuristic ?c AffectedItemsPreview_unavailable = Some (df_checkpoint_selection (rp_deferred p))"
    "\<not> rv_ready (df_approval_revalidation (rp_deferred p))" "\<not> cp_ready (df_compensation (rp_deferred p))"
    using from_diff_and_risk_Some [of fm d "risk_of d"] by auto
  from with_heuristic_selects [of ?c AffectedItemsPreview_unavailable] p(2-5) show ?thesis
    by (intro exI [of _ p]) (auto simp: generate_plan_def p(1) split: if_splits)
qed

text \<open>
  C13. For the diff of two versions (of up to \<open>2\<^sup>4\<^sup>8\<close> entries) the risk level is the position of the decision
  class: 1 for A up to 5 for E. The branch that raises class B to level 3 for a confidence below 0.5 is
  never taken, because the confidence cannot fall below 0.5.
\<close>

theorem generate_plan_risk_level:
  assumes "hash_orders_ok ho" and "d = diff_intent_version ho before after" and "change_count d \<le> 2 ^ 48"
  shows "\<exists>p. generate_plan fm d = Some p \<and>
    rp_risk_level p = (case rp_decision_class p of A \<Rightarrow> 1 | B \<Rightarrow> 2 | C \<Rightarrow> 3 | D \<Rightarrow> 4 | E \<Rightarrow> 5)"
proof -
  obtain p where p: "generate_plan fm d = Some p" "rp_decision_class p = compute_decision_class d (risk_of d)"
    "rp_risk_level p = compute_risk_level (compute_decision_class d (risk_of d)) (risk_of d)"
    using from_diff_and_risk_Some [of fm d "risk_of d"] by (auto simp: generate_plan_def)
  have "\<not> ra_confidence (risk_of d) < rnd (1 / 2)"
    using confidence_at_least_half [OF assms] unfolding rnd_half by simp
  with p show ?thesis
    by (auto simp: compute_risk_level_def split: DecisionClass.splits)
qed

theorem generate_plan_risk_level_witness:
  "\<exists>p. generate_plan ex_formats (diff_intent_version ex_orders ex_v1 ex_v2) = Some p \<and>
    rp_risk_level p = (case rp_decision_class p of A \<Rightarrow> 1 | B \<Rightarrow> 2 | C \<Rightarrow> 3 | D \<Rightarrow> 4 | E \<Rightarrow> 5)"
proof -
  have "change_count (diff_intent_version ex_orders ex_v1 ex_v2) = 4" by code_simp
  then have "change_count (diff_intent_version ex_orders ex_v1 ex_v2) \<le> 2 ^ 48" by simp
  then show ?thesis by (rule generate_plan_risk_level [OF ex_orders_ok(1) refl])
qed

text \<open>
  C14. Lifting a restriction is never planned silently: if a forbidden action of the earlier version is
  absent from the later one, or an approval rule id disappears, the plan is of class E, level 5, risk tier
  \<open>Critical\<close>, and recommends manual review.
\<close>

theorem generate_plan_restriction_removed:
  assumes "hash_orders_ok ho" and "d = diff_intent_version ho before after"
    and "(x \<in> set (ia_forbidden_actions (p_authority (v_payload before))) \<and>
          x \<notin> set (ia_forbidden_actions (p_authority (v_payload after)))) \<or>
         (y \<in> set (ia_approval_requirements (p_authority (v_payload before))) \<and>
          r_rule_id y \<notin> r_rule_id ` set (ia_approval_requirements (p_authority (v_payload after))))"
  shows "\<exists>p. generate_plan fm d = Some p \<and> rp_decision_class p = E \<and> rp_risk_level p = 5 \<and>
    rp_risk_tier p = RiskTier.Critical \<and> rp_manual_review_recommended p"
proof -
  have ok: "hash_iteration (ho_action ho s)" "hash_iteration (ho_rule ho s)" for s
    using assms(1) by (simp_all add: hash_orders_ok_def)
  have "(\<exists>e \<in> set (aud_forbidden_actions (ivd_authority d)). ard_change_type e = Removed) \<or>
      (\<exists>e \<in> set (aud_approval_requirements (ivd_authority d)). rd_change_type e = Removed)"
    using assms(3)
  proof
    assume "x \<in> set (ia_forbidden_actions (p_authority (v_payload before))) \<and>
      x \<notin> set (ia_forbidden_actions (p_authority (v_payload after)))"
    then have "action_removed x \<in> set (aud_forbidden_actions (ivd_authority d))"
      by (simp add: assms(2) diff_intent_version_def diff_authority_def removed_action_entry ok)
    moreover have "ard_change_type (action_removed x) = Removed" by (simp add: entry_defs)
    ultimately show ?thesis by blast
  next
    assume "y \<in> set (ia_approval_requirements (p_authority (v_payload before))) \<and>
      r_rule_id y \<notin> r_rule_id ` set (ia_approval_requirements (p_authority (v_payload after)))"
    then have "rule_removed y \<in> set (aud_approval_requirements (ivd_authority d))"
      by (simp add: assms(2) diff_intent_version_def diff_authority_def removed_rule_entry ok)
    moreover have "rd_change_type (rule_removed y) = Removed" by (simp add: entry_defs)
    ultimately show ?thesis by blast
  qed
  then have crit: "ra_severity (risk_of d) = Severity.Critical"
    unfolding analyze_diff_risk_def critical_iff by blast
  from from_diff_and_risk_Some [of fm d "risk_of d"] show ?thesis
    unfolding critical_class [OF crit] crit
    by (auto simp: generate_plan_def compute_risk_level_def to_risk_tier_def)
qed

theorem generate_plan_restriction_removed_witness:
  "\<exists>p. generate_plan ex_formats (diff_intent_version ex_orders ex_v1 ex_v2) = Some p \<and> rp_decision_class p = E \<and>
     rp_risk_level p = 5 \<and> rp_risk_tier p = RiskTier.Critical \<and> rp_manual_review_recommended p"
  by (rule generate_plan_restriction_removed [OF ex_orders_ok(1) refl, of "\<lparr>a_action = ''deploy'', a_target = None\<rparr>"])
    (simp add: ex_v1_def ex_v2_def ex_version_def ex_payload_def)

text \<open>
  C15. A plan is of class A (nothing to do) exactly when the two versions state the same intent: the scope
  lists are permutations of one another, and in each keyed list every item has a key of its own and the
  items are the same. In particular two identical versions with a clause that has no id are not class A.
\<close>

theorem generate_plan_class_A:
  assumes "hash_orders_ok ho"
  shows "\<exists>p. generate_plan fm (diff_intent_version ho before after) = Some p \<and>
    (rp_decision_class p = A \<longleftrightarrow> same_intent (v_payload before) (v_payload after))"
proof -
  let ?d = "diff_intent_version ho before after"
  have "compute_decision_class ?d (risk_of ?d) = A \<longleftrightarrow> change_count ?d = 0"
    by (simp add: compute_decision_class_risk Let_def)
  then show ?thesis
    using from_diff_and_risk_Some [of fm ?d "risk_of ?d"] diff_empty_iff [OF assms, of before after]
    by (auto simp: generate_plan_def)
qed

theorem generate_plan_class_A_witness:
  "\<exists>p. generate_plan ex_formats (diff_intent_version ex_orders ex_v2 ex_v2) = Some p \<and> rp_decision_class p = A"
  using generate_plan_class_A [OF ex_orders_ok(1), of ex_formats ex_v2 ex_v2]
  by (simp add: same_intent_def unchanged_by_def ex_v2_def ex_version_def ex_payload_def ex_constraint_def)

end
