(* ===== verification/Indexed.thy ===== *)
theory Indexed
  imports Prelude
begin

text \<open>
  Tables with secondary indices. The in-memory repositories of the program share one layout: a hash map
  from identifiers to values and further hash maps from a key of the value to the vector of
  identifiers that have this key. \<open>index_ok\<close> says that such an index is exact; the lemmas say what the
  operations of the repositories keep of it. The lookup of the repositories, \<open>indexed\<close>, then returns
  precisely the values with the key, each once. A key may be absent (\<open>index_ok_opt\<close>).
\<close>

section \<open>Operations\<close>

text \<open>\<open>index.entry(k).or_insert_with(Vec::new).push(i)\<close> and the \<open>retain\<close> of a deletion.\<close>

definition index_push :: "'k \<Rightarrow> 'i \<Rightarrow> ('k, 'i list) hmap \<Rightarrow> ('k, 'i list) hmap" where
  "index_push k i m = hm_insert k ((case map_of m k of Some ids \<Rightarrow> ids | None \<Rightarrow> []) @ [i]) m"

definition index_retain :: "'k \<Rightarrow> 'i \<Rightarrow> ('k, 'i list) hmap \<Rightarrow> ('k, 'i list) hmap" where
  "index_retain k i m = (case map_of m k of Some ids \<Rightarrow> hm_insert k (filter (\<lambda>j. j \<noteq> i) ids) m | None \<Rightarrow> m)"

text \<open>\<open>index.get(k).cloned().unwrap_or_default()\<close>, and the values found in the table by \<open>filter_map\<close>.\<close>

abbreviation index_ids :: "('k, 'i list) hmap \<Rightarrow> 'k \<Rightarrow> 'i list" where
  "index_ids m k \<equiv> case map_of m k of Some ids \<Rightarrow> ids | None \<Rightarrow> []"

definition indexed :: "('i, 'v) hmap \<Rightarrow> ('k, 'i list) hmap \<Rightarrow> 'k \<Rightarrow> 'v list" where
  "indexed t m k = List.map_filter (map_of t) (index_ids m k)"

text \<open>\<open>sort_by_key(|v| Reverse(stamp(v)))\<close>: a stable sort, newest first.\<close>

definition newest_first :: "('v \<Rightarrow> timestamp) \<Rightarrow> 'v list \<Rightarrow> 'v list" where
  "newest_first stamp = sort_key (\<lambda>v. - stamp v)"

section \<open>Exact indices\<close>

definition index_ok_opt :: "('v \<Rightarrow> 'k option) \<Rightarrow> ('i, 'v) hmap \<Rightarrow> ('k, 'i list) hmap \<Rightarrow> bool" where
  "index_ok_opt key t m \<longleftrightarrow> (\<forall>k. distinct (index_ids m k) \<and>
     (\<forall>i. i \<in> set (index_ids m k) \<longleftrightarrow> (\<exists>v. map_of t i = Some v \<and> key v = Some k)))"

abbreviation index_ok :: "('v \<Rightarrow> 'k) \<Rightarrow> ('i, 'v) hmap \<Rightarrow> ('k, 'i list) hmap \<Rightarrow> bool" where
  "index_ok key \<equiv> index_ok_opt (\<lambda>v. Some (key v))"

lemma index_ids_push: "index_ids (index_push k i m) k' = (if k' = k then index_ids m k @ [i] else index_ids m k')"
  by (simp add: index_push_def)

lemma index_ids_retain:
  "index_ids (index_retain k i m) k' = (if k' = k then filter (\<lambda>j. j \<noteq> i) (index_ids m k) else index_ids m k')"
  by (auto simp: index_retain_def split: option.splits)

lemma index_okD:
  assumes "index_ok_opt key t m"
  shows "distinct (index_ids m k)" and "i \<in> set (index_ids m k) \<longleftrightarrow> (\<exists>v. map_of t i = Some v \<and> key v = Some k)"
  using assms by (simp_all add: index_ok_opt_def)

lemma index_ok_empty [simp]: "index_ok_opt key [] []"
  by (simp add: index_ok_opt_def)

text \<open>A fresh entry: it is pushed under its key, or not at all when it has none.\<close>

lemma index_ok_push_opt:
  assumes ok: "index_ok_opt key t m" and fresh: "map_of t i = None"
  shows "index_ok_opt key (hm_insert i v t) (case key v of Some k \<Rightarrow> index_push k i m | None \<Rightarrow> m)"
proof (cases "key v")
  case None
  then show ?thesis unfolding index_ok_opt_def using index_okD [OF ok] fresh by auto
next
  case (Some k)
  note old = index_okD [OF ok]
  show ?thesis
    unfolding index_ok_opt_def Some option.case index_ids_push
    using old Some fresh by auto
qed

lemma index_ok_push:
  assumes "index_ok key t m" and "map_of t i = None" and "key v = k"
  shows "index_ok key (hm_insert i v t) (index_push k i m)"
  using index_ok_push_opt [OF assms(1,2), of v] assms(3) by simp

lemma index_ok_retain:
  assumes ok: "index_ok key t m" and v: "map_of t i = Some v" "key v = k"
  shows "index_ok key (hm_remove i t) (index_retain k i m)"
  unfolding index_ok_opt_def index_ids_retain
  using index_okD [OF ok] v by auto

text \<open>An update that keeps the key, and one that moves the entry to another key.\<close>

lemma index_ok_update:
  assumes ok: "index_ok_opt key t m" and v: "map_of t i = Some v" "key v' = key v"
  shows "index_ok_opt key (hm_insert i v' t) m"
  unfolding index_ok_opt_def using index_okD [OF ok] v by auto

lemma index_ok_move:
  assumes ok: "index_ok key t m" and v: "map_of t i = Some v" "key v = k"
  shows "index_ok key (hm_insert i v' t) (index_push (key v') i (index_retain k i m))"
  unfolding index_ok_opt_def index_ids_push index_ids_retain
  using index_okD [OF ok] v by auto

section \<open>Lookups\<close>

lemma set_map_filter: "set (List.map_filter f xs) = {y. \<exists>x \<in> set xs. f x = Some y}"
  by (induction xs) (auto simp: map_filter_simps split: option.splits)

lemma set_indexed:
  assumes "index_ok_opt key t m"
  shows "set (indexed t m k) = {v. (\<exists>i. map_of t i = Some v) \<and> key v = Some k}"
  unfolding indexed_def set_map_filter using index_okD [OF assms] by auto

text \<open>When the values know their identifier, a lookup lists every value once.\<close>

lemma distinct_indexed:
  assumes ok: "index_ok_opt key t m" and ident: "\<And>i v. map_of t i = Some v \<Longrightarrow> ident v = i"
  shows "distinct (map ident (indexed t m k))"
proof -
  have "\<forall>i \<in> set ids. \<exists>v. map_of t i = Some v \<Longrightarrow> map ident (List.map_filter (map_of t) ids) = ids" for ids
    using ident by (induction ids) (auto simp: map_filter_simps simp del: map_of_eq_Some_iff)
  then have "map ident (indexed t m k) = index_ids m k"
    unfolding indexed_def using index_okD(2) [OF ok] by blast
  then show ?thesis using index_okD(1) [OF ok] by metis
qed

lemma set_newest_first [simp]: "set (newest_first stamp xs) = set xs"
  by (simp add: newest_first_def)

lemma mset_newest_first [simp]: "mset (newest_first stamp xs) = mset xs"
  by (simp add: newest_first_def)

end
