(* ===== verification/Graph_Repo.thy ===== *)
theory Graph_Repo
  imports Graph_Types Indexed
begin

text \<open>
  The graph repository, \<open>crates/graph-service/src/in_memory.rs\<close>, and the node lookups of \<open>lib.rs\<close>.
  One \<open>RwLock\<close> guards the whole state and every operation takes it once, so each operation is an atomic
  function on \<open>GraphState\<close>. The values an operation takes from outside (a new \<open>Uuid\<close>, the clock, the text
  of a \<open>Uuid\<close>, JSON literals) are arguments; \<open>fresh_node\<close> and \<open>fresh_edge\<close> say that a new \<open>Uuid\<close> is
  not in use, which is what version 4 identifiers are relied on for.
\<close>

section \<open>State and environment\<close>

record 'j platform =
  pf_uuid_str :: "uuid \<Rightarrow> string"
  pf_json_empty :: 'j
  pf_json_edge :: "string \<Rightarrow> string \<Rightarrow> 'j"

record 'j GraphState =
  gs_nodes :: "(uuid, 'j GraphNode) hmap"
  gs_edges :: "(uuid, 'j GraphEdge) hmap"
  gs_edges_by_from :: "(uuid, uuid list) hmap"
  gs_edges_by_to :: "(uuid, uuid list) hmap"

definition GraphState_default :: "'j GraphState" where
  "GraphState_default = \<lparr>gs_nodes = [], gs_edges = [], gs_edges_by_from = [], gs_edges_by_to = []\<rparr>"

definition fresh_node :: "uuid \<Rightarrow> 'j GraphState \<Rightarrow> bool" where
  "fresh_node i g \<longleftrightarrow> map_of (gs_nodes g) i = None"

definition fresh_edge :: "uuid \<Rightarrow> 'j GraphState \<Rightarrow> bool" where
  "fresh_edge i g \<longleftrightarrow> map_of (gs_edges g) i = None"

section \<open>Nodes\<close>

definition create_node ::
  "'j platform \<Rightarrow> uuid \<Rightarrow> timestamp \<Rightarrow> 'j CreateGraphNodeRequest \<Rightarrow> 'j GraphState \<Rightarrow>
   'j GraphNode ire_result \<times> 'j GraphState" where
  "create_node pf i now r g =
     (let node = \<lparr>gn_id = i, gn_tenant_id = nr_tenant_id r, gn_workflow_id = nr_workflow_id r,
            gn_node_type = nr_node_type r, gn_external_ref = nr_external_ref r, gn_label = nr_label r,
            gn_state = NodeState.Active,
            gn_properties = (case nr_properties r of Some p \<Rightarrow> p | None \<Rightarrow> pf_json_empty pf),
            gn_created_at = now\<rparr>
      in (Inr node, g\<lparr>gs_nodes := hm_insert i node (gs_nodes g)\<rparr>))"

definition get_node :: "'j GraphState \<Rightarrow> uuid \<Rightarrow> 'j GraphNode ire_result" where
  "get_node g i = (case map_of (gs_nodes g) i of Some n \<Rightarrow> Inr n | None \<Rightarrow> Inl (GraphNodeNotFound i))"

text \<open>\<open>if let Some(x) = filter.f \<open>{\<close> result.retain(...) \<open>}\<close>\<close>.\<close>

definition retain_if :: "'f option \<Rightarrow> ('a \<Rightarrow> 'f) \<Rightarrow> 'a list \<Rightarrow> 'a list" where
  "retain_if f get xs = (case f of None \<Rightarrow> xs | Some v \<Rightarrow> filter (\<lambda>x. get x = v) xs)"

definition list_nodes ::
  "(uuid, 'j GraphNode) hash_iter \<Rightarrow> 'j GraphState \<Rightarrow> GraphNodeFilter \<Rightarrow> 'j GraphNode list ire_result" where
  "list_nodes it g f =
     (let result = map snd (it (gs_nodes g));
          result = retain_if (nf_tenant_id f) gn_tenant_id result;
          result = retain_if (nf_workflow_id f) gn_workflow_id result;
          result = retain_if (nf_node_type f) gn_node_type result;
          result = retain_if (nf_state f) gn_state result
      in Inr result)"

definition update_node_state ::
  "uuid \<Rightarrow> NodeState \<Rightarrow> 'j GraphState \<Rightarrow> 'j GraphNode ire_result \<times> 'j GraphState" where
  "update_node_state i st g =
     (case map_of (gs_nodes g) i of
        None \<Rightarrow> (Inl (GraphNodeNotFound i), g)
      | Some n \<Rightarrow> let n' = n\<lparr>gn_state := st\<rparr> in (Inr n', g\<lparr>gs_nodes := hm_insert i n' (gs_nodes g)\<rparr>))"

section \<open>Edges\<close>

definition scope_error :: "'j platform \<Rightarrow> string \<Rightarrow> uuid \<Rightarrow> string \<Rightarrow> uuid \<Rightarrow> uuid \<Rightarrow> IntentRebaseError" where
  "scope_error pf which n what have want = GraphIntegrityError (which @ '' '' @ pf_uuid_str pf n @ '' belongs to '' @
     what @ '' '' @ pf_uuid_str pf have @ '' but edge has '' @ what @ '' '' @ pf_uuid_str pf want)"

definition create_edge ::
  "'j platform \<Rightarrow> uuid \<Rightarrow> timestamp \<Rightarrow> 'j CreateGraphEdgeRequest \<Rightarrow> 'j GraphState \<Rightarrow>
   'j GraphEdge ire_result \<times> 'j GraphState" where
  "create_edge pf i now r g =
     (case map_of (gs_nodes g) (eq_from_node_id r) of
        None \<Rightarrow> (Inl (GraphNodeNotFound (eq_from_node_id r)), g)
      | Some from_node \<Rightarrow>
          if gn_tenant_id from_node \<noteq> eq_tenant_id r then
            (Inl (scope_error pf ''from_node'' (eq_from_node_id r) ''tenant'' (gn_tenant_id from_node) (eq_tenant_id r)), g)
          else if gn_workflow_id from_node \<noteq> eq_workflow_id r then
            (Inl (scope_error pf ''from_node'' (eq_from_node_id r) ''workflow'' (gn_workflow_id from_node) (eq_workflow_id r)), g)
          else (case map_of (gs_nodes g) (eq_to_node_id r) of
             None \<Rightarrow> (Inl (GraphNodeNotFound (eq_to_node_id r)), g)
           | Some to_node \<Rightarrow>
               if gn_tenant_id to_node \<noteq> eq_tenant_id r then
                 (Inl (scope_error pf ''to_node'' (eq_to_node_id r) ''tenant'' (gn_tenant_id to_node) (eq_tenant_id r)), g)
               else if gn_workflow_id to_node \<noteq> eq_workflow_id r then
                 (Inl (scope_error pf ''to_node'' (eq_to_node_id r) ''workflow'' (gn_workflow_id to_node) (eq_workflow_id r)), g)
               else
                 let edge = \<lparr>ge_id = i, ge_tenant_id = eq_tenant_id r, ge_workflow_id = eq_workflow_id r,
                       ge_from_node_id = eq_from_node_id r, ge_to_node_id = eq_to_node_id r,
                       ge_edge_type = eq_edge_type r,
                       ge_properties = (case eq_properties r of Some p \<Rightarrow> p | None \<Rightarrow> pf_json_empty pf),
                       ge_created_at = now\<rparr>
                 in (Inr edge, g\<lparr>gs_edges := hm_insert i edge (gs_edges g),
                       gs_edges_by_from := index_push (ge_from_node_id edge) i (gs_edges_by_from g),
                       gs_edges_by_to := index_push (ge_to_node_id edge) i (gs_edges_by_to g)\<rparr>)))"

definition get_edge :: "'j GraphState \<Rightarrow> uuid \<Rightarrow> 'j GraphEdge ire_result" where
  "get_edge g i = (case map_of (gs_edges g) i of Some e \<Rightarrow> Inr e | None \<Rightarrow> Inl (GraphEdgeNotFound i))"

definition list_edges ::
  "(uuid, 'j GraphEdge) hash_iter \<Rightarrow> 'j GraphState \<Rightarrow> GraphEdgeFilter \<Rightarrow> 'j GraphEdge list ire_result" where
  "list_edges it g f =
     (let result = map snd (it (gs_edges g));
          result = retain_if (ef_tenant_id f) ge_tenant_id result;
          result = retain_if (ef_workflow_id f) ge_workflow_id result;
          result = retain_if (ef_from_node_id f) ge_from_node_id result;
          result = retain_if (ef_to_node_id f) ge_to_node_id result;
          result = retain_if (ef_edge_type f) ge_edge_type result
      in Inr result)"

text \<open>The loop that looks up the edges of an index entry and skips missing ones.\<close>

definition index_lookup :: "'j GraphState \<Rightarrow> (uuid, uuid list) hmap \<Rightarrow> uuid \<Rightarrow> 'j GraphEdge list" where
  "index_lookup g index n = indexed (gs_edges g) index n"

definition list_edges_from :: "'j GraphState \<Rightarrow> uuid \<Rightarrow> 'j GraphEdge list ire_result" where
  "list_edges_from g n = Inr (index_lookup g (gs_edges_by_from g) n)"

definition list_edges_to :: "'j GraphState \<Rightarrow> uuid \<Rightarrow> 'j GraphEdge list ire_result" where
  "list_edges_to g n = Inr (index_lookup g (gs_edges_by_to g) n)"

definition delete_edge :: "uuid \<Rightarrow> 'j GraphState \<Rightarrow> unit ire_result \<times> 'j GraphState" where
  "delete_edge i g =
     (case map_of (gs_edges g) i of
        None \<Rightarrow> (Inl (GraphEdgeNotFound i), g)
      | Some e \<Rightarrow> (Inr (), g\<lparr>gs_edges := hm_remove i (gs_edges g),
            gs_edges_by_from := index_retain (ge_from_node_id e) i (gs_edges_by_from g),
            gs_edges_by_to := index_retain (ge_to_node_id e) i (gs_edges_by_to g)\<rparr>))"

section \<open>Lookups of the service (lib.rs)\<close>

definition get_intent_nodes ::
  "(uuid, 'j GraphNode) hash_iter \<Rightarrow> 'j GraphState \<Rightarrow> uuid \<Rightarrow> 'j GraphNode list ire_result" where
  "get_intent_nodes it g intent_id =
     (case list_nodes it g \<lparr>nf_tenant_id = None, nf_workflow_id = None, nf_node_type = Some NodeType.Intent, nf_state = None\<rparr> of
        Inl e \<Rightarrow> Inl e
      | Inr nodes \<Rightarrow> Inr (filter (\<lambda>n. case gn_external_ref n of
            Some r \<Rightarrow> er_ref_type r = ExternalRefType.Intent \<and> er_ref_id r = intent_id | None \<Rightarrow> False) nodes))"

definition find_intent_version_node ::
  "(uuid, 'j GraphNode) hash_iter \<Rightarrow> 'j GraphState \<Rightarrow> uuid \<Rightarrow> 'j GraphNode option ire_result" where
  "find_intent_version_node it g intent_version_id =
     (case list_nodes it g \<lparr>nf_tenant_id = None, nf_workflow_id = None, nf_node_type = Some NodeType.IntentVersion, nf_state = None\<rparr> of
        Inl e \<Rightarrow> Inl e
      | Inr nodes \<Rightarrow> Inr (List.find (\<lambda>n. case gn_external_ref n of
            Some r \<Rightarrow> er_ref_id r = intent_version_id | None \<Rightarrow> False) nodes))"

section \<open>The invariant\<close>

text \<open>A node with the id \<open>n\<close> in the given tenant and workflow.\<close>

definition node_in :: "'j GraphState \<Rightarrow> uuid \<Rightarrow> uuid \<Rightarrow> uuid \<Rightarrow> bool" where
  "node_in g n t w \<longleftrightarrow> (case map_of (gs_nodes g) n of None \<Rightarrow> False
     | Some node \<Rightarrow> gn_tenant_id node = t \<and> gn_workflow_id node = w)"

definition graph_inv :: "'j GraphState \<Rightarrow> bool" where
  "graph_inv g \<longleftrightarrow>
     distinct (map fst (gs_nodes g)) \<and> distinct (map fst (gs_edges g)) \<and>
     (\<forall>i n. map_of (gs_nodes g) i = Some n \<longrightarrow> gn_id n = i) \<and>
     (\<forall>i e. map_of (gs_edges g) i = Some e \<longrightarrow> ge_id e = i \<and>
        node_in g (ge_from_node_id e) (ge_tenant_id e) (ge_workflow_id e) \<and>
        node_in g (ge_to_node_id e) (ge_tenant_id e) (ge_workflow_id e)) \<and>
     index_ok ge_from_node_id (gs_edges g) (gs_edges_by_from g) \<and>
     index_ok ge_to_node_id (gs_edges g) (gs_edges_by_to g)"

text \<open>The operations a client can run, as steps; new identifiers are fresh.\<close>

inductive graph_step :: "'j GraphState \<Rightarrow> 'j GraphState \<Rightarrow> bool" where
  step_create_node: "fresh_node i g \<Longrightarrow> graph_step g (snd (create_node pf i now r g))"
| step_update_node: "graph_step g (snd (update_node_state i st g))"
| step_create_edge: "fresh_edge i g \<Longrightarrow> graph_step g (snd (create_edge pf i now r g))"
| step_delete_edge: "graph_step g (snd (delete_edge i g))"

inductive graph_reachable :: "'j GraphState \<Rightarrow> bool" where
  reach_default: "graph_reachable GraphState_default"
| reach_step: "graph_reachable g \<Longrightarrow> graph_step g g' \<Longrightarrow> graph_reachable g'"

inductive_cases graph_stepE: "graph_step g g'"

end
