(* ===== verification/Ingestion.thy ===== *)
theory Ingestion
  imports Graph_Repo
begin

text \<open>
  Ingestion of artifacts, approvals and side effects, \<open>crates/graph-service/src/ingestion.rs\<close>. Each
  function validates its references, creates a node and wires edges. The identifiers and times it draws
  are the values of the functions \<open>fresh\<close> and \<open>clock\<close>: number 0 for the node, 1, 2, ... for the edges.
\<close>

definition debug_NodeType :: "NodeType \<Rightarrow> string" where
  "debug_NodeType t = (case t of NodeType.Intent \<Rightarrow> ''Intent'' | NodeType.IntentVersion \<Rightarrow> ''IntentVersion''
     | NodeType.Artifact \<Rightarrow> ''Artifact'' | NodeType.Approval \<Rightarrow> ''Approval'' | NodeType.PolicySnapshot \<Rightarrow> ''PolicySnapshot''
     | NodeType.SideEffect \<Rightarrow> ''SideEffect'' | NodeType.Checkpoint \<Rightarrow> ''Checkpoint'' | Workflow \<Rightarrow> ''Workflow'' | Generic \<Rightarrow> ''Generic'')"

section \<open>Prevalidation\<close>

text \<open>
  The check of one reference: the node exists, has the expected type (when one is expected) and lies in
  the tenant and workflow of the request. \<open>None\<close> means valid. \<open>noun\<close> names the reference in the
  messages, \<open>typ\<close> is the expected type with its article, \<open>subject\<close> what is being ingested.
\<close>

definition validate_ref ::
  "'j platform \<Rightarrow> 'j GraphState \<Rightarrow> string \<Rightarrow> (NodeType \<times> string) option \<Rightarrow> string \<Rightarrow> uuid \<Rightarrow> uuid \<Rightarrow> uuid \<Rightarrow>
   IntentRebaseError option" where
  "validate_ref pf g noun typ subject tenant workflow i =
     (case get_node g i of
        Inl e \<Rightarrow>
          (case e of
             GraphNodeNotFound _ \<Rightarrow>
               Some (InvalidIngestRequest (noun @ '' node '' @ pf_uuid_str pf i @ '' does not exist''))
           | _ \<Rightarrow> Some e)
      | Inr node \<Rightarrow>
          if typ \<noteq> None \<and> gn_node_type node \<noteq> fst (the typ) then
            Some (InvalidIngestRequest (''Node '' @ pf_uuid_str pf i @ '' is not '' @ snd (the typ) @ '' (found '' @
              debug_NodeType (gn_node_type node) @ '')''))
          else if gn_tenant_id node \<noteq> tenant then
            Some (InvalidIngestRequest (noun @ '' node '' @ pf_uuid_str pf i @ '' belongs to tenant '' @
              pf_uuid_str pf (gn_tenant_id node) @ '' but '' @ subject @ '' has tenant '' @ pf_uuid_str pf tenant))
          else if gn_workflow_id node \<noteq> workflow then
            Some (InvalidIngestRequest (noun @ '' node '' @ pf_uuid_str pf i @ '' belongs to workflow '' @
              pf_uuid_str pf (gn_workflow_id node) @ '' but '' @ subject @ '' has workflow '' @ pf_uuid_str pf workflow))
          else None)"

text \<open>The first error of a sequence of checks; an optional reference that is absent is not checked.\<close>

fun first_error :: "IntentRebaseError option list \<Rightarrow> IntentRebaseError option" where
  "first_error [] = None"
| "first_error (Some e # cs) = Some e"
| "first_error (None # cs) = first_error cs"

definition validate_opt :: "(uuid \<Rightarrow> IntentRebaseError option) \<Rightarrow> uuid option \<Rightarrow> IntentRebaseError option" where
  "validate_opt check r = (case r of Some i \<Rightarrow> check i | None \<Rightarrow> None)"

section \<open>Wiring\<close>

text \<open>Consecutive \<open>create_edge(...).await?\<close> calls: the first error ends the sequence.\<close>

fun wire_edges ::
  "'j platform \<Rightarrow> (nat \<Rightarrow> uuid) \<Rightarrow> (nat \<Rightarrow> timestamp) \<Rightarrow> nat \<Rightarrow> 'j CreateGraphEdgeRequest list \<Rightarrow> 'j GraphState \<Rightarrow>
   'j GraphEdge list ire_result \<times> 'j GraphState" where
  "wire_edges pf fresh clock k [] g = (Inr [], g)"
| "wire_edges pf fresh clock k (r # rs) g =
     (case create_edge pf (fresh k) (clock k) r g of
        (Inl e, g') \<Rightarrow> (Inl e, g')
      | (Inr edge, g') \<Rightarrow>
          (case wire_edges pf fresh clock (Suc k) rs g' of
             (Inl e, g'') \<Rightarrow> (Inl e, g'')
           | (Inr edges, g'') \<Rightarrow> (Inr (edge # edges), g'')))"

definition edge_request ::
  "'j platform \<Rightarrow> uuid \<Rightarrow> uuid \<Rightarrow> uuid \<Rightarrow> uuid \<Rightarrow> EdgeType \<Rightarrow> string \<Rightarrow> string \<Rightarrow> 'j CreateGraphEdgeRequest" where
  "edge_request pf tenant workflow from to typ direction target =
     \<lparr>eq_tenant_id = tenant, eq_workflow_id = workflow, eq_from_node_id = from, eq_to_node_id = to,
      eq_edge_type = typ, eq_properties = Some (pf_json_edge pf direction target)\<rparr>"

text \<open>The common tail of the three functions: create the node, wire the edges, return both.\<close>

definition create_and_wire ::
  "'j platform \<Rightarrow> (nat \<Rightarrow> uuid) \<Rightarrow> (nat \<Rightarrow> timestamp) \<Rightarrow> 'j CreateGraphNodeRequest \<Rightarrow>
   (uuid \<Rightarrow> 'j CreateGraphEdgeRequest list) \<Rightarrow> 'j GraphState \<Rightarrow> 'j IngestorResult ire_result \<times> 'j GraphState" where
  "create_and_wire pf fresh clock nr requests g =
     (case create_node pf (fresh 0) (clock 0) nr g of
        (Inl e, g') \<Rightarrow> (Inl e, g')
      | (Inr node, g') \<Rightarrow>
          (case wire_edges pf fresh clock 1 (requests (gn_id node)) g' of
             (Inl e, g'') \<Rightarrow> (Inl e, g'')
           | (Inr edges, g'') \<Rightarrow> (Inr \<lparr>igr_node = node, igr_edges = edges\<rparr>, g'')))"

section \<open>The ingestors\<close>

definition ingest_artifact ::
  "'j platform \<Rightarrow> (nat \<Rightarrow> uuid) \<Rightarrow> (nat \<Rightarrow> timestamp) \<Rightarrow> 'j ArtifactIngestRequest \<Rightarrow> 'j GraphState \<Rightarrow>
   'j IngestorResult ire_result \<times> 'j GraphState" where
  "ingest_artifact pf fresh clock r g =
     (if ai_depends_on_intent_versions r = [] then (Inl ArtifactTraceabilityEmpty, g)
      else case first_error (map (validate_ref pf g ''IntentVersion'' (Some (NodeType.IntentVersion, ''an IntentVersion''))
               ''artifact'' (ai_tenant_id r) (ai_workflow_id r)) (ai_depends_on_intent_versions r)) of
          Some e \<Rightarrow> (Inl e, g)
        | None \<Rightarrow> create_and_wire pf fresh clock
            \<lparr>nr_tenant_id = ai_tenant_id r, nr_workflow_id = ai_workflow_id r, nr_node_type = NodeType.Artifact,
             nr_external_ref = Some (ai_external_ref r), nr_label = ai_label r, nr_properties = ai_properties r\<rparr>
            (\<lambda>node. map (\<lambda>i. edge_request pf (ai_tenant_id r) (ai_workflow_id r) node i DependsOn
               ''upstream'' ''IntentVersion'') (ai_depends_on_intent_versions r)) g)"

definition opt_request :: "(uuid \<Rightarrow> 'j CreateGraphEdgeRequest) \<Rightarrow> uuid option \<Rightarrow> 'j CreateGraphEdgeRequest list" where
  "opt_request mk r = (case r of Some i \<Rightarrow> [mk i] | None \<Rightarrow> [])"

definition ingest_approval ::
  "'j platform \<Rightarrow> (nat \<Rightarrow> uuid) \<Rightarrow> (nat \<Rightarrow> timestamp) \<Rightarrow> 'j ApprovalIngestRequest \<Rightarrow> 'j GraphState \<Rightarrow>
   'j IngestorResult ire_result \<times> 'j GraphState" where
  "ingest_approval pf fresh clock r g =
     (case first_error
        [validate_opt (validate_ref pf g ''PolicySnapshot'' (Some (NodeType.PolicySnapshot, ''a PolicySnapshot''))
           ''approval'' (pi_tenant_id r) (pi_workflow_id r)) (pi_governed_by_policy_snapshot r),
         validate_opt (validate_ref pf g ''IntentVersion'' (Some (NodeType.IntentVersion, ''an IntentVersion''))
           ''approval'' (pi_tenant_id r) (pi_workflow_id r)) (pi_intent_version_id r)] of
        Some e \<Rightarrow> (Inl e, g)
      | None \<Rightarrow> create_and_wire pf fresh clock
          \<lparr>nr_tenant_id = pi_tenant_id r, nr_workflow_id = pi_workflow_id r, nr_node_type = NodeType.Approval,
           nr_external_ref = Some (pi_external_ref r), nr_label = pi_label r, nr_properties = pi_properties r\<rparr>
          (\<lambda>node. opt_request (\<lambda>i. edge_request pf (pi_tenant_id r) (pi_workflow_id r) node i GovernedBy
               ''upstream'' ''PolicySnapshot'') (pi_governed_by_policy_snapshot r) @
             opt_request (\<lambda>i. edge_request pf (pi_tenant_id r) (pi_workflow_id r) node i ValidatedBy
               ''upstream'' ''IntentVersion'') (pi_intent_version_id r)) g)"

definition ingest_side_effect ::
  "'j platform \<Rightarrow> (nat \<Rightarrow> uuid) \<Rightarrow> (nat \<Rightarrow> timestamp) \<Rightarrow> 'j SideEffectIngestRequest \<Rightarrow> 'j GraphState \<Rightarrow>
   'j IngestorResult ire_result \<times> 'j GraphState" where
  "ingest_side_effect pf fresh clock r g =
     (case first_error
        [validate_ref pf g ''Triggering'' None ''side effect'' (si_tenant_id r) (si_workflow_id r) (si_triggered_by_task r),
         validate_opt (validate_ref pf g ''IntentVersion'' (Some (NodeType.IntentVersion, ''an IntentVersion''))
           ''side effect'' (si_tenant_id r) (si_workflow_id r)) (si_derived_from_intent_version r),
         validate_opt (validate_ref pf g ''Approval'' (Some (NodeType.Approval, ''an Approval''))
           ''side effect'' (si_tenant_id r) (si_workflow_id r)) (si_approval_snapshot_id r)] of
        Some e \<Rightarrow> (Inl e, g)
      | None \<Rightarrow> create_and_wire pf fresh clock
          \<lparr>nr_tenant_id = si_tenant_id r, nr_workflow_id = si_workflow_id r, nr_node_type = NodeType.SideEffect,
           nr_external_ref = Some (si_external_ref r), nr_label = si_label r, nr_properties = si_properties r\<rparr>
          (\<lambda>node. [edge_request pf (si_tenant_id r) (si_workflow_id r) (si_triggered_by_task r) node Triggers
               ''downstream'' ''SideEffect''] @
             opt_request (\<lambda>i. edge_request pf (si_tenant_id r) (si_workflow_id r) node i DerivedFrom
               ''upstream'' ''IntentVersion'') (si_derived_from_intent_version r) @
             opt_request (\<lambda>i. edge_request pf (si_tenant_id r) (si_workflow_id r) node i GeneratedFrom
               ''upstream'' ''Approval'') (si_approval_snapshot_id r)) g)"

end
