(* ===== verification/Graph_Repo_Laws.thy ===== *)
theory Graph_Repo_Laws
  imports Graph_Repo
begin

text \<open>
  The repository keeps its indices and its scopes: the invariant holds in every reachable state, the
  indexed lookups return exactly the edges of a node, and no edge joins two tenants or workflows. The
  locale \<open>graph_repository\<close> is the contract the traversal and ingestion code relies on.
\<close>

section \<open>Preservation\<close>

lemma node_in_mono:
  assumes "node_in g n t w"
    and "\<And>x. map_of (gs_nodes g) n = Some x \<Longrightarrow>
      \<exists>y. map_of (gs_nodes g') n = Some y \<and> gn_tenant_id y = gn_tenant_id x \<and> gn_workflow_id y = gn_workflow_id x"
  shows "node_in g' n t w"
  using assms by (force simp: node_in_def split: option.splits)

lemma graph_inv_default: "graph_inv GraphState_default"
  by (simp add: graph_inv_def GraphState_default_def)

lemma graph_inv_nodes:
  assumes "graph_inv g" and "gn_id n = i"
    and "\<And>x. map_of (gs_nodes g) i = Some x \<Longrightarrow> gn_tenant_id n = gn_tenant_id x \<and> gn_workflow_id n = gn_workflow_id x"
  shows "graph_inv (g\<lparr>gs_nodes := hm_insert i n (gs_nodes g)\<rparr>)" (is "graph_inv ?g")
proof -
  have keep: "node_in ?g m t w" if "node_in g m t w" for m t w
    using that by (rule node_in_mono) (use assms(3) in auto)
  have "node_in ?g (ge_from_node_id e) (ge_tenant_id e) (ge_workflow_id e)"
    "node_in ?g (ge_to_node_id e) (ge_tenant_id e) (ge_workflow_id e)" "ge_id e = j"
    if "map_of (gs_edges g) j = Some e" for j e
    using assms(1) that keep by (simp_all add: graph_inv_def del: map_of_eq_Some_iff)
  with assms(1,2) show ?thesis
    by (simp add: graph_inv_def del: map_of_eq_Some_iff)
qed

lemma graph_inv_create_node: "graph_inv g \<Longrightarrow> fresh_node i g \<Longrightarrow> graph_inv (snd (create_node pf i now r g))"
  unfolding create_node_def Let_def fresh_node_def snd_conv by (rule graph_inv_nodes) simp_all

lemma graph_inv_update_node_state: "graph_inv g \<Longrightarrow> graph_inv (snd (update_node_state i st g))"
  by (auto simp: update_node_state_def Let_def graph_inv_def [of g] intro!: graph_inv_nodes simp del: map_of_eq_Some_iff split: option.splits)

text \<open>What a successful \<open>create_edge\<close> has checked and done.\<close>

lemma create_edge_Inr:
  assumes "create_edge pf i now r g = (Inr e, g')"
  shows "node_in g (eq_from_node_id r) (eq_tenant_id r) (eq_workflow_id r)"
    and "node_in g (eq_to_node_id r) (eq_tenant_id r) (eq_workflow_id r)"
    and "ge_id e = i" "ge_tenant_id e = eq_tenant_id r" "ge_workflow_id e = eq_workflow_id r"
      "ge_from_node_id e = eq_from_node_id r" "ge_to_node_id e = eq_to_node_id r" "ge_edge_type e = eq_edge_type r"
    and "g' = g\<lparr>gs_edges := hm_insert i e (gs_edges g),
      gs_edges_by_from := index_push (eq_from_node_id r) i (gs_edges_by_from g),
      gs_edges_by_to := index_push (eq_to_node_id r) i (gs_edges_by_to g)\<rparr>"
  using assms by (auto simp: create_edge_def node_in_def Let_def split: option.splits if_splits)

lemma create_edge_Inl: "create_edge pf i now r g = (Inl err, g') \<Longrightarrow> g' = g"
  by (auto simp: create_edge_def Let_def split: option.splits if_splits)

lemma create_edge_succeeds:
  assumes "node_in g (eq_from_node_id r) (eq_tenant_id r) (eq_workflow_id r)"
    and "node_in g (eq_to_node_id r) (eq_tenant_id r) (eq_workflow_id r)"
  shows "\<exists>e g'. create_edge pf i now r g = (Inr e, g')"
  using assms by (auto simp: create_edge_def node_in_def Let_def split: option.splits)

lemma graph_inv_create_edge:
  assumes "graph_inv g" and "fresh_edge i g"
  shows "graph_inv (snd (create_edge pf i now r g))"
proof (cases "create_edge pf i now r g")
  case (Pair res g')
  show ?thesis
  proof (cases res)
    case (Inl err)
    then show ?thesis using create_edge_Inl Pair assms(1) by fastforce
  next
    case (Inr e)
    note c = create_edge_Inr [OF Pair [unfolded Inr]]
    have same: "node_in g' = node_in g" by (simp add: c(9) node_in_def fun_eq_iff)
    have "graph_inv g'"
      using assms c(1,2) c(3-8)
      unfolding graph_inv_def same
      by (simp add: c(9) fresh_edge_def index_ok_push del: map_of_eq_Some_iff)
    then show ?thesis by (simp add: Pair)
  qed
qed

lemma graph_inv_delete_edge:
  assumes "graph_inv g"
  shows "graph_inv (snd (delete_edge i g))"
proof (cases "map_of (gs_edges g) i")
  case (Some e)
  let ?g = "snd (delete_edge i g)"
  have same: "node_in ?g = node_in g" by (simp add: delete_edge_def Some node_in_def fun_eq_iff del: map_of_eq_Some_iff)
  show ?thesis
    using assms Some unfolding graph_inv_def same
    by (simp add: delete_edge_def index_ok_retain del: map_of_eq_Some_iff)
qed (simp add: delete_edge_def assms)

lemmas graph_inv_ops = graph_inv_create_node graph_inv_update_node_state graph_inv_create_edge graph_inv_delete_edge

lemma reachable_inv: "graph_reachable g \<Longrightarrow> graph_inv g"
proof (induction rule: graph_reachable.induct)
  case (reach_step g g')
  then show ?case by (auto elim!: graph_stepE simp: graph_inv_ops)
qed (rule graph_inv_default)

section \<open>Lookups\<close>

abbreviation edges_of :: "'j GraphState \<Rightarrow> 'j GraphEdge set" where
  "edges_of g \<equiv> snd ` set (gs_edges g)"

lemma edge_mem_iff:
  assumes "graph_inv g"
  shows "e \<in> edges_of g \<longleftrightarrow> map_of (gs_edges g) (ge_id e) = Some e"
proof -
  have d: "distinct (map fst (gs_edges g))" and key: "\<And>i e. map_of (gs_edges g) i = Some e \<Longrightarrow> ge_id e = i"
    using assms unfolding graph_inv_def by blast+
  show ?thesis
  proof
    assume "e \<in> edges_of g"
    then obtain i where "(i, e) \<in> set (gs_edges g)" by auto
    then have "map_of (gs_edges g) i = Some e" using d by simp
    with key [OF this] show "map_of (gs_edges g) (ge_id e) = Some e" by simp
  next
    assume "map_of (gs_edges g) (ge_id e) = Some e"
    from map_of_SomeD [OF this] show "e \<in> edges_of g" by force
  qed
qed

lemma index_lookup_set:
  assumes "graph_inv g" and "index_ok end (gs_edges g) m"
  shows "set (index_lookup g m n) = {e \<in> edges_of g. end e = n}" and "distinct (map ge_id (index_lookup g m n))"
proof -
  have key: "ge_id e = i" if "map_of (gs_edges g) i = Some e" for i e
    using assms(1) that by (simp add: graph_inv_def del: map_of_eq_Some_iff)
  then show "distinct (map ge_id (index_lookup g m n))"
    unfolding index_lookup_def by (rule distinct_indexed [OF assms(2)])
  have "(\<exists>i. map_of (gs_edges g) i = Some e) \<longleftrightarrow> e \<in> edges_of g" for e
    unfolding edge_mem_iff [OF assms(1)] using key by metis
  then show "set (index_lookup g m n) = {e \<in> edges_of g. end e = n}"
    unfolding index_lookup_def set_indexed [OF assms(2)] by simp
qed

section \<open>The contract of a repository\<close>

text \<open>
  What the service code relies on, for any implementation of the trait \<open>GraphRepository\<close>: in a valid
  state the lookups by endpoint return exactly the stored edges, the endpoints of an edge exist in the
  edge's tenant and workflow, and a node is found under its own id.
\<close>

locale graph_repository =
  fixes inv :: "'g \<Rightarrow> bool"
    and edges :: "'g \<Rightarrow> 'j GraphEdge set"
    and get :: "'g \<Rightarrow> uuid \<Rightarrow> 'j GraphNode ire_result"
    and from_node :: "'g \<Rightarrow> uuid \<Rightarrow> 'j GraphEdge list ire_result"
    and to_node :: "'g \<Rightarrow> uuid \<Rightarrow> 'j GraphEdge list ire_result"
  assumes from_law: "inv g \<Longrightarrow> \<exists>es. from_node g n = Inr es \<and> set es = {e \<in> edges g. ge_from_node_id e = n} \<and> distinct (map ge_id es)"
    and to_law: "inv g \<Longrightarrow> \<exists>es. to_node g n = Inr es \<and> set es = {e \<in> edges g. ge_to_node_id e = n} \<and> distinct (map ge_id es)"
    and from_scope: "inv g \<Longrightarrow> e \<in> edges g \<Longrightarrow> \<exists>x. get g (ge_from_node_id e) = Inr x \<and>
      gn_tenant_id x = ge_tenant_id e \<and> gn_workflow_id x = ge_workflow_id e"
    and to_scope: "inv g \<Longrightarrow> e \<in> edges g \<Longrightarrow> \<exists>x. get g (ge_to_node_id e) = Inr x \<and>
      gn_tenant_id x = ge_tenant_id e \<and> gn_workflow_id x = ge_workflow_id e"
    and get_id: "inv g \<Longrightarrow> get g i = Inr x \<Longrightarrow> gn_id x = i"
begin

definition in_scope_of :: "'g \<Rightarrow> uuid \<Rightarrow> uuid \<Rightarrow> uuid \<Rightarrow> bool" where
  "in_scope_of g t w i \<longleftrightarrow> (\<exists>x. get g i = Inr x \<and> gn_tenant_id x = t \<and> gn_workflow_id x = w)"

text \<open>Following an edge in either direction stays in the tenant and workflow.\<close>

lemma hop_scope:
  assumes "inv g" and "e \<in> edges g"
  shows "in_scope_of g t w (ge_from_node_id e) \<longleftrightarrow> in_scope_of g t w (ge_to_node_id e)"
  using from_scope [OF assms] to_scope [OF assms] by (auto simp: in_scope_of_def)

definition hops :: "'g \<Rightarrow> ('j GraphEdge \<Rightarrow> bool) \<Rightarrow> (uuid \<times> uuid) set" where
  "hops g P = {(ge_from_node_id e, ge_to_node_id e) | e. e \<in> edges g \<and> P e}"

lemma from_hops:
  assumes "inv g" and "from_node g n = Inr es"
  shows "ge_to_node_id ` {e \<in> set es. P e} = {m. (n, m) \<in> hops g P}"
  using from_law [OF assms(1), of n] assms(2) by (auto simp: hops_def)

lemma hops_scope:
  assumes "inv g" and "(n, m) \<in> (hops g P)\<^sup>*" and "in_scope_of g t w n"
  shows "in_scope_of g t w m"
  using assms(2,3)
proof (induction rule: rtrancl_induct)
  case (step y z)
  then show ?case using hop_scope [OF assms(1)] by (force simp: hops_def)
qed

end

interpretation memory: graph_repository graph_inv edges_of get_node list_edges_from list_edges_to
proof unfold_locales
  fix g :: "'a GraphState" and n
  assume g: "graph_inv g"
  then have ix: "index_ok ge_from_node_id (gs_edges g) (gs_edges_by_from g)" "index_ok ge_to_node_id (gs_edges g) (gs_edges_by_to g)"
    by (simp_all add: graph_inv_def)
  show "\<exists>es. list_edges_from g n = Inr es \<and> set es = {e \<in> edges_of g. ge_from_node_id e = n} \<and> distinct (map ge_id es)"
    using index_lookup_set [OF g ix(1)] by (simp add: list_edges_from_def)
  show "\<exists>es. list_edges_to g n = Inr es \<and> set es = {e \<in> edges_of g. ge_to_node_id e = n} \<and> distinct (map ge_id es)"
    using index_lookup_set [OF g ix(2)] by (simp add: list_edges_to_def)
next
  fix g :: "'a GraphState" and e
  assume "graph_inv g" and "e \<in> edges_of g"
  then have "node_in g (ge_from_node_id e) (ge_tenant_id e) (ge_workflow_id e)"
    "node_in g (ge_to_node_id e) (ge_tenant_id e) (ge_workflow_id e)"
    unfolding edge_mem_iff [OF \<open>graph_inv g\<close>] by (simp_all add: graph_inv_def del: map_of_eq_Some_iff)
  then show "\<exists>x. get_node g (ge_from_node_id e) = Inr x \<and> gn_tenant_id x = ge_tenant_id e \<and> gn_workflow_id x = ge_workflow_id e"
    and "\<exists>x. get_node g (ge_to_node_id e) = Inr x \<and> gn_tenant_id x = ge_tenant_id e \<and> gn_workflow_id x = ge_workflow_id e"
    by (auto simp: node_in_def get_node_def split: option.splits)
next
  fix g :: "'a GraphState" and i x
  assume "graph_inv g" and "get_node g i = Inr x"
  then show "gn_id x = i" by (auto simp: get_node_def graph_inv_def split: option.splits simp del: map_of_eq_Some_iff)
qed

section \<open>Properties\<close>

text \<open>
  C16. In every state the repository can reach, the two endpoint indices are exact (a lookup by node
  returns precisely the stored edges of that node, each once) and every edge joins two existing nodes of
  its own tenant and workflow: no dangling edge and no edge across tenants.
\<close>

theorem graph_reachable_sound:
  assumes "graph_reachable g"
  shows "(\<exists>es. list_edges_from g n = Inr es \<and> set es = {e \<in> edges_of g. ge_from_node_id e = n} \<and> distinct (map ge_id es)) \<and>
    (\<exists>es. list_edges_to g n = Inr es \<and> set es = {e \<in> edges_of g. ge_to_node_id e = n} \<and> distinct (map ge_id es)) \<and>
    (\<forall>e \<in> edges_of g. \<exists>x y. get_node g (ge_from_node_id e) = Inr x \<and> get_node g (ge_to_node_id e) = Inr y \<and>
       gn_tenant_id x = ge_tenant_id e \<and> gn_tenant_id y = ge_tenant_id e \<and>
       gn_workflow_id x = ge_workflow_id e \<and> gn_workflow_id y = ge_workflow_id e)"
  using memory.from_law [OF reachable_inv [OF assms]] memory.to_law [OF reachable_inv [OF assms]]
    memory.from_scope [OF reachable_inv [OF assms]] memory.to_scope [OF reachable_inv [OF assms]]
  by blast

definition ex_platform :: "nat platform" where
  "ex_platform = \<lparr>pf_uuid_str = (\<lambda>u. show_nat (unat u)), pf_json_empty = 0, pf_json_edge = (\<lambda>d t. length d)\<rparr>"

definition ex_node_request :: "NodeType \<Rightarrow> nat CreateGraphNodeRequest" where
  "ex_node_request t = \<lparr>nr_tenant_id = 1, nr_workflow_id = 2, nr_node_type = t, nr_external_ref = None,
     nr_label = ''n'', nr_properties = None\<rparr>"

definition ex_edge_request :: "uuid \<Rightarrow> uuid \<Rightarrow> EdgeType \<Rightarrow> nat CreateGraphEdgeRequest" where
  "ex_edge_request n m t = \<lparr>eq_tenant_id = 1, eq_workflow_id = 2, eq_from_node_id = n, eq_to_node_id = m,
     eq_edge_type = t, eq_properties = None\<rparr>"

text \<open>An intent version (id 10) and an artifact (id 11) that depends on it (edge 20).\<close>

definition ex_graph :: "nat GraphState" where
  "ex_graph = snd (create_edge ex_platform 20 0 (ex_edge_request 11 10 DependsOn)
     (snd (create_node ex_platform 11 0 (ex_node_request NodeType.Artifact)
       (snd (create_node ex_platform 10 0 (ex_node_request NodeType.IntentVersion) GraphState_default)))))"

lemma ex_graph_reachable: "graph_reachable ex_graph"
  unfolding ex_graph_def
  by (intro reach_step [OF _ step_create_edge] reach_step [OF _ step_create_node] reach_default)
    (simp_all add: fresh_node_def fresh_edge_def create_node_def Let_def GraphState_default_def ex_node_request_def)

theorem graph_reachable_sound_witness:
  "(\<exists>es. list_edges_from ex_graph 11 = Inr es \<and> set es = {e \<in> edges_of ex_graph. ge_from_node_id e = 11}) \<and>
   edges_of ex_graph \<noteq> {}"
  using graph_reachable_sound [OF ex_graph_reachable, of 11]
  by (auto simp: ex_graph_def create_edge_def create_node_def Let_def GraphState_default_def ex_node_request_def ex_edge_request_def)

end
