(* ===== verification/Ingestion_Laws.thy ===== *)
theory Ingestion_Laws
  imports Ingestion Graph_Repo_Laws
begin

text \<open>
  Ingestion is all-or-nothing although it writes in several steps: prevalidation establishes what every
  later \<open>create_edge\<close> checks, so none of them fails half way.
\<close>

section \<open>Prevalidation\<close>

lemma first_error_None: "first_error cs = None \<longleftrightarrow> (\<forall>c \<in> set cs. c = None)"
  by (induction cs rule: first_error.induct) auto

text \<open>A node of the expected type in the tenant and workflow.\<close>

definition typed_in :: "'j GraphState \<Rightarrow> NodeType option \<Rightarrow> uuid \<Rightarrow> uuid \<Rightarrow> uuid \<Rightarrow> bool" where
  "typed_in g t tenant workflow i \<longleftrightarrow> (\<exists>n. get_node g i = Inr n \<and> (t = None \<or> t = Some (gn_node_type n)) \<and>
     gn_tenant_id n = tenant \<and> gn_workflow_id n = workflow)"

lemma validate_ref_None:
  "validate_ref pf g noun et subject tenant workflow i = None \<longleftrightarrow> typed_in g (map_option fst et) tenant workflow i"
  by (cases et) (auto simp: validate_ref_def typed_in_def get_node_def split: option.splits)

lemma typed_in_node_in: "typed_in g t tenant workflow i \<Longrightarrow> node_in g i tenant workflow"
  by (auto simp: typed_in_def get_node_def node_in_def split: option.splits)

section \<open>Wiring\<close>

text \<open>The identifiers drawn for a node and \<open>n\<close> edges are new and different.\<close>

definition fresh_ids :: "nat \<Rightarrow> (nat \<Rightarrow> uuid) \<Rightarrow> 'j GraphState \<Rightarrow> bool" where
  "fresh_ids n fresh g \<longleftrightarrow> inj_on fresh {..n} \<and> (\<forall>k \<le> n. fresh_node (fresh k) g \<and> fresh_edge (fresh k) g)"

definition realizes :: "'j CreateGraphEdgeRequest \<Rightarrow> 'j GraphEdge \<Rightarrow> bool" where
  "realizes r e \<longleftrightarrow> ge_from_node_id e = eq_from_node_id r \<and> ge_to_node_id e = eq_to_node_id r \<and>
     ge_edge_type e = eq_edge_type r \<and> ge_tenant_id e = eq_tenant_id r \<and> ge_workflow_id e = eq_workflow_id r"

definition endpoints_in :: "'j GraphState \<Rightarrow> 'j CreateGraphEdgeRequest \<Rightarrow> bool" where
  "endpoints_in g r \<longleftrightarrow> node_in g (eq_from_node_id r) (eq_tenant_id r) (eq_workflow_id r) \<and>
     node_in g (eq_to_node_id r) (eq_tenant_id r) (eq_workflow_id r)"

lemma node_in_cong: "gs_nodes g' = gs_nodes g \<Longrightarrow> node_in g' = node_in g"
  by (simp add: node_in_def fun_eq_iff)

lemma set_hm_insert_fresh: "map_of m k = None \<Longrightarrow> set (hm_insert k v m) = insert (k, v) (set m)"
  by (simp add: map_of_eq_None_iff hm_insert_fresh)

lemma wire_edges_ok:
  assumes "graph_inv g" and "\<forall>r \<in> set rs. endpoints_in g r" 
    and "inj_on fresh {k..<k + length rs}" and "\<forall>j \<in> {k..<k + length rs}. fresh_edge (fresh j) g"
  shows "\<exists>es g'. wire_edges pf fresh clock k rs g = (Inr es, g') \<and> graph_inv g' \<and> gs_nodes g' = gs_nodes g \<and>
    list_all2 realizes rs es \<and> edges_of g' = edges_of g \<union> set es"
  using assms
proof (induction rs arbitrary: k g)
  case Nil
  then show ?case by simp
next
  case (Cons r rs)
  obtain e g1 where c: "create_edge pf (fresh k) (clock k) r g = (Inr e, g1)"
    using create_edge_succeeds [of g r pf "fresh k" "clock k"] Cons.prems(2) by (auto simp: endpoints_in_def)
  note e = create_edge_Inr [OF c]
  have f: "fresh_edge (fresh k) g" using Cons.prems(4) by simp
  have inv: "graph_inv g1"
    using graph_inv_create_edge [OF Cons.prems(1) f, of pf "clock k" r] by (simp add: c)
  have nodes: "gs_nodes g1 = gs_nodes g" by (simp add: e(9))
  have "\<forall>r \<in> set rs. endpoints_in g1 r"
    using Cons.prems(2) by (simp add: endpoints_in_def node_in_cong [OF nodes])
  moreover have "\<forall>j \<in> {Suc k..<Suc k + length rs}. fresh_edge (fresh j) g1"
  proof
    fix j
    assume j: "j \<in> {Suc k..<Suc k + length rs}"
    then have "fresh j \<noteq> fresh k" using inj_onD [OF Cons.prems(3), of j k] by fastforce
    with j Cons.prems(4) show "fresh_edge (fresh j) g1" by (simp add: fresh_edge_def e(9))
  qed
  moreover have "inj_on fresh {Suc k..<Suc k + length rs}"
    using Cons.prems(3) by (rule inj_on_subset) auto
  ultimately obtain es g2 where w: "wire_edges pf fresh clock (Suc k) rs g1 = (Inr es, g2)" "graph_inv g2"
    "gs_nodes g2 = gs_nodes g1" "list_all2 realizes rs es" "edges_of g2 = edges_of g1 \<union> set es"
    using Cons.IH [OF inv] by blast
  have "edges_of g1 = insert e (edges_of g)"
    using f by (simp add: e(9) fresh_edge_def set_hm_insert_fresh)
  moreover have "realizes r e" using e(4-8) by (simp add: realizes_def)
  ultimately show ?case
    using c w nodes by simp
qed

lemma create_and_wire_ok:
  assumes inv: "graph_inv g" and fresh: "fresh_ids (length (requests (fresh 0))) fresh g"
    and ends: "\<forall>r \<in> set (requests (fresh 0)). eq_tenant_id r = nr_tenant_id nr \<and> eq_workflow_id r = nr_workflow_id nr \<and>
      (eq_from_node_id r = fresh 0 \<or> node_in g (eq_from_node_id r) (nr_tenant_id nr) (nr_workflow_id nr)) \<and>
      (eq_to_node_id r = fresh 0 \<or> node_in g (eq_to_node_id r) (nr_tenant_id nr) (nr_workflow_id nr))"
  shows "\<exists>res g'. create_and_wire pf fresh clock nr requests g = (Inr res, g') \<and> graph_inv g' \<and>
    gs_nodes g' = hm_insert (fresh 0) (igr_node res) (gs_nodes g) \<and>
    gn_id (igr_node res) = fresh 0 \<and> gn_node_type (igr_node res) = nr_node_type nr \<and>
    gn_tenant_id (igr_node res) = nr_tenant_id nr \<and> gn_workflow_id (igr_node res) = nr_workflow_id nr \<and>
    list_all2 realizes (requests (fresh 0)) (igr_edges res) \<and> edges_of g' = edges_of g \<union> set (igr_edges res)"
proof -
  obtain node g1 where n: "create_node pf (fresh 0) (clock 0) nr g = (Inr node, g1)"
    by (simp add: create_node_def Let_def)
  then have node: "gn_id node = fresh 0" "gn_node_type node = nr_node_type nr"
      "gn_tenant_id node = nr_tenant_id nr" "gn_workflow_id node = nr_workflow_id nr"
    and g1: "g1 = g\<lparr>gs_nodes := hm_insert (fresh 0) node (gs_nodes g)\<rparr>"
    by (auto simp: create_node_def Let_def)
  have f: "fresh_node (fresh 0) g" "inj_on fresh {1..<1 + length (requests (fresh 0))}"
      "\<forall>j \<in> {1..<1 + length (requests (fresh 0))}. fresh_edge (fresh j) g1"
    using fresh by (auto simp: fresh_ids_def g1 fresh_edge_def intro: inj_on_subset)
  have inv1: "graph_inv g1"
    using graph_inv_create_node [OF inv f(1), of pf "clock 0" nr] by (simp add: n)
  have "node_in g1 (fresh 0) (nr_tenant_id nr) (nr_workflow_id nr)"
    by (simp add: node_in_def g1 node)
  moreover have "node_in g1 m t w" if "node_in g m t w" for m t w
    using that by (rule node_in_mono) (use f(1) in \<open>auto simp: g1 fresh_node_def\<close>)
  ultimately have "\<forall>r \<in> set (requests (fresh 0)). endpoints_in g1 r"
    using ends by (auto simp: endpoints_in_def)
  from wire_edges_ok [OF inv1 this f(2,3)] obtain es g2 where
    "wire_edges pf fresh clock 1 (requests (fresh 0)) g1 = (Inr es, g2)" "graph_inv g2" "gs_nodes g2 = gs_nodes g1"
    "list_all2 realizes (requests (fresh 0)) es" "edges_of g2 = edges_of g1 \<union> set es" by blast
  then show ?thesis
    by (simp add: create_and_wire_def n node) (simp add: g1)
qed

lemma create_and_wire_artifact:
  assumes "graph_inv g" and "fresh_ids (length ids) fresh g"
    and "\<forall>i \<in> set ids. typed_in g (Some NodeType.IntentVersion) t w i"
  shows "\<exists>res g'. create_and_wire pf fresh clock
      \<lparr>nr_tenant_id = t, nr_workflow_id = w, nr_node_type = NodeType.Artifact, nr_external_ref = x, nr_label = l, nr_properties = p\<rparr>
      (\<lambda>node. map (\<lambda>i. edge_request pf t w node i DependsOn d s) ids) g = (Inr res, g') \<and> graph_inv g' \<and>
    gs_nodes g' = hm_insert (fresh 0) (igr_node res) (gs_nodes g) \<and>
    gn_id (igr_node res) = fresh 0 \<and> gn_node_type (igr_node res) = NodeType.Artifact \<and>
    gn_tenant_id (igr_node res) = t \<and> gn_workflow_id (igr_node res) = w \<and>
    map ge_to_node_id (igr_edges res) = ids \<and>
    (\<forall>e \<in> set (igr_edges res). ge_edge_type e = DependsOn \<and> ge_from_node_id e = fresh 0) \<and>
    edges_of g' = edges_of g \<union> set (igr_edges res)"
proof -
  have all: "map ge_to_node_id es = ids \<and> (\<forall>e \<in> set es. ge_edge_type e = DependsOn \<and> ge_from_node_id e = fresh 0)"
    if "list_all2 realizes (map (\<lambda>i. edge_request pf t w (fresh 0) i DependsOn d s) ids) es" for es
    using that by (induction ids arbitrary: es) (auto simp: realizes_def edge_request_def list_all2_Cons1)
  let ?nr = "\<lparr>nr_tenant_id = t, nr_workflow_id = w, nr_node_type = NodeType.Artifact, nr_external_ref = x,
    nr_label = l, nr_properties = p\<rparr>"
  have ends: "\<forall>r \<in> set (map (\<lambda>i. edge_request pf t w (fresh 0) i DependsOn d s) ids).
      eq_tenant_id r = nr_tenant_id ?nr \<and> eq_workflow_id r = nr_workflow_id ?nr \<and>
      (eq_from_node_id r = fresh 0 \<or> node_in g (eq_from_node_id r) (nr_tenant_id ?nr) (nr_workflow_id ?nr)) \<and>
      (eq_to_node_id r = fresh 0 \<or> node_in g (eq_to_node_id r) (nr_tenant_id ?nr) (nr_workflow_id ?nr))"
    using assms(3) by (auto simp: edge_request_def dest: typed_in_node_in)
  obtain res g' where "create_and_wire pf fresh clock ?nr (\<lambda>node. map (\<lambda>i. edge_request pf t w node i DependsOn d s) ids) g
      = (Inr res, g')" and "graph_inv g'" "gs_nodes g' = hm_insert (fresh 0) (igr_node res) (gs_nodes g)"
    "gn_id (igr_node res) = fresh 0" "gn_node_type (igr_node res) = NodeType.Artifact"
    "gn_tenant_id (igr_node res) = t" "gn_workflow_id (igr_node res) = w"
    and es: "list_all2 realizes (map (\<lambda>i. edge_request pf t w (fresh 0) i DependsOn d s) ids) (igr_edges res)"
    and "edges_of g' = edges_of g \<union> set (igr_edges res)"
    using create_and_wire_ok [where fresh = fresh and nr = ?nr and requests = "\<lambda>node. map (\<lambda>i. edge_request pf t w node i DependsOn d s) ids",
        OF assms(1) _ ends, of pf clock] assms(2) by auto
  with all [OF es] show ?thesis by blast
qed

section \<open>Properties\<close>

text \<open>
  C17. Artifact ingestion is all-or-nothing and traceable: it either fails and leaves the graph as it was,
  which happens exactly when no intent version is named or one of them is not an intent version node of
  the same tenant and workflow, or it adds the artifact node and one \<open>DependsOn\<close> edge to each named version.
\<close>

theorem ingest_artifact_all_or_nothing:
  assumes "graph_inv g" and "fresh_ids (length (ai_depends_on_intent_versions r)) fresh g"
    and "ingest_artifact pf fresh clock r g = (res, g')"
  shows "if ai_depends_on_intent_versions r \<noteq> [] \<and>
      (\<forall>i \<in> set (ai_depends_on_intent_versions r).
         typed_in g (Some NodeType.IntentVersion) (ai_tenant_id r) (ai_workflow_id r) i)
    then \<exists>x. res = Inr x \<and> graph_inv g' \<and> get_node g' (fresh 0) = Inr (igr_node x) \<and>
      gn_node_type (igr_node x) = NodeType.Artifact \<and>
      map ge_to_node_id (igr_edges x) = ai_depends_on_intent_versions r \<and>
      (\<forall>e \<in> set (igr_edges x). ge_edge_type e = DependsOn \<and> ge_from_node_id e = fresh 0) \<and>
      edges_of g' = edges_of g \<union> set (igr_edges x)
    else (\<exists>e. res = Inl e) \<and> g' = g"
proof -
  let ?ids = "ai_depends_on_intent_versions r"
  let ?v = "validate_ref pf g ''IntentVersion'' (Some (NodeType.IntentVersion, ''an IntentVersion''))
    ''artifact'' (ai_tenant_id r) (ai_workflow_id r)"
  have valid: "first_error (map ?v ?ids) = None \<longleftrightarrow>
      (\<forall>i \<in> set ?ids. typed_in g (Some NodeType.IntentVersion) (ai_tenant_id r) (ai_workflow_id r) i)"
    by (simp add: first_error_None validate_ref_None)
  show ?thesis
  proof (cases "?ids \<noteq> [] \<and> first_error (map ?v ?ids) = None")
    case True
    then have "\<forall>i \<in> set ?ids. typed_in g (Some NodeType.IntentVersion) (ai_tenant_id r) (ai_workflow_id r) i"
      using valid by blast
    note typed = this
    have "(res, g') = create_and_wire pf fresh clock
        \<lparr>nr_tenant_id = ai_tenant_id r, nr_workflow_id = ai_workflow_id r, nr_node_type = NodeType.Artifact,
         nr_external_ref = Some (ai_external_ref r), nr_label = ai_label r, nr_properties = ai_properties r\<rparr>
        (\<lambda>node. map (\<lambda>i. edge_request pf (ai_tenant_id r) (ai_workflow_id r) node i DependsOn
           ''upstream'' ''IntentVersion'') ?ids) g"
      using True assms(3) by (simp add: ingest_artifact_def)
    with create_and_wire_artifact [OF assms(1,2) typed, where pf = pf and clock = clock and x = "Some (ai_external_ref r)"
        and l = "ai_label r" and p = "ai_properties r" and d = "''upstream''" and s = "''IntentVersion''"]
    obtain x where "res = Inr x" "graph_inv g'" "gs_nodes g' = hm_insert (fresh 0) (igr_node x) (gs_nodes g)"
      "gn_node_type (igr_node x) = NodeType.Artifact" "map ge_to_node_id (igr_edges x) = ?ids"
      "\<forall>e \<in> set (igr_edges x). ge_edge_type e = DependsOn \<and> ge_from_node_id e = fresh 0"
      "edges_of g' = edges_of g \<union> set (igr_edges x)"
      by (metis Pair_inject)
    then show ?thesis using True typed by (simp add: get_node_def)
  next
    case False
    with assms(3) valid show ?thesis
      by (auto simp: ingest_artifact_def split: option.splits if_splits)
  qed
qed

definition ex_artifact :: "uuid list \<Rightarrow> nat ArtifactIngestRequest" where
  "ex_artifact ids = \<lparr>ai_tenant_id = 1, ai_workflow_id = 2,
     ai_external_ref = \<lparr>er_ref_type = ExternalRefType.Artifact, er_ref_id = 5\<rparr>, ai_label = ''a'',
     ai_depends_on_intent_versions = ids, ai_properties = None, ai_side_effect_context = None\<rparr>"

definition ex_fresh :: "nat \<Rightarrow> uuid" where
  "ex_fresh k = (if k = 0 then 30 else 40)"

lemma ex_fresh_ids: "fresh_ids 1 ex_fresh ex_graph"
proof -
  have "{..1::nat} = {0, 1}" by auto
  then show ?thesis
    by (simp add: fresh_ids_def ex_fresh_def fresh_node_def fresh_edge_def ex_graph_def create_edge_def create_node_def
        Let_def GraphState_default_def ex_node_request_def ex_edge_request_def le_Suc_eq)
qed

theorem ingest_artifact_all_or_nothing_witness:
  "\<exists>x. fst (ingest_artifact ex_platform ex_fresh (\<lambda>_. 0) (ex_artifact [10]) ex_graph) = Inr x \<and>
     gn_node_type (igr_node x) = NodeType.Artifact \<and> map ge_to_node_id (igr_edges x) = [10]"
proof -
  have t: "typed_in ex_graph (Some NodeType.IntentVersion) 1 2 10"
    by (simp add: typed_in_def get_node_def ex_graph_def create_edge_def create_node_def Let_def
        GraphState_default_def ex_node_request_def ex_edge_request_def)
  have f: "fresh_ids (length (ai_depends_on_intent_versions (ex_artifact [10]))) ex_fresh ex_graph"
    using ex_fresh_ids by (simp add: ex_artifact_def)
  show ?thesis
    using ingest_artifact_all_or_nothing [OF reachable_inv [OF ex_graph_reachable] f surjective_pairing, of ex_platform "\<lambda>_. 0"] t
    by (auto simp: ex_artifact_def)
qed

text \<open>The lists of edges that realize the requests of the other two ingestors.\<close>

abbreviation edge_triple :: "'j GraphEdge \<Rightarrow> EdgeType \<times> uuid \<times> uuid" where
  "edge_triple e \<equiv> (ge_edge_type e, ge_from_node_id e, ge_to_node_id e)"

lemma realizes_triples:
  "list_all2 realizes rs es \<Longrightarrow>
     map edge_triple es = map (\<lambda>r. (eq_edge_type r, eq_from_node_id r, eq_to_node_id r)) rs"
  by (induction rule: list_all2_induct) (simp_all add: realizes_def)

lemma edge_request_fields [simp]:
  "eq_edge_type (edge_request pf t w n m et d s) = et"
  "eq_from_node_id (edge_request pf t w n m et d s) = n"
  "eq_to_node_id (edge_request pf t w n m et d s) = m"
  by (simp_all add: edge_request_def)

lemma map_opt_request: "map f (opt_request mk r) = (case r of None \<Rightarrow> [] | Some i \<Rightarrow> [f (mk i)])"
  by (cases r) (simp_all add: opt_request_def)

lemma length_opt_request: "length (opt_request mk r) = (if r = None then 0 else 1)"
  by (cases r) (simp_all add: opt_request_def)

lemma validate_opt_None: "validate_opt check r = None \<longleftrightarrow> (\<forall>i. r = Some i \<longrightarrow> check i = None)"
  by (cases r) (simp_all add: validate_opt_def)

abbreviation optional :: "(uuid \<Rightarrow> bool) \<Rightarrow> uuid option \<Rightarrow> bool" where
  "optional P r \<equiv> \<forall>i. r = Some i \<longrightarrow> P i"

text \<open>
  C18. Side effect ingestion is all-or-nothing: if the triggering node lies in the tenant and workflow and
  the optional references are an intent version and an approval there, it adds the node, the \<open>Triggers\<close>
  edge that leads from the triggering node to it and the edges asked for, \<open>DerivedFrom\<close> from it to the intent version
  and \<open>GeneratedFrom\<close> from it to the approval, and nothing else; otherwise it fails and leaves the graph as it was.
\<close>

theorem ingest_side_effect_all_or_nothing:
  assumes "graph_inv g" and "fresh_ids 3 fresh g" and "ingest_side_effect pf fresh clock r g = (res, g')"
  shows "if typed_in g None (si_tenant_id r) (si_workflow_id r) (si_triggered_by_task r) \<and>
      optional (typed_in g (Some NodeType.IntentVersion) (si_tenant_id r) (si_workflow_id r)) (si_derived_from_intent_version r) \<and>
      optional (typed_in g (Some NodeType.Approval) (si_tenant_id r) (si_workflow_id r)) (si_approval_snapshot_id r)
    then \<exists>x. res = Inr x \<and> graph_inv g' \<and> get_node g' (fresh 0) = Inr (igr_node x) \<and>
      gn_node_type (igr_node x) = NodeType.SideEffect \<and> gn_tenant_id (igr_node x) = si_tenant_id r \<and>
      gn_workflow_id (igr_node x) = si_workflow_id r \<and>
      gs_nodes g' = hm_insert (fresh 0) (igr_node x) (gs_nodes g) \<and>
      edges_of g' = edges_of g \<union> set (igr_edges x) \<and>
      map (\<lambda>e. (ge_edge_type e, ge_from_node_id e, ge_to_node_id e)) (igr_edges x) =
        [(Triggers, si_triggered_by_task r, fresh 0)] @
        (case si_derived_from_intent_version r of None \<Rightarrow> [] | Some i \<Rightarrow> [(DerivedFrom, fresh 0, i)]) @
        (case si_approval_snapshot_id r of None \<Rightarrow> [] | Some i \<Rightarrow> [(GeneratedFrom, fresh 0, i)])
    else (\<exists>e. res = Inl e) \<and> g' = g" (is "if ?ok then ?success else ?failure")
proof -
  let ?checks = "[validate_ref pf g ''Triggering'' None ''side effect'' (si_tenant_id r) (si_workflow_id r) (si_triggered_by_task r),
         validate_opt (validate_ref pf g ''IntentVersion'' (Some (NodeType.IntentVersion, ''an IntentVersion''))
           ''side effect'' (si_tenant_id r) (si_workflow_id r)) (si_derived_from_intent_version r),
         validate_opt (validate_ref pf g ''Approval'' (Some (NodeType.Approval, ''an Approval''))
           ''side effect'' (si_tenant_id r) (si_workflow_id r)) (si_approval_snapshot_id r)]"
  let ?nr = "\<lparr>nr_tenant_id = si_tenant_id r, nr_workflow_id = si_workflow_id r, nr_node_type = NodeType.SideEffect,
           nr_external_ref = Some (si_external_ref r), nr_label = si_label r, nr_properties = si_properties r\<rparr>"
  let ?reqs = "\<lambda>node. [edge_request pf (si_tenant_id r) (si_workflow_id r) (si_triggered_by_task r) node Triggers
               ''downstream'' ''SideEffect''] @
             opt_request (\<lambda>i. edge_request pf (si_tenant_id r) (si_workflow_id r) node i DerivedFrom
               ''upstream'' ''IntentVersion'') (si_derived_from_intent_version r) @
             opt_request (\<lambda>i. edge_request pf (si_tenant_id r) (si_workflow_id r) node i GeneratedFrom
               ''upstream'' ''Approval'') (si_approval_snapshot_id r)"
  have checks: "first_error ?checks = None \<longleftrightarrow> ?ok"
    by (simp add: first_error_None validate_opt_None validate_ref_None)
  show ?thesis
  proof (cases ?ok)
    case True
    have "\<forall>q \<in> set (?reqs (fresh 0)). eq_tenant_id q = nr_tenant_id ?nr \<and> eq_workflow_id q = nr_workflow_id ?nr \<and>
        (eq_from_node_id q = fresh 0 \<or> node_in g (eq_from_node_id q) (nr_tenant_id ?nr) (nr_workflow_id ?nr)) \<and>
        (eq_to_node_id q = fresh 0 \<or> node_in g (eq_to_node_id q) (nr_tenant_id ?nr) (nr_workflow_id ?nr))"
      using True by (cases "si_derived_from_intent_version r"; cases "si_approval_snapshot_id r")
        (auto simp: edge_request_def opt_request_def dest!: typed_in_node_in)
    moreover have "fresh_ids (length (?reqs (fresh 0))) fresh g"
      using assms(2) by (auto simp: fresh_ids_def length_opt_request intro: inj_on_subset)
    ultimately obtain x g2 where x: "create_and_wire pf fresh clock ?nr ?reqs g = (Inr x, g2)" "graph_inv g2"
      "gs_nodes g2 = hm_insert (fresh 0) (igr_node x) (gs_nodes g)" "gn_node_type (igr_node x) = NodeType.SideEffect"
      "gn_tenant_id (igr_node x) = si_tenant_id r" "gn_workflow_id (igr_node x) = si_workflow_id r"
      "list_all2 realizes (?reqs (fresh 0)) (igr_edges x)" "edges_of g2 = edges_of g \<union> set (igr_edges x)"
      using create_and_wire_ok [where fresh = fresh and nr = ?nr and requests = ?reqs, OF assms(1), of pf clock] by auto
    have "res = Inr x" "g' = g2"
      using assms(3) True [folded checks] x(1) by (simp_all add: ingest_side_effect_def)
    then have ?success
      using x(2-6,8) realizes_triples [OF x(7)] by (simp add: get_node_def map_opt_request cong: option.case_cong)
    with True show ?thesis unfolding if_P [OF True] by blast
  next
    case False
    then have "\<exists>e. first_error ?checks = Some e" using checks by blast
    then have ?failure using assms(3) by (auto simp: ingest_side_effect_def)
    with False show ?thesis unfolding if_not_P [OF False] by blast
  qed
qed

definition ex_side_effect :: "nat SideEffectIngestRequest" where
  "ex_side_effect = \<lparr>si_tenant_id = 1, si_workflow_id = 2,
     si_external_ref = \<lparr>er_ref_type = ExternalRefType.SideEffect, er_ref_id = 5\<rparr>, si_label = ''s'',
     si_triggered_by_task = 11, si_derived_from_intent_version = Some 10, si_approval_snapshot_id = None, si_properties = None\<rparr>"

definition ex_fresh4 :: "nat \<Rightarrow> uuid" where
  "ex_fresh4 k = [30, 31, 32, 33] ! k"

theorem ingest_side_effect_all_or_nothing_witness:
  "\<exists>x. fst (ingest_side_effect ex_platform ex_fresh4 (\<lambda>_. 0) ex_side_effect ex_graph) = Inr x \<and>
     map (\<lambda>e. (ge_edge_type e, ge_from_node_id e, ge_to_node_id e)) (igr_edges x) = [(Triggers, 11, 30), (DerivedFrom, 30, 10)]"
proof -
  have f: "fresh_ids 3 ex_fresh4 ex_graph"
  proof -
    have "{..3::nat} = {0, 1, 2, 3}" by auto
    moreover have "k \<le> 3 \<longleftrightarrow> k = 0 \<or> k = 1 \<or> k = 2 \<or> k = (3::nat)" for k by auto
    ultimately show ?thesis
      by (auto simp: fresh_ids_def ex_fresh4_def fresh_node_def fresh_edge_def ex_graph_def create_edge_def create_node_def
          Let_def GraphState_default_def ex_node_request_def ex_edge_request_def nth_Cons')
  qed
  have "typed_in ex_graph None 1 2 11" "typed_in ex_graph (Some NodeType.IntentVersion) 1 2 10"
    by (simp_all add: typed_in_def get_node_def ex_graph_def create_edge_def create_node_def Let_def
        GraphState_default_def ex_node_request_def ex_edge_request_def)
  then show ?thesis
    using ingest_side_effect_all_or_nothing [OF reachable_inv [OF ex_graph_reachable] f surjective_pairing,
        where pf = ex_platform and clock = "\<lambda>_. 0" and r = ex_side_effect]
    by (auto simp: ex_side_effect_def ex_fresh4_def)
qed

end
