(* ===== verification/Traversal.thy ===== *)
theory Traversal
  imports Graph_Repo
begin

text \<open>
  Graph traversal, \<open>crates/graph-service/src/traversal.rs\<close>: breadth-first reachability, shortest path,
  depth-first cycle detection. The loops read the graph through two repository operations, which are
  arguments here: \<open>gn\<close> is \<open>repo.get_node\<close> and \<open>ef\<close> is \<open>repo.list_edges_from\<close>; an error they return ends
  the traversal as \<open>?\<close> does. A \<open>HashSet\<close> is the list of its elements in insertion order; \<open>ord\<close> is the
  unspecified order in which it is turned into a vector.

  Termination: the two breadth-first loops are total functions, because \<open>Uuid\<close> is a finite type and a
  node enters the visited set once. \<open>reconstruct_path\<close> follows a parent map that could be cyclic; its
  model has the value \<open>None\<close> when the loop does not end. The recursion of the cycle detection carries
  fuel, one unit per nested call.
\<close>

section \<open>Filters\<close>

definition edge_passes_filter :: "TraversalOptions \<Rightarrow> 'j GraphEdge \<Rightarrow> bool" where
  "edge_passes_filter opts e = (case to_edge_types opts of
       Some ts \<Rightarrow> if ge_edge_type e \<notin> set ts then False else True
     | None \<Rightarrow> True)"

text \<open>The node filter of the loop: a node that cannot be read is filtered out.\<close>

definition node_passes_filter :: "(uuid \<Rightarrow> 'j GraphNode ire_result) \<Rightarrow> TraversalOptions \<Rightarrow> uuid \<Rightarrow> bool" where
  "node_passes_filter gn opts n = (case to_node_types opts of
       None \<Rightarrow> True
     | Some ts \<Rightarrow> (case gn n of Inl _ \<Rightarrow> False | Inr node \<Rightarrow> gn_node_type node \<in> set ts))"

definition list_order :: "('a list \<Rightarrow> 'a list) \<Rightarrow> bool" where
  "list_order ord \<longleftrightarrow> (\<forall>xs. mset (ord xs) = mset xs)"

section \<open>Reachability\<close>

type_synonym reach_entry = "uuid \<times> uuid option \<times> usize"

definition enqueue_edges :: "TraversalOptions \<Rightarrow> 'j GraphEdge list \<Rightarrow> usize \<Rightarrow> reach_entry list" where
  "enqueue_edges opts es depth = map (\<lambda>e. (ge_to_node_id e, Some (ge_id e), depth)) (filter (edge_passes_filter opts) es)"

lemma card_unvisited: "n \<notin> set visited \<Longrightarrow> card (- set (visited @ [n])) < card (- set visited)"
  for n :: uuid
  by (rule psubset_card_mono) auto

function reach_loop ::
  "(uuid \<Rightarrow> 'j GraphNode ire_result) \<Rightarrow> (uuid \<Rightarrow> 'j GraphEdge list ire_result) \<Rightarrow> TraversalOptions \<Rightarrow> uuid \<Rightarrow>
   uuid list \<Rightarrow> uuid list \<Rightarrow> reach_entry list \<Rightarrow> (uuid list \<times> uuid list) ire_result" where
  "reach_loop gn ef opts start visited incoming [] = Inr (visited, incoming)"
| "reach_loop gn ef opts start visited incoming ((n, eid, depth) # queue) =
     (if n = start \<and> \<not> to_include_start opts then reach_loop gn ef opts start visited incoming queue
      else if (case to_max_depth opts of Some m \<Rightarrow> depth > m | None \<Rightarrow> False) then
        reach_loop gn ef opts start visited incoming queue
      else if \<not> node_passes_filter gn opts n then reach_loop gn ef opts start visited incoming queue
      else if n \<in> set visited then reach_loop gn ef opts start visited incoming queue
      else
        let visited' = visited @ [n];
            incoming' = (case eid of Some i \<Rightarrow> incoming @ [i] | None \<Rightarrow> incoming);
            at_max_depth = (case to_max_depth opts of Some m \<Rightarrow> depth \<ge> m | None \<Rightarrow> False)
        in if at_max_depth then reach_loop gn ef opts start visited' incoming' queue
           else case ef n of
               Inl e \<Rightarrow> Inl e
             | Inr es \<Rightarrow> reach_loop gn ef opts start visited' incoming' (queue @ enqueue_edges opts es (depth + 1)))"
  by pat_completeness auto

termination
proof (relation "measures [\<lambda>(gn, ef, opts, start, visited, incoming, queue). card (- set visited),
    \<lambda>(gn, ef, opts, start, visited, incoming, queue). length queue]", goal_cases)
  case 1
  then show ?case by simp
qed (simp_all add: card_unvisited [simplified])

definition find_reachable ::
  "(uuid list \<Rightarrow> uuid list) \<Rightarrow> (uuid \<Rightarrow> 'j GraphNode ire_result) \<Rightarrow> (uuid \<Rightarrow> 'j GraphEdge list ire_result) \<Rightarrow>
   uuid \<Rightarrow> TraversalOptions \<Rightarrow> ReachabilityResult ire_result" where
  "find_reachable ord gn ef start opts =
     (case gn start of
        Inl e \<Rightarrow> Inl e
      | Inr _ \<Rightarrow>
          (case ef start of
             Inl e \<Rightarrow> Inl e
           | Inr es \<Rightarrow>
               (case reach_loop gn ef opts start (if to_include_start opts then [start] else []) []
                       (enqueue_edges opts es 1) of
                  Inl e \<Rightarrow> Inl e
                | Inr (visited, incoming) \<Rightarrow> Inr \<lparr>reachable_nodes = ord visited, incoming_edges = incoming\<rparr>)))"

definition list_reachable_nodes ::
  "(uuid list \<Rightarrow> uuid list) \<Rightarrow> (uuid \<Rightarrow> 'j GraphNode ire_result) \<Rightarrow> (uuid \<Rightarrow> 'j GraphEdge list ire_result) \<Rightarrow>
   uuid \<Rightarrow> usize option \<Rightarrow> uuid list ire_result" where
  "list_reachable_nodes ord gn ef start max_depth =
     (case find_reachable ord gn ef start (TraversalOptions_default\<lparr>to_max_depth := max_depth\<rparr>) of
        Inl e \<Rightarrow> Inl e
      | Inr r \<Rightarrow> Inr (reachable_nodes r))"

section \<open>Shortest path\<close>

type_synonym parent_map = "(uuid, uuid \<times> uuid) hmap"

text \<open>
  The inner \<open>for\<close> loop over the edges of a node: \<open>Inl parent\<close> when it meets the target (the early
  \<open>return\<close>), otherwise the updated visited set, parent map and queue.
\<close>

fun path_edges ::
  "TraversalOptions \<Rightarrow> uuid \<Rightarrow> uuid \<Rightarrow> usize \<Rightarrow> 'j GraphEdge list \<Rightarrow> uuid list \<Rightarrow> parent_map \<Rightarrow> (uuid \<times> usize) list \<Rightarrow>
   parent_map + (uuid list \<times> parent_map \<times> (uuid \<times> usize) list)" where
  "path_edges opts target n depth [] visited parent queue = Inr (visited, parent, queue)"
| "path_edges opts target n depth (e # es) visited parent queue =
     (if \<not> edge_passes_filter opts e then path_edges opts target n depth es visited parent queue
      else if ge_to_node_id e = target then Inl (hm_insert target (n, ge_id e) parent)
      else if ge_to_node_id e \<notin> set visited then
        path_edges opts target n depth es (visited @ [ge_to_node_id e])
          (hm_insert (ge_to_node_id e) (n, ge_id e) parent) (queue @ [(ge_to_node_id e, depth + 1)])
      else path_edges opts target n depth es visited parent queue)"

lemma path_edges_measure:
  "path_edges opts target n depth es visited parent queue = Inr (visited', parent', queue') \<Longrightarrow>
   card (- set visited') + length queue' \<le> card (- set visited) + length queue"
proof (induction opts target n depth es visited parent queue rule: path_edges.induct)
  case (2 opts target n depth e es visited parent queue)
  show ?case
  proof (cases "edge_passes_filter opts e \<and> ge_to_node_id e \<noteq> target \<and> ge_to_node_id e \<notin> set visited")
    case True
    then have "card (- set visited') + length queue'
        \<le> card (- set (visited @ [ge_to_node_id e])) + length (queue @ [(ge_to_node_id e, depth + 1)])"
      using 2 by simp
    with card_unvisited [of "ge_to_node_id e" visited] True show ?thesis by simp
  next
    case False
    with 2 show ?thesis by (auto split: if_splits)
  qed
qed simp

function path_loop ::
  "(uuid \<Rightarrow> 'j GraphEdge list ire_result) \<Rightarrow> TraversalOptions \<Rightarrow> uuid \<Rightarrow> uuid list \<Rightarrow> parent_map \<Rightarrow>
   (uuid \<times> usize) list \<Rightarrow> parent_map option ire_result" where
  "path_loop ef opts target visited parent [] = Inr None"
| "path_loop ef opts target visited parent ((n, depth) # queue) =
     (if (case to_max_depth opts of Some m \<Rightarrow> depth \<ge> m | None \<Rightarrow> False) then
        path_loop ef opts target visited parent queue
      else case ef n of
          Inl e \<Rightarrow> Inl e
        | Inr es \<Rightarrow>
            (case path_edges opts target n depth es visited parent queue of
               Inl parent' \<Rightarrow> Inr (Some parent')
             | Inr (visited', parent', queue') \<Rightarrow> path_loop ef opts target visited' parent' queue'))"
  by pat_completeness auto

termination
proof (relation "measure (\<lambda>(ef, opts, target, visited, parent, queue). card (- set visited) + length queue)", goal_cases)
  case (3 ef opts target visited parent n depth queue es r visited' pq parent' queue')
  then have "path_edges opts target n depth es visited parent queue = Inr (visited', parent', queue')" by simp
  from path_edges_measure [OF this] show ?case by simp
qed simp_all

partial_function (option) reconstruct_loop ::
  "uuid \<Rightarrow> parent_map \<Rightarrow> uuid \<Rightarrow> uuid list \<Rightarrow> uuid list \<Rightarrow> GraphPath option" where
  "reconstruct_loop source parent current nodes edges =
     (if current = source then Some \<lparr>gp_node_ids = rev nodes, gp_edge_ids = rev edges\<rparr>
      else case map_of parent current of
          Some (prev, eid) \<Rightarrow> reconstruct_loop source parent prev (nodes @ [prev]) (edges @ [eid])
        | None \<Rightarrow> Some \<lparr>gp_node_ids = [], gp_edge_ids = []\<rparr>)"

definition reconstruct_path :: "uuid \<Rightarrow> uuid \<Rightarrow> parent_map \<Rightarrow> GraphPath option" where
  "reconstruct_path source target parent = reconstruct_loop source parent target [target] []"

text \<open>\<open>None\<close>: the reconstruction does not end.\<close>

definition find_path ::
  "(uuid \<Rightarrow> 'j GraphNode ire_result) \<Rightarrow> (uuid \<Rightarrow> 'j GraphEdge list ire_result) \<Rightarrow> uuid \<Rightarrow> uuid \<Rightarrow> TraversalOptions \<Rightarrow>
   GraphPath ire_result option" where
  "find_path gn ef source target opts =
     (case gn source of Inl e \<Rightarrow> Some (Inl e)
      | Inr _ \<Rightarrow>
     (case gn target of Inl e \<Rightarrow> Some (Inl e)
      | Inr _ \<Rightarrow>
        if source = target then
          Some (Inr (if to_include_start opts then \<lparr>gp_node_ids = [source], gp_edge_ids = []\<rparr>
            else \<lparr>gp_node_ids = [], gp_edge_ids = []\<rparr>))
        else
          (case path_loop ef opts target [source] [] [(source, 0)] of
             Inl e \<Rightarrow> Some (Inl e)
           | Inr None \<Rightarrow> Some (Inr \<lparr>gp_node_ids = [], gp_edge_ids = []\<rparr>)
           | Inr (Some parent) \<Rightarrow> map_option Inr (reconstruct_path source target parent))))"

definition are_connected ::
  "(uuid \<Rightarrow> 'j GraphNode ire_result) \<Rightarrow> (uuid \<Rightarrow> 'j GraphEdge list ire_result) \<Rightarrow> uuid \<Rightarrow> uuid \<Rightarrow> usize option \<Rightarrow>
   bool ire_result option" where
  "are_connected gn ef source target max_depth =
     (case find_path gn ef source target (TraversalOptions_default\<lparr>to_max_depth := max_depth\<rparr>) of
        None \<Rightarrow> None
      | Some (Inl e) \<Rightarrow> Some (Inl e)
      | Some (Inr p) \<Rightarrow> Some (Inr (gp_node_ids p \<noteq> [])))"

section \<open>Cycle detection\<close>

datatype (plugins only: size code) Color = White | Gray | Black

type_synonym dfs_state = "(uuid, Color) hmap \<times> uuid list \<times> uuid list option"

text \<open>\<open>path.iter().position(...)\<close> and the first loop over the neighbours.\<close>

fun position :: "'a \<Rightarrow> 'a list \<Rightarrow> nat option" where
  "position x [] = None"
| "position x (y # ys) = (if y = x then Some 0 else map_option Suc (position x ys))"

fun back_edge :: "(uuid, Color) hmap \<Rightarrow> uuid list \<Rightarrow> uuid list \<Rightarrow> uuid list option" where
  "back_edge color path [] = None"
| "back_edge color path (n # ns) =
     (if map_of color n = Some Gray then
        (case position n path of
           Some pos \<Rightarrow> Some (drop pos path @ [n])
         | None \<Rightarrow> back_edge color path ns)
      else back_edge color path ns)"

fun dfs :: "nat \<Rightarrow> (uuid, uuid list) hmap \<Rightarrow> uuid \<Rightarrow> dfs_state \<Rightarrow> (bool \<times> dfs_state) option"
and dfs_children :: "nat \<Rightarrow> (uuid, uuid list) hmap \<Rightarrow> uuid list \<Rightarrow> dfs_state \<Rightarrow> (bool \<times> dfs_state) option" where
  "dfs 0 adj node st = None"
| "dfs (Suc k) adj node (color, path, cycle) =
     (let color1 = hm_insert node Gray color; path1 = path @ [node] in
      case map_of adj node of
        None \<Rightarrow> Some (False, hm_insert node Black color1, butlast path1, cycle)
      | Some neighbors \<Rightarrow>
          (case back_edge color1 path1 neighbors of
             Some c \<Rightarrow> Some (True, hm_insert node Black color1, butlast path1, Some c)
           | None \<Rightarrow>
               (case dfs_children k adj neighbors (color1, path1, cycle) of
                  None \<Rightarrow> None
                | Some (True, st) \<Rightarrow> Some (True, st)
                | Some (False, color2, path2, cycle2) \<Rightarrow>
                    Some (False, hm_insert node Black color2, butlast path2, cycle2))))"
| "dfs_children k adj [] st = Some (False, st)"
| "dfs_children k adj (n # ns) st =
     (if map_of (fst st) n = Some White then
        (case dfs k adj n st of
           None \<Rightarrow> None
         | Some (True, st') \<Rightarrow> Some (True, st')
         | Some (False, st') \<Rightarrow> dfs_children k adj ns st')
      else dfs_children k adj ns st)"

text \<open>The loop over all nodes, with a fresh path for each root.\<close>

fun dfs_roots :: "nat \<Rightarrow> (uuid, uuid list) hmap \<Rightarrow> uuid list \<Rightarrow> (uuid, Color) hmap \<Rightarrow> uuid list option \<Rightarrow> uuid list option option" where
  "dfs_roots k adj [] color cycle = Some cycle"
| "dfs_roots k adj (n # ns) color cycle =
     (if map_of color n = Some White then
        (case dfs k adj n (color, [], cycle) of
           None \<Rightarrow> None
         | Some (True, color', path', cycle') \<Rightarrow> Some cycle'
         | Some (False, color', path', cycle') \<Rightarrow> dfs_roots k adj ns color' cycle')
      else dfs_roots k adj ns color cycle)"

definition adjacency :: "'j GraphNode list \<Rightarrow> 'j GraphEdge list \<Rightarrow> (uuid, uuid list) hmap" where
  "adjacency nodes edges =
     fold (\<lambda>e adj. hm_insert (ge_from_node_id e)
         ((case map_of adj (ge_from_node_id e) of Some ns \<Rightarrow> ns | None \<Rightarrow> []) @ [ge_to_node_id e]) adj) edges
       (fold (\<lambda>n adj. case map_of adj (gn_id n) of Some _ \<Rightarrow> adj | None \<Rightarrow> hm_insert (gn_id n) [] adj) nodes [])"

definition white_colors :: "'j GraphNode list \<Rightarrow> (uuid, Color) hmap" where
  "white_colors nodes = fold (\<lambda>n color. hm_insert (gn_id n) White color) nodes []"

text \<open>The outer \<open>None\<close> would be a recursion deeper than the number of nodes.\<close>

definition detect_cycles ::
  "(uuid, 'j GraphNode) hash_iter \<Rightarrow> (uuid, 'j GraphEdge) hash_iter \<Rightarrow> 'j GraphState \<Rightarrow> uuid \<Rightarrow>
   CycleDetectionResult ire_result option" where
  "detect_cycles itn ite g workflow_id =
     (case list_nodes itn g \<lparr>nf_tenant_id = None, nf_workflow_id = Some workflow_id, nf_node_type = None, nf_state = None\<rparr> of
        Inl e \<Rightarrow> Some (Inl e)
      | Inr nodes \<Rightarrow>
          if nodes = [] then Some (Inr \<lparr>has_cycle = False, cycle_path = None\<rparr>)
          else
            (case list_edges ite g \<lparr>ef_tenant_id = None, ef_workflow_id = Some workflow_id, ef_from_node_id = None,
                    ef_to_node_id = None, ef_edge_type = None\<rparr> of
               Inl e \<Rightarrow> Some (Inl e)
             | Inr edges \<Rightarrow>
                 map_option (\<lambda>cycle. Inr \<lparr>has_cycle = (cycle \<noteq> None), cycle_path = cycle\<rparr>)
                   (dfs_roots (length nodes) (adjacency nodes edges) (map gn_id nodes) (white_colors nodes) None)))"

end
