(* ===== verification/Search.thy ===== *)
theory Search
  imports Prelude
begin

text \<open>
  Breadth-first search, independent of the graph it runs on. \<open>walk S s k n\<close> says that \<open>n\<close> is reached from
  \<open>s\<close> in \<open>k\<close> steps of the successor function \<open>S\<close>, and \<open>hop_dist\<close> is the least such \<open>k\<close>. The three queue loops
  of the graph service (reachability, shortest path, impact classification) keep one invariant:
  every successor of an expanded node is expanded or waits in the queue at the right depth. The lemma
  \<open>frontier_complete\<close> draws the conclusion once.
\<close>

section \<open>Walks and distances\<close>

inductive walk :: "('n \<Rightarrow> 'n set) \<Rightarrow> 'n \<Rightarrow> nat \<Rightarrow> 'n \<Rightarrow> bool" for S s where
  walk_0: "walk S s 0 s"
| walk_Suc: "walk S s k n \<Longrightarrow> m \<in> S n \<Longrightarrow> walk S s (Suc k) m"

inductive_simps walk_zero_iff [simp]: "walk S s 0 n"
inductive_simps walk_Suc_iff: "walk S s (Suc k) n"

definition hop_dist :: "('n \<Rightarrow> 'n set) \<Rightarrow> 'n \<Rightarrow> 'n \<Rightarrow> nat" where
  "hop_dist S s n = (LEAST k. walk S s k n)"

lemma dist_le: "walk S s k n \<Longrightarrow> hop_dist S s n \<le> k"
  unfolding hop_dist_def by (rule Least_le)

lemma walk_dist: "walk S s k n \<Longrightarrow> walk S s (hop_dist S s n) n"
  unfolding hop_dist_def by (rule LeastI)

lemma dist_start [simp]: "hop_dist S s s = 0"
  using dist_le [of S s 0 s] by simp

lemma dist_zero: "walk S s k n \<Longrightarrow> hop_dist S s n = 0 \<Longrightarrow> n = s"
  using walk_dist [of S s k n] by simp

section \<open>Depth bounds\<close>

definition in_depth :: "nat option \<Rightarrow> nat \<Rightarrow> bool" where
  "in_depth mx k \<longleftrightarrow> (case mx of None \<Rightarrow> True | Some m \<Rightarrow> k \<le> m)"

lemma in_depth_mono: "in_depth mx k \<Longrightarrow> j \<le> k \<Longrightarrow> in_depth mx j"
  by (auto simp: in_depth_def split: option.splits)

lemma in_depth_0 [simp]: "in_depth mx 0"
  by (simp add: in_depth_def split: option.splits)

lemma in_depth_cases:
  "(case mx of Some m \<Rightarrow> d > m | None \<Rightarrow> False) \<longleftrightarrow> \<not> in_depth mx d"
  "(case mx of Some m \<Rightarrow> d \<ge> m | None \<Rightarrow> False) \<longleftrightarrow> \<not> in_depth mx (Suc d)"
  by (auto simp: in_depth_def split: option.splits)

section \<open>The frontier\<close>

text \<open>\<open>V\<close> are the expanded nodes, \<open>F j\<close> the nodes that wait at depth \<open>j\<close>.\<close>

definition frontier :: "('n \<Rightarrow> 'n set) \<Rightarrow> 'n \<Rightarrow> nat option \<Rightarrow> 'n set \<Rightarrow> (nat \<Rightarrow> 'n set) \<Rightarrow> bool" where
  "frontier S s mx V F \<longleftrightarrow> (s \<in> V \<or> s \<in> F 0) \<and>
     (\<forall>n \<in> V. \<forall>m \<in> S n. in_depth mx (Suc (hop_dist S s n)) \<longrightarrow>
        m \<in> V \<or> (\<exists>j \<le> Suc (hop_dist S s n). m \<in> F j))"

lemma frontier_mono: "frontier S s mx V F \<Longrightarrow> (\<And>j. F j \<subseteq> F' j) \<Longrightarrow> frontier S s mx V F'"
  unfolding frontier_def by (meson subsetD)

lemma frontier_complete:
  assumes "frontier S s mx V F" and "walk S s k n" and "in_depth mx k" and "\<And>j. j < k \<Longrightarrow> F j = {}"
  shows "n \<in> V \<or> n \<in> F k"
  using assms(2-4)
proof (induction rule: walk.induct)
  case walk_0
  then show ?case using assms(1) by (simp add: frontier_def)
next
  case (walk_Suc k n m)
  then have "n \<in> V \<or> n \<in> F k" using in_depth_mono [of mx "Suc k" k] by simp
  then have n: "n \<in> V" using walk_Suc.prems(2) [of k] by simp
  have d: "hop_dist S s n \<le> k" using walk_Suc.hyps(1) by (rule dist_le)
  then have "in_depth mx (Suc (hop_dist S s n))" using in_depth_mono [OF walk_Suc.prems(1)] by simp
  with assms(1) n walk_Suc.hyps(2) have "m \<in> V \<or> (\<exists>j \<le> Suc (hop_dist S s n). m \<in> F j)"
    unfolding frontier_def by blast
  moreover have "j = Suc k" if "j \<le> Suc (hop_dist S s n)" "m \<in> F j" for j
    using that d walk_Suc.prems(2) [of j] by (cases "j < Suc k") auto
  ultimately show ?case by blast
qed

text \<open>A node that is neither expanded nor waiting is at least as far as the least waiting depth allows.\<close>

lemma frontier_dist:
  assumes "frontier S s mx V F" and "walk S s d n" and "in_depth mx d" and "\<And>j. j < d \<Longrightarrow> F j \<noteq> {} \<Longrightarrow> Suc j = d"
    and "n \<notin> V" and "\<And>j. j < d \<Longrightarrow> n \<notin> F j"
  shows "hop_dist S s n = d"
proof (rule ccontr)
  assume "hop_dist S s n \<noteq> d"
  with dist_le [OF assms(2)] have k: "hop_dist S s n < d" by simp
  have "F j = {}" if "j < hop_dist S s n" for j
    using assms(4) [of j] that k by force
  then have "n \<in> V \<or> n \<in> F (hop_dist S s n)"
    using frontier_complete [OF assms(1) walk_dist [OF assms(2)]] in_depth_mono [OF assms(3)] k by simp
  with assms(5) assms(6) [OF k] show False by blast
qed

section \<open>Level order\<close>

text \<open>The depths in the queue are sorted and span at most two levels.\<close>

definition level_order :: "('e \<Rightarrow> nat) \<Rightarrow> 'e list \<Rightarrow> bool" where
  "level_order depth q \<longleftrightarrow> sorted (map depth q) \<and> (\<forall>e \<in> set q. depth e \<le> Suc (depth (hd q)))"

lemma level_order_Nil [simp]: "level_order depth []"
  by (simp add: level_order_def)

lemma level_order_head: "level_order depth (e # q) \<Longrightarrow> e' \<in> set q \<Longrightarrow> depth e \<le> depth e'"
  by (simp add: level_order_def)

lemma level_order_tail: "level_order depth (e # q) \<Longrightarrow> level_order depth q"
  by (cases q) (auto simp: level_order_def intro: order_trans)

lemma level_order_push:
  assumes "level_order depth (e # q)" and "\<And>x. x \<in> set xs \<Longrightarrow> depth x = Suc (depth e)"
  shows "level_order depth (q @ xs)"
proof -
  have "sorted (map depth xs)"
    using assms(2) by (induction xs) auto
  moreover have y: "depth y \<le> Suc (depth e)" "depth e \<le> depth y" if "y \<in> set q" for y
    using assms(1) that by (auto simp: level_order_def)
  moreover have "sorted (map depth q)"
    using assms(1) by (simp add: level_order_def)
  ultimately have "sorted (map depth (q @ xs))"
    using assms(2) by (auto simp: sorted_append)
  moreover have "depth z \<le> Suc (depth (hd (q @ xs)))" if "z \<in> set (q @ xs)" for z
  proof -
    have "hd (q @ xs) \<in> set (q @ xs)" using that by (metis hd_in_set empty_iff empty_set)
    then have "depth e \<le> depth (hd (q @ xs))" using y(2) assms(2) by fastforce
    moreover have "depth z \<le> Suc (depth e)" using that y(1) assms(2) by fastforce
    ultimately show ?thesis by simp
  qed
  ultimately show ?thesis by (simp only: level_order_def ball_simps) blast
qed

lemma level_order_grow:
  assumes "level_order depth (e # q)" and "\<And>x. x \<in> set xs \<Longrightarrow> depth x = Suc (depth e)"
  shows "level_order depth (e # q @ xs)"
proof -
  have "sorted (map depth (q @ xs))"
    using level_order_push [OF assms] by (simp add: level_order_def)
  moreover have "depth e \<le> depth y" "depth y \<le> Suc (depth e)" if "y \<in> set (q @ xs)" for y
    using that assms by (auto simp: level_order_def)
  ultimately show ?thesis by (auto simp: level_order_def)
qed

lemma level_order_const: "(\<And>x. x \<in> set q \<Longrightarrow> depth x = d) \<Longrightarrow> level_order depth q"
  by (cases q) (auto simp: level_order_def sorted_iff_nth_mono_less)

end
