(* ===== verification/Traversal_Laws.thy ===== *)
theory Traversal_Laws
  imports Traversal Search Graph_Repo_Laws
begin

text \<open>
  Correctness of the reachability query: the breadth-first loop returns exactly the nodes within the depth bound. Paths
  and cycles are in theories of their own.
\<close>

section \<open>Reachability\<close>

definition admitted :: "(uuid \<Rightarrow> 'j GraphNode ire_result) \<Rightarrow> TraversalOptions \<Rightarrow> uuid \<Rightarrow> uuid \<Rightarrow> bool" where
  "admitted gn opts start n \<longleftrightarrow> node_passes_filter gn opts n \<and> (n = start \<longrightarrow> to_include_start opts)"

definition reach_succs ::
  "(uuid \<Rightarrow> 'j GraphNode ire_result) \<Rightarrow> (uuid \<Rightarrow> 'j GraphEdge list ire_result) \<Rightarrow> TraversalOptions \<Rightarrow> uuid \<Rightarrow> uuid \<Rightarrow> uuid set" where
  "reach_succs gn ef opts start n = {m. admitted gn opts start m \<and>
     (\<exists>es e. ef n = Inr es \<and> e \<in> set es \<and> edge_passes_filter opts e \<and> ge_to_node_id e = m)}"

definition waiting :: "(uuid \<Rightarrow> 'j GraphNode ire_result) \<Rightarrow> TraversalOptions \<Rightarrow> uuid \<Rightarrow> reach_entry list \<Rightarrow> nat \<Rightarrow> uuid set" where
  "waiting gn opts start queue j = {n. admitted gn opts start n \<and> (\<exists>e. (n, e, j) \<in> set queue)}"

definition reach_inv ::
  "(uuid \<Rightarrow> 'j GraphNode ire_result) \<Rightarrow> (uuid \<Rightarrow> 'j GraphEdge list ire_result) \<Rightarrow> TraversalOptions \<Rightarrow> uuid \<Rightarrow>
   uuid list \<Rightarrow> reach_entry list \<Rightarrow> bool" where
  "reach_inv gn ef opts start visited queue \<longleftrightarrow>
     level_order (snd \<circ> snd) queue \<and>
     (\<forall>(n, e, d) \<in> set queue. admitted gn opts start n \<longrightarrow> walk (reach_succs gn ef opts start) start d n) \<and>
     (\<forall>n \<in> set visited. \<exists>k. walk (reach_succs gn ef opts start) start k n \<and> in_depth (to_max_depth opts) k) \<and>
     (start \<in> set visited \<longleftrightarrow> to_include_start opts) \<and>
     frontier (reach_succs gn ef opts start) start (to_max_depth opts) (insert start (set visited)) (waiting gn opts start queue)"

lemma enqueue_mem:
  "(n, e, d) \<in> set (enqueue_edges opts es depth) \<longleftrightarrow>
     d = depth \<and> (\<exists>x \<in> set es. edge_passes_filter opts x \<and> ge_to_node_id x = n \<and> e = Some (ge_id x))"
  by (auto simp: enqueue_edges_def)

lemma reach_inv_pop_skip:
  assumes "reach_inv gn ef opts start visited ((n, e, d) # queue)"
    and "admitted gn opts start n \<Longrightarrow> in_depth (to_max_depth opts) d \<Longrightarrow> n \<in> set visited"
  shows "reach_inv gn ef opts start visited queue"
proof -
  let ?S = "reach_succs gn ef opts start"
  let ?V = "insert start (set visited)"
  have "m \<in> ?V \<or> (\<exists>j \<le> Suc (hop_dist ?S start p). m \<in> waiting gn opts start queue j)"
    if "p \<in> ?V" "m \<in> ?S p" "in_depth (to_max_depth opts) (Suc (hop_dist ?S start p))" for p m
  proof -
    have "m \<in> ?V \<or> (\<exists>j \<le> Suc (hop_dist ?S start p). m \<in> waiting gn opts start ((n, e, d) # queue) j)"
      using assms(1) that unfolding reach_inv_def frontier_def by blast
    moreover have "m = n \<Longrightarrow> d \<le> Suc (hop_dist ?S start p) \<Longrightarrow> n \<in> set visited"
      using assms(2) that(2,3) by (auto simp: reach_succs_def intro: in_depth_mono)
    ultimately show ?thesis unfolding waiting_def by auto
  qed
  then have "frontier ?S start (to_max_depth opts) ?V (waiting gn opts start queue)"
    unfolding frontier_def by blast
  with assms(1) show ?thesis
    by (auto simp: reach_inv_def dest: level_order_tail)
qed

lemma reach_inv_visit:
  assumes inv: "reach_inv gn ef opts start visited ((n, e, d) # queue)"
    and n: "admitted gn opts start n" "in_depth (to_max_depth opts) d" "n \<notin> set visited"
    and q: "if in_depth (to_max_depth opts) (Suc d) then ef n = Inr es \<and> queue' = queue @ enqueue_edges opts es (Suc d)
      else queue' = queue"
  shows "reach_inv gn ef opts start (visited @ [n]) queue'"
proof -
  let ?S = "reach_succs gn ef opts start"
  let ?F = "waiting gn opts start ((n, e, d) # queue)" and ?F' = "waiting gn opts start queue'"
  have lo: "level_order (snd \<circ> snd) ((n, e, d) # queue)" and fr: "frontier ?S start (to_max_depth opts) (insert start (set visited)) ?F"
    using inv by (auto simp: reach_inv_def)
  have w: "walk ?S start d n" using inv n(1) by (simp add: reach_inv_def)
  have ns: "n \<noteq> start" using inv n by (auto simp: reach_inv_def admitted_def)
  have "?F j = {}" if "j < d" for j
    using level_order_head [OF lo] that by (fastforce simp: waiting_def)
  then have dn: "hop_dist ?S start n = d"
    using frontier_dist [OF fr w n(2)] n(3) ns by blast
  have sub: "set queue \<subseteq> set queue'" using q by (auto split: if_splits)
  have "m \<in> insert start (set (visited @ [n])) \<or> (\<exists>j \<le> Suc (hop_dist ?S start p). m \<in> ?F' j)"
    if "p \<in> insert start (set (visited @ [n]))" "m \<in> ?S p" "in_depth (to_max_depth opts) (Suc (hop_dist ?S start p))" for p m
  proof (cases "p = n")
    case True
    with that(3) dn q have "ef n = Inr es" "queue' = queue @ enqueue_edges opts es (Suc d)" by simp_all
    with that(2) True dn have "m \<in> ?F' (Suc d)" by (auto simp: reach_succs_def waiting_def enqueue_mem)
    with True dn show ?thesis by blast
  next
    case False
    with that(1) have "p \<in> insert start (set visited)" by auto
    with fr that(2,3) have "m \<in> insert start (set visited) \<or> (\<exists>j \<le> Suc (hop_dist ?S start p). m \<in> ?F j)"
      unfolding frontier_def by blast
    with sub show ?thesis by (auto simp: waiting_def)
  qed
  then have "frontier ?S start (to_max_depth opts) (insert start (set (visited @ [n]))) ?F'"
    unfolding frontier_def by blast
  moreover have "level_order (snd \<circ> snd) queue'"
  proof -
    have "level_order (snd \<circ> snd) (queue @ enqueue_edges opts es (Suc d))"
      by (rule level_order_push [OF lo]) (auto simp: enqueue_edges_def)
    with q level_order_tail [OF lo] show ?thesis by (auto split: if_splits)
  qed
  moreover have "\<forall>(m, e, j) \<in> set queue'. admitted gn opts start m \<longrightarrow> walk ?S start j m"
  proof clarify
    fix m x j
    assume m: "(m, x, j) \<in> set queue'" and ok: "admitted gn opts start m"
    show "walk ?S start j m"
    proof (cases "(m, x, j) \<in> set queue")
      case True
      then show ?thesis using inv ok by (auto simp: reach_inv_def)
    next
      case False
      with m q have "ef n = Inr es" "(m, x, j) \<in> set (enqueue_edges opts es (Suc d))" by (auto split: if_splits)
      then have "m \<in> ?S n" "j = Suc d" using ok by (auto simp: enqueue_mem reach_succs_def)
      with walk_Suc [OF w] show ?thesis by simp
    qed
  qed
  ultimately show ?thesis
    using inv w n(2) ns by (auto simp: reach_inv_def)
qed

lemma reach_loop_correct:
  assumes "\<And>n. \<exists>es. ef n = Inr es" and "reach_inv gn ef opts start visited queue"
  shows "\<exists>v i. reach_loop gn ef opts start visited incoming queue = Inr (v, i) \<and>
    (start \<in> set v \<longleftrightarrow> to_include_start opts) \<and>
    insert start (set v) = {n. \<exists>k. walk (reach_succs gn ef opts start) start k n \<and> in_depth (to_max_depth opts) k}"
  using assms
proof (induction gn ef opts start visited incoming queue arbitrary: rule: reach_loop.induct)
  case (1 gn ef opts start visited incoming)
  let ?S = "reach_succs gn ef opts start"
  have fr: "frontier ?S start (to_max_depth opts) (insert start (set visited)) (waiting gn opts start [])"
    using 1 by (simp add: reach_inv_def)
  have "n \<in> insert start (set visited)" if "walk ?S start k n" "in_depth (to_max_depth opts) k" for n k
    using frontier_complete [OF fr that] by (simp add: waiting_def)
  moreover have "\<exists>k. walk ?S start k n \<and> in_depth (to_max_depth opts) k" if "n \<in> insert start (set visited)" for n
    using that 1 by (cases "n = start") (auto simp: reach_inv_def intro: exI [of _ "0::nat"])
  ultimately show ?case using 1 by (auto simp: reach_inv_def)
next
  case (2 gn ef opts start visited incoming n eid depth queue)
  let ?skip = "reach_loop gn ef opts start visited incoming queue"
  show ?case
  proof (cases "admitted gn opts start n \<and> in_depth (to_max_depth opts) depth \<and> n \<notin> set visited")
    case False
    then have "reach_inv gn ef opts start visited queue"
      by (intro reach_inv_pop_skip [OF "2.prems"(2)]) blast
    moreover have "reach_loop gn ef opts start visited incoming ((n, eid, depth) # queue) = ?skip"
      using False by (auto simp: admitted_def in_depth_cases)
    ultimately show ?thesis
      using "2.IH"(1-4) "2.prems"(1) False by (auto simp: admitted_def in_depth_cases)
  next
    case True
    obtain es where es: "ef n = Inr es" using "2.prems"(1) [of n] by blast
    let ?queue = "if in_depth (to_max_depth opts) (Suc depth) then queue @ enqueue_edges opts es (Suc depth) else queue"
    let ?in = "case eid of Some i \<Rightarrow> incoming @ [i] | None \<Rightarrow> incoming"
    have "reach_inv gn ef opts start (visited @ [n]) ?queue"
      using reach_inv_visit [OF "2.prems"(2), of es ?queue] True es by (simp split: if_splits)
    moreover have "reach_loop gn ef opts start visited incoming ((n, eid, depth) # queue)
        = reach_loop gn ef opts start (visited @ [n]) ?in ?queue"
      using True es by (auto simp: admitted_def in_depth_cases)
    ultimately show ?thesis
      using "2.IH"(5,6) "2.prems"(1) True es by (auto simp: admitted_def in_depth_cases split: if_splits)
  qed
qed

lemma reach_inv_init:
  assumes "ef start = Inr es"
  shows "reach_inv gn ef opts start (if to_include_start opts then [start] else []) (enqueue_edges opts es 1)"
proof -
  let ?S = "reach_succs gn ef opts start"
  have "level_order (snd \<circ> snd) (enqueue_edges opts es 1)"
    by (rule level_order_const [where d = 1]) (auto simp: enqueue_edges_def)
  moreover have "walk ?S start d n" if "(n, e, d) \<in> set (enqueue_edges opts es 1)" "admitted gn opts start n" for n e d
  proof -
    from that assms have "n \<in> ?S start" "d = Suc 0" by (auto simp: enqueue_mem reach_succs_def)
    then show ?thesis using walk_Suc [OF walk_0] by simp
  qed
  moreover have "frontier ?S start (to_max_depth opts) (insert start (set (if to_include_start opts then [start] else [])))
      (waiting gn opts start (enqueue_edges opts es 1))"
    using assms by (auto simp: frontier_def waiting_def enqueue_mem reach_succs_def split: if_splits)
  ultimately show ?thesis
    by (auto simp: reach_inv_def intro: exI [of _ "0::nat"])
qed

lemma find_reachable_set:
  assumes "\<And>n. \<exists>es. ef n = Inr es" and "gn start = Inr x" and "list_order ord"
  shows "\<exists>r. find_reachable ord gn ef start opts = Inr r \<and> (start \<in> set (reachable_nodes r) \<longleftrightarrow> to_include_start opts) \<and>
    insert start (set (reachable_nodes r)) =
      {n. \<exists>k. walk (reach_succs gn ef opts start) start k n \<and> in_depth (to_max_depth opts) k}"
proof -
  obtain es where es: "ef start = Inr es" using assms(1) by blast
  have ord: "set (ord xs) = set xs" for xs
    using assms(3) by (metis list_order_def set_mset_mset)
  show ?thesis
    using reach_loop_correct [OF assms(1) reach_inv_init [where ef = ef and start = start and gn = gn and opts = opts, OF es], of "[]"]
    by (auto simp: find_reachable_def assms(2) es ord)
qed

section \<open>Properties\<close>

text \<open>
  C19. \<open>find_reachable\<close> on a reachable state of the repository terminates without error and returns exactly
  the nodes at the end of an admissible walk from the start: a walk along stored edges of the allowed types,
  through nodes of the allowed types, of at most \<open>max_depth\<close> steps. The start node is in the result exactly
  when \<open>include_start\<close> is set, even if a cycle leads back to it, and every node returned lies in the tenant
  and workflow of the start node.
\<close>

theorem find_reachable_exact:
  assumes "graph_reachable g" and "get_node g start = Inr x" and "list_order ord"
  shows "\<exists>r. find_reachable ord (get_node g) (list_edges_from g) start opts = Inr r \<and>
    (\<forall>n. n \<in> set (reachable_nodes r) \<longleftrightarrow>
       (if n = start then to_include_start opts
        else \<exists>k. walk (\<lambda>p. {m. admitted (get_node g) opts start m \<and>
            (\<exists>e \<in> edges_of g. edge_passes_filter opts e \<and> ge_from_node_id e = p \<and> ge_to_node_id e = m)}) start k n \<and>
          in_depth (to_max_depth opts) k)) \<and>
    (\<forall>n \<in> set (reachable_nodes r). \<exists>y. get_node g n = Inr y \<and>
       gn_tenant_id y = gn_tenant_id x \<and> gn_workflow_id y = gn_workflow_id x)"
proof -
  have inv: "graph_inv g" using assms(1) by (rule reachable_inv)
  let ?S = "reach_succs (get_node g) (list_edges_from g) opts start"
  have total: "\<exists>es. list_edges_from g n = Inr es" for n by (simp add: list_edges_from_def)
  have S: "?S = (\<lambda>p. {m. admitted (get_node g) opts start m \<and>
      (\<exists>e \<in> edges_of g. edge_passes_filter opts e \<and> ge_from_node_id e = p \<and> ge_to_node_id e = m)})"
  proof
    fix p
    obtain es where "list_edges_from g p = Inr es" "set es = {e \<in> edges_of g. ge_from_node_id e = p}"
      using memory.from_law [OF inv, of p] by blast
    then show "?S p = {m. admitted (get_node g) opts start m \<and>
        (\<exists>e \<in> edges_of g. edge_passes_filter opts e \<and> ge_from_node_id e = p \<and> ge_to_node_id e = m)}"
      unfolding reach_succs_def by auto
  qed
  obtain r where r: "find_reachable ord (get_node g) (list_edges_from g) start opts = Inr r"
    "start \<in> set (reachable_nodes r) \<longleftrightarrow> to_include_start opts"
    "insert start (set (reachable_nodes r)) = {n. \<exists>k. walk ?S start k n \<and> in_depth (to_max_depth opts) k}"
    using find_reachable_set [where ef = "list_edges_from g" and gn = "get_node g" and start = start and opts = opts, OF total assms(2,3)]
    by (elim exE conjE) (rule that)
  have sub: "(n, m) \<in> memory.hops g (\<lambda>_. True)" if "m \<in> ?S n" for n m
    using that unfolding S memory.hops_def by blast
  have "(start, n) \<in> (memory.hops g (\<lambda>_. True))\<^sup>*" if "walk ?S start k n" for k n
    using that by (induction rule: walk.induct) (auto dest: sub intro: rtrancl_into_rtrancl)
  then have scope: "memory.in_scope_of g (gn_tenant_id x) (gn_workflow_id x) n" if "walk ?S start k n" for k n
    using memory.hops_scope [OF inv _, of start n _ "gn_tenant_id x" "gn_workflow_id x"] that assms(2)
    by (auto simp: memory.in_scope_of_def)
  have "n \<in> set (reachable_nodes r) \<longleftrightarrow> (if n = start then to_include_start opts
      else \<exists>k. walk ?S start k n \<and> in_depth (to_max_depth opts) k)" for n
    using r(2,3) by auto
  moreover have "\<exists>y. get_node g n = Inr y \<and> gn_tenant_id y = gn_tenant_id x \<and> gn_workflow_id y = gn_workflow_id x"
    if "n \<in> set (reachable_nodes r)" for n
    using that r(3) scope unfolding memory.in_scope_of_def by blast
  ultimately show ?thesis using r(1) unfolding S by blast
qed

theorem find_reachable_exact_witness:
  "\<exists>r. find_reachable rev (get_node ex_graph) (list_edges_from ex_graph) 11 TraversalOptions_default = Inr r \<and>
     11 \<in> set (reachable_nodes r)"
proof -
  obtain x where x: "get_node ex_graph 11 = Inr x"
    by (simp add: get_node_def ex_graph_def create_edge_def create_node_def Let_def
        GraphState_default_def ex_node_request_def ex_edge_request_def)
  have "list_order rev" by (simp add: list_order_def)
  from find_reachable_exact [OF ex_graph_reachable x this, of TraversalOptions_default] show ?thesis
    by (auto simp: TraversalOptions_default_def)
qed

end
