(* ===== verification/Path_Laws.thy ===== *)
theory Path_Laws
  imports Traversal_Laws
begin

text \<open>
  \<open>find_path\<close> returns a shortest path. The loop keeps, for every visited node but the source, a parent one
  step closer to the source; the reconstruction follows these parents and therefore ends.
\<close>

section \<open>Paths\<close>

definition link :: "(uuid \<Rightarrow> 'j GraphEdge list ire_result) \<Rightarrow> TraversalOptions \<Rightarrow> uuid \<Rightarrow> uuid \<Rightarrow> uuid \<Rightarrow> bool" where
  "link ef opts n i m \<longleftrightarrow>
     (\<exists>es e. ef n = Inr es \<and> e \<in> set es \<and> edge_passes_filter opts e \<and> ge_id e = i \<and> ge_to_node_id e = m)"

definition path_succs :: "(uuid \<Rightarrow> 'j GraphEdge list ire_result) \<Rightarrow> TraversalOptions \<Rightarrow> uuid \<Rightarrow> uuid set" where
  "path_succs ef opts n = {m. \<exists>i. link ef opts n i m}"

fun is_path :: "(uuid \<Rightarrow> 'j GraphEdge list ire_result) \<Rightarrow> TraversalOptions \<Rightarrow> uuid list \<Rightarrow> uuid list \<Rightarrow> bool" where
  "is_path ef opts [n] [] = True"
| "is_path ef opts (n # m # ns) (i # is) = (link ef opts n i m \<and> is_path ef opts (m # ns) is)"
| "is_path ef opts _ _ = False"

lemma is_path_length: "is_path ef opts ns is \<Longrightarrow> length ns = Suc (length is)"
  by (induction ef opts ns "is" rule: is_path.induct) auto

section \<open>The loop invariant\<close>

definition parent_ok ::
  "(uuid \<Rightarrow> 'j GraphEdge list ire_result) \<Rightarrow> TraversalOptions \<Rightarrow> uuid \<Rightarrow> uuid set \<Rightarrow> parent_map \<Rightarrow> bool" where
  "parent_ok ef opts source V parent \<longleftrightarrow> (\<forall>m \<in> V. m \<noteq> source \<longrightarrow>
     (\<exists>p i. map_of parent m = Some (p, i) \<and> p \<in> V \<and> link ef opts p i m \<and>
        hop_dist (path_succs ef opts) source m = Suc (hop_dist (path_succs ef opts) source p)))"

definition path_inv ::
  "(uuid \<Rightarrow> 'j GraphEdge list ire_result) \<Rightarrow> TraversalOptions \<Rightarrow> uuid \<Rightarrow> uuid \<Rightarrow> uuid list \<Rightarrow> parent_map \<Rightarrow>
   (uuid \<times> nat) list \<Rightarrow> bool" where
  "path_inv ef opts source target visited parent queue \<longleftrightarrow>
     source \<in> set visited \<and> target \<notin> set visited \<and> level_order snd queue \<and> distinct (map fst queue) \<and>
     (\<forall>(n, d) \<in> set queue. n \<in> set visited) \<and>
     (\<forall>n \<in> set visited. \<exists>k. walk (path_succs ef opts) source k n) \<and>
     (\<forall>(n, d) \<in> set queue. d = hop_dist (path_succs ef opts) source n) \<and>
     parent_ok ef opts source (set visited) parent \<and>
     frontier (path_succs ef opts) source (to_max_depth opts) (set visited - fst ` set queue) (\<lambda>j. {n. (n, j) \<in> set queue})"

lemma path_inv_dist:
  assumes inv: "path_inv ef opts source target visited parent ((n, d) # queue)"
    and m: "link ef opts n i m" "m \<notin> set visited" and depth: "in_depth (to_max_depth opts) (Suc d)"
  shows "walk (path_succs ef opts) source (Suc d) m" and "hop_dist (path_succs ef opts) source m = Suc d"
proof -
  let ?S = "path_succs ef opts"
  have d: "d = hop_dist ?S source n" and n: "n \<in> set visited" and lo: "level_order snd ((n, d) # queue)"
    and fr: "frontier ?S source (to_max_depth opts) (set visited - fst ` set ((n, d) # queue)) (\<lambda>j. {m. (m, j) \<in> set ((n, d) # queue)})"
    and wn: "\<exists>k. walk ?S source k n" and qv: "\<forall>(m, j) \<in> set ((n, d) # queue). m \<in> set visited"
    using inv by (auto simp: path_inv_def)
  have "walk ?S source d n" using wn walk_dist d by fastforce
  moreover have "m \<in> ?S n" using m(1) by (auto simp: path_succs_def)
  ultimately show w: "walk ?S source (Suc d) m" by (rule walk_Suc)
  have least: "d \<le> j" if "(x, j) \<in> set ((n, d) # queue)" for x j
    using level_order_head [OF lo, of "(x, j)"] that by auto
  show "hop_dist ?S source m = Suc d"
  proof (rule frontier_dist [OF fr w depth])
    fix j
    assume "j < Suc d" "{x. (x, j) \<in> set ((n, d) # queue)} \<noteq> {}"
    then show "Suc j = Suc d" using least by fastforce
  next
    show "m \<notin> set visited - fst ` set ((n, d) # queue)" using m(2) by simp
    show "m \<notin> {x. (x, j) \<in> set ((n, d) # queue)}" for j using qv m(2) by auto
  qed
qed

lemma path_inv_visit:
  assumes inv: "path_inv ef opts source target visited parent ((n, d) # queue)"
    and m: "link ef opts n i m" "m \<notin> set visited" "m \<noteq> target" and depth: "in_depth (to_max_depth opts) (Suc d)"
  shows "path_inv ef opts source target (visited @ [m]) (hm_insert m (n, i) parent) ((n, d) # queue @ [(m, Suc d)])"
proof -
  let ?S = "path_succs ef opts"
  note md = path_inv_dist [OF inv m(1,2) depth]
  have old: "source \<in> set visited" "target \<notin> set visited" "level_order snd ((n, d) # queue)"
    "distinct (map fst ((n, d) # queue))" "\<forall>(x, j) \<in> set ((n, d) # queue). x \<in> set visited"
    "\<forall>x \<in> set visited. \<exists>k. walk ?S source k x"
    "\<forall>(x, j) \<in> set ((n, d) # queue). j = hop_dist ?S source x" "parent_ok ef opts source (set visited) parent"
    "frontier ?S source (to_max_depth opts) (set visited - fst ` set ((n, d) # queue)) (\<lambda>j. {x. (x, j) \<in> set ((n, d) # queue)})"
    using inv by (auto simp: path_inv_def)
  have "level_order snd ((n, d) # queue @ [(m, Suc d)])"
    using old(3) by (auto simp: level_order_def sorted_append)
  moreover have "m \<notin> fst ` set ((n, d) # queue)" using old(5) m(2) by auto
  moreover have "parent_ok ef opts source (set (visited @ [m])) (hm_insert m (n, i) parent)"
    using old(1,5,7,8) m(1,2) md(2) by (fastforce simp: parent_ok_def)
  moreover have "frontier ?S source (to_max_depth opts) (set (visited @ [m]) - fst ` set ((n, d) # queue @ [(m, Suc d)]))
      (\<lambda>j. {x. (x, j) \<in> set ((n, d) # queue @ [(m, Suc d)])})"
  proof -
    have "set (visited @ [m]) - fst ` set ((n, d) # queue @ [(m, Suc d)]) = set visited - fst ` set ((n, d) # queue)"
      using m(2) by auto
    then show ?thesis by (simp only:) (rule frontier_mono [OF old(9)], auto)
  qed
  ultimately show ?thesis
    using old m(2,3) md by (auto simp: path_inv_def)
qed

lemma path_inv_pop:
  assumes inv: "path_inv ef opts source target visited parent ((n, d) # queue)"
    and expanded: "in_depth (to_max_depth opts) (Suc d) \<Longrightarrow> path_succs ef opts n \<subseteq> set visited"
  shows "path_inv ef opts source target visited parent queue"
proof -
  let ?S = "path_succs ef opts"
  let ?V = "set visited - fst ` set ((n, d) # queue)" and ?V' = "set visited - fst ` set queue"
  let ?F = "\<lambda>j. {x. (x, j) \<in> set ((n, d) # queue)}" and ?F' = "\<lambda>j. {x. (x, j) \<in> set queue}"
  have n: "n \<in> ?V'" "d = hop_dist ?S source n" and lo: "level_order snd ((n, d) # queue)"
    and depth: "\<forall>(x, j) \<in> set queue. j = hop_dist ?S source x"
    and fr: "frontier ?S source (to_max_depth opts) ?V ?F" and walks: "\<forall>x \<in> set visited. \<exists>k. walk ?S source k x"
    using inv by (auto simp: path_inv_def)
  have V': "?V' = insert n ?V" using n(1) by auto
  have "m \<in> ?V' \<or> (\<exists>j \<le> Suc (hop_dist ?S source p). m \<in> ?F' j)"
    if "p \<in> ?V'" "m \<in> ?S p" "in_depth (to_max_depth opts) (Suc (hop_dist ?S source p))" for p m
  proof (cases "p = n")
    case True
    then have m: "m \<in> set visited" using expanded that n(2) by auto
    obtain k where "walk ?S source k n" using walks n(1) by auto
    then have "hop_dist ?S source m \<le> Suc (hop_dist ?S source n)"
      using walk_Suc [OF walk_dist] that(2) True dist_le by metis
    with m True depth show ?thesis by fastforce
  next
    case False
    with that(1) V' have "p \<in> ?V" by blast
    with fr that(2,3) have "m \<in> ?V \<or> (\<exists>j \<le> Suc (hop_dist ?S source p). m \<in> ?F j)"
      unfolding frontier_def by blast
    with n(1) V' show ?thesis by auto
  qed
  moreover have "source \<in> ?V' \<or> source \<in> ?F' 0"
    using fr n(1) V' unfolding frontier_def by auto
  ultimately have "frontier ?S source (to_max_depth opts) ?V' ?F'"
    unfolding frontier_def by blast
  with inv level_order_tail [OF lo] show ?thesis
    unfolding path_inv_def by auto
qed

section \<open>The inner loop\<close>

lemma path_edges_correct:
  assumes "path_inv ef opts source target visited parent ((n, d) # queue)"
    and "in_depth (to_max_depth opts) (Suc d)" and "ef n = Inr all" and "set es \<subseteq> set all"
  shows "case path_edges opts target n d es visited parent queue of
      Inl parent' \<Rightarrow> \<exists>visited' parent0 queue' i. parent' = hm_insert target (n, i) parent0 \<and> link ef opts n i target \<and>
        path_inv ef opts source target visited' parent0 ((n, d) # queue')
    | Inr (visited', parent', queue') \<Rightarrow> path_inv ef opts source target visited' parent' ((n, d) # queue') \<and>
        set visited \<subseteq> set visited' \<and> (\<forall>e \<in> set es. edge_passes_filter opts e \<longrightarrow> ge_to_node_id e \<in> set visited')"
  using assms
proof (induction opts target n d es visited parent queue rule: path_edges.induct)
  case (1 opts target n depth visited parent queue)
  then show ?case by simp
next
  case (2 opts target n depth e es visited parent queue)
  have link: "link ef opts n (ge_id e) (ge_to_node_id e)" if "edge_passes_filter opts e"
    using that "2.prems"(3,4) by (auto simp: link_def)
  consider (skip) "\<not> edge_passes_filter opts e" | (found) "edge_passes_filter opts e" "ge_to_node_id e = target"
    | (new) "edge_passes_filter opts e" "ge_to_node_id e \<noteq> target" "ge_to_node_id e \<notin> set visited"
    | (old) "edge_passes_filter opts e" "ge_to_node_id e \<noteq> target" "ge_to_node_id e \<in> set visited"
    by blast
  then show ?case
  proof cases
    case skip
    with 2 show ?thesis by (auto split: sum.splits)
  next
    case found
    with link "2.prems"(1) show ?thesis by auto
  next
    case new
    have "path_inv ef opts source target (visited @ [ge_to_node_id e])
        (hm_insert (ge_to_node_id e) (n, ge_id e) parent) ((n, depth) # queue @ [(ge_to_node_id e, Suc depth)])"
      by (rule path_inv_visit [OF "2.prems"(1) link [OF new(1)] new(3,2) "2.prems"(2)])
    with "2.IH"(2) new "2.prems"(2-4) show ?thesis by (force split: sum.splits)
  next
    case old
    with "2.IH"(3) "2.prems" show ?thesis by (force split: sum.splits)
  qed
qed

section \<open>The loop\<close>

definition path_found ::
  "(uuid \<Rightarrow> 'j GraphEdge list ire_result) \<Rightarrow> TraversalOptions \<Rightarrow> uuid \<Rightarrow> uuid \<Rightarrow> parent_map \<Rightarrow> bool" where
  "path_found ef opts source target parent \<longleftrightarrow> (\<exists>V. target \<in> V \<and> parent_ok ef opts source V parent \<and>
     (\<forall>x \<in> V. \<exists>k. walk (path_succs ef opts) source k x) \<and> in_depth (to_max_depth opts) (hop_dist (path_succs ef opts) source target))"

lemma path_found_target:
  assumes inv: "path_inv ef opts source target visited parent ((n, d) # queue)"
    and i: "link ef opts n i target" and depth: "in_depth (to_max_depth opts) (Suc d)"
  shows "path_found ef opts source target (hm_insert target (n, i) parent)"
proof -
  have t: "target \<notin> set visited" and n: "n \<in> set visited" "d = hop_dist (path_succs ef opts) source n"
    and p: "parent_ok ef opts source (set visited) parent" and w: "\<forall>x \<in> set visited. \<exists>k. walk (path_succs ef opts) source k x"
    using inv by (auto simp: path_inv_def)
  note td = path_inv_dist [OF inv i t depth]
  have "parent_ok ef opts source (insert target (set visited)) (hm_insert target (n, i) parent)"
    unfolding parent_ok_def
  proof (intro ballI impI)
    fix m
    assume m: "m \<in> insert target (set visited)" "m \<noteq> source"
    show "\<exists>p j. map_of (hm_insert target (n, i) parent) m = Some (p, j) \<and> p \<in> insert target (set visited) \<and>
        link ef opts p j m \<and> hop_dist (path_succs ef opts) source m = Suc (hop_dist (path_succs ef opts) source p)"
    proof (cases "m = target")
      case True
      with n i td(2) show ?thesis by auto
    next
      case False
      with m p t show ?thesis by (fastforce simp: parent_ok_def)
    qed
  qed
  with td depth w show ?thesis
    unfolding path_found_def by (intro exI [of _ "insert target (set visited)"]) auto
qed

lemma path_loop_correct:
  assumes "\<And>n. \<exists>es. ef n = Inr es" and "path_inv ef opts source target visited parent queue"
  shows "\<exists>r. path_loop ef opts target visited parent queue = Inr r \<and>
    (case r of Some parent' \<Rightarrow> path_found ef opts source target parent'
     | None \<Rightarrow> \<not> (\<exists>k. walk (path_succs ef opts) source k target \<and> in_depth (to_max_depth opts) k))"
  using assms
proof (induction ef opts target visited parent queue rule: path_loop.induct)
  case (1 ef opts target visited parent)
  have fr: "frontier (path_succs ef opts) source (to_max_depth opts) (set visited) (\<lambda>j. {})" and "target \<notin> set visited"
    using "1.prems"(2) by (simp_all add: path_inv_def)
  then show ?case using frontier_complete [OF fr] by auto
next
  case (2 ef opts target visited parent n depth queue)
  show ?case
  proof (cases "in_depth (to_max_depth opts) (Suc depth)")
    case False
    have "path_inv ef opts source target visited parent queue"
      by (rule path_inv_pop [OF "2.prems"(2)]) (use False in simp)
    with "2.IH"(1) "2.prems"(1) False show ?thesis by (simp add: in_depth_cases)
  next
    case True
    obtain es where es: "ef n = Inr es" using "2.prems"(1) by blast
    note step = path_edges_correct [OF "2.prems"(2) True es subset_refl]
    show ?thesis
    proof (cases "path_edges opts target n depth es visited parent queue")
      case (Inl parent')
      with step obtain visited' parent0 queue' i where "parent' = hm_insert target (n, i) parent0"
        "link ef opts n i target" "path_inv ef opts source target visited' parent0 ((n, depth) # queue')" by auto
      with path_found_target [of ef opts source target visited' parent0 n depth queue' i] True
      have "path_found ef opts source target parent'" by simp
      with Inl True es show ?thesis by (simp add: in_depth_cases)
    next
      case (Inr r)
      obtain visited' parent' queue' where r: "r = (visited', parent', queue')" by (cases r) auto
      with step Inr have s: "path_inv ef opts source target visited' parent' ((n, depth) # queue')"
        "\<forall>e \<in> set es. edge_passes_filter opts e \<longrightarrow> ge_to_node_id e \<in> set visited'" by auto
      have "path_inv ef opts source target visited' parent' queue'"
        by (rule path_inv_pop [OF s(1)]) (use s(2) es in \<open>auto simp: path_succs_def link_def\<close>)
      with "2.IH"(2) "2.prems"(1) True es Inr r show ?thesis by (simp add: in_depth_cases)
    qed
  qed
qed

section \<open>Reconstruction\<close>

lemma reconstruct_correct:
  assumes "parent_ok ef opts source V parent" and "\<forall>x \<in> V. \<exists>k. walk (path_succs ef opts) source k x" and "m \<in> V"
    and "nodes \<noteq> []" and "last nodes = m" and "is_path ef opts (rev nodes) (rev edges)"
  shows "\<exists>p. reconstruct_loop source parent m nodes edges = Some p \<and> is_path ef opts (gp_node_ids p) (gp_edge_ids p) \<and>
    hd (gp_node_ids p) = source \<and> last (gp_node_ids p) = hd nodes \<and>
    length (gp_edge_ids p) = length edges + hop_dist (path_succs ef opts) source m"
  using assms(3-)
proof (induction "hop_dist (path_succs ef opts) source m" arbitrary: m nodes edges)
  case 0
  then have "m = source" using dist_zero [of "path_succs ef opts" source _ m] assms(2) by metis
  with 0 show ?case
    by (subst reconstruct_loop.simps) (simp add: hd_rev last_rev)
next
  case (Suc k)
  then have ms: "m \<noteq> source" by (metis dist_start nat.distinct(1))
  then obtain p i where p: "map_of parent m = Some (p, i)" "p \<in> V" "link ef opts p i m"
    "hop_dist (path_succs ef opts) source m = Suc (hop_dist (path_succs ef opts) source p)"
    using assms(1) Suc.prems(1) unfolding parent_ok_def by blast
  obtain rest where rn: "rev nodes = m # rest"
    using Suc.prems(2,3) by (metis hd_Cons_tl hd_rev rev_is_Nil_conv)
  have path: "is_path ef opts (rev (nodes @ [p])) (rev (edges @ [i]))"
    using Suc.prems(4) p(3) by (simp add: rn)
  have k: "k = hop_dist (path_succs ef opts) source p" using Suc.hyps(2) p(4) by simp
  obtain q where "reconstruct_loop source parent p (nodes @ [p]) (edges @ [i]) = Some q"
    "is_path ef opts (gp_node_ids q) (gp_edge_ids q)" "hd (gp_node_ids q) = source"
    "last (gp_node_ids q) = hd (nodes @ [p])"
    "length (gp_edge_ids q) = length (edges @ [i]) + hop_dist (path_succs ef opts) source p"
    using Suc.hyps(1) [OF k p(2) _ _ path] by auto
  moreover have "reconstruct_loop source parent m nodes edges = reconstruct_loop source parent p (nodes @ [p]) (edges @ [i])"
    by (subst reconstruct_loop.simps) (simp add: ms p(1) del: map_of_eq_Some_iff)
  ultimately show ?case using p(4) Suc.prems(2) by auto
qed

lemma path_inv_init:
  "source \<noteq> target \<Longrightarrow> path_inv ef opts source target [source] [] [(source, 0)]"
  by (auto simp: path_inv_def parent_ok_def frontier_def level_order_def intro: exI [of _ "0::nat"])

lemma find_path_correct:
  assumes "\<And>n. \<exists>es. ef n = Inr es" and "gn source = Inr x" and "gn target = Inr y" and "source \<noteq> target"
  shows "\<exists>p. find_path gn ef source target opts = Some (Inr p) \<and>
    (if \<exists>k. walk (path_succs ef opts) source k target \<and> in_depth (to_max_depth opts) k
     then is_path ef opts (gp_node_ids p) (gp_edge_ids p) \<and> hd (gp_node_ids p) = source \<and> last (gp_node_ids p) = target \<and>
       length (gp_edge_ids p) = hop_dist (path_succs ef opts) source target
     else p = \<lparr>gp_node_ids = [], gp_edge_ids = []\<rparr>)"
proof -
  obtain r where r: "path_loop ef opts target [source] [] [(source, 0)] = Inr r"
    "case r of Some parent' \<Rightarrow> path_found ef opts source target parent'
     | None \<Rightarrow> \<not> (\<exists>k. walk (path_succs ef opts) source k target \<and> in_depth (to_max_depth opts) k)"
    using path_loop_correct [where ef = ef and opts = opts, OF assms(1) path_inv_init [where ef = ef and opts = opts, OF assms(4)]]
    by blast
  show ?thesis
  proof (cases r)
    case None
    with r assms show ?thesis by (simp add: find_path_def)
  next
    case (Some parent)
    with r(2) obtain V where V: "target \<in> V" "parent_ok ef opts source V parent"
      "\<forall>x \<in> V. \<exists>k. walk (path_succs ef opts) source k x" "in_depth (to_max_depth opts) (hop_dist (path_succs ef opts) source target)"
      by (auto simp: path_found_def)
    obtain p where p: "reconstruct_path source target parent = Some p" "is_path ef opts (gp_node_ids p) (gp_edge_ids p)"
      "hd (gp_node_ids p) = source" "last (gp_node_ids p) = target"
      "length (gp_edge_ids p) = hop_dist (path_succs ef opts) source target"
      using reconstruct_correct [OF V(2,3,1), of "[target]" "[]"] by (auto simp: reconstruct_path_def)
    have "\<exists>k. walk (path_succs ef opts) source k target \<and> in_depth (to_max_depth opts) k"
      using V(1,3,4) walk_dist by metis
    with p r(1) Some assms(2-4) show ?thesis by (simp add: find_path_def)
  qed
qed

section \<open>Paths and walks\<close>

lemma is_path_snoc:
  "is_path ef opts ns is \<Longrightarrow> link ef opts (last ns) i m \<Longrightarrow> is_path ef opts (ns @ [m]) (is @ [i])"
  by (induction ef opts ns "is" rule: is_path.induct) auto

lemma walk_is_path:
  "walk (path_succs ef opts) s k m \<Longrightarrow>
   \<exists>ns is. is_path ef opts ns is \<and> hd ns = s \<and> last ns = m \<and> length is = k"
proof (induction rule: walk.induct)
  case walk_0
  show ?case by (rule exI [of _ "[s]"], rule exI [of _ "[]"]) simp
next
  case (walk_Suc k n m)
  then obtain ns "is" i where p: "is_path ef opts ns is" "hd ns = s" "last ns = n" "length is = k" "link ef opts n i m"
    by (auto simp: path_succs_def)
  then have "is_path ef opts (ns @ [m]) (is @ [i])" by (simp add: is_path_snoc)
  moreover have "ns \<noteq> []" using is_path_length [OF p(1)] by auto
  ultimately show ?case using p(2,4) by (intro exI [of _ "ns @ [m]"] exI [of _ "is @ [i]"]) simp
qed

lemma is_path_walk:
  "is_path ef opts ns is \<Longrightarrow> walk (path_succs ef opts) s k (hd ns) \<Longrightarrow>
   walk (path_succs ef opts) s (k + length is) (last ns)"
proof (induction ef opts ns "is" arbitrary: k rule: is_path.induct)
  case (2 ef opts n m ns i "is")
  then have "m \<in> path_succs ef opts n" by (auto simp: path_succs_def)
  with 2 have "walk (path_succs ef opts) s (Suc k) m" by (auto intro: walk_Suc)
  with 2 show ?case by fastforce
qed simp_all

text \<open>
  C20. On every graph the repository can hold, \<open>find_path\<close> between two existing, different nodes ends
  and returns a path; when some path over edges that pass the edge filter has at most \<open>max_depth\<close>
  edges, the result is such a path from the source to the target, consecutive nodes being joined by
  the listed edges, and no path is shorter; otherwise the result is the empty path.
\<close>

theorem find_path_shortest:
  assumes "graph_reachable g" and "get_node g source = Inr x" and "get_node g target = Inr y" and "source \<noteq> target"
  shows "\<exists>p. find_path (get_node g) (list_edges_from g) source target opts = Some (Inr p) \<and>
    (if \<exists>ns is. is_path (list_edges_from g) opts ns is \<and> hd ns = source \<and> last ns = target \<and>
          in_depth (to_max_depth opts) (length is)
     then is_path (list_edges_from g) opts (gp_node_ids p) (gp_edge_ids p) \<and>
       hd (gp_node_ids p) = source \<and> last (gp_node_ids p) = target \<and>
       (\<forall>ns is. is_path (list_edges_from g) opts ns is \<and> hd ns = source \<and> last ns = target \<longrightarrow>
          length (gp_edge_ids p) \<le> length is)
     else p = \<lparr>gp_node_ids = [], gp_edge_ids = []\<rparr>)"
proof -
  let ?ef = "list_edges_from g"
  let ?S = "path_succs ?ef opts"
  have total: "\<exists>es. ?ef n = Inr es" for n by (simp add: list_edges_from_def)
  have walk: "(\<exists>k. walk ?S source k target \<and> in_depth (to_max_depth opts) k) \<longleftrightarrow>
      (\<exists>ns is. is_path ?ef opts ns is \<and> hd ns = source \<and> last ns = target \<and> in_depth (to_max_depth opts) (length is))"
    (is "?W \<longleftrightarrow> ?P")
  proof
    assume ?W
    then show ?P using walk_is_path [of ?ef opts source _ target] by fast
  next
    assume ?P
    then obtain ns "is" where p: "is_path ?ef opts ns is" "hd ns = source" "last ns = target"
      "in_depth (to_max_depth opts) (length is)" by blast
    then have "walk ?S source (length is) target"
      using is_path_walk [OF p(1), of source 0] by simp
    with p(4) show ?W by blast
  qed
  have short: "hop_dist ?S source target \<le> length is" if "is_path ?ef opts ns is" "hd ns = source" "last ns = target" for ns "is"
    using is_path_walk [OF that(1), of source 0] that dist_le by fastforce
  obtain p where p: "find_path (get_node g) ?ef source target opts = Some (Inr p)"
    "if ?P then is_path ?ef opts (gp_node_ids p) (gp_edge_ids p) \<and> hd (gp_node_ids p) = source \<and> last (gp_node_ids p) = target \<and>
       length (gp_edge_ids p) = hop_dist ?S source target
     else p = \<lparr>gp_node_ids = [], gp_edge_ids = []\<rparr>"
    using find_path_correct [where ef = ?ef and gn = "get_node g" and source = source and target = target and opts = opts,
        OF total assms(2-4)] unfolding walk by (elim exE conjE) (rule that)
  show ?thesis
  proof (cases ?P)
    case True
    with p short show ?thesis by (intro exI [of _ p]) (simp, blast)
  next
    case False
    with p show ?thesis by (intro exI [of _ p]) simp
  qed
qed

theorem find_path_shortest_witness:
  "\<exists>p. find_path (get_node ex_graph) (list_edges_from ex_graph) 11 10 TraversalOptions_default = Some (Inr p) \<and>
     hd (gp_node_ids p) = 11 \<and> last (gp_node_ids p) = 10 \<and> length (gp_edge_ids p) \<le> 1"
proof -
  obtain x y where x: "get_node ex_graph 11 = Inr x" "get_node ex_graph 10 = Inr y"
    by (simp add: get_node_def ex_graph_def create_edge_def create_node_def Let_def
        GraphState_default_def ex_node_request_def ex_edge_request_def)
  have p: "is_path (list_edges_from ex_graph) TraversalOptions_default [11, 10] [20]"
    by (simp add: link_def list_edges_from_def index_lookup_def indexed_def map_filter_simps index_push_def ex_graph_def create_edge_def create_node_def Let_def
        GraphState_default_def ex_node_request_def ex_edge_request_def edge_passes_filter_def TraversalOptions_default_def)
  have "in_depth (to_max_depth TraversalOptions_default) (length [20 :: uuid])"
    by (simp add: in_depth_def TraversalOptions_default_def)
  with p have ex: "\<exists>ns is. is_path (list_edges_from ex_graph) TraversalOptions_default ns is \<and> hd ns = 11 \<and> last ns = 10 \<and>
      in_depth (to_max_depth TraversalOptions_default) (length is)"
    by (intro exI [of _ "[11, 10]"] exI [of _ "[20]"]) simp
  have "11 \<noteq> (10 :: uuid)" by simp
  from find_path_shortest [OF ex_graph_reachable x this, of TraversalOptions_default] p show ?thesis
    unfolding if_P [OF ex] by fastforce
qed

end
