(* ===== verification/Tenant_Store.thy ===== *)
theory Tenant_Store
  imports Indexed
begin

text \<open>
  The contract of a tenant-scoped query. Every repository of the program answers queries of the form "the
  values of this tenant that match \<open>q\<close>"; callers rely on the answer being complete and on no value of
  another tenant leaking. The locale states this once; the repositories interpret it for their list
  operations.
\<close>

locale tenant_store =
  fixes inv :: "'s \<Rightarrow> bool" and stored :: "'s \<Rightarrow> 'v set" and tenant :: "'v \<Rightarrow> uuid"
    and matches :: "'q \<Rightarrow> 'v \<Rightarrow> bool" and query :: "'s \<Rightarrow> 'q \<Rightarrow> uuid \<Rightarrow> 'v list"
  assumes exact: "inv s \<Longrightarrow> set (query s q t) = {v \<in> stored s. tenant v = t \<and> matches q v}"
begin

lemma isolated: "inv s \<Longrightarrow> v \<in> set (query s q t) \<Longrightarrow> tenant v = t"
  by (simp add: exact)

lemma disjoint: "inv s \<Longrightarrow> t \<noteq> t' \<Longrightarrow> set (query s q t) \<inter> set (query s q' t') = {}"
  by (auto simp: exact)

lemma complete: "inv s \<Longrightarrow> v \<in> stored s \<Longrightarrow> matches q v \<Longrightarrow> v \<in> set (query s q (tenant v))"
  by (simp add: exact)

end

text \<open>The values of a table.\<close>

abbreviation table_values :: "('i, 'v) hmap \<Rightarrow> 'v set" where
  "table_values t \<equiv> ran (map_of t)"

lemma table_values_iff: "v \<in> table_values t \<longleftrightarrow> (\<exists>i. map_of t i = Some v)"
  by (simp add: ran_def)

lemma set_indexed_values:
  "index_ok_opt key t m \<Longrightarrow> set (indexed t m k) = {v \<in> table_values t. key v = Some k}"
  by (simp add: set_indexed table_values_iff)

end
