(* ===== verification/Side_Effects.thy ===== *)
theory Side_Effects
  imports Intent_Types Tenant_Store
begin

text \<open>
  The side effect ledger of \<open>crates/compensation-service\<close>: \<open>side_effect.rs\<close>, the in-memory repository of
  \<open>side_effect_repo.rs\<close> and \<open>side_effect_service.rs\<close>. The three locks of the repository are taken together,
  so every operation is one function on the state. New identifiers and the time are arguments.
\<close>

section \<open>Side effects\<close>

datatype (plugins only: size code) SideEffectClass =
    S0PureRead | S1InternalReversible | S2ExternalReversible | S3ExternalPartiallyReversible | S4Irreversible

record SideEffect =
  se_id :: uuid
  se_tenant_id :: uuid
  se_intent_id :: uuid
  se_intent_version :: i32
  se_effect_class :: SideEffectClass
  se_effect_type :: string
  se_target :: string
  se_occurred_at :: timestamp
  se_idempotency_key :: "string option"

definition SideEffect_new ::
  "uuid \<Rightarrow> timestamp \<Rightarrow> uuid \<Rightarrow> uuid \<Rightarrow> i32 \<Rightarrow> SideEffectClass \<Rightarrow> string \<Rightarrow> string \<Rightarrow> SideEffect" where
  "SideEffect_new i now tenant_id intent_id intent_version effect_class effect_type target =
     \<lparr>se_id = i, se_tenant_id = tenant_id, se_intent_id = intent_id, se_intent_version = intent_version,
      se_effect_class = effect_class, se_effect_type = effect_type, se_target = target, se_occurred_at = now,
      se_idempotency_key = None\<rparr>"

definition with_idempotency_key ::
  "uuid \<Rightarrow> timestamp \<Rightarrow> uuid \<Rightarrow> uuid \<Rightarrow> i32 \<Rightarrow> SideEffectClass \<Rightarrow> string \<Rightarrow> string \<Rightarrow> string \<Rightarrow> SideEffect" where
  "with_idempotency_key i now tenant_id intent_id intent_version effect_class effect_type target idempotency_key =
     \<lparr>se_id = i, se_tenant_id = tenant_id, se_intent_id = intent_id, se_intent_version = intent_version,
      se_effect_class = effect_class, se_effect_type = effect_type, se_target = target, se_occurred_at = now,
      se_idempotency_key = Some idempotency_key\<rparr>"

definition is_auto_compensatable :: "SideEffect \<Rightarrow> bool" where
  "is_auto_compensatable e \<longleftrightarrow> se_effect_class e = S0PureRead \<or> se_effect_class e = S1InternalReversible"

definition requires_escalation :: "SideEffect \<Rightarrow> bool" where
  "requires_escalation e \<longleftrightarrow> se_effect_class e = S4Irreversible"

section \<open>The repository\<close>

record SideEffectRepo =
  ser_side_effects :: "(uuid, SideEffect) hmap"
  ser_by_intent :: "(uuid, uuid list) hmap"
  ser_by_idempotency_key :: "(uuid \<times> string, uuid) hmap"

definition SideEffectRepo_new :: SideEffectRepo where
  "SideEffectRepo_new = \<lparr>ser_side_effects = [], ser_by_intent = [], ser_by_idempotency_key = []\<rparr>"

definition se_create :: "SideEffect \<Rightarrow> SideEffectRepo \<Rightarrow> SideEffect ire_result \<times> SideEffectRepo" where
  "se_create e r =
     (Inr e, r\<lparr>ser_side_effects := hm_insert (se_id e) e (ser_side_effects r),
       ser_by_intent := index_push (se_intent_id e) (se_id e) (ser_by_intent r),
       ser_by_idempotency_key := (case se_idempotency_key e of
          Some key \<Rightarrow> hm_insert (se_tenant_id e, key) (se_id e) (ser_by_idempotency_key r)
        | None \<Rightarrow> ser_by_idempotency_key r)\<rparr>)"

definition get_or_create_idempotent :: "SideEffect \<Rightarrow> SideEffectRepo \<Rightarrow> SideEffect ire_result \<times> SideEffectRepo" where
  "get_or_create_idempotent e r =
     (let existing = (case se_idempotency_key e of
            None \<Rightarrow> None
          | Some key \<Rightarrow>
              (case map_of (ser_by_idempotency_key r) (se_tenant_id e, key) of
                 None \<Rightarrow> None
               | Some existing_id \<Rightarrow> map_of (ser_side_effects r) existing_id))
      in case existing of
           Some x \<Rightarrow> (Inr x, r)
         | None \<Rightarrow>
             (Inr e, r\<lparr>ser_side_effects := hm_insert (se_id e) e (ser_side_effects r),
               ser_by_intent := index_push (se_intent_id e) (se_id e) (ser_by_intent r),
               ser_by_idempotency_key := (case se_idempotency_key e of
                  Some key \<Rightarrow> hm_insert (se_tenant_id e, key) (se_id e) (ser_by_idempotency_key r)
                | None \<Rightarrow> ser_by_idempotency_key r)\<rparr>))"

definition se_get :: "(uuid \<Rightarrow> string) \<Rightarrow> SideEffectRepo \<Rightarrow> uuid \<Rightarrow> SideEffect ire_result" where
  "se_get us r i = (case map_of (ser_side_effects r) i of
       Some e \<Rightarrow> Inr e
     | None \<Rightarrow> Inl (Internal (''side effect not found: '' @ us i)))"

definition se_list_by_intent :: "SideEffectRepo \<Rightarrow> uuid \<Rightarrow> uuid \<Rightarrow> SideEffect list" where
  "se_list_by_intent r intent_id tenant_id =
     newest_first se_occurred_at
       (filter (\<lambda>e. se_tenant_id e = tenant_id) (indexed (ser_side_effects r) (ser_by_intent r) intent_id))"

definition find_by_idempotency_key :: "SideEffectRepo \<Rightarrow> string \<Rightarrow> uuid \<Rightarrow> SideEffect option" where
  "find_by_idempotency_key r key tenant_id =
     (case map_of (ser_by_idempotency_key r) (tenant_id, key) of
        Some i \<Rightarrow> map_of (ser_side_effects r) i
      | None \<Rightarrow> None)"

section \<open>The service\<close>

definition record_side_effect ::
  "uuid \<Rightarrow> timestamp \<Rightarrow> uuid \<Rightarrow> uuid \<Rightarrow> i32 \<Rightarrow> SideEffectClass \<Rightarrow> string \<Rightarrow> string \<Rightarrow> SideEffectRepo \<Rightarrow>
   SideEffect ire_result \<times> SideEffectRepo" where
  "record_side_effect i now tenant_id intent_id intent_version effect_class effect_type target r =
     se_create (SideEffect_new i now tenant_id intent_id intent_version effect_class effect_type target) r"

definition record_side_effect_with_idempotency ::
  "uuid \<Rightarrow> timestamp \<Rightarrow> uuid \<Rightarrow> uuid \<Rightarrow> i32 \<Rightarrow> SideEffectClass \<Rightarrow> string \<Rightarrow> string \<Rightarrow> string \<Rightarrow> SideEffectRepo \<Rightarrow>
   SideEffect ire_result \<times> SideEffectRepo" where
  "record_side_effect_with_idempotency i now tenant_id intent_id intent_version effect_class effect_type target key r =
     get_or_create_idempotent
       (with_idempotency_key i now tenant_id intent_id intent_version effect_class effect_type target key) r"

text \<open>The steps of the ledger; new identifiers are not in use.\<close>

inductive ledger_step :: "SideEffectRepo \<Rightarrow> SideEffectRepo \<Rightarrow> bool" where
  step_record: "map_of (ser_side_effects r) i = None \<Longrightarrow>
    ledger_step r (snd (record_side_effect i now t n v c ty tg r))"
| step_record_idempotent: "map_of (ser_side_effects r) i = None \<Longrightarrow>
    ledger_step r (snd (record_side_effect_with_idempotency i now t n v c ty tg key r))"

abbreviation ledger_reachable :: "SideEffectRepo \<Rightarrow> bool" where
  "ledger_reachable r \<equiv> ledger_step\<^sup>*\<^sup>* SideEffectRepo_new r"

inductive_cases ledger_stepE: "ledger_step r r'"

section \<open>The invariant\<close>

definition ledger_inv :: "SideEffectRepo \<Rightarrow> bool" where
  "ledger_inv r \<longleftrightarrow>
     (\<forall>i e. map_of (ser_side_effects r) i = Some e \<longrightarrow> se_id e = i) \<and>
     index_ok se_intent_id (ser_side_effects r) (ser_by_intent r) \<and>
     (\<forall>t key i. map_of (ser_by_idempotency_key r) (t, key) = Some i \<longleftrightarrow>
        (\<exists>e. map_of (ser_side_effects r) i = Some e \<and> se_tenant_id e = t \<and> se_idempotency_key e = Some key))"

lemma ledger_inv_new: "ledger_inv SideEffectRepo_new"
  by (simp add: ledger_inv_def SideEffectRepo_new_def)

text \<open>A new effect keeps the invariant when its identifier is fresh and its key, if any, is not in use.\<close>

lemma ledger_inv_create:
  assumes inv: "ledger_inv r" and fresh: "map_of (ser_side_effects r) (se_id e) = None"
    and key: "\<And>k. se_idempotency_key e = Some k \<Longrightarrow> map_of (ser_by_idempotency_key r) (se_tenant_id e, k) = None"
  shows "ledger_inv (snd (se_create e r))"
proof -
  note old = inv [unfolded ledger_inv_def]
  have idx: "index_ok se_intent_id (hm_insert (se_id e) e (ser_side_effects r))
      (index_push (se_intent_id e) (se_id e) (ser_by_intent r))"
    using old fresh by (intro index_ok_push) simp_all
  have unused: "map_of (ser_side_effects r) i \<noteq> Some x"
    if "se_idempotency_key e = Some k" "se_idempotency_key x = Some k" "se_tenant_id x = se_tenant_id e" for i x k
    using old key [OF that(1)] that(2,3) by (metis option.distinct(1))
  have "map_of (ser_by_idempotency_key (snd (se_create e r))) (t, k) = Some i \<longleftrightarrow>
      (\<exists>x. map_of (hm_insert (se_id e) e (ser_side_effects r)) i = Some x \<and> se_tenant_id x = t \<and> se_idempotency_key x = Some k)"
    for t k i
    using old fresh unused by (auto simp: se_create_def simp del: map_of_eq_Some_iff split: option.splits)
  with idx show ?thesis
    using old by (simp add: ledger_inv_def se_create_def del: map_of_eq_Some_iff)
qed

lemma get_or_create_cases:
  assumes "ledger_inv r"
  shows "get_or_create_idempotent e r =
    (case se_idempotency_key e of
       None \<Rightarrow> se_create e r
     | Some k \<Rightarrow> (case find_by_idempotency_key r k (se_tenant_id e) of Some x \<Rightarrow> (Inr x, r) | None \<Rightarrow> se_create e r))"
  by (simp add: get_or_create_idempotent_def find_by_idempotency_key_def se_create_def split: option.splits)

lemma find_None_iff:
  assumes "ledger_inv r"
  shows "find_by_idempotency_key r k t = None \<longleftrightarrow> map_of (ser_by_idempotency_key r) (t, k) = None"
proof -
  have "map_of (ser_side_effects r) i \<noteq> None" if "map_of (ser_by_idempotency_key r) (t, k) = Some i" for i
    using assms that unfolding ledger_inv_def by (metis option.distinct(1))
  then show ?thesis by (auto simp: find_by_idempotency_key_def simp del: map_of_eq_Some_iff split: option.splits)
qed

lemma ledger_inv_step: "ledger_step r r' \<Longrightarrow> ledger_inv r \<Longrightarrow> ledger_inv r'"
proof (erule ledger_stepE, goal_cases)
  case (1 i now t n v c ty tg)
  then show ?case
    by (auto simp: record_side_effect_def SideEffect_new_def intro!: ledger_inv_create)
next
  case (2 i now t n v c ty tg key)
  then show ?case
    by (auto simp: record_side_effect_with_idempotency_def get_or_create_cases with_idempotency_key_def
        find_None_iff simp del: map_of_eq_Some_iff split: option.splits intro!: ledger_inv_create)
qed

lemma ledger_reachable_inv: "ledger_reachable r \<Longrightarrow> ledger_inv r"
  by (induction rule: rtranclp_induct) (auto intro: ledger_inv_new ledger_inv_step)

interpretation ledger: tenant_store ledger_inv "\<lambda>r. table_values (ser_side_effects r)" se_tenant_id
  "\<lambda>intent_id e. se_intent_id e = intent_id" se_list_by_intent
  by unfold_locales (auto simp: se_list_by_intent_def set_indexed_values ledger_inv_def)

section \<open>Idempotent recording\<close>

text \<open>Once a key is recorded, no step changes what it finds.\<close>

lemma find_stable_step:
  assumes "ledger_step r r'" and "ledger_inv r" and "find_by_idempotency_key r k t = Some e"
  shows "find_by_idempotency_key r' k t = Some e"
proof -
  have keep: "find_by_idempotency_key (snd (se_create x r)) k t = Some e"
    if "map_of (ser_side_effects r) (se_id x) = None"
      "\<And>k. se_idempotency_key x = Some k \<Longrightarrow> map_of (ser_by_idempotency_key r) (se_tenant_id x, k) = None" for x
    using assms(3) that
    by (auto simp: find_by_idempotency_key_def se_create_def simp del: map_of_eq_Some_iff split: option.splits)
  from assms(1) show ?thesis
  proof (rule ledger_stepE, goal_cases)
    case (1 i now t n v c ty tg)
    then show ?case by (auto simp: record_side_effect_def SideEffect_new_def intro!: keep)
  next
    case (2 i now t' n v c ty tg key)
    then show ?case
      using find_None_iff [OF assms(2), of key t'] assms(3) keep [of "with_idempotency_key i now t' n v c ty tg key"]
      by (auto simp: record_side_effect_with_idempotency_def get_or_create_cases [OF assms(2)] with_idempotency_key_def
        simp del: map_of_eq_Some_iff split: option.splits)
  qed
qed

lemma find_stable:
  assumes "ledger_step\<^sup>*\<^sup>* r r'" and "ledger_inv r" and "find_by_idempotency_key r k t = Some e"
  shows "find_by_idempotency_key r' k t = Some e \<and> ledger_inv r'"
  using assms by (induction rule: rtranclp_induct) (auto intro: find_stable_step ledger_inv_step)

lemma recorded_found:
  assumes "ledger_inv r" and "record_side_effect_with_idempotency i now t n v c ty tg key r = (res, r')"
  shows "\<exists>e. res = Inr e \<and> find_by_idempotency_key r' key t = Some e"
  using assms(2)
  by (auto simp: record_side_effect_with_idempotency_def get_or_create_cases [OF assms(1)] with_idempotency_key_def
      se_create_def find_by_idempotency_key_def split: option.splits)

text \<open>
  C21. Recording a side effect under an idempotency key is idempotent: in every ledger the service can
  produce, once a tenant has recorded an effect under a key, any later recording of that tenant under the
  same key, whatever its other arguments and whatever was recorded in between, returns the first
  effect and leaves the ledger as it is. An effect found under a key belongs to the tenant that asks.
\<close>

theorem record_idempotent:
  assumes "ledger_reachable r"
    and "map_of (ser_side_effects r) i = None"
    and "record_side_effect_with_idempotency i now t n v c ty tg key r = (res, r')"
    and "ledger_step\<^sup>*\<^sup>* r' r''"
  shows "record_side_effect_with_idempotency i2 now2 t n2 v2 c2 ty2 tg2 key r'' = (res, r'') \<and>
    (\<exists>e. res = Inr e \<and> se_tenant_id e = t \<and> se_idempotency_key e = Some key)"
proof -
  have inv: "ledger_inv r" using assms(1) by (rule ledger_reachable_inv)
  obtain e where e: "res = Inr e" "find_by_idempotency_key r' key t = Some e"
    using recorded_found [OF inv assms(3)] by blast
  have "ledger_inv r'"
    using ledger_inv_step [OF step_record_idempotent [OF assms(2), of now t n v c ty tg key] inv] assms(3) by simp
  from find_stable [OF assms(4) this e(2)] have r'': "find_by_idempotency_key r'' key t = Some e" "ledger_inv r''" by auto
  then have "se_tenant_id e = t \<and> se_idempotency_key e = Some key"
    unfolding ledger_inv_def find_by_idempotency_key_def by (fastforce simp del: map_of_eq_Some_iff split: option.splits)
  with r'' e(1) show ?thesis
    by (simp add: record_side_effect_with_idempotency_def get_or_create_cases with_idempotency_key_def)
qed

theorem record_idempotent_witness:
  "\<exists>res r'. record_side_effect_with_idempotency 7 0 1 2 1 S1InternalReversible ''write'' ''db'' ''k'' SideEffectRepo_new = (res, r') \<and>
     record_side_effect_with_idempotency 8 5 1 3 2 S4Irreversible ''mail'' ''x'' ''k'' r' = (res, r')"
proof -
  obtain res r' where rec:
    "record_side_effect_with_idempotency 7 0 1 2 1 S1InternalReversible ''write'' ''db'' ''k'' SideEffectRepo_new = (res, r')"
    by (rule prod.exhaust)
  have "map_of (ser_side_effects SideEffectRepo_new) 7 = None" by (simp add: SideEffectRepo_new_def)
  from record_idempotent [OF rtranclp.rtrancl_refl this rec rtranclp.rtrancl_refl] rec show ?thesis by blast
qed

end
