(* ===== verification/Compensation.thy ===== *)
theory Compensation
  imports Side_Effects
begin

text \<open>
  Compensation actions: \<open>compensation_action.rs\<close>, \<open>compensation_planner.rs\<close> and the in-memory repository of
  \<open>compensation_action_repo.rs\<close> in \<open>crates/compensation-service\<close>. Every operation of the repository takes the
  locks it needs in one fixed order and holds them to its end, so it is one function on the state.
  The counters \<open>lock_version\<close> and \<open>attempt_count\<close> are \<open>i32\<close> and wrap around.
\<close>

section \<open>Types\<close>

record RebaseContext =
  rc_intent_id :: uuid
  rc_from_version :: i32
  rc_to_version :: i32
  rc_workflow_id :: uuid

record ExecutionResult =
  xr_success :: bool
  xr_summary :: string
  xr_error_code :: "string option"
  xr_error_detail :: "string option"
  xr_completed_at :: timestamp

definition ExecutionResult_success :: "timestamp \<Rightarrow> string \<Rightarrow> ExecutionResult" where
  "ExecutionResult_success now summary =
     \<lparr>xr_success = True, xr_summary = summary, xr_error_code = None, xr_error_detail = None, xr_completed_at = now\<rparr>"

definition ExecutionResult_failure :: "timestamp \<Rightarrow> string \<Rightarrow> string \<Rightarrow> string option \<Rightarrow> ExecutionResult" where
  "ExecutionResult_failure now summary error_code error_detail =
     \<lparr>xr_success = False, xr_summary = summary, xr_error_code = Some error_code, xr_error_detail = error_detail,
      xr_completed_at = now\<rparr>"

datatype (plugins only: size code) CompensationFeasibility = Automatic | SemiAutomatic | ManualOnly | NotPossible

datatype (plugins only: size code) StrategyType = Rollback | CounterAction | FollowupNotice | Quarantine | Escalation

datatype (plugins only: size code) CompensationStatus = Pending | Approved | Executed | Failed | Waived

datatype (plugins only: size code) RetryableErrorClass = Retryable | NonRetryable

record ErrorCodeClassification =
  ecc_error_code :: string
  ecc_retryable :: RetryableErrorClass
  ecc_reason :: string

record TransitionValidation =
  tv_allowed :: bool
  tv_reason :: "string option"

record CompensationAction =
  ca_id :: uuid
  ca_tenant_id :: uuid
  ca_side_effect_id :: uuid
  ca_intent_id :: uuid
  ca_trigger_context :: RebaseContext
  ca_execution_result_payload :: "ExecutionResult option"
  ca_feasibility :: CompensationFeasibility
  ca_strategy_type :: StrategyType
  ca_rationale :: string
  ca_status :: CompensationStatus
  ca_attempt_count :: i32
  ca_max_retries :: i32
  ca_lock_version :: i32
  ca_generated_at :: timestamp
  ca_approved_at :: "timestamp option"
  ca_approved_by :: "string option"
  ca_waived_at :: "timestamp option"
  ca_waived_by :: "string option"
  ca_executed_at :: "timestamp option"
  ca_executed_by :: "string option"
  ca_failed_at :: "timestamp option"

text \<open>The derived \<open>Debug\<close> of the enums prints the variant name.\<close>

definition debug_CompensationStatus :: "CompensationStatus \<Rightarrow> string" where
  "debug_CompensationStatus s = (case s of Pending \<Rightarrow> ''Pending'' | Approved \<Rightarrow> ''Approved'' | Executed \<Rightarrow> ''Executed''
     | Failed \<Rightarrow> ''Failed'' | Waived \<Rightarrow> ''Waived'')"

definition debug_StrategyType :: "StrategyType \<Rightarrow> string" where
  "debug_StrategyType s = (case s of Rollback \<Rightarrow> ''Rollback'' | CounterAction \<Rightarrow> ''CounterAction''
     | FollowupNotice \<Rightarrow> ''FollowupNotice'' | Quarantine \<Rightarrow> ''Quarantine'' | Escalation \<Rightarrow> ''Escalation'')"

definition debug_CompensationFeasibility :: "CompensationFeasibility \<Rightarrow> string" where
  "debug_CompensationFeasibility f = (case f of Automatic \<Rightarrow> ''Automatic'' | SemiAutomatic \<Rightarrow> ''SemiAutomatic''
     | ManualOnly \<Rightarrow> ''ManualOnly'' | NotPossible \<Rightarrow> ''NotPossible'')"

section \<open>Retry policy\<close>

definition DEFAULT_MAX_RETRIES :: i32 where
  "DEFAULT_MAX_RETRIES = 3"

definition RETRYABLE_ERROR_CODES :: "string list" where
  "RETRYABLE_ERROR_CODES =
     [''CONNECTION_TIMEOUT'', ''CONNECTION_REFUSED'', ''NETWORK_UNREACHABLE'', ''READ_TIMEOUT'', ''WRITE_TIMEOUT'',
      ''SERVICE_UNAVAILABLE'', ''TEMPORARILY_OVERLOADED'', ''BACKEND_ERROR'', ''RESOURCE_BUSY'',
      ''LOCK_ACQUISITION_FAILED'', ''RATE_LIMIT_EXCEEDED'', ''QUOTA_EXCEEDED'']"

definition classify_error_code :: "string \<Rightarrow> ErrorCodeClassification" where
  "classify_error_code error_code =
     (let retryable = error_code \<in> set RETRYABLE_ERROR_CODES in
      \<lparr>ecc_error_code = error_code, ecc_retryable = (if retryable then Retryable else NonRetryable),
       ecc_reason = (if retryable then ''Transient failure - retry may succeed''
         else ''Permanent failure - retry will not succeed'')\<rparr>)"

definition is_dlq_candidate :: "CompensationAction \<Rightarrow> bool" where
  "is_dlq_candidate a =
     (if ca_status a \<noteq> Failed then False
      else if ca_attempt_count a \<ge> ca_max_retries a then True
      else case ca_execution_result_payload a of
          None \<Rightarrow> False
        | Some result \<Rightarrow> (case xr_error_code result of
            None \<Rightarrow> False
          | Some error_code \<Rightarrow> ecc_retryable (classify_error_code error_code) = NonRetryable))"

definition can_be_reapproved :: "CompensationAction \<Rightarrow> bool" where
  "can_be_reapproved a =
     (if ca_status a \<noteq> Failed then False
      else if ca_attempt_count a \<ge> ca_max_retries a then False
      else case ca_execution_result_payload a of
          None \<Rightarrow> True
        | Some result \<Rightarrow> (case xr_error_code result of
            None \<Rightarrow> True
          | Some error_code \<Rightarrow> ecc_retryable (classify_error_code error_code) = Retryable))"

definition reapproval_denial_reason :: "CompensationAction \<Rightarrow> string option" where
  "reapproval_denial_reason a =
     (if ca_status a \<noteq> Failed then
        Some (''Action is in '' @ debug_CompensationStatus (ca_status a) @ '' status, not Failed'')
      else if ca_attempt_count a \<ge> ca_max_retries a then
        Some (''Retry budget exhausted: '' @ show_int (ca_attempt_count a) @ '' attempts made (max='' @
          show_int (ca_max_retries a) @ '')'')
      else case ca_execution_result_payload a of
          None \<Rightarrow> None
        | Some result \<Rightarrow> (case xr_error_code result of
            None \<Rightarrow> None
          | Some error_code \<Rightarrow>
              if ecc_retryable (classify_error_code error_code) = NonRetryable then
                Some (''Non-retryable error code '' @ [CHR 0x27] @ error_code @ [CHR 0x27] @ '': '' @
                  ecc_reason (classify_error_code error_code))
              else None))"

section \<open>The status machine\<close>

definition can_transition_to :: "CompensationStatus \<Rightarrow> CompensationStatus \<Rightarrow> TransitionValidation" where
  "can_transition_to s target =
     (case (s, target) of
        (Pending, Approved) \<Rightarrow> \<lparr>tv_allowed = True, tv_reason = None\<rparr>
      | (Pending, Waived) \<Rightarrow> \<lparr>tv_allowed = True, tv_reason = None\<rparr>
      | (Approved, Executed) \<Rightarrow> \<lparr>tv_allowed = True, tv_reason = None\<rparr>
      | (Failed, Pending) \<Rightarrow> \<lparr>tv_allowed = True,
          tv_reason = Some ''Manual retry allowed when retryable error and budget remains''\<rparr>
      | (Executed, _) \<Rightarrow> \<lparr>tv_allowed = False, tv_reason = Some ''Executed is a terminal state; no transitions allowed''\<rparr>
      | (Failed, _) \<Rightarrow> \<lparr>tv_allowed = False,
          tv_reason = Some ''Failed can only transition to Pending (manual retry) or is terminal otherwise''\<rparr>
      | (Waived, _) \<Rightarrow> \<lparr>tv_allowed = False, tv_reason = Some ''Waived is a terminal state; no transitions allowed''\<rparr>
      | (_, Pending) \<Rightarrow> \<lparr>tv_allowed = False, tv_reason = Some ''Cannot transition back to Pending''\<rparr>
      | (from, to) \<Rightarrow>
          if from = to then \<lparr>tv_allowed = False, tv_reason = Some ''Action is already in target status''\<rparr>
          else \<lparr>tv_allowed = False, tv_reason = Some (''Invalid transition from '' @ debug_CompensationStatus from @ '' to '' @
            debug_CompensationStatus to)\<rparr>)"

definition is_terminal :: "CompensationStatus \<Rightarrow> bool" where
  "is_terminal s \<longleftrightarrow> s = Executed \<or> s = Waived"

section \<open>Construction and planning\<close>

definition CompensationAction_new ::
  "uuid \<Rightarrow> timestamp \<Rightarrow> uuid \<Rightarrow> uuid \<Rightarrow> uuid \<Rightarrow> RebaseContext \<Rightarrow> CompensationFeasibility \<Rightarrow> StrategyType \<Rightarrow> string \<Rightarrow>
   CompensationAction" where
  "CompensationAction_new i now tenant_id side_effect_id intent_id trigger_context feasibility strategy_type rationale =
     \<lparr>ca_id = i, ca_tenant_id = tenant_id, ca_side_effect_id = side_effect_id, ca_intent_id = intent_id,
      ca_trigger_context = trigger_context, ca_execution_result_payload = None, ca_feasibility = feasibility,
      ca_strategy_type = strategy_type, ca_rationale = rationale, ca_status = Pending, ca_attempt_count = 0,
      ca_max_retries = DEFAULT_MAX_RETRIES, ca_lock_version = 0, ca_generated_at = now, ca_approved_at = None,
      ca_approved_by = None, ca_waived_at = None, ca_waived_by = None, ca_executed_at = None, ca_executed_by = None,
      ca_failed_at = None\<rparr>"

definition from_side_effect ::
  "uuid \<Rightarrow> timestamp \<Rightarrow> uuid \<Rightarrow> SideEffect \<Rightarrow> RebaseContext \<Rightarrow> StrategyType \<Rightarrow> string \<Rightarrow> CompensationAction" where
  "from_side_effect i now tenant_id e trigger_context strategy rationale =
     (let feasibility = (case se_effect_class e of
            S0PureRead \<Rightarrow> NotPossible
          | S1InternalReversible \<Rightarrow> Automatic
          | S2ExternalReversible \<Rightarrow> SemiAutomatic
          | S3ExternalPartiallyReversible \<Rightarrow> ManualOnly
          | S4Irreversible \<Rightarrow> NotPossible)
      in \<lparr>ca_id = i, ca_tenant_id = tenant_id, ca_side_effect_id = se_id e, ca_intent_id = se_intent_id e,
      ca_trigger_context = trigger_context, ca_execution_result_payload = None, ca_feasibility = feasibility,
      ca_strategy_type = strategy, ca_rationale = rationale, ca_status = Pending, ca_attempt_count = 0,
      ca_max_retries = DEFAULT_MAX_RETRIES, ca_lock_version = 0, ca_generated_at = now, ca_approved_at = None,
      ca_approved_by = None, ca_waived_at = None, ca_waived_by = None, ca_executed_at = None, ca_executed_by = None,
      ca_failed_at = None\<rparr>)"

definition is_auto_executable :: "CompensationAction \<Rightarrow> bool" where
  "is_auto_executable a \<longleftrightarrow> ca_feasibility a = Automatic"

definition is_service_executable :: "CompensationAction \<Rightarrow> bool" where
  "is_service_executable a \<longleftrightarrow> (ca_strategy_type a, ca_feasibility a) \<in>
     {(Rollback, Automatic), (CounterAction, SemiAutomatic), (FollowupNotice, ManualOnly), (Escalation, NotPossible)}"

definition rebase_versions :: "RebaseContext \<Rightarrow> string" where
  "rebase_versions c = '' for rebase v'' @ show_int (rc_from_version c) @ '' -> v'' @ show_int (rc_to_version c)"

definition quoted :: "string \<Rightarrow> string" where
  "quoted s = [CHR 0x27] @ s @ [CHR 0x27]"

definition classify_and_plan_action ::
  "uuid \<Rightarrow> timestamp \<Rightarrow> uuid \<Rightarrow> SideEffect \<Rightarrow> RebaseContext \<Rightarrow> CompensationAction option" where
  "classify_and_plan_action i now tenant_id e c =
     (case se_effect_class e of
        S0PureRead \<Rightarrow> None
      | S1InternalReversible \<Rightarrow> Some (from_side_effect i now tenant_id e c Rollback
          (''Auto rollback internal reversible effect '' @ quoted (se_effect_type e) @ rebase_versions c))
      | S2ExternalReversible \<Rightarrow> Some (from_side_effect i now tenant_id e c CounterAction
          (''Counter-action for external reversible effect '' @ quoted (se_effect_type e) @ '' targeting '' @ se_target e @
            rebase_versions c))
      | S3ExternalPartiallyReversible \<Rightarrow> Some (from_side_effect i now tenant_id e c FollowupNotice
          (''Send followup notice for partially reversible effect '' @ quoted (se_effect_type e) @ '' targeting '' @ se_target e @
            '' - manual intervention required'' @ rebase_versions c))
      | S4Irreversible \<Rightarrow> Some (from_side_effect i now tenant_id e c Escalation
          (''ESCALATION: Irreversible effect '' @ quoted (se_effect_type e) @ '' targeting '' @ se_target e @
            '' cannot be compensated'' @ rebase_versions c @ '' - manual investigation required'')))"

text \<open>The \<open>n\<close>-th side effect draws the \<open>n\<close>-th new identifier and the \<open>n\<close>-th clock value.\<close>

definition plan_from_side_effects ::
  "(nat \<Rightarrow> uuid) \<Rightarrow> (nat \<Rightarrow> timestamp) \<Rightarrow> RebaseContext \<Rightarrow> SideEffect list \<Rightarrow> uuid \<Rightarrow> CompensationAction list" where
  "plan_from_side_effects fresh clock c es tenant_id =
     List.map_filter (\<lambda>(n, e). classify_and_plan_action (fresh n) (clock n) tenant_id e c) (enumerate 0 es)"

section \<open>The repository\<close>

record ActionRepo =
  acr_actions :: "(uuid, CompensationAction) hmap"
  acr_by_tenant :: "(uuid, uuid list) hmap"
  acr_by_side_effect :: "(uuid, uuid list) hmap"
  acr_by_status :: "(uuid \<times> CompensationStatus, uuid list) hmap"
  acr_by_intent :: "(uuid \<times> uuid, uuid list) hmap"

definition ActionRepo_new :: ActionRepo where
  "ActionRepo_new = \<lparr>acr_actions = [], acr_by_tenant = [], acr_by_side_effect = [], acr_by_status = [], acr_by_intent = []\<rparr>"

definition ca_create :: "CompensationAction \<Rightarrow> ActionRepo \<Rightarrow> CompensationAction ire_result \<times> ActionRepo" where
  "ca_create a r =
     (Inr a, r\<lparr>acr_actions := hm_insert (ca_id a) a (acr_actions r),
       acr_by_tenant := index_push (ca_tenant_id a) (ca_id a) (acr_by_tenant r),
       acr_by_side_effect := index_push (ca_side_effect_id a) (ca_id a) (acr_by_side_effect r),
       acr_by_status := index_push (ca_tenant_id a, ca_status a) (ca_id a) (acr_by_status r),
       acr_by_intent := index_push (ca_tenant_id a, ca_intent_id a) (ca_id a) (acr_by_intent r)\<rparr>)"

definition ca_get :: "ActionRepo \<Rightarrow> uuid \<Rightarrow> CompensationAction ire_result" where
  "ca_get r i = (case map_of (acr_actions r) i of Some a \<Rightarrow> Inr a | None \<Rightarrow> Inl (CompensationActionNotFound i))"

definition ca_list_by_tenant :: "ActionRepo \<Rightarrow> uuid \<Rightarrow> usize option \<Rightarrow> CompensationAction list" where
  "ca_list_by_tenant r tenant_id limit =
     (let xs = newest_first ca_generated_at (indexed (acr_actions r) (acr_by_tenant r) tenant_id)
      in case limit of Some l \<Rightarrow> take l xs | None \<Rightarrow> xs)"

definition ca_list_by_side_effect :: "ActionRepo \<Rightarrow> uuid \<Rightarrow> uuid \<Rightarrow> CompensationAction list" where
  "ca_list_by_side_effect r side_effect_id tenant_id =
     filter (\<lambda>a. ca_tenant_id a = tenant_id) (indexed (acr_actions r) (acr_by_side_effect r) side_effect_id)"

definition ca_list_by_intent :: "ActionRepo \<Rightarrow> uuid \<Rightarrow> uuid \<Rightarrow> CompensationAction list" where
  "ca_list_by_intent r intent_id tenant_id = indexed (acr_actions r) (acr_by_intent r) (tenant_id, intent_id)"

definition ca_list_by_status :: "ActionRepo \<Rightarrow> uuid \<Rightarrow> CompensationStatus \<Rightarrow> CompensationAction list" where
  "ca_list_by_status r tenant_id status = indexed (acr_actions r) (acr_by_status r) (tenant_id, status)"

text \<open>The common tail of the three mutators: store the action and move it in the status index.\<close>

definition store_with_status :: "CompensationStatus \<Rightarrow> CompensationAction \<Rightarrow> ActionRepo \<Rightarrow> ActionRepo" where
  "store_with_status old_status a r =
     r\<lparr>acr_actions := hm_insert (ca_id a) a (acr_actions r),
       acr_by_status := index_push (ca_tenant_id a, ca_status a) (ca_id a)
         (index_retain (ca_tenant_id a, old_status) (ca_id a) (acr_by_status r))\<rparr>"

definition ca_update_status ::
  "timestamp \<Rightarrow> uuid \<Rightarrow> CompensationStatus \<Rightarrow> i32 \<Rightarrow> string option \<Rightarrow> string option \<Rightarrow> ActionRepo \<Rightarrow>
   CompensationAction ire_result \<times> ActionRepo" where
  "ca_update_status now i new_status lock_version approved_by waived_by r =
     (case map_of (acr_actions r) i of
        None \<Rightarrow> (Inl (CompensationActionNotFound i), r)
      | Some a \<Rightarrow>
          if ca_lock_version a \<noteq> lock_version then (Inl (ConcurrencyConflict i), r)
          else
            let a1 = a\<lparr>ca_lock_version := i32_wrap (ca_lock_version a + 1), ca_status := new_status\<rparr>;
                a2 = (case new_status of
                    Approved \<Rightarrow> a1\<lparr>ca_approved_at := Some now,
                      ca_approved_by := (case approved_by of Some p \<Rightarrow> Some p | None \<Rightarrow> ca_approved_by a)\<rparr>
                  | Waived \<Rightarrow> a1\<lparr>ca_waived_at := Some now,
                      ca_waived_by := (case waived_by of Some p \<Rightarrow> Some p | None \<Rightarrow> ca_waived_by a)\<rparr>
                  | Executed \<Rightarrow> a1\<lparr>ca_executed_at := Some now\<rparr>
                  | Failed \<Rightarrow> a1\<lparr>ca_failed_at := Some now\<rparr>
                  | Pending \<Rightarrow> a1)
            in (Inr a2, store_with_status (ca_status a) a2 r))"

definition ca_record_result ::
  "uuid \<Rightarrow> ExecutionResult \<Rightarrow> i32 \<Rightarrow> string option \<Rightarrow> ActionRepo \<Rightarrow> CompensationAction ire_result \<times> ActionRepo" where
  "ca_record_result i result lock_version executed_by r =
     (case map_of (acr_actions r) i of
        None \<Rightarrow> (Inl (CompensationActionNotFound i), r)
      | Some a \<Rightarrow>
          if ca_lock_version a \<noteq> lock_version then (Inl (ConcurrencyConflict i), r)
          else
            let a1 = a\<lparr>ca_lock_version := i32_wrap (ca_lock_version a + 1),
                  ca_attempt_count := i32_wrap (ca_attempt_count a + 1), ca_execution_result_payload := Some result\<rparr>;
                a2 = (if xr_success result then
                    a1\<lparr>ca_status := Executed, ca_executed_at := Some (xr_completed_at result),
                      ca_executed_by := (case executed_by of Some p \<Rightarrow> Some p | None \<Rightarrow> ca_executed_by a)\<rparr>
                  else a1\<lparr>ca_status := Failed, ca_failed_at := Some (xr_completed_at result)\<rparr>)
            in (Inr a2, store_with_status (ca_status a) a2 r))"

definition ca_reapprove :: "uuid \<Rightarrow> i32 \<Rightarrow> ActionRepo \<Rightarrow> CompensationAction ire_result \<times> ActionRepo" where
  "ca_reapprove i lock_version r =
     (case map_of (acr_actions r) i of
        None \<Rightarrow> (Inl (CompensationActionNotFound i), r)
      | Some a \<Rightarrow>
          if ca_lock_version a \<noteq> lock_version then (Inl (ConcurrencyConflict i), r)
          else if ca_status a \<noteq> Failed then
            (Inl (InvalidCompensationActionTransition (debug_CompensationStatus (ca_status a)) ''Pending''
               ''Only Failed actions can be reapproved''), r)
          else
            let a2 = a\<lparr>ca_lock_version := i32_wrap (ca_lock_version a + 1), ca_status := Pending, ca_failed_at := None\<rparr>
            in (Inr a2, store_with_status (ca_status a) a2 r))"

section \<open>Database encodings of the enums\<close>

definition compensation_feasibility_to_string :: "CompensationFeasibility \<Rightarrow> string" where
  "compensation_feasibility_to_string f = (case f of Automatic \<Rightarrow> ''automatic'' | SemiAutomatic \<Rightarrow> ''semi_automatic''
     | ManualOnly \<Rightarrow> ''manual_only'' | NotPossible \<Rightarrow> ''not_possible'')"

definition compensation_feasibility_from_string :: "string \<Rightarrow> CompensationFeasibility ire_result" where
  "compensation_feasibility_from_string s =
     (if s = ''automatic'' then Inr Automatic else if s = ''semi_automatic'' then Inr SemiAutomatic
      else if s = ''manual_only'' then Inr ManualOnly else if s = ''not_possible'' then Inr NotPossible
      else Inl (Internal (''unknown compensation feasibility: '' @ s)))"

definition strategy_type_to_string :: "StrategyType \<Rightarrow> string" where
  "strategy_type_to_string s = (case s of Rollback \<Rightarrow> ''rollback'' | CounterAction \<Rightarrow> ''counter_action''
     | FollowupNotice \<Rightarrow> ''followup_notice'' | Quarantine \<Rightarrow> ''quarantine'' | Escalation \<Rightarrow> ''escalation'')"

definition strategy_type_from_string :: "string \<Rightarrow> StrategyType ire_result" where
  "strategy_type_from_string s =
     (if s = ''rollback'' then Inr Rollback else if s = ''counter_action'' then Inr CounterAction
      else if s = ''followup_notice'' then Inr FollowupNotice else if s = ''quarantine'' then Inr Quarantine
      else if s = ''escalation'' then Inr Escalation
      else Inl (Internal (''unknown strategy type: '' @ s)))"

definition compensation_status_to_string :: "CompensationStatus \<Rightarrow> string" where
  "compensation_status_to_string s = (case s of Pending \<Rightarrow> ''pending'' | Approved \<Rightarrow> ''approved'' | Executed \<Rightarrow> ''executed''
     | Failed \<Rightarrow> ''failed'' | Waived \<Rightarrow> ''waived'')"

definition compensation_status_from_string :: "string \<Rightarrow> CompensationStatus ire_result" where
  "compensation_status_from_string s =
     (if s = ''pending'' then Inr Pending else if s = ''approved'' then Inr Approved else if s = ''executed'' then Inr Executed
      else if s = ''failed'' then Inr Failed else if s = ''waived'' then Inr Waived
      else Inl (Internal (''unknown compensation status: '' @ s)))"

definition effect_class_to_string :: "SideEffectClass \<Rightarrow> string" where
  "effect_class_to_string c = (case c of S0PureRead \<Rightarrow> ''s0_pure_read'' | S1InternalReversible \<Rightarrow> ''s1_internal_reversible''
     | S2ExternalReversible \<Rightarrow> ''s2_external_reversible''
     | S3ExternalPartiallyReversible \<Rightarrow> ''s3_external_partially_reversible'' | S4Irreversible \<Rightarrow> ''s4_irreversible'')"

definition effect_class_from_string :: "string \<Rightarrow> SideEffectClass ire_result" where
  "effect_class_from_string s =
     (if s = ''s0_pure_read'' then Inr S0PureRead else if s = ''s1_internal_reversible'' then Inr S1InternalReversible
      else if s = ''s2_external_reversible'' then Inr S2ExternalReversible
      else if s = ''s3_external_partially_reversible'' then Inr S3ExternalPartiallyReversible
      else if s = ''s4_irreversible'' then Inr S4Irreversible
      else Inl (UnknownEffectClass s))"

end
