(* ===== verification/Rollback_Records.thy ===== *)
theory Rollback_Records
  imports Intent_Types Tenant_Store
begin

text \<open>
  Rollback records, the audit trail of compensation: \<open>rollback_record.rs\<close> and the in-memory repository of
  \<open>rollback_record_repo.rs\<close> in \<open>crates/compensation-service\<close>.
\<close>

datatype (plugins only: size code) RollbackRecordResult = Success | Failure | Waived

definition RollbackRecordResult_as_str :: "RollbackRecordResult \<Rightarrow> string" where
  "RollbackRecordResult_as_str r = (case r of Success \<Rightarrow> ''success'' | Failure \<Rightarrow> ''failure'' | Waived \<Rightarrow> ''waived'')"

definition from_db_str :: "string \<Rightarrow> RollbackRecordResult option" where
  "from_db_str s =
     (if s = ''success'' then Some Success else if s = ''failure'' then Some Failure
      else if s = ''waived'' then Some Waived else None)"

record SideEffectRollbackRecord =
  rr_id :: uuid
  rr_tenant_id :: uuid
  rr_compensation_action_id :: uuid
  rr_side_effect_id :: uuid
  rr_intent_id :: uuid
  rr_result :: RollbackRecordResult
  rr_summary :: string
  rr_error_code :: "string option"
  rr_error_detail :: "string option"
  rr_recorded_by :: "string option"
  rr_recorded_at :: timestamp
  rr_lock_version :: i32

definition rr_success ::
  "uuid \<Rightarrow> timestamp \<Rightarrow> uuid \<Rightarrow> uuid \<Rightarrow> uuid \<Rightarrow> uuid \<Rightarrow> string \<Rightarrow> string option \<Rightarrow> SideEffectRollbackRecord" where
  "rr_success i now tenant_id compensation_action_id side_effect_id intent_id summary recorded_by =
     \<lparr>rr_id = i, rr_tenant_id = tenant_id, rr_compensation_action_id = compensation_action_id,
      rr_side_effect_id = side_effect_id, rr_intent_id = intent_id, rr_result = Success, rr_summary = summary,
      rr_error_code = None, rr_error_detail = None, rr_recorded_by = recorded_by, rr_recorded_at = now,
      rr_lock_version = 0\<rparr>"

definition failure_with_actor ::
  "uuid \<Rightarrow> timestamp \<Rightarrow> uuid \<Rightarrow> uuid \<Rightarrow> uuid \<Rightarrow> uuid \<Rightarrow> string \<Rightarrow> string \<Rightarrow> string option \<Rightarrow> string option \<Rightarrow>
   SideEffectRollbackRecord" where
  "failure_with_actor i now tenant_id compensation_action_id side_effect_id intent_id summary error_code error_detail recorded_by =
     \<lparr>rr_id = i, rr_tenant_id = tenant_id, rr_compensation_action_id = compensation_action_id,
      rr_side_effect_id = side_effect_id, rr_intent_id = intent_id, rr_result = Failure, rr_summary = summary,
      rr_error_code = Some error_code, rr_error_detail = error_detail, rr_recorded_by = recorded_by, rr_recorded_at = now,
      rr_lock_version = 0\<rparr>"

definition rr_failure ::
  "uuid \<Rightarrow> timestamp \<Rightarrow> uuid \<Rightarrow> uuid \<Rightarrow> uuid \<Rightarrow> uuid \<Rightarrow> string \<Rightarrow> string \<Rightarrow> string option \<Rightarrow> SideEffectRollbackRecord" where
  "rr_failure i now tenant_id compensation_action_id side_effect_id intent_id summary error_code error_detail =
     failure_with_actor i now tenant_id compensation_action_id side_effect_id intent_id summary error_code error_detail None"

definition rr_waived ::
  "uuid \<Rightarrow> timestamp \<Rightarrow> uuid \<Rightarrow> uuid \<Rightarrow> uuid \<Rightarrow> uuid \<Rightarrow> string \<Rightarrow> string option \<Rightarrow> SideEffectRollbackRecord" where
  "rr_waived i now tenant_id compensation_action_id side_effect_id intent_id summary recorded_by =
     \<lparr>rr_id = i, rr_tenant_id = tenant_id, rr_compensation_action_id = compensation_action_id,
      rr_side_effect_id = side_effect_id, rr_intent_id = intent_id, rr_result = Waived, rr_summary = summary,
      rr_error_code = None, rr_error_detail = None, rr_recorded_by = recorded_by, rr_recorded_at = now,
      rr_lock_version = 0\<rparr>"

section \<open>The repository\<close>

record RollbackRepo =
  rb_records :: "(uuid, SideEffectRollbackRecord) hmap"
  rb_by_tenant :: "(uuid, uuid list) hmap"
  rb_by_compensation_action :: "(uuid, uuid list) hmap"
  rb_by_side_effect :: "(uuid, uuid list) hmap"
  rb_by_intent :: "(uuid \<times> uuid, uuid list) hmap"
  rb_by_result :: "(uuid \<times> RollbackRecordResult, uuid list) hmap"

definition RollbackRepo_new :: RollbackRepo where
  "RollbackRepo_new = \<lparr>rb_records = [], rb_by_tenant = [], rb_by_compensation_action = [], rb_by_side_effect = [],
     rb_by_intent = [], rb_by_result = []\<rparr>"

definition rr_create :: "SideEffectRollbackRecord \<Rightarrow> RollbackRepo \<Rightarrow> SideEffectRollbackRecord ire_result \<times> RollbackRepo" where
  "rr_create x r =
     (Inr x, r\<lparr>rb_records := hm_insert (rr_id x) x (rb_records r),
       rb_by_tenant := index_push (rr_tenant_id x) (rr_id x) (rb_by_tenant r),
       rb_by_compensation_action := index_push (rr_compensation_action_id x) (rr_id x) (rb_by_compensation_action r),
       rb_by_side_effect := index_push (rr_side_effect_id x) (rr_id x) (rb_by_side_effect r),
       rb_by_intent := index_push (rr_tenant_id x, rr_intent_id x) (rr_id x) (rb_by_intent r),
       rb_by_result := index_push (rr_tenant_id x, rr_result x) (rr_id x) (rb_by_result r)\<rparr>)"

definition rr_get :: "(uuid \<Rightarrow> string) \<Rightarrow> RollbackRepo \<Rightarrow> uuid \<Rightarrow> SideEffectRollbackRecord ire_result" where
  "rr_get us r i = (case map_of (rb_records r) i of
       Some x \<Rightarrow> Inr x
     | None \<Rightarrow> Inl (Internal (''rollback record not found: '' @ us i)))"

definition rr_list_by_tenant :: "RollbackRepo \<Rightarrow> uuid \<Rightarrow> usize option \<Rightarrow> SideEffectRollbackRecord list" where
  "rr_list_by_tenant r tenant_id limit =
     (let xs = newest_first rr_recorded_at (indexed (rb_records r) (rb_by_tenant r) tenant_id)
      in case limit of Some l \<Rightarrow> take l xs | None \<Rightarrow> xs)"

definition rr_list_by_compensation_action :: "RollbackRepo \<Rightarrow> uuid \<Rightarrow> uuid \<Rightarrow> SideEffectRollbackRecord list" where
  "rr_list_by_compensation_action r compensation_action_id tenant_id =
     filter (\<lambda>x. rr_tenant_id x = tenant_id)
       (indexed (rb_records r) (rb_by_compensation_action r) compensation_action_id)"

definition rr_list_by_side_effect :: "RollbackRepo \<Rightarrow> uuid \<Rightarrow> uuid \<Rightarrow> SideEffectRollbackRecord list" where
  "rr_list_by_side_effect r side_effect_id tenant_id =
     filter (\<lambda>x. rr_tenant_id x = tenant_id) (indexed (rb_records r) (rb_by_side_effect r) side_effect_id)"

definition rr_list_by_intent :: "RollbackRepo \<Rightarrow> uuid \<Rightarrow> uuid \<Rightarrow> SideEffectRollbackRecord list" where
  "rr_list_by_intent r intent_id tenant_id = indexed (rb_records r) (rb_by_intent r) (tenant_id, intent_id)"

definition rr_list_by_result :: "RollbackRepo \<Rightarrow> uuid \<Rightarrow> RollbackRecordResult \<Rightarrow> SideEffectRollbackRecord list" where
  "rr_list_by_result r tenant_id result = indexed (rb_records r) (rb_by_result r) (tenant_id, result)"

section \<open>The invariant\<close>

definition rollback_inv :: "RollbackRepo \<Rightarrow> bool" where
  "rollback_inv r \<longleftrightarrow>
     (\<forall>i x. map_of (rb_records r) i = Some x \<longrightarrow> rr_id x = i) \<and>
     index_ok rr_tenant_id (rb_records r) (rb_by_tenant r) \<and>
     index_ok rr_compensation_action_id (rb_records r) (rb_by_compensation_action r) \<and>
     index_ok rr_side_effect_id (rb_records r) (rb_by_side_effect r) \<and>
     index_ok (\<lambda>x. (rr_tenant_id x, rr_intent_id x)) (rb_records r) (rb_by_intent r) \<and>
     index_ok (\<lambda>x. (rr_tenant_id x, rr_result x)) (rb_records r) (rb_by_result r)"

lemma rollback_inv_new: "rollback_inv RollbackRepo_new"
  by (simp add: rollback_inv_def RollbackRepo_new_def)

lemma rollback_inv_create:
  assumes "rollback_inv r" and "map_of (rb_records r) (rr_id x) = None"
  shows "rollback_inv (snd (rr_create x r))"
  using assms by (simp add: rollback_inv_def rr_create_def index_ok_push del: map_of_eq_Some_iff)

interpretation rb_action: tenant_store rollback_inv "\<lambda>r. table_values (rb_records r)" rr_tenant_id
  "\<lambda>i x. rr_compensation_action_id x = i" rr_list_by_compensation_action
  by unfold_locales (auto simp: rr_list_by_compensation_action_def set_indexed_values rollback_inv_def)

interpretation rb_effect: tenant_store rollback_inv "\<lambda>r. table_values (rb_records r)" rr_tenant_id
  "\<lambda>i x. rr_side_effect_id x = i" rr_list_by_side_effect
  by unfold_locales (auto simp: rr_list_by_side_effect_def set_indexed_values rollback_inv_def)

interpretation rb_intent: tenant_store rollback_inv "\<lambda>r. table_values (rb_records r)" rr_tenant_id
  "\<lambda>i x. rr_intent_id x = i" rr_list_by_intent
  by unfold_locales (auto simp: rr_list_by_intent_def set_indexed_values rollback_inv_def)

end
