(* ===== verification/Audit_Log.thy ===== *)
theory Audit_Log
  imports Intent_Types Tenant_Store
begin

text \<open>
  The audit log: \<open>AuditEvent\<close> and the compensation payloads of \<open>crates/intent-rebase-types/src/audit.rs\<close>, the
  in-memory repository and the \<open>record_compensation_*\<close> operations of \<open>audit_repo.rs\<close>.
  \<open>serde_json::to_value\<close> on the payload structs is the parameter \<open>audit_json\<close>; it does not fail on them.
\<close>

section \<open>Events\<close>

datatype (plugins only: size code) AuditEventType =
    IntentCreated | IntentUpdated | IntentArchived | RebaseDetected | RebasePreviewGenerated | RebaseApplied
  | RebaseApplyBlocked | ApprovalRequired | ApprovalRequested | ApprovalGranted | ApprovalRevoked
  | ApprovalCancelled | ApprovalExpired | ReplayInitiated | ArtifactProduced | ArtifactInvalidated
  | CompensationPlanned | CompensationStarted | CompensationCompleted | CompensationFailed
  | ForensicBundleRequested | ForensicBundleGenerated

record 'j AuditEvent =
  ae_id :: uuid
  ae_tenant_id :: uuid
  ae_event_type :: AuditEventType
  ae_actor_id :: string
  ae_intent_id :: "uuid option"
  ae_artifact_id :: "uuid option"
  ae_payload :: 'j
  ae_trace_id :: "string option"
  ae_span_id :: "string option"
  ae_occurred_at :: timestamp

record CompensationPlannedAuditPayload =
  cpp_compensation_plan_id :: uuid
  cpp_intent_id :: uuid
  cpp_intent_version_from :: i32
  cpp_intent_version_to :: i32
  cpp_side_effect_count :: usize
  cpp_auto_compensatable_count :: usize
  cpp_manual_required_count :: usize
  cpp_not_possible_count :: usize

record CompensationStartedAuditPayload =
  csp_compensation_plan_id :: uuid
  csp_intent_id :: uuid
  csp_actions_initiated :: usize

record CompensationCompletedAuditPayload =
  ccp_compensation_plan_id :: uuid
  ccp_intent_id :: uuid
  ccp_actions_succeeded :: usize
  ccp_actions_failed :: usize

record CompensationFailedAuditPayload =
  cfp_compensation_plan_id :: uuid
  cfp_intent_id :: uuid
  cfp_failed_action_id :: uuid
  cfp_error_summary :: string

record 'j audit_json =
  aj_planned :: "CompensationPlannedAuditPayload \<Rightarrow> 'j"
  aj_started :: "CompensationStartedAuditPayload \<Rightarrow> 'j"
  aj_completed :: "CompensationCompletedAuditPayload \<Rightarrow> 'j"
  aj_failed :: "CompensationFailedAuditPayload \<Rightarrow> 'j"

text \<open>The two fields of \<open>TraceContext\<close> that an event stores.\<close>

record TraceContext =
  trace_id :: "string option"
  span_id :: "string option"

section \<open>The repository\<close>

record 'j AuditRepo =
  ar_events :: "(uuid, 'j AuditEvent) hmap"
  ar_by_intent :: "(uuid, uuid list) hmap"
  ar_by_tenant :: "(uuid, uuid list) hmap"

definition AuditRepo_new :: "'j AuditRepo" where
  "AuditRepo_new = \<lparr>ar_events = [], ar_by_intent = [], ar_by_tenant = []\<rparr>"

definition create_audit_event :: "'j AuditEvent \<Rightarrow> 'j AuditRepo \<Rightarrow> unit ire_result \<times> 'j AuditRepo" where
  "create_audit_event e r =
     (Inr (), r\<lparr>ar_events := hm_insert (ae_id e) e (ar_events r),
        ar_by_intent := (case ae_intent_id e of
            Some intent_id \<Rightarrow> index_push intent_id (ae_id e) (ar_by_intent r) | None \<Rightarrow> ar_by_intent r),
        ar_by_tenant := index_push (ae_tenant_id e) (ae_id e) (ar_by_tenant r)\<rparr>)"

definition get_audit_event :: "'j AuditRepo \<Rightarrow> uuid \<Rightarrow> uuid \<Rightarrow> 'j AuditEvent ire_result" where
  "get_audit_event r event_id tenant_id =
     (case map_of (ar_events r) event_id of
        None \<Rightarrow> Inl (ArtifactNotFound event_id)
      | Some e \<Rightarrow> if ae_tenant_id e \<noteq> tenant_id then Inl (ArtifactNotFound event_id) else Inr e)"

definition audit_list_by_intent :: "'j AuditRepo \<Rightarrow> uuid \<Rightarrow> uuid \<Rightarrow> 'j AuditEvent list" where
  "audit_list_by_intent r intent_id tenant_id =
     newest_first ae_occurred_at
       (filter (\<lambda>e. ae_tenant_id e = tenant_id) (indexed (ar_events r) (ar_by_intent r) intent_id))"

definition audit_list_by_tenant :: "'j AuditRepo \<Rightarrow> uuid \<Rightarrow> usize \<Rightarrow> 'j AuditEvent list" where
  "audit_list_by_tenant r tenant_id limit =
     take limit (newest_first ae_occurred_at (indexed (ar_events r) (ar_by_tenant r) tenant_id))"

section \<open>Recording compensation events\<close>

definition compensation_event ::
  "uuid \<Rightarrow> timestamp \<Rightarrow> TraceContext \<Rightarrow> AuditEventType \<Rightarrow> uuid \<Rightarrow> string \<Rightarrow> uuid \<Rightarrow> 'j \<Rightarrow> 'j AuditEvent" where
  "compensation_event i now tc event_type tenant_id actor_id intent_id payload =
     \<lparr>ae_id = i, ae_tenant_id = tenant_id, ae_event_type = event_type, ae_actor_id = actor_id,
      ae_intent_id = Some intent_id, ae_artifact_id = None, ae_payload = payload,
      ae_trace_id = trace_id tc, ae_span_id = span_id tc, ae_occurred_at = now\<rparr>"

definition record_compensation_planned ::
  "'j audit_json \<Rightarrow> uuid \<Rightarrow> timestamp \<Rightarrow> TraceContext \<Rightarrow> uuid \<Rightarrow> string \<Rightarrow> uuid \<Rightarrow> CompensationPlannedAuditPayload \<Rightarrow>
   'j AuditRepo \<Rightarrow> unit ire_result \<times> 'j AuditRepo" where
  "record_compensation_planned aj i now tc tenant_id actor_id intent_id payload =
     create_audit_event (compensation_event i now tc CompensationPlanned tenant_id actor_id intent_id (aj_planned aj payload))"

definition record_compensation_started ::
  "'j audit_json \<Rightarrow> uuid \<Rightarrow> timestamp \<Rightarrow> TraceContext \<Rightarrow> uuid \<Rightarrow> string \<Rightarrow> uuid \<Rightarrow> CompensationStartedAuditPayload \<Rightarrow>
   'j AuditRepo \<Rightarrow> unit ire_result \<times> 'j AuditRepo" where
  "record_compensation_started aj i now tc tenant_id actor_id intent_id payload =
     create_audit_event (compensation_event i now tc CompensationStarted tenant_id actor_id intent_id (aj_started aj payload))"

definition record_compensation_completed ::
  "'j audit_json \<Rightarrow> uuid \<Rightarrow> timestamp \<Rightarrow> TraceContext \<Rightarrow> uuid \<Rightarrow> string \<Rightarrow> uuid \<Rightarrow> CompensationCompletedAuditPayload \<Rightarrow>
   'j AuditRepo \<Rightarrow> unit ire_result \<times> 'j AuditRepo" where
  "record_compensation_completed aj i now tc tenant_id actor_id intent_id payload =
     create_audit_event (compensation_event i now tc CompensationCompleted tenant_id actor_id intent_id (aj_completed aj payload))"

definition record_compensation_failed ::
  "'j audit_json \<Rightarrow> uuid \<Rightarrow> timestamp \<Rightarrow> TraceContext \<Rightarrow> uuid \<Rightarrow> string \<Rightarrow> uuid \<Rightarrow> CompensationFailedAuditPayload \<Rightarrow>
   'j AuditRepo \<Rightarrow> unit ire_result \<times> 'j AuditRepo" where
  "record_compensation_failed aj i now tc tenant_id actor_id intent_id payload =
     create_audit_event (compensation_event i now tc CompensationFailed tenant_id actor_id intent_id (aj_failed aj payload))"

lemmas record_compensation_defs = record_compensation_planned_def record_compensation_started_def
  record_compensation_completed_def record_compensation_failed_def

section \<open>The invariant\<close>

definition audit_inv :: "'j AuditRepo \<Rightarrow> bool" where
  "audit_inv r \<longleftrightarrow>
     (\<forall>i e. map_of (ar_events r) i = Some e \<longrightarrow> ae_id e = i) \<and>
     index_ok_opt ae_intent_id (ar_events r) (ar_by_intent r) \<and>
     index_ok ae_tenant_id (ar_events r) (ar_by_tenant r)"

lemma audit_inv_new: "audit_inv AuditRepo_new"
  by (simp add: audit_inv_def AuditRepo_new_def)

lemma audit_inv_create:
  assumes "audit_inv r" and "map_of (ar_events r) (ae_id e) = None"
  shows "audit_inv (snd (create_audit_event e r))"
  using assms index_ok_push_opt [of ae_intent_id "ar_events r" "ar_by_intent r" "ae_id e" e]
  by (auto simp: audit_inv_def create_audit_event_def index_ok_push simp del: map_of_eq_Some_iff)

interpretation audit_intent: tenant_store audit_inv "\<lambda>r. table_values (ar_events r)" ae_tenant_id
  "\<lambda>intent_id e. ae_intent_id e = Some intent_id" audit_list_by_intent
  by unfold_locales (auto simp: audit_list_by_intent_def set_indexed_values audit_inv_def)

end
