(* ===== verification/Compensation_Service.thy ===== *)
theory Compensation_Service
  imports Compensation Rollback_Records Audit_Log
begin

text \<open>
  The compensation service: the four executors (\<open>rollback_executor.rs\<close>, \<open>counter_action_executor.rs\<close>,
  \<open>followup_notice_executor.rs\<close>, \<open>escalation_executor.rs\<close>), \<open>compensation_action_service.rs\<close> and the batch
  operations of \<open>compensation_action_orchestration.rs\<close>. The service holds the action repository and, optionally,
  the side effect ledger, the rollback records and the audit log. Audit events and rollback records are
  best effort: with the in-memory repositories their creation does not fail.

  A mutating operation reads the action, checks it, and then updates the repository; other clients
  may run between the read and the update. The part after the read is a definition of its own
  (\<open>approve_rest\<close> and so on), a function of the action that was read and of the state at the time of the update.
\<close>

section \<open>State and environment\<close>

record 'j CompState =
  svc_actions :: ActionRepo
  svc_side_effects :: "SideEffectRepo option"
  svc_rollbacks :: "RollbackRepo option"
  svc_audit :: "'j AuditRepo option"

text \<open>Formatting of a \<open>Uuid\<close>, serialisation of payloads, the current trace, new identifiers and the clock.\<close>

record 'j comp_env =
  env_us :: "uuid \<Rightarrow> string"
  env_json :: "'j audit_json"
  env_trace :: TraceContext
  env_fresh :: "nat \<Rightarrow> uuid"
  env_clock :: "nat \<Rightarrow> timestamp"

definition shift_env :: "nat \<Rightarrow> 'j comp_env \<Rightarrow> 'j comp_env" where
  "shift_env n env = env\<lparr>env_fresh := (\<lambda>k. env_fresh env (n + k)), env_clock := (\<lambda>k. env_clock env (n + k))\<rparr>"

definition emit_audit :: "('j AuditRepo \<Rightarrow> unit ire_result \<times> 'j AuditRepo) \<Rightarrow> 'j CompState \<Rightarrow> 'j CompState" where
  "emit_audit record s = s\<lparr>svc_audit := map_option (\<lambda>r. snd (record r)) (svc_audit s)\<rparr>"

definition store_rollback :: "SideEffectRollbackRecord \<Rightarrow> 'j CompState \<Rightarrow> 'j CompState" where
  "store_rollback x s = s\<lparr>svc_rollbacks := map_option (\<lambda>r. snd (rr_create x r)) (svc_rollbacks s)\<rparr>"

definition system_actor :: string where
  "system_actor = ''compensation-service/system''"

section \<open>Executors\<close>

text \<open>The derived \<open>Debug\<close> of the class and of the error of a failed lookup.\<close>

definition debug_SideEffectClass :: "SideEffectClass \<Rightarrow> string" where
  "debug_SideEffectClass c = (case c of S0PureRead \<Rightarrow> ''S0PureRead'' | S1InternalReversible \<Rightarrow> ''S1InternalReversible''
     | S2ExternalReversible \<Rightarrow> ''S2ExternalReversible'' | S3ExternalPartiallyReversible \<Rightarrow> ''S3ExternalPartiallyReversible''
     | S4Irreversible \<Rightarrow> ''S4Irreversible'')"

definition debug_lookup_error :: "IntentRebaseError \<Rightarrow> string" where
  "debug_lookup_error e = (case e of Internal m \<Rightarrow> ''Internal('' @ debug_string m @ '')'' | _ \<Rightarrow> [])"

text \<open>The gates the four executors share: strategy, feasibility, side effect, tenant, intent.\<close>

definition executor_gates ::
  "(uuid \<Rightarrow> string) \<Rightarrow> timestamp \<Rightarrow> StrategyType \<Rightarrow> CompensationFeasibility \<Rightarrow> string \<Rightarrow> SideEffectRepo \<Rightarrow>
   CompensationAction \<Rightarrow> ExecutionResult + SideEffect" where
  "executor_gates us now strategy feasibility target_name r a =
     (if ca_strategy_type a \<noteq> strategy then
        Inl (ExecutionResult_failure now
          (''Unsupported strategy type: '' @ debug_StrategyType (ca_strategy_type a) @ ''. Only '' @ debug_StrategyType strategy @
            '' is supported in this slice.'') ''UNSUPPORTED_STRATEGY_TYPE''
          (Some (''Strategy '' @ debug_StrategyType (ca_strategy_type a) @ '' requires Batch 1+ executor implementation'')))
      else if ca_feasibility a \<noteq> feasibility then
        Inl (ExecutionResult_failure now
          (''Unsupported feasibility: '' @ debug_CompensationFeasibility (ca_feasibility a) @ ''. Only '' @
            debug_CompensationFeasibility feasibility @ '' is supported in this slice.'') ''UNSUPPORTED_FEASIBILITY''
          (Some (''Feasibility '' @ debug_CompensationFeasibility (ca_feasibility a) @
            '' requires human intervention or is not executable'')))
      else case se_get us r (ca_side_effect_id a) of
          Inl e \<Rightarrow> Inl (ExecutionResult_failure now
            (''Side effect '' @ us (ca_side_effect_id a) @ '' not found: cannot validate '' @ target_name @ '' target'')
            ''SIDE_EFFECT_NOT_FOUND'' (Some (debug_lookup_error e)))
        | Inr e \<Rightarrow>
            if se_tenant_id e \<noteq> ca_tenant_id a then
              Inl (ExecutionResult_failure now ''Side effect tenant_id mismatch'' ''TENANT_MISMATCH''
                (Some (''Action tenant='' @ us (ca_tenant_id a) @ '', side effect tenant='' @ us (se_tenant_id e))))
            else if se_intent_id e \<noteq> ca_intent_id a then
              Inl (ExecutionResult_failure now ''Side effect intent_id mismatch'' ''INTENT_MISMATCH''
                (Some (''Action intent='' @ us (ca_intent_id a) @ '', side effect intent='' @ us (se_intent_id e))))
            else Inr e)"

definition acknowledgment :: "(uuid \<Rightarrow> string) \<Rightarrow> timestamp \<Rightarrow> string \<Rightarrow> SideEffect \<Rightarrow> ExecutionResult" where
  "acknowledgment us now what e =
     ExecutionResult_success now (what @ '' '' @ se_effect_type e @ '' targeting '' @ se_target e @
       '' acknowledged (side_effect_id='' @ us (se_id e) @ '', effect_class='' @ debug_SideEffectClass (se_effect_class e) @ '')'')"

definition class_gate ::
  "timestamp \<Rightarrow> string \<Rightarrow> string \<Rightarrow> SideEffectClass \<Rightarrow> SideEffect \<Rightarrow> ExecutionResult option" where
  "class_gate now what what2 cls e =
     (if se_effect_class e \<noteq> cls then
        Some (ExecutionResult_failure now
          (''Invalid side effect class for '' @ what @ '': '' @ debug_SideEffectClass (se_effect_class e) @ ''. Expected '' @
            debug_SideEffectClass cls @ ''.'') ''INVALID_SIDE_EFFECT_CLASS''
          (Some (what2 @ '' is only valid for '' @ debug_SideEffectClass cls @ '' effects, got '' @
            debug_SideEffectClass (se_effect_class e))))
      else None)"

definition RollbackExecutor_execute ::
  "(uuid \<Rightarrow> string) \<Rightarrow> timestamp \<Rightarrow> SideEffectRepo \<Rightarrow> CompensationAction \<Rightarrow> ExecutionResult" where
  "RollbackExecutor_execute us now r a =
     (case executor_gates us now Rollback Automatic ''rollback'' r a of
        Inl result \<Rightarrow> result
      | Inr e \<Rightarrow> acknowledgment us now ''Rollback of'' e)"

definition CounterActionExecutor_execute ::
  "(uuid \<Rightarrow> string) \<Rightarrow> timestamp \<Rightarrow> SideEffectRepo \<Rightarrow> CompensationAction \<Rightarrow> ExecutionResult" where
  "CounterActionExecutor_execute us now r a =
     (case executor_gates us now CounterAction SemiAutomatic ''counter-action'' r a of
        Inl result \<Rightarrow> result
      | Inr e \<Rightarrow> (case class_gate now ''counter-action'' ''Counter-action'' S2ExternalReversible e of
            Some result \<Rightarrow> result
          | None \<Rightarrow> acknowledgment us now ''Counter-action for'' e))"

definition FollowupNoticeExecutor_execute ::
  "(uuid \<Rightarrow> string) \<Rightarrow> timestamp \<Rightarrow> SideEffectRepo \<Rightarrow> CompensationAction \<Rightarrow> ExecutionResult" where
  "FollowupNoticeExecutor_execute us now r a =
     (case executor_gates us now FollowupNotice ManualOnly ''followup notice'' r a of
        Inl result \<Rightarrow> result
      | Inr e \<Rightarrow> (case class_gate now ''followup notice'' ''FollowupNotice'' S3ExternalPartiallyReversible e of
            Some result \<Rightarrow> result
          | None \<Rightarrow> acknowledgment us now ''FollowupNotice for'' e))"

definition EscalationExecutor_execute ::
  "(uuid \<Rightarrow> string) \<Rightarrow> timestamp \<Rightarrow> SideEffectRepo \<Rightarrow> CompensationAction \<Rightarrow> ExecutionResult" where
  "EscalationExecutor_execute us now r a =
     (case executor_gates us now Escalation NotPossible ''escalation'' r a of
        Inl result \<Rightarrow> result
      | Inr e \<Rightarrow> (case class_gate now ''escalation'' ''Escalation'' S4Irreversible e of
            Some result \<Rightarrow> result
          | None \<Rightarrow> acknowledgment us now ''Escalation for'' e))"

section \<open>Creating and planning\<close>

definition create_action ::
  "'j comp_env \<Rightarrow> CompensationAction \<Rightarrow> 'j CompState \<Rightarrow> CompensationAction ire_result \<times> 'j CompState" where
  "create_action env a s =
     (let (auto_count, manual_count, not_possible_count) =
            (case ca_feasibility a of
               Automatic \<Rightarrow> (1, 0, 0) | SemiAutomatic \<Rightarrow> (0, 1, 0) | ManualOnly \<Rightarrow> (0, 1, 0) | NotPossible \<Rightarrow> (0, 0, 1));
          (result, repo) = ca_create a (svc_actions s);
          s1 = s\<lparr>svc_actions := repo\<rparr>
      in case result of
           Inl e \<Rightarrow> (Inl e, s1)
         | Inr created \<Rightarrow> (Inr created, emit_audit (record_compensation_planned (env_json env) (env_fresh env 0) (env_clock env 0)
             (env_trace env) (ca_tenant_id a) system_actor (ca_intent_id a)
             \<lparr>cpp_compensation_plan_id = ca_id a, cpp_intent_id = ca_intent_id a,
              cpp_intent_version_from = rc_from_version (ca_trigger_context a),
              cpp_intent_version_to = rc_to_version (ca_trigger_context a), cpp_side_effect_count = 1,
              cpp_auto_compensatable_count = auto_count, cpp_manual_required_count = manual_count,
              cpp_not_possible_count = not_possible_count\<rparr>) s1))"

text \<open>The loop that persists the planned actions; an error ends it.\<close>

fun persist_actions ::
  "'j comp_env \<Rightarrow> CompensationAction list \<Rightarrow> CompensationAction list \<Rightarrow> 'j CompState \<Rightarrow>
   CompensationAction list ire_result \<times> 'j CompState" where
  "persist_actions env [] persisted s = (Inr persisted, s)"
| "persist_actions env (a # as) persisted s =
     (case create_action env a s of
        (Inl e, s') \<Rightarrow> (Inl e, s')
      | (Inr created, s') \<Rightarrow> persist_actions (shift_env 1 env) as (persisted @ [created]) s')"

definition plan_compensation_actions ::
  "'j comp_env \<Rightarrow> uuid \<Rightarrow> uuid \<Rightarrow> RebaseContext \<Rightarrow> 'j CompState \<Rightarrow> CompensationAction list ire_result \<times> 'j CompState" where
  "plan_compensation_actions env intent_id tenant_id c s =
     (case svc_side_effects s of
        None \<Rightarrow> (Inl (Internal ''side_effect_repo is required for bounded compensation planning''), s)
      | Some ledger \<Rightarrow>
          let es = se_list_by_intent ledger intent_id tenant_id
          in persist_actions (shift_env (length es) env) (plan_from_side_effects (env_fresh env) (env_clock env) c es tenant_id) [] s)"

section \<open>Approval, waiver, reapproval\<close>

definition approve_rest ::
  "timestamp \<Rightarrow> uuid \<Rightarrow> i32 \<Rightarrow> string option \<Rightarrow> CompensationAction \<Rightarrow> 'j CompState \<Rightarrow> CompensationAction ire_result \<times> 'j CompState" where
  "approve_rest now i lock_version approved_by a s =
     (let validation = can_transition_to (ca_status a) Approved in
      if \<not> tv_allowed validation then
        (Inl (InvalidCompensationActionTransition (debug_CompensationStatus (ca_status a)) ''Approved''
           (case tv_reason validation of Some m \<Rightarrow> m | None \<Rightarrow> [])), s)
      else
        let (result, repo) = ca_update_status now i Approved lock_version approved_by None (svc_actions s)
        in (result, s\<lparr>svc_actions := repo\<rparr>))"

definition approve_action ::
  "timestamp \<Rightarrow> uuid \<Rightarrow> i32 \<Rightarrow> string option \<Rightarrow> 'j CompState \<Rightarrow> CompensationAction ire_result \<times> 'j CompState" where
  "approve_action now i lock_version approved_by s =
     (case ca_get (svc_actions s) i of
        Inl e \<Rightarrow> (Inl e, s)
      | Inr a \<Rightarrow> approve_rest now i lock_version approved_by a s)"

definition waive_rest ::
  "'j comp_env \<Rightarrow> uuid \<Rightarrow> i32 \<Rightarrow> string option \<Rightarrow> CompensationAction \<Rightarrow> 'j CompState \<Rightarrow>
   CompensationAction ire_result \<times> 'j CompState" where
  "waive_rest env i lock_version waived_by a s =
     (let validation = can_transition_to (ca_status a) CompensationStatus.Waived in
      if \<not> tv_allowed validation then
        (Inl (InvalidCompensationActionTransition (debug_CompensationStatus (ca_status a)) ''Waived''
           (case tv_reason validation of Some m \<Rightarrow> m | None \<Rightarrow> [])), s)
      else
        let (result, repo) = ca_update_status (env_clock env 0) i CompensationStatus.Waived lock_version None waived_by (svc_actions s);
            s1 = s\<lparr>svc_actions := repo\<rparr>
        in case result of
             Inl e \<Rightarrow> (Inl e, s1)
           | Inr updated \<Rightarrow> (Inr updated, store_rollback (rr_waived (env_fresh env 0) (env_clock env 1) (ca_tenant_id a) (ca_id a)
               (ca_side_effect_id a) (ca_intent_id a) ''Compensation action waived'' waived_by) s1))"

definition waive_action ::
  "'j comp_env \<Rightarrow> uuid \<Rightarrow> i32 \<Rightarrow> string option \<Rightarrow> 'j CompState \<Rightarrow> CompensationAction ire_result \<times> 'j CompState" where
  "waive_action env i lock_version waived_by s =
     (case ca_get (svc_actions s) i of
        Inl e \<Rightarrow> (Inl e, s)
      | Inr a \<Rightarrow> waive_rest env i lock_version waived_by a s)"

definition reapprove_rest ::
  "uuid \<Rightarrow> i32 \<Rightarrow> CompensationAction \<Rightarrow> 'j CompState \<Rightarrow> CompensationAction ire_result \<times> 'j CompState" where
  "reapprove_rest i lock_version a s =
     (if ca_status a \<noteq> Failed then
        (Inl (InvalidCompensationActionTransition (debug_CompensationStatus (ca_status a)) ''Pending''
           ''Only Failed actions can be reapproved''), s)
      else if ca_attempt_count a \<ge> ca_max_retries a then
        (Inl (CompensationActionNotReapprovable i (''Retry budget exhausted: '' @ show_int (ca_attempt_count a) @
           '' attempts made (max='' @ show_int (ca_max_retries a) @ '')'')), s)
      else case reapproval_denial_reason a of
          Some denial_reason \<Rightarrow> (Inl (CompensationActionNotReapprovable i denial_reason), s)
        | None \<Rightarrow>
            let (result, repo) = ca_reapprove i lock_version (svc_actions s) in (result, s\<lparr>svc_actions := repo\<rparr>))"

definition reapprove_action ::
  "uuid \<Rightarrow> i32 \<Rightarrow> 'j CompState \<Rightarrow> CompensationAction ire_result \<times> 'j CompState" where
  "reapprove_action i lock_version s =
     (case ca_get (svc_actions s) i of
        Inl e \<Rightarrow> (Inl e, s)
      | Inr a \<Rightarrow> reapprove_rest i lock_version a s)"

section \<open>Execution\<close>

definition stub_result :: "(uuid \<Rightarrow> string) \<Rightarrow> timestamp \<Rightarrow> CompensationAction \<Rightarrow> ExecutionResult" where
  "stub_result us now a =
     ExecutionResult_success now (''Stub: executed '' @ debug_StrategyType (ca_strategy_type a) @ '' for action '' @ us (ca_id a))"

definition unsupported_combo :: "timestamp \<Rightarrow> CompensationAction \<Rightarrow> ExecutionResult" where
  "unsupported_combo now a =
     ExecutionResult_failure now (''Unsupported strategy/feasibility combo: '' @ debug_StrategyType (ca_strategy_type a) @ '' + '' @
       debug_CompensationFeasibility (ca_feasibility a)) ''UNSUPPORTED_COMBO'' None"

definition run_executor ::
  "(uuid \<Rightarrow> string) \<Rightarrow> timestamp \<Rightarrow> SideEffectRepo option \<Rightarrow> CompensationAction \<Rightarrow> ExecutionResult" where
  "run_executor us now ledger a =
     (case ledger of
        Some r \<Rightarrow>
          (case (ca_strategy_type a, ca_feasibility a) of
             (Rollback, Automatic) \<Rightarrow> RollbackExecutor_execute us now r a
           | (CounterAction, SemiAutomatic) \<Rightarrow> CounterActionExecutor_execute us now r a
           | (FollowupNotice, ManualOnly) \<Rightarrow> FollowupNoticeExecutor_execute us now r a
           | (Escalation, NotPossible) \<Rightarrow> EscalationExecutor_execute us now r a
           | _ \<Rightarrow> unsupported_combo now a)
      | None \<Rightarrow>
          (case (ca_strategy_type a, ca_feasibility a) of
             (Rollback, Automatic) \<Rightarrow> stub_result us now a
           | (CounterAction, SemiAutomatic) \<Rightarrow> stub_result us now a
           | (FollowupNotice, ManualOnly) \<Rightarrow> stub_result us now a
           | (Escalation, NotPossible) \<Rightarrow> stub_result us now a
           | _ \<Rightarrow> unsupported_combo now a))"

text \<open>What happens after the executor has returned \<open>result\<close> for the action \<open>a\<close> that was read.\<close>

definition execute_finish ::
  "'j comp_env \<Rightarrow> uuid \<Rightarrow> string option \<Rightarrow> CompensationAction \<Rightarrow> ExecutionResult \<Rightarrow> 'j CompState \<Rightarrow>
   CompensationAction ire_result \<times> 'j CompState" where
  "execute_finish env i executed_by a result s =
     (let actor_id = (case executed_by of Some p \<Rightarrow> p | None \<Rightarrow> system_actor);
          s1 = emit_audit (record_compensation_started (env_json env) (env_fresh env 0) (env_clock env 1) (env_trace env)
            (ca_tenant_id a) actor_id (ca_intent_id a)
            \<lparr>csp_compensation_plan_id = ca_id a, csp_intent_id = ca_intent_id a, csp_actions_initiated = 1\<rparr>) s;
          (recorded, repo) = ca_record_result i result (ca_lock_version a) executed_by (svc_actions s1);
          s2 = s1\<lparr>svc_actions := repo\<rparr>
      in case recorded of
           Inl e \<Rightarrow> (Inl e, s2)
         | Inr updated \<Rightarrow>
             let s3 = (if xr_success result then
                   emit_audit (record_compensation_completed (env_json env) (env_fresh env 1) (env_clock env 2) (env_trace env)
                     (ca_tenant_id a) actor_id (ca_intent_id a)
                     \<lparr>ccp_compensation_plan_id = ca_id a, ccp_intent_id = ca_intent_id a, ccp_actions_succeeded = 1,
                      ccp_actions_failed = 0\<rparr>) s2
                 else
                   emit_audit (record_compensation_failed (env_json env) (env_fresh env 1) (env_clock env 2) (env_trace env)
                     (ca_tenant_id a) actor_id (ca_intent_id a)
                     \<lparr>cfp_compensation_plan_id = ca_id a, cfp_intent_id = ca_intent_id a, cfp_failed_action_id = i,
                      cfp_error_summary = xr_summary result\<rparr>) s2);
                 record = (if xr_success result then
                   rr_success (env_fresh env 2) (env_clock env 3) (ca_tenant_id a) (ca_id a) (ca_side_effect_id a) (ca_intent_id a)
                     (xr_summary result) executed_by
                 else
                   failure_with_actor (env_fresh env 2) (env_clock env 3) (ca_tenant_id a) (ca_id a) (ca_side_effect_id a)
                     (ca_intent_id a) (xr_summary result)
                     (case xr_error_code result of Some c \<Rightarrow> c | None \<Rightarrow> ''UNKNOWN_ERROR'') (xr_error_detail result) executed_by)
             in (Inr updated, store_rollback record s3))"

definition execute_gate :: "CompensationAction \<Rightarrow> bool" where
  "execute_gate a \<longleftrightarrow> ca_status a = Approved \<and>
     (case (ca_strategy_type a, ca_feasibility a) of
        (Rollback, Automatic) \<Rightarrow> True
      | (CounterAction, SemiAutomatic) \<Rightarrow> True
      | (FollowupNotice, ManualOnly) \<Rightarrow> True
      | (Escalation, NotPossible) \<Rightarrow> True
      | _ \<Rightarrow> False)"

definition execute_action ::
  "'j comp_env \<Rightarrow> uuid \<Rightarrow> string option \<Rightarrow> 'j CompState \<Rightarrow> CompensationAction ire_result \<times> 'j CompState" where
  "execute_action env i executed_by s =
     (case ca_get (svc_actions s) i of
        Inl e \<Rightarrow> (Inl e, s)
      | Inr a \<Rightarrow>
          if \<not> execute_gate a then (Inl (CompensationActionNotExecutable i), s)
          else execute_finish env i executed_by a (run_executor (env_us env) (env_clock env 0) (svc_side_effects s) a) s)"

section \<open>Unchecked updates\<close>

text \<open>
  Two public methods pass their arguments to the repository without looking at the current status. No other
  crate calls them.
\<close>

definition svc_update_status ::
  "timestamp \<Rightarrow> uuid \<Rightarrow> CompensationStatus \<Rightarrow> i32 \<Rightarrow> 'j CompState \<Rightarrow> CompensationAction ire_result \<times> 'j CompState" where
  "svc_update_status now i new_status lock_version s =
     (let (result, repo) = ca_update_status now i new_status lock_version None None (svc_actions s)
      in (result, s\<lparr>svc_actions := repo\<rparr>))"

definition svc_record_result ::
  "uuid \<Rightarrow> ExecutionResult \<Rightarrow> i32 \<Rightarrow> string option \<Rightarrow> 'j CompState \<Rightarrow> CompensationAction ire_result \<times> 'j CompState" where
  "svc_record_result i result lock_version executed_by s =
     (let (recorded, repo) = ca_record_result i result lock_version executed_by (svc_actions s)
      in (recorded, s\<lparr>svc_actions := repo\<rparr>))"

section \<open>Queries\<close>

definition get_pending_actions :: "'j CompState \<Rightarrow> uuid \<Rightarrow> CompensationAction list" where
  "get_pending_actions s tenant_id = ca_list_by_status (svc_actions s) tenant_id Pending"

definition get_failed_actions :: "'j CompState \<Rightarrow> uuid \<Rightarrow> CompensationAction list" where
  "get_failed_actions s tenant_id = ca_list_by_status (svc_actions s) tenant_id Failed"

definition list_dlq_candidates :: "'j CompState \<Rightarrow> uuid \<Rightarrow> CompensationAction list" where
  "list_dlq_candidates s tenant_id = filter is_dlq_candidate (ca_list_by_status (svc_actions s) tenant_id Failed)"

definition get_dlq_candidate_count :: "'j CompState \<Rightarrow> uuid \<Rightarrow> usize" where
  "get_dlq_candidate_count s tenant_id = length (list_dlq_candidates s tenant_id)"

record BatchCandidates =
  pending_approval_candidates :: "CompensationAction list"
  approved_service_executable_candidates :: "CompensationAction list"
  retryable_failed_candidates :: "CompensationAction list"
  dlq_candidates :: "CompensationAction list"

definition list_batch_candidates :: "'j CompState \<Rightarrow> uuid \<Rightarrow> BatchCandidates" where
  "list_batch_candidates s tenant_id =
     (let pending = ca_list_by_status (svc_actions s) tenant_id Pending;
          approved = ca_list_by_status (svc_actions s) tenant_id Approved;
          failed = ca_list_by_status (svc_actions s) tenant_id Failed
      in \<lparr>pending_approval_candidates = pending,
          approved_service_executable_candidates = filter is_service_executable approved,
          retryable_failed_candidates = filter can_be_reapproved failed,
          dlq_candidates = filter is_dlq_candidate failed\<rparr>)"

end
