(* ===== verification/Compensation_Laws.thy ===== *)
theory Compensation_Laws
  imports Compensation_Service
begin

text \<open>
  The compensation service keeps its life cycle under concurrent clients. The specification is the
  transition relation \<open>life_step\<close> on the status and the number of attempts of one action; the system is the
  set of reachable configurations of the service state and of the actions that some call has read and
  not yet acted on. A step is any public call that writes, with any arguments. The optimistic lock makes an update apply to the very
  action that was checked, provided that the caller names a version it may know; \<open>honest_call\<close> says which calls do, and
  a theorem shows what the others break.
\<close>

section \<open>The repository\<close>

definition action_inv :: "ActionRepo \<Rightarrow> bool" where
  "action_inv r \<longleftrightarrow>
     (\<forall>i a. map_of (acr_actions r) i = Some a \<longrightarrow> ca_id a = i) \<and>
     index_ok ca_tenant_id (acr_actions r) (acr_by_tenant r) \<and>
     index_ok ca_side_effect_id (acr_actions r) (acr_by_side_effect r) \<and>
     index_ok (\<lambda>a. (ca_tenant_id a, ca_status a)) (acr_actions r) (acr_by_status r) \<and>
     index_ok (\<lambda>a. (ca_tenant_id a, ca_intent_id a)) (acr_actions r) (acr_by_intent r)"

text \<open>The fields no operation changes.\<close>

definition same_identity :: "CompensationAction \<Rightarrow> CompensationAction \<Rightarrow> bool" where
  "same_identity a b \<longleftrightarrow> ca_id b = ca_id a \<and> ca_tenant_id b = ca_tenant_id a \<and> ca_side_effect_id b = ca_side_effect_id a \<and>
     ca_intent_id b = ca_intent_id a \<and> ca_max_retries b = ca_max_retries a \<and> ca_strategy_type b = ca_strategy_type a \<and>
     ca_feasibility b = ca_feasibility a"

lemma action_inv_new: "action_inv ActionRepo_new"
  by (simp add: action_inv_def ActionRepo_new_def)

lemma action_inv_create:
  assumes "action_inv r" and "map_of (acr_actions r) (ca_id a) = None"
  shows "action_inv (snd (ca_create a r))"
  using assms by (simp add: action_inv_def ca_create_def index_ok_push del: map_of_eq_Some_iff)

lemma action_inv_store:
  assumes inv: "action_inv r" and a: "map_of (acr_actions r) (ca_id b) = Some a" "same_identity a b"
  shows "action_inv (store_with_status (ca_status a) b r)"
proof -
  note old = inv [unfolded action_inv_def]
  note same = a(2) [unfolded same_identity_def]
  have "index_ok ca_tenant_id (hm_insert (ca_id b) b (acr_actions r)) (acr_by_tenant r)"
    "index_ok ca_side_effect_id (hm_insert (ca_id b) b (acr_actions r)) (acr_by_side_effect r)"
    "index_ok (\<lambda>a. (ca_tenant_id a, ca_intent_id a)) (hm_insert (ca_id b) b (acr_actions r)) (acr_by_intent r)"
    by (rule index_ok_update [OF _ a(1)]; use old same in simp)+
  moreover have "index_ok (\<lambda>a. (ca_tenant_id a, ca_status a)) (hm_insert (ca_id b) b (acr_actions r))
      (index_push (ca_tenant_id b, ca_status b) (ca_id b) (index_retain (ca_tenant_id b, ca_status a) (ca_id b) (acr_by_status r)))"
    using old same index_ok_move [where key = "\<lambda>a. (ca_tenant_id a, ca_status a)" and v' = b, OF _ a(1) refl] by simp
  ultimately show ?thesis
    using old by (simp add: action_inv_def store_with_status_def del: map_of_eq_Some_iff)
qed

interpretation by_tenant: tenant_store action_inv "\<lambda>r. table_values (acr_actions r)" ca_tenant_id
  "\<lambda>_ a. True" "\<lambda>r (_ :: unit) t. ca_list_by_tenant r t None"
  by unfold_locales (auto simp: ca_list_by_tenant_def set_indexed_values action_inv_def)

interpretation by_side_effect: tenant_store action_inv "\<lambda>r. table_values (acr_actions r)" ca_tenant_id
  "\<lambda>i a. ca_side_effect_id a = i" ca_list_by_side_effect
  by unfold_locales (auto simp: ca_list_by_side_effect_def set_indexed_values action_inv_def)

interpretation by_intent: tenant_store action_inv "\<lambda>r. table_values (acr_actions r)" ca_tenant_id
  "\<lambda>i a. ca_intent_id a = i" ca_list_by_intent
  by unfold_locales (auto simp: ca_list_by_intent_def set_indexed_values action_inv_def)

interpretation by_status: tenant_store action_inv "\<lambda>r. table_values (acr_actions r)" ca_tenant_id
  "\<lambda>st a. ca_status a = st" "\<lambda>r st t. ca_list_by_status r t st"
  by unfold_locales (auto simp: ca_list_by_status_def set_indexed_values action_inv_def)

section \<open>What an update does\<close>

text \<open>
  \<open>updated i lock a b r res r'\<close>: the operation succeeded on the stored action \<open>a\<close>, whose version is \<open>lock\<close>, and
  stored \<open>b\<close> with the next version.
\<close>

definition updated ::
  "uuid \<Rightarrow> i32 \<Rightarrow> CompensationAction \<Rightarrow> CompensationAction \<Rightarrow> ActionRepo \<Rightarrow> CompensationAction ire_result \<Rightarrow> ActionRepo \<Rightarrow> bool" where
  "updated i lock a b r res r' \<longleftrightarrow> map_of (acr_actions r) i = Some a \<and> ca_lock_version a = lock \<and> res = Inr b \<and>
     r' = store_with_status (ca_status a) b r \<and> same_identity a b \<and> ca_lock_version b = i32_wrap (lock + 1)"

lemma ca_update_status_cases:
  assumes "ca_update_status now i st lock by1 by2 r = (res, r')"
  obtains e where "res = Inl e" "r' = r"
  | a b where "updated i lock a b r res r'" "ca_status b = st" "ca_attempt_count b = ca_attempt_count a"
  using assms
  by (auto simp: ca_update_status_def updated_def same_identity_def Let_def simp del: map_of_eq_Some_iff
      split: option.splits if_splits CompensationStatus.splits)

lemma ca_record_result_cases:
  assumes "ca_record_result i result lock by r = (res, r')"
  obtains e where "res = Inl e" "r' = r"
  | a b where "updated i lock a b r res r'" "ca_status b = (if xr_success result then Executed else Failed)"
      "ca_attempt_count b = i32_wrap (ca_attempt_count a + 1)"
  using assms
  by (auto simp: ca_record_result_def updated_def same_identity_def Let_def simp del: map_of_eq_Some_iff
      split: option.splits if_splits)

lemma ca_reapprove_cases:
  assumes "ca_reapprove i lock r = (res, r')"
  obtains e where "res = Inl e" "r' = r"
  | a b where "updated i lock a b r res r'" "ca_status a = Failed" "ca_status b = Pending"
      "ca_attempt_count b = ca_attempt_count a"
  using assms
  by (auto simp: ca_reapprove_def updated_def same_identity_def Let_def simp del: map_of_eq_Some_iff
      split: option.splits if_splits)

lemma can_transition_to_iff:
  "tv_allowed (can_transition_to s t) \<longleftrightarrow>
     (s = Pending \<and> (t = Approved \<or> t = CompensationStatus.Waived)) \<or> (s = Approved \<and> t = Executed) \<or> (s = Failed \<and> t = Pending)"
  by (cases s; cases t) (simp_all add: can_transition_to_def)

section \<open>The specification\<close>

inductive life_step :: "CompensationStatus \<times> int \<Rightarrow> CompensationStatus \<times> int \<Rightarrow> bool" where
  life_approve: "life_step (Pending, n) (Approved, n)"
| life_waive: "life_step (Pending, n) (CompensationStatus.Waived, n)"
| life_execute: "life_step (Approved, n) (Executed, n + 1)"
| life_fail: "life_step (Approved, n) (Failed, n + 1)"
| life_retry: "n < DEFAULT_MAX_RETRIES \<Longrightarrow> life_step (Failed, n) (Pending, n)"

text \<open>The status and the attempts of an action; this is what the specification sees of it.\<close>

definition life_of :: "'j CompState \<Rightarrow> uuid \<Rightarrow> (CompensationStatus \<times> int) option" where
  "life_of s i = map_option (\<lambda>a. (ca_status a, ca_attempt_count a)) (map_of (acr_actions (svc_actions s)) i)"

fun life_ok :: "CompensationStatus \<times> int \<Rightarrow> bool" where
  "life_ok (Pending, n) = (0 \<le> n \<and> n < DEFAULT_MAX_RETRIES)"
| "life_ok (Approved, n) = (0 \<le> n \<and> n < DEFAULT_MAX_RETRIES)"
| "life_ok (CompensationStatus.Waived, n) = (0 \<le> n \<and> n < DEFAULT_MAX_RETRIES)"
| "life_ok (Executed, n) = (1 \<le> n \<and> n \<le> DEFAULT_MAX_RETRIES)"
| "life_ok (Failed, n) = (1 \<le> n \<and> n \<le> DEFAULT_MAX_RETRIES)"

lemma life_ok_step: "life_step l l' \<Longrightarrow> life_ok l \<Longrightarrow> life_ok l'"
  by (induction rule: life_step.induct) (auto simp: DEFAULT_MAX_RETRIES_def)

lemma life_ok_bounds: "life_ok (st, n) \<Longrightarrow> 0 \<le> n \<and> n \<le> 3"
  by (cases st) (auto simp: DEFAULT_MAX_RETRIES_def)

section \<open>The system\<close>

text \<open>
  A configuration is the state of the service and the set of actions that calls in progress have read. The calls of the
  clients: each public method of the service that reads or writes actions, with arbitrary arguments. A method that checks before it writes is
  two steps, the read and the rest on the action that was read; the rest of an execution runs after the gate and with any result of
  the executor.
\<close>

datatype 'j client_call =
    is_Call_create: Call_create "'j comp_env" CompensationAction
  | Call_read uuid
  | Call_approve timestamp i32 "string option" CompensationAction
  | Call_waive "'j comp_env" i32 "string option" CompensationAction
  | Call_reapprove i32 CompensationAction
  | Call_execute "'j comp_env" "string option" ExecutionResult CompensationAction
  | Call_update_status timestamp uuid CompensationStatus i32
  | Call_record_result uuid ExecutionResult i32 "string option"

inductive comp_step ::
  "'j client_call \<Rightarrow> 'j CompState \<times> CompensationAction set \<Rightarrow> 'j CompState \<times> CompensationAction set \<Rightarrow> bool" where
  step_create: "comp_step (Call_create env a) (s, S) (snd (create_action env a s), S)"
| step_read: "ca_get (svc_actions s) i = Inr a \<Longrightarrow> comp_step (Call_read i) (s, S) (s, insert a S)"
| step_approve: "a \<in> S \<Longrightarrow>
    comp_step (Call_approve now lock by a) (s, S) (snd (approve_rest now (ca_id a) lock by a s), S)"
| step_waive: "a \<in> S \<Longrightarrow>
    comp_step (Call_waive env lock by a) (s, S) (snd (waive_rest env (ca_id a) lock by a s), S)"
| step_reapprove: "a \<in> S \<Longrightarrow>
    comp_step (Call_reapprove lock a) (s, S) (snd (reapprove_rest (ca_id a) lock a s), S)"
| step_execute: "a \<in> S \<Longrightarrow> execute_gate a \<Longrightarrow>
    comp_step (Call_execute env by result a) (s, S) (snd (execute_finish env (ca_id a) by a result s), S)"
| step_update_status:
    "comp_step (Call_update_status now i st lock) (s, S) (snd (svc_update_status now i st lock s), S)"
| step_record_result:
    "comp_step (Call_record_result i result lock by) (s, S) (snd (svc_record_result i result lock by s), S)"

text \<open>
  A checking method run without interruption is its two steps, and planning is a sequence of creations, so the steps cover these methods too.
\<close>

lemma checked_calls:
  assumes "ca_get (svc_actions s) i = Inr a" and "ca_id a = i"
  shows "comp_step (Call_read i) (s, S) (s, insert a S)"
    "comp_step (Call_approve now lock by a) (s, insert a S) (snd (approve_action now i lock by s), insert a S)"
    "comp_step (Call_waive env lock by a) (s, insert a S) (snd (waive_action env i lock by s), insert a S)"
    "comp_step (Call_reapprove lock a) (s, insert a S) (snd (reapprove_action i lock s), insert a S)"
    "execute_gate a \<Longrightarrow> comp_step (Call_execute env by (run_executor (env_us env) (env_clock env 0) (svc_side_effects s) a) a)
       (s, insert a S) (snd (execute_action env i by s), insert a S)"
  using step_read [OF assms(1)] step_approve [of a "insert a S" now lock "by" s] step_waive [of a "insert a S" env lock "by" s]
    step_reapprove [of a "insert a S" lock s] step_execute [of a "insert a S" env "by" _ s] assms
  by (simp_all add: approve_action_def waive_action_def reapprove_action_def execute_action_def)

lemma persist_steps:
  "(\<lambda>x y. \<exists>c. is_Call_create c \<and> comp_step c x y)\<^sup>*\<^sup>* (s, S) (snd (persist_actions env as acc s), S)"
proof (induction as arbitrary: env acc s)
  case (Cons a as)
  obtain res s' where c: "create_action env a s = (res, s')" by fastforce
  have "\<exists>c. is_Call_create c \<and> comp_step c (s, S) (s', S)"
    using step_create [of env a s S] c by (intro exI [of _ "Call_create env a"]) simp
  then show ?case
    using Cons.IH [where env = "shift_env 1 env" and s = s'] c by (auto split: sum.split intro: converse_rtranclp_into_rtranclp)
qed simp

lemma plan_steps:
  "(\<lambda>x y. \<exists>c. is_Call_create c \<and> comp_step c x y)\<^sup>*\<^sup>* (s, S) (snd (plan_compensation_actions env intent_id tenant_id c s), S)"
  unfolding plan_compensation_actions_def Let_def
  by (cases "svc_side_effects s") (simp_all add: persist_steps del: persist_actions.simps)

text \<open>
  The calls that respect the protocol: an action is created under an unused identifier and as its constructor builds it, a caller
  names a lock version that is not newer than the one the service has read for the check, and a caller of one of the two unchecked updates has done
  the check the service leaves out, on the version it names. The lock is compared with the stored action only, so the code does not enforce any of this.
\<close>

fun honest_call :: "'j CompState \<Rightarrow> 'j client_call \<Rightarrow> bool" where
  "honest_call s (Call_create env a) \<longleftrightarrow> map_of (acr_actions (svc_actions s)) (ca_id a) = None \<and> ca_status a = Pending \<and>
     ca_attempt_count a = 0 \<and> ca_max_retries a = DEFAULT_MAX_RETRIES \<and> ca_lock_version a = 0"
| "honest_call s (Call_read i) \<longleftrightarrow> True"
| "honest_call s (Call_approve now lock by a) \<longleftrightarrow> lock \<le> ca_lock_version a"
| "honest_call s (Call_waive env lock by a) \<longleftrightarrow> lock \<le> ca_lock_version a"
| "honest_call s (Call_reapprove lock a) \<longleftrightarrow> lock \<le> ca_lock_version a"
| "honest_call s (Call_execute env by result a) \<longleftrightarrow> True"
| "honest_call s (Call_update_status now i st lock) \<longleftrightarrow> (st = Approved \<or> st = CompensationStatus.Waived) \<and>
     (\<forall>a. map_of (acr_actions (svc_actions s)) i = Some a \<and> ca_lock_version a = lock \<longrightarrow> ca_status a = Pending)"
| "honest_call s (Call_record_result i result lock by) \<longleftrightarrow>
     (\<forall>a. map_of (acr_actions (svc_actions s)) i = Some a \<and> ca_lock_version a = lock \<longrightarrow> ca_status a = Approved)"

text \<open>What the constructor builds may be created under an unused identifier.\<close>

lemma honest_new:
  "map_of (acr_actions (svc_actions s)) i = None \<Longrightarrow> honest_call s (Call_create env (CompensationAction_new i now t e n c f st ra))"
  by (simp add: CompensationAction_new_def)

text \<open>The configurations reached in \<open>n\<close> honest calls from an empty repository.\<close>

inductive comp_reach :: "nat \<Rightarrow> 'j CompState \<times> CompensationAction set \<Rightarrow> bool" where
  reach_init: "svc_actions s = ActionRepo_new \<Longrightarrow> comp_reach 0 (s, {})"
| reach_next: "comp_reach n (s, S) \<Longrightarrow> comp_step c (s, S) y \<Longrightarrow> honest_call s c \<Longrightarrow> comp_reach (Suc n) y"

inductive_cases comp_stepE: "comp_step c x y"

definition action_ok :: "nat \<Rightarrow> CompensationAction \<Rightarrow> bool" where
  "action_ok n c \<longleftrightarrow> 0 \<le> ca_lock_version c \<and> ca_lock_version c \<le> int n \<and> ca_max_retries c = DEFAULT_MAX_RETRIES \<and>
     life_ok (ca_status c, ca_attempt_count c)"

text \<open>The stored action is the one that was read, or has a newer version.\<close>

definition snapshot_ok :: "ActionRepo \<Rightarrow> CompensationAction \<Rightarrow> bool" where
  "snapshot_ok r a \<longleftrightarrow> (\<exists>c. map_of (acr_actions r) (ca_id a) = Some c \<and>
     (a = c \<or> ca_lock_version a < ca_lock_version c))"

definition sys_inv :: "nat \<Rightarrow> 'j CompState \<times> CompensationAction set \<Rightarrow> bool" where
  "sys_inv n x \<longleftrightarrow> (case x of (s, S) \<Rightarrow>
     action_inv (svc_actions s) \<and>
     (\<forall>i c. map_of (acr_actions (svc_actions s)) i = Some c \<longrightarrow> action_ok n c) \<and>
     (\<forall>a \<in> S. snapshot_ok (svc_actions s) a))"

lemma sys_invD:
  assumes "sys_inv n (s, S)"
  shows "action_inv (svc_actions s)" "map_of (acr_actions (svc_actions s)) i = Some c \<Longrightarrow> action_ok n c"
    "a \<in> S \<Longrightarrow> snapshot_ok (svc_actions s) a"
  using assms unfolding sys_inv_def by blast+

lemma sys_invI:
  assumes "action_inv (svc_actions s)" and "\<And>i c. map_of (acr_actions (svc_actions s)) i = Some c \<Longrightarrow> action_ok n c"
    and "\<And>a. a \<in> S \<Longrightarrow> snapshot_ok (svc_actions s) a"
  shows "sys_inv n (s, S)"
  using assms unfolding sys_inv_def by blast

lemma action_ok_Suc: "action_ok n c \<Longrightarrow> action_ok (Suc n) c"
  by (simp add: action_ok_def)

text \<open>
  The effect of a step on the repository: none, a new action, or one life step of one action with the
  next version.
\<close>

definition moves :: "ActionRepo \<Rightarrow> ActionRepo \<Rightarrow> bool" where
  "moves r r' \<longleftrightarrow> r' = r \<or>
     (\<exists>a. map_of (acr_actions r) (ca_id a) = None \<and> r' = snd (ca_create a r) \<and> ca_lock_version a = 0 \<and>
        ca_max_retries a = DEFAULT_MAX_RETRIES \<and> (ca_status a, ca_attempt_count a) = (Pending, 0)) \<or>
     (\<exists>a b. map_of (acr_actions r) (ca_id a) = Some a \<and> r' = store_with_status (ca_status a) b r \<and> same_identity a b \<and>
        ca_lock_version b = ca_lock_version a + 1 \<and>
        life_step (ca_status a, ca_attempt_count a) (ca_status b, ca_attempt_count b))"


text \<open>The effect of any call at all: none, a created action, or one stored action replaced by one with the same identity and the next version.\<close>

definition touches :: "ActionRepo \<Rightarrow> ActionRepo \<Rightarrow> bool" where
  "touches r r' \<longleftrightarrow> r' = r \<or> (\<exists>a b. map_of (acr_actions r) (ca_id a) = Some a \<and> r' = store_with_status (ca_status a) b r \<and>
     same_identity a b \<and> ca_lock_version b = ca_lock_version a + 1)"

lemma touches_refl [simp]: "touches r r"
  by (simp add: touches_def)

lemma updated_current:
  assumes inv: "sys_inv n (s, S)" and n: "Suc n < 2 ^ 31" and up: "updated i lock c b (svc_actions s) res r'"
  shows "map_of (acr_actions (svc_actions s)) (ca_id c) = Some c" "r' = store_with_status (ca_status c) b (svc_actions s)"
    "same_identity c b" "ca_lock_version b = ca_lock_version c + 1" "action_ok n c"
    "map_of (acr_actions (svc_actions s)) i = Some c" "ca_lock_version c = lock" "touches (svc_actions s) r'"
proof -
  have c: "map_of (acr_actions (svc_actions s)) i = Some c" "ca_lock_version c = lock" and st: "r' = store_with_status (ca_status c) b (svc_actions s)"
    and id: "same_identity c b"
    using up by (simp_all add: updated_def del: map_of_eq_Some_iff)
  have "ca_id c = i" using sys_invD(1) [OF inv] c(1) by (simp add: action_inv_def del: map_of_eq_Some_iff)
  with c(1) have cur: "map_of (acr_actions (svc_actions s)) (ca_id c) = Some c" by simp
  have ok: "action_ok n c" using sys_invD(2) [OF inv c(1)] .
  have "ca_lock_version b = i32_wrap (ca_lock_version c + 1)" using up c(2) by (simp add: updated_def)
  also have "\<dots> = ca_lock_version c + 1" using ok n by (simp add: action_ok_def)
  finally have v: "ca_lock_version b = ca_lock_version c + 1" .
  show "map_of (acr_actions (svc_actions s)) (ca_id c) = Some c" "r' = store_with_status (ca_status c) b (svc_actions s)"
    "same_identity c b" "ca_lock_version b = ca_lock_version c + 1" "action_ok n c"
    "map_of (acr_actions (svc_actions s)) i = Some c" "ca_lock_version c = lock"
    by (fact cur st id v ok c)+
  show "touches (svc_actions s) r'" using cur st id v unfolding touches_def by blast
qed

lemma snapshot_current:
  assumes inv: "sys_inv n (s, S)" and n: "Suc n < 2 ^ 31" and a: "a \<in> S" "lock \<le> ca_lock_version a"
    and up: "updated (ca_id a) lock c b (svc_actions s) res r'"
  shows "map_of (acr_actions (svc_actions s)) (ca_id a) = Some a" "r' = store_with_status (ca_status a) b (svc_actions s)"
    "same_identity a b" "ca_lock_version b = ca_lock_version a + 1" "c = a" "action_ok n a"
proof -
  note cur = updated_current [OF inv n up]
  obtain d where d: "map_of (acr_actions (svc_actions s)) (ca_id a) = Some d" "a = d \<or> ca_lock_version a < ca_lock_version d"
    using sys_invD(3) [OF inv a(1)] unfolding snapshot_ok_def by blast
  from d(1) cur(6) have "d = c" by simp
  with a(2) d(2) cur(7) show ac: "c = a" by auto
  show "map_of (acr_actions (svc_actions s)) (ca_id a) = Some a" "r' = store_with_status (ca_status a) b (svc_actions s)"
    "same_identity a b" "ca_lock_version b = ca_lock_version a + 1" "action_ok n a"
    by (fact cur(1-5) [unfolded ac])+
qed

lemma moves_update:
  assumes "map_of (acr_actions r) (ca_id a) = Some a" "r' = store_with_status (ca_status a) b r" "same_identity a b"
    "ca_lock_version b = ca_lock_version a + 1"
    "life_step (ca_status a, ca_attempt_count a) (ca_status b, ca_attempt_count b)"
  shows "moves r r'"
  using assms unfolding moves_def by blast

lemma moves_refl [simp]: "moves r r"
  by (simp add: moves_def)

lemma svc_actions_emit [simp]: "svc_actions (emit_audit f s) = svc_actions s"
  by (simp add: emit_audit_def)

lemma svc_actions_rollback [simp]: "svc_actions (store_rollback x s) = svc_actions s"
  by (simp add: store_rollback_def)

lemma approve_moves:
  assumes inv: "sys_inv n (s, S)" "Suc n < 2 ^ 31" "a \<in> S" "lock \<le> ca_lock_version a"
  shows "moves (svc_actions s) (svc_actions (snd (approve_rest now (ca_id a) lock by a s)))"
proof (cases "ca_update_status now (ca_id a) Approved lock by None (svc_actions s)")
  case (Pair res r')
  then show ?thesis
  proof (cases rule: ca_update_status_cases)
    case (2 c b)
    note cur = snapshot_current [OF inv 2(1)]
    show ?thesis
    proof (cases "ca_status a = Pending")
      case True
      with 2 cur(5) have "life_step (ca_status a, ca_attempt_count a) (ca_status b, ca_attempt_count b)"
        by (simp add: life_approve)
      from moves_update [OF cur(1-4) this] True Pair show ?thesis
        by (simp add: approve_rest_def can_transition_to_iff)
    next
      case False
      then show ?thesis by (simp add: approve_rest_def can_transition_to_iff)
    qed
  qed (simp add: approve_rest_def Let_def Pair)
qed

lemma waive_moves:
  assumes inv: "sys_inv n (s, S)" "Suc n < 2 ^ 31" "a \<in> S" "lock \<le> ca_lock_version a"
  shows "moves (svc_actions s) (svc_actions (snd (waive_rest env (ca_id a) lock by a s)))"
proof (cases "ca_update_status (env_clock env 0) (ca_id a) CompensationStatus.Waived lock None by (svc_actions s)")
  case (Pair res r')
  then show ?thesis
  proof (cases rule: ca_update_status_cases)
    case (2 c b)
    note cur = snapshot_current [OF inv 2(1)]
    show ?thesis
    proof (cases "ca_status a = Pending")
      case True
      with 2 cur(5) have "life_step (ca_status a, ca_attempt_count a) (ca_status b, ca_attempt_count b)"
        by (simp add: life_waive)
      from moves_update [OF cur(1-4) this] True Pair show ?thesis
        by (simp add: waive_rest_def can_transition_to_iff Let_def split: sum.splits)
    next
      case False
      then show ?thesis by (simp add: waive_rest_def can_transition_to_iff)
    qed
  qed (simp add: waive_rest_def Let_def Pair)
qed

lemma denial_iff: "reapproval_denial_reason a = None \<longleftrightarrow> can_be_reapproved a"
  by (auto simp: reapproval_denial_reason_def can_be_reapproved_def classify_error_code_def Let_def split: option.splits)

lemma reapprove_moves:
  assumes inv: "sys_inv n (s, S)" "Suc n < 2 ^ 31" "a \<in> S" "lock \<le> ca_lock_version a"
  shows "moves (svc_actions s) (svc_actions (snd (reapprove_rest (ca_id a) lock a s)))"
proof (cases "ca_reapprove (ca_id a) lock (svc_actions s)")
  case (Pair res r')
  then show ?thesis
  proof (cases rule: ca_reapprove_cases)
    case (2 c b)
    note cur = snapshot_current [OF inv 2(1)]
    show ?thesis
    proof (cases "ca_attempt_count a < DEFAULT_MAX_RETRIES")
      case True
      with 2 cur(5) have "life_step (ca_status a, ca_attempt_count a) (ca_status b, ca_attempt_count b)"
        by (simp add: life_retry)
      from moves_update [OF cur(1-4) this] Pair show ?thesis
        by (simp add: reapprove_rest_def Let_def split: option.splits)
    next
      case False
      then show ?thesis using cur(6) by (simp add: reapprove_rest_def action_ok_def)
    qed
  qed (simp add: reapprove_rest_def Let_def Pair split: option.splits)
qed

lemma execute_moves:
  assumes inv: "sys_inv n (s, S)" "Suc n < 2 ^ 31" "a \<in> S" and gate: "execute_gate a"
  shows "moves (svc_actions s) (svc_actions (snd (execute_finish env (ca_id a) by a result s)))"
proof (cases "ca_record_result (ca_id a) result (ca_lock_version a) by (svc_actions s)")
  case (Pair res r')
  then show ?thesis
  proof (cases rule: ca_record_result_cases)
    case (2 c b)
    note cur = snapshot_current [OF inv order.refl 2(1)]
    have att: "ca_attempt_count b = ca_attempt_count a + 1"
      using 2(3) cur(5,6) life_ok_bounds [of "ca_status a" "ca_attempt_count a"] by (simp add: action_ok_def)
    have "ca_status a = Approved" using gate by (simp add: execute_gate_def)
    then have "life_step (ca_status a, ca_attempt_count a) (ca_status b, ca_attempt_count b)"
      unfolding att 2(2) by (simp add: life_execute life_fail)
    from moves_update [OF cur(1-4) this] 2(1) Pair show ?thesis
      by (simp add: execute_finish_def updated_def Let_def)
  qed (simp add: execute_finish_def Let_def Pair)
qed

lemma svc_actions_create: "svc_actions (snd (create_action env a s)) = snd (ca_create a (svc_actions s))"
  by (simp add: create_action_def ca_create_def Let_def split: CompensationFeasibility.splits)

lemma create_moves:
  assumes "honest_call s (Call_create env a)"
  shows "moves (svc_actions s) (svc_actions (snd (create_action env a s)))"
  unfolding svc_actions_create moves_def
  by (rule disjI2, rule disjI1, rule exI [of _ a]) (use assms in simp)

lemma update_status_moves:
  assumes inv: "sys_inv n (s, S)" "Suc n < 2 ^ 31" and honest: "honest_call s (Call_update_status now i st lock)"
  shows "moves (svc_actions s) (svc_actions (snd (svc_update_status now i st lock s)))"
proof (cases "ca_update_status now i st lock None None (svc_actions s)")
  case (Pair res r')
  then show ?thesis
  proof (cases rule: ca_update_status_cases)
    case (2 c b)
    note cur = updated_current [OF inv 2(1)]
    have "ca_status c = Pending" "st = Approved \<or> st = CompensationStatus.Waived"
      using honest cur(6,7) by (simp_all del: map_of_eq_Some_iff)
    then have "life_step (ca_status c, ca_attempt_count c) (ca_status b, ca_attempt_count b)"
      unfolding 2(2,3) by (auto intro: life_step.intros)
    from moves_update [OF cur(1-4) this] Pair show ?thesis by (simp add: svc_update_status_def)
  qed (simp add: svc_update_status_def Pair)
qed

lemma record_result_moves:
  assumes inv: "sys_inv n (s, S)" "Suc n < 2 ^ 31" and honest: "honest_call s (Call_record_result i result lock by)"
  shows "moves (svc_actions s) (svc_actions (snd (svc_record_result i result lock by s)))"
proof (cases "ca_record_result i result lock by (svc_actions s)")
  case (Pair res r')
  then show ?thesis
  proof (cases rule: ca_record_result_cases)
    case (2 c b)
    note cur = updated_current [OF inv 2(1)]
    have "ca_attempt_count b = ca_attempt_count c + 1"
      using 2(3) cur(5) life_ok_bounds [of "ca_status c" "ca_attempt_count c"] by (simp add: action_ok_def)
    moreover have "ca_status c = Approved" using honest cur(6,7) by (simp del: map_of_eq_Some_iff)
    ultimately have "life_step (ca_status c, ca_attempt_count c) (ca_status b, ca_attempt_count b)"
      unfolding 2(2) by (simp add: life_execute life_fail)
    from moves_update [OF cur(1-4) this] Pair show ?thesis by (simp add: svc_record_result_def)
  qed (simp add: svc_record_result_def Pair)
qed

lemma honest_lock:
  "honest_call s (Call_approve now lock by a) \<Longrightarrow> lock \<le> ca_lock_version a"
  "honest_call s (Call_waive env lock by a) \<Longrightarrow> lock \<le> ca_lock_version a"
  "honest_call s (Call_reapprove lock a) \<Longrightarrow> lock \<le> ca_lock_version a"
  by simp_all

lemma step_moves:
  assumes "comp_step c (s, S) (s', S')" and "honest_call s c" and "sys_inv n (s, S)" and "Suc n < 2 ^ 31"
  shows "moves (svc_actions s) (svc_actions s')"
  using assms(1)
  by (rule comp_stepE)
    (use assms(2-4) in \<open>auto simp del: honest_call.simps dest: honest_lock intro: create_moves approve_moves waive_moves reapprove_moves
      execute_moves update_status_moves record_result_moves\<close>)

text \<open>Any call, honest or not.\<close>

lemma update_status_touches:
  assumes "sys_inv n (s, S)" "Suc n < 2 ^ 31" and "ca_update_status now i st lock by1 by2 (svc_actions s) = (res, r')"
  shows "touches (svc_actions s) r'"
  using assms(3) updated_current(8) [OF assms(1,2)] by (cases rule: ca_update_status_cases) auto

lemma record_result_touches:
  assumes "sys_inv n (s, S)" "Suc n < 2 ^ 31" and "ca_record_result i result lock by (svc_actions s) = (res, r')"
  shows "touches (svc_actions s) r'"
  using assms(3) updated_current(8) [OF assms(1,2)] by (cases rule: ca_record_result_cases) auto

lemma reapprove_touches:
  assumes "sys_inv n (s, S)" "Suc n < 2 ^ 31" and "ca_reapprove i lock (svc_actions s) = (res, r')"
  shows "touches (svc_actions s) r'"
  using assms(3) updated_current(8) [OF assms(1,2)] by (cases rule: ca_reapprove_cases) auto

lemma step_touches:
  assumes "comp_step c (s, S) (s', S')" and "\<not> is_Call_create c" and inv: "sys_inv n (s, S)" "Suc n < 2 ^ 31"
  shows "touches (svc_actions s) (svc_actions s')"
  using assms(1)
  by (cases rule: comp_stepE)
    (use assms(2) in \<open>auto simp: approve_rest_def waive_rest_def reapprove_rest_def execute_finish_def svc_update_status_def
      svc_record_result_def Let_def split: prod.split sum.split option.split
      intro: update_status_touches [OF inv] record_result_touches [OF inv] reapprove_touches [OF inv]\<close>)

section \<open>The invariant of the system\<close>

lemma moves_inv:
  assumes inv: "sys_inv n (s, S)" and m: "moves (svc_actions s) (svc_actions s')"
  shows "sys_inv (Suc n) (s', S)"
  using m unfolding moves_def
proof (elim disjE exE conjE)
  assume "svc_actions s' = svc_actions s"
  then show ?thesis using sys_invD [OF inv] by (auto intro!: sys_invI action_ok_Suc simp del: map_of_eq_Some_iff)
next
  fix a
  assume a: "map_of (acr_actions (svc_actions s)) (ca_id a) = None" "svc_actions s' = snd (ca_create a (svc_actions s))"
    "ca_lock_version a = 0" "ca_max_retries a = DEFAULT_MAX_RETRIES" "(ca_status a, ca_attempt_count a) = (Pending, 0)"
  have acts: "acr_actions (svc_actions s') = hm_insert (ca_id a) a (acr_actions (svc_actions s))"
    by (simp add: a(2) ca_create_def)
  show ?thesis
  proof (rule sys_invI)
    show "action_inv (svc_actions s')" unfolding a(2) by (rule action_inv_create [OF sys_invD(1) [OF inv] a(1)])
    have "action_ok (Suc n) a" using a(3-5) by (simp add: action_ok_def DEFAULT_MAX_RETRIES_def)
    then show "action_ok (Suc n) c" if "map_of (acr_actions (svc_actions s')) i = Some c" for i c
      using that sys_invD(2) [OF inv] by (auto simp: acts action_ok_Suc simp del: map_of_eq_Some_iff split: if_splits)
    show "snapshot_ok (svc_actions s') d" if "d \<in> S" for d
      using sys_invD(3) [OF inv that] a(1) by (auto simp: acts snapshot_ok_def simp del: map_of_eq_Some_iff)
  qed
next
  fix a b
  assume ab: "map_of (acr_actions (svc_actions s)) (ca_id a) = Some a"
    "svc_actions s' = store_with_status (ca_status a) b (svc_actions s)" "same_identity a b"
    "ca_lock_version b = ca_lock_version a + 1" "life_step (ca_status a, ca_attempt_count a) (ca_status b, ca_attempt_count b)"
  have id: "ca_id b = ca_id a" "ca_max_retries b = ca_max_retries a" using ab(3) by (simp_all add: same_identity_def)
  have acts: "acr_actions (svc_actions s') = hm_insert (ca_id a) b (acr_actions (svc_actions s))"
    using ab(2) id by (simp add: store_with_status_def)
  show ?thesis
  proof (rule sys_invI)
    show "action_inv (svc_actions s')"
      unfolding ab(2) by (rule action_inv_store [OF sys_invD(1) [OF inv] _ ab(3)]) (simp only: id ab(1))
    have "action_ok (Suc n) b"
      using sys_invD(2) [OF inv ab(1)] ab(4) life_ok_step [OF ab(5)] id by (simp add: action_ok_def)
    then show "action_ok (Suc n) c" if "map_of (acr_actions (svc_actions s')) i = Some c" for i c
      using that sys_invD(2) [OF inv] by (auto simp: acts action_ok_Suc simp del: map_of_eq_Some_iff split: if_splits)
    show "snapshot_ok (svc_actions s') d" if "d \<in> S" for d
      using sys_invD(3) [OF inv that] ab(1,4) by (auto simp: acts snapshot_ok_def simp del: map_of_eq_Some_iff)
  qed
qed

lemma read_snapshot:
  assumes "sys_inv n (s, S)" and "ca_get (svc_actions s) i = Inr a"
  shows "sys_inv n (s, insert a S)"
proof -
  have a: "map_of (acr_actions (svc_actions s)) i = Some a"
    using assms(2) by (simp add: ca_get_def del: map_of_eq_Some_iff split: option.splits)
  then have "ca_id a = i" using sys_invD(1) [OF assms(1)] by (simp add: action_inv_def del: map_of_eq_Some_iff)
  with a have "snapshot_ok (svc_actions s) a" by (simp add: snapshot_ok_def del: map_of_eq_Some_iff)
  then show ?thesis using sys_invD [OF assms(1)] by (auto intro!: sys_invI simp del: map_of_eq_Some_iff)
qed

lemma step_inv:
  assumes "comp_step c (s, S) (s', S')" and "honest_call s c" and "sys_inv n (s, S)" and "Suc n < 2 ^ 31"
  shows "sys_inv (Suc n) (s', S')"
proof -
  have step: "sys_inv (Suc n) (s', S)" using step_moves [OF assms] by (rule moves_inv [OF assms(3)])
  have "S' = S \<or> (\<exists>i a. S' = insert a S \<and> s' = s \<and> ca_get (svc_actions s) i = Inr a)"
    using assms(1) by (rule comp_stepE) blast+
  with step show ?thesis by (auto intro: read_snapshot)
qed

lemma reach_inv: "comp_reach n x \<Longrightarrow> n < 2 ^ 31 \<Longrightarrow> sys_inv n x"
proof (induction rule: comp_reach.induct)
  case (reach_init s)
  then show ?case by (intro sys_invI) (simp_all add: action_inv_new, simp add: ActionRepo_new_def)
next
  case (reach_next n s S c y)
  obtain s' S' where y: "y = (s', S')" by (cases y)
  show ?case unfolding y
    by (rule step_inv [OF reach_next(2) [unfolded y] reach_next(3)]) (use reach_next(4,5) in simp_all)
qed

section \<open>Results\<close>

lemma moves_life:
  assumes inv: "action_inv (svc_actions s)" and m: "moves (svc_actions s) (svc_actions s')"
  shows "life_of s' i = life_of s i \<or> (life_of s i = None \<and> life_of s' i = Some (Pending, 0)) \<or>
    (\<exists>l l'. life_of s i = Some l \<and> life_of s' i = Some l' \<and> life_step l l')"
  using m unfolding moves_def
proof (elim disjE exE conjE)
  fix a
  assume a: "map_of (acr_actions (svc_actions s)) (ca_id a) = None" "svc_actions s' = snd (ca_create a (svc_actions s))"
    "(ca_status a, ca_attempt_count a) = (Pending, 0)"
  then show ?thesis by (cases "i = ca_id a") (simp_all add: life_of_def ca_create_def)
next
  fix a b
  assume "map_of (acr_actions (svc_actions s)) (ca_id a) = Some a"
    "svc_actions s' = store_with_status (ca_status a) b (svc_actions s)" "same_identity a b"
    "life_step (ca_status a, ca_attempt_count a) (ca_status b, ca_attempt_count b)"
  then show ?thesis
    by (cases "i = ca_id a") (simp_all add: life_of_def store_with_status_def same_identity_def del: map_of_eq_Some_iff)
qed (simp add: life_of_def)

lemma touches_action:
  assumes "touches r r'"
  shows "map_of (acr_actions r') i = map_of (acr_actions r) i \<or>
    (\<exists>a b. map_of (acr_actions r) i = Some a \<and> map_of (acr_actions r') i = Some b \<and> same_identity a b \<and>
      ca_lock_version b = ca_lock_version a + 1)"
  using assms unfolding touches_def
proof (elim disjE exE conjE)
  fix a b
  assume "map_of (acr_actions r) (ca_id a) = Some a" "r' = store_with_status (ca_status a) b r" "same_identity a b"
    "ca_lock_version b = ca_lock_version a + 1"
  then show ?thesis
    by (cases "i = ca_id a") (simp_all add: store_with_status_def same_identity_def del: map_of_eq_Some_iff)
qed simp

text \<open>
  C22. The service refines the life cycle of a compensation action under any interleaving of clients that respect the
  protocol. The calls are all the public methods that write, also the two unchecked updates, with any arguments; a call is honest if it creates a fresh action,
  names a lock version not newer than the one the service has read for the check, or, for an unchecked update, approves or waives an action that is pending
  or records the result of one that is approved, in the version it names. In every
  configuration reached by fewer than \<open>2\<^sup>3\<^sup>1\<close> honest calls, whatever honest call comes next, the status and the attempts of each
  action stay as they are, or the action is created as pending with no attempts, or they change by one transition of the
  specification \<open>life_step\<close>: a waived or executed action never changes, only an approved action is executed, and a failed one is retried
  only below three attempts. Any call at all that is not a creation, honest or not, leaves an action as it is or replaces it by one of the same tenant, side
  effect, intent, strategy and feasibility with the next lock version.
\<close>

theorem compensation_refines_life:
  assumes "comp_reach n (s, S)" and "Suc n < 2 ^ 31" and "comp_step c (s, S) (s', S')"
  shows "(honest_call s c \<longrightarrow> life_of s' i = life_of s i \<or> (life_of s i = None \<and> life_of s' i = Some (Pending, 0)) \<or>
      (\<exists>l l'. life_of s i = Some l \<and> life_of s' i = Some l' \<and> life_step l l')) \<and>
    (\<not> is_Call_create c \<longrightarrow> map_of (acr_actions (svc_actions s')) i = map_of (acr_actions (svc_actions s)) i \<or>
      (\<exists>a b. map_of (acr_actions (svc_actions s)) i = Some a \<and> map_of (acr_actions (svc_actions s')) i = Some b \<and> same_identity a b \<and>
        ca_lock_version b = ca_lock_version a + 1))"
proof -
  have inv: "sys_inv n (s, S)" using reach_inv [OF assms(1)] assms(2) by simp
  show ?thesis
    using moves_life [OF sys_invD(1) [OF inv] step_moves [OF assms(3) _ inv assms(2)]]
      touches_action [OF step_touches [OF assms(3) _ inv assms(2)]] by blast
qed

definition ex_comp_state :: "nat CompState" where
  "ex_comp_state = \<lparr>svc_actions = ActionRepo_new, svc_side_effects = None, svc_rollbacks = None, svc_audit = None\<rparr>"

definition ex_comp_env :: "nat comp_env" where
  "ex_comp_env = \<lparr>env_us = (\<lambda>u. show_nat (unat u)),
     env_json = \<lparr>aj_planned = (\<lambda>_. 0), aj_started = (\<lambda>_. 1), aj_completed = (\<lambda>_. 2), aj_failed = (\<lambda>_. 3)\<rparr>,
     env_trace = \<lparr>trace_id = None, span_id = None\<rparr>, env_fresh = (\<lambda>n. of_nat (100 + n)), env_clock = int\<rparr>"

definition ex_comp_action :: CompensationAction where
  "ex_comp_action = CompensationAction_new 7 0 1 2 3 \<lparr>rc_intent_id = 3, rc_from_version = 1, rc_to_version = 2, rc_workflow_id = 4\<rparr>
     Automatic Rollback ''r''"

lemma ex_comp_created:
  "comp_step (Call_create ex_comp_env ex_comp_action) (ex_comp_state, {}) (snd (create_action ex_comp_env ex_comp_action ex_comp_state), {})"
  by (rule step_create)

lemma ex_comp_honest: "honest_call ex_comp_state (Call_create ex_comp_env ex_comp_action)"
  unfolding ex_comp_action_def by (rule honest_new) (simp add: ex_comp_state_def ActionRepo_new_def)

lemma ex_comp_reach: "comp_reach (Suc 0) (snd (create_action ex_comp_env ex_comp_action ex_comp_state), {})"
  by (rule reach_next [OF reach_init ex_comp_created ex_comp_honest]) (simp add: ex_comp_state_def)

lemma ex_comp_stored:
  "map_of (acr_actions (svc_actions (snd (create_action ex_comp_env ex_comp_action ex_comp_state)))) 7 = Some ex_comp_action"
  by (simp add: create_action_def ca_create_def ex_comp_action_def CompensationAction_new_def ex_comp_state_def ActionRepo_new_def
      emit_audit_def)

theorem compensation_refines_life_witness:
  "life_of ex_comp_state 7 = None \<and>
   life_of (snd (create_action ex_comp_env ex_comp_action ex_comp_state)) 7 = Some (Pending, 0)"
proof -
  have "life_of ex_comp_state 7 = None" by (simp add: life_of_def ex_comp_state_def ActionRepo_new_def)
  moreover have "life_of (snd (create_action ex_comp_env ex_comp_action ex_comp_state)) 7 \<noteq> None"
    using ex_comp_stored by (simp add: life_of_def)
  moreover have "comp_reach 0 (ex_comp_state, {})" by (rule reach_init) (simp add: ex_comp_state_def)
  ultimately show ?thesis
    using compensation_refines_life [OF _ _ ex_comp_created, of 0 7] ex_comp_honest by auto
qed

lemma failed_split: "ca_status a = Failed \<Longrightarrow> is_dlq_candidate a \<longleftrightarrow> \<not> can_be_reapproved a"
  by (auto simp: is_dlq_candidate_def can_be_reapproved_def classify_error_code_def Let_def split: option.splits)

text \<open>
  C23. The retry budget holds under clients that respect the protocol: in every configuration reached by fewer than \<open>2\<^sup>3\<^sup>1\<close>
  honest calls (fresh actions only, no lock version newer than the one read for the check, no unchecked update without that check) an action has been
  attempted at most three times, at least once if it is executed or failed, and fewer than three times while it
  can still run. The four queues a tenant sees are exact: the pending ones, the approved ones the service can execute, and the
  failed ones, each of which is in the retry queue or in the dead letter queue but not in both. No queue shows an action of
  another tenant.
\<close>

theorem compensation_queues_exact:
  assumes "comp_reach n (s, S)" and "n < 2 ^ 31"
  shows "(\<forall>a \<in> table_values (acr_actions (svc_actions s)). life_ok (ca_status a, ca_attempt_count a)) \<and>
    (let q = list_batch_candidates s t; mine = {a \<in> table_values (acr_actions (svc_actions s)). ca_tenant_id a = t} in
     set (pending_approval_candidates q) = {a \<in> mine. ca_status a = Pending} \<and>
     set (approved_service_executable_candidates q) = {a \<in> mine. ca_status a = Approved \<and> is_service_executable a} \<and>
     set (retryable_failed_candidates q) \<union> set (dlq_candidates q) = {a \<in> mine. ca_status a = Failed} \<and>
     set (retryable_failed_candidates q) \<inter> set (dlq_candidates q) = {})"
proof -
  have inv: "sys_inv n (s, S)" using assms by (rule reach_inv)
  have life: "life_ok (ca_status a, ca_attempt_count a)" if "a \<in> table_values (acr_actions (svc_actions s))" for a
    using that sys_invD(2) [OF inv] unfolding table_values_iff action_ok_def by blast
  show ?thesis
    using life failed_split by (auto simp: list_batch_candidates_def Let_def by_status.exact [OF sys_invD(1) [OF inv]])
qed

theorem compensation_queues_exact_witness:
  "ex_comp_action \<in> set (pending_approval_candidates
     (list_batch_candidates (snd (create_action ex_comp_env ex_comp_action ex_comp_state)) 1))"
proof -
  have "Suc 0 < 2 ^ 31" by simp
  moreover have "ex_comp_action \<in> table_values (acr_actions (svc_actions (snd (create_action ex_comp_env ex_comp_action ex_comp_state))))"
    using ex_comp_stored by (rule ranI)
  ultimately show ?thesis
    using compensation_queues_exact [OF ex_comp_reach, of 1]
    by (simp add: Let_def) (simp add: ex_comp_action_def CompensationAction_new_def)
qed

text \<open>What the calls that are not honest do to an action that is stored with the version they name.\<close>

lemma approve_stored:
  assumes "ca_status a = Pending" and "map_of (acr_actions (svc_actions s)) i = Some c" and "ca_id c = i"
  shows "life_of (snd (approve_rest now i (ca_lock_version c) by a s)) i = Some (Approved, ca_attempt_count c)"
  using assms
  by (simp add: approve_rest_def can_transition_to_iff ca_update_status_def Let_def life_of_def store_with_status_def)

lemma record_stored:
  assumes "map_of (acr_actions (svc_actions s)) i = Some c" and "ca_id c = i" and "life_ok (ca_status c, ca_attempt_count c)"
  shows "life_of (snd (svc_record_result i result (ca_lock_version c) by s)) i =
    Some (if xr_success result then Executed else Failed, ca_attempt_count c + 1)"
proof -
  have "i32_wrap (ca_attempt_count c + 1) = ca_attempt_count c + 1"
    using life_ok_bounds [OF assms(3)] by simp
  moreover obtain res r' where r: "ca_record_result i result (ca_lock_version c) by (svc_actions s) = (res, r')" by fastforce
  ultimately obtain b where "r' = store_with_status (ca_status c) b (svc_actions s)" "same_identity c b"
    "ca_status b = (if xr_success result then Executed else Failed)" "ca_attempt_count b = ca_attempt_count c + 1"
    using assms(1) by (auto simp: ca_record_result_def Let_def same_identity_def simp del: map_of_eq_Some_iff split: if_splits)
  then show ?thesis
    using assms(2) r by (simp add: svc_record_result_def life_of_def store_with_status_def same_identity_def)
qed

text \<open>
  C39. The optimistic lock alone does not enforce the life cycle; the protocol of the clients is needed. In every configuration
  reached by fewer than \<open>2\<^sup>3\<^sup>1\<close> honest calls an approval that read an action while it was pending, and that names the version the action
  has by the time of the update, approves it whatever its status is by now, so also an action that was waived or executed in between. And \<open>record_result\<close>
  with the current version turns an action of any status into an executed or failed one with one more attempt, so it starts from a
  waived action and exceeds the retry budget.
\<close>

theorem lock_alone_is_not_enough:
  assumes "comp_reach n (s, S)" and "n < 2 ^ 31" and "map_of (acr_actions (svc_actions s)) i = Some c"
  shows "(a \<in> S \<and> ca_id a = i \<and> ca_status a = Pending \<longrightarrow>
      (\<exists>s'. comp_step (Call_approve now (ca_lock_version c) by a) (s, S) (s', S) \<and> life_of s' i = Some (Approved, ca_attempt_count c))) \<and>
    (\<exists>s'. comp_step (Call_record_result i result (ca_lock_version c) by) (s, S) (s', S) \<and>
      life_of s' i = Some (if xr_success result then Executed else Failed, ca_attempt_count c + 1))"
proof -
  have inv: "sys_inv n (s, S)" using reach_inv [OF assms(1,2)] .
  have id: "ca_id c = i" using sys_invD(1) [OF inv] assms(3) by (simp add: action_inv_def del: map_of_eq_Some_iff)
  have "life_ok (ca_status c, ca_attempt_count c)" using sys_invD(2) [OF inv assms(3)] by (simp add: action_ok_def)
  then show ?thesis
    using approve_stored [OF _ assms(3) id] record_stored [OF assms(3) id] step_approve [of a S now "ca_lock_version c" "by" s]
      step_record_result [of i result "ca_lock_version c" "by" s S] by blast
qed

definition ex_waived_state :: "nat CompState" where
  "ex_waived_state = snd (waive_rest ex_comp_env (ca_id ex_comp_action) 0 None ex_comp_action
     (snd (create_action ex_comp_env ex_comp_action ex_comp_state)))"

lemma ex_comp_fields: "ca_id ex_comp_action = 7" "ca_status ex_comp_action = Pending" "ca_lock_version ex_comp_action = 0"
    "ca_attempt_count ex_comp_action = 0"
  by (simp_all add: ex_comp_action_def CompensationAction_new_def)

lemma ex_waived_reach: "comp_reach 3 (ex_waived_state, {ex_comp_action})"
proof -
  let ?s = "snd (create_action ex_comp_env ex_comp_action ex_comp_state)"
  have "ca_get (svc_actions ?s) 7 = Inr ex_comp_action" using ex_comp_stored by (simp add: ca_get_def)
  then have "comp_reach (Suc (Suc 0)) (?s, {ex_comp_action})"
    by (intro reach_next [OF ex_comp_reach step_read]) simp_all
  then have "comp_reach (Suc (Suc (Suc 0))) (ex_waived_state, {ex_comp_action})"
    unfolding ex_waived_state_def by (rule reach_next [OF _ step_waive]) (simp_all add: ex_comp_fields)
  then show ?thesis by (simp add: eval_nat_numeral)
qed

lemma ex_waived_stored:
  "\<exists>c. map_of (acr_actions (svc_actions ex_waived_state)) 7 = Some c \<and> ca_status c = CompensationStatus.Waived \<and> ca_attempt_count c = 0"
  using ex_comp_stored
  by (auto simp: ex_waived_state_def waive_rest_def can_transition_to_iff ex_comp_fields ca_update_status_def Let_def
      store_with_status_def simp del: map_of_eq_Some_iff)

theorem lock_alone_is_not_enough_witness:
  "life_of ex_waived_state 7 = Some (CompensationStatus.Waived, 0) \<and>
   (\<exists>c s'. comp_step c (ex_waived_state, {ex_comp_action}) (s', {ex_comp_action}) \<and> life_of s' 7 = Some (Approved, 0)) \<and>
   (\<exists>c s'. comp_step c (ex_waived_state, {ex_comp_action}) (s', {ex_comp_action}) \<and> life_of s' 7 = Some (Executed, 1))"
proof -
  obtain c where c: "map_of (acr_actions (svc_actions ex_waived_state)) 7 = Some c" "ca_status c = CompensationStatus.Waived"
    "ca_attempt_count c = 0"
    using ex_waived_stored by blast
  note broken = lock_alone_is_not_enough [OF ex_waived_reach _ c(1), of ex_comp_action 0 None]
  have "life_of ex_waived_state 7 = Some (CompensationStatus.Waived, 0)" using c by (simp add: life_of_def)
  moreover have "\<exists>k s'. comp_step k (ex_waived_state, {ex_comp_action}) (s', {ex_comp_action}) \<and> life_of s' 7 = Some (Approved, 0)"
    using broken [THEN conjunct1] by (auto simp: ex_comp_fields c(3))
  moreover have "\<exists>k s'. comp_step k (ex_waived_state, {ex_comp_action}) (s', {ex_comp_action}) \<and> life_of s' 7 = Some (Executed, 1)"
    using broken [where result = "ExecutionResult_success 0 ''done''", THEN conjunct2] by (auto simp: ExecutionResult_success_def c(3))
  ultimately show ?thesis by blast
qed

text \<open>
  C24. Every outcome of a reapproval: an unknown action, an action that is not failed, one that may not be
  retried (budget spent or permanent error) and a stale version are each rejected with their own error,
  in this order, and nothing changes; otherwise the action is pending again with the next version, its
  failure time cleared and its attempts, last result and approval history kept.
\<close>

theorem reapprove_action_outcomes:
  "case map_of (acr_actions (svc_actions s)) i of
     None \<Rightarrow> reapprove_action i lock s = (Inl (CompensationActionNotFound i), s)
   | Some a \<Rightarrow>
       if ca_status a \<noteq> Failed then
         \<exists>m. reapprove_action i lock s = (Inl (InvalidCompensationActionTransition (debug_CompensationStatus (ca_status a)) ''Pending'' m), s)
       else if is_dlq_candidate a then \<exists>m. reapprove_action i lock s = (Inl (CompensationActionNotReapprovable i m), s)
       else if ca_lock_version a \<noteq> lock then reapprove_action i lock s = (Inl (ConcurrencyConflict i), s)
       else reapprove_action i lock s =
         (Inr (a\<lparr>ca_lock_version := i32_wrap (lock + 1), ca_status := Pending, ca_failed_at := None\<rparr>),
          s\<lparr>svc_actions := store_with_status Failed
             (a\<lparr>ca_lock_version := i32_wrap (lock + 1), ca_status := Pending, ca_failed_at := None\<rparr>) (svc_actions s)\<rparr>)"
proof (cases "map_of (acr_actions (svc_actions s)) i")
  case None
  then show ?thesis by (simp add: reapprove_action_def ca_get_def)
next
  case (Some a)
  have "reapproval_denial_reason a = None \<longleftrightarrow> \<not> is_dlq_candidate a" if "ca_status a = Failed"
    using failed_split [OF that] denial_iff [of a] by blast
  with Some show ?thesis
    by (auto simp: reapprove_action_def reapprove_rest_def ca_get_def ca_reapprove_def Let_def is_dlq_candidate_def
        simp del: map_of_eq_Some_iff split: option.splits if_splits)
qed

text \<open>
  C25. The database encodings of feasibility, strategy, status, effect class and rollback result are lossless, and decoding
  accepts nothing but the encodings: any other string is an error.
\<close>

theorem encodings_roundtrip:
  "(compensation_feasibility_from_string f = Inr x \<longleftrightarrow> f = compensation_feasibility_to_string x) \<and>
   (strategy_type_from_string g = Inr y \<longleftrightarrow> g = strategy_type_to_string y) \<and>
   (compensation_status_from_string h = Inr z \<longleftrightarrow> h = compensation_status_to_string z) \<and>
   (effect_class_from_string k = Inr w \<longleftrightarrow> k = effect_class_to_string w) \<and>
   (from_db_str l = Some v \<longleftrightarrow> l = RollbackRecordResult_as_str v)"
proof (intro conjI)
  show "compensation_feasibility_from_string f = Inr x \<longleftrightarrow> f = compensation_feasibility_to_string x"
    by (cases x) (auto simp: compensation_feasibility_from_string_def compensation_feasibility_to_string_def)
  show "strategy_type_from_string g = Inr y \<longleftrightarrow> g = strategy_type_to_string y"
    by (cases y) (auto simp: strategy_type_from_string_def strategy_type_to_string_def)
  show "compensation_status_from_string h = Inr z \<longleftrightarrow> h = compensation_status_to_string z"
    by (cases z) (auto simp: compensation_status_from_string_def compensation_status_to_string_def)
  show "effect_class_from_string k = Inr w \<longleftrightarrow> k = effect_class_to_string w"
    by (cases w) (auto simp: effect_class_from_string_def effect_class_to_string_def)
  show "from_db_str l = Some v \<longleftrightarrow> l = RollbackRecordResult_as_str v"
    by (cases v) (auto simp: from_db_str_def RollbackRecordResult_as_str_def)
qed

section \<open>From the plan to the execution\<close>

text \<open>An action planned for a ledger entry passes every gate of its executor.\<close>

lemma planned_facts:
  assumes "classify_and_plan_action i now t e c = Some a"
  shows "ca_id a = i" "ca_tenant_id a = t" "ca_side_effect_id a = se_id e" "ca_intent_id a = se_intent_id e"
    "ca_status a = Pending" "ca_attempt_count a = 0" "ca_lock_version a = 0"
    "(ca_strategy_type a, ca_feasibility a, se_effect_class e) \<in>
       {(Rollback, Automatic, S1InternalReversible), (CounterAction, SemiAutomatic, S2ExternalReversible),
        (FollowupNotice, ManualOnly, S3ExternalPartiallyReversible), (Escalation, NotPossible, S4Irreversible)}"
  using assms
  by (auto simp: classify_and_plan_action_def from_side_effect_def split: SideEffectClass.splits)

lemma executor_succeeds:
  assumes plan: "classify_and_plan_action i now t e c = Some a0" and same: "same_identity a0 a"
    and e: "map_of (ser_side_effects ledger) (se_id e) = Some e" "se_tenant_id e = t"
  shows "xr_success (run_executor us now' (Some ledger) a)" and "ca_status a = Approved \<Longrightarrow> execute_gate a"
proof -
  have a: "ca_side_effect_id a = se_id e" "ca_tenant_id a = t" "ca_intent_id a = se_intent_id e"
    "(ca_strategy_type a, ca_feasibility a, se_effect_class e) \<in>
       {(Rollback, Automatic, S1InternalReversible), (CounterAction, SemiAutomatic, S2ExternalReversible),
        (FollowupNotice, ManualOnly, S3ExternalPartiallyReversible), (Escalation, NotPossible, S4Irreversible)}"
    using planned_facts [OF plan] same by (simp_all add: same_identity_def)
  have gates: "executor_gates us now' (ca_strategy_type a) (ca_feasibility a) w ledger a = Inr e" for w
    using a(1-3) e by (simp add: executor_gates_def se_get_def del: map_of_eq_Some_iff)
  from a(4) show "xr_success (run_executor us now' (Some ledger) a)"
    using gates
    by (auto simp: run_executor_def RollbackExecutor_execute_def CounterActionExecutor_execute_def FollowupNoticeExecutor_execute_def
        EscalationExecutor_execute_def class_gate_def acknowledgment_def ExecutionResult_success_def)
  from a(4) show "ca_status a = Approved \<Longrightarrow> execute_gate a" by (auto simp: execute_gate_def)
qed

text \<open>The three calls of the flow, each on the state the previous one leaves.\<close>

lemma created_state:
  assumes "create_action env a s = (r1, s1)"
  shows "map_of (acr_actions (svc_actions s1)) (ca_id a) = Some a" "svc_side_effects s1 = svc_side_effects s"
  using assms by (auto simp: create_action_def ca_create_def Let_def emit_audit_def split: CompensationFeasibility.splits)

lemma approved_state:
  assumes "approve_action now i lock by s = (r, s')" and "map_of (acr_actions (svc_actions s)) i = Some a"
    and "ca_id a = i" "ca_status a = Pending" "ca_lock_version a = lock"
  shows "\<exists>b. r = Inr b \<and> map_of (acr_actions (svc_actions s')) i = Some b \<and> same_identity a b \<and> ca_status b = Approved \<and>
    ca_attempt_count b = ca_attempt_count a \<and> svc_side_effects s' = svc_side_effects s"
  using assms
  by (auto simp: approve_action_def approve_rest_def ca_get_def can_transition_to_iff ca_update_status_def Let_def same_identity_def
      store_with_status_def simp del: map_of_eq_Some_iff)

lemma executed_state:
  assumes "execute_action env i by s = (r, s')" and "map_of (acr_actions (svc_actions s)) i = Some a" "ca_id a = i"
    and "execute_gate a" and "xr_success (run_executor (env_us env) (env_clock env 0) (svc_side_effects s) a)"
  shows "\<exists>b. r = Inr b \<and> map_of (acr_actions (svc_actions s')) i = Some b \<and> ca_id b = i \<and> ca_status b = Executed \<and>
    ca_attempt_count b = i32_wrap (ca_attempt_count a + 1)"
  using assms
  by (auto simp: execute_action_def execute_finish_def ca_get_def ca_record_result_def Let_def store_with_status_def emit_audit_def
      store_rollback_def simp del: map_of_eq_Some_iff)

text \<open>
  C26. Planned compensation runs through: for every side effect a tenant has in the ledger for an intent, the
  planner produces no action exactly when the effect is a pure read; otherwise the action it produces, once created, can be
  approved with version 0 and then executed, and ends as executed after one attempt. No executor refuses an action the
  planner made.
\<close>

theorem planned_action_executes:
  assumes "ledger_reachable ledger" and "svc_side_effects s = Some ledger" and "e \<in> set (se_list_by_intent ledger n t)"
  shows "(classify_and_plan_action i now t e c = None \<longleftrightarrow> se_effect_class e = S0PureRead) \<and>
    (\<forall>a r1 s1 r2 s2 r3 s3. classify_and_plan_action i now t e c = Some a \<and> create_action env1 a s = (r1, s1) \<and>
       approve_action now2 i 0 by2 s1 = (r2, s2) \<and> execute_action env3 i by3 s2 = (r3, s3) \<longrightarrow>
       (\<exists>b. r3 = Inr b \<and> ca_status b = Executed \<and> ca_attempt_count b = 1 \<and> ca_id b = i \<and>
          map_of (acr_actions (svc_actions s3)) i = Some b))"
proof (intro conjI allI impI)
  show "classify_and_plan_action i now t e c = None \<longleftrightarrow> se_effect_class e = S0PureRead"
    by (simp add: classify_and_plan_action_def split: SideEffectClass.splits)
next
  fix a r1 s1 r2 s2 r3 s3
  assume "classify_and_plan_action i now t e c = Some a \<and> create_action env1 a s = (r1, s1) \<and>
    approve_action now2 i 0 by2 s1 = (r2, s2) \<and> execute_action env3 i by3 s2 = (r3, s3)"
  then have plan: "classify_and_plan_action i now t e c = Some a" and calls: "create_action env1 a s = (r1, s1)"
    "approve_action now2 i 0 by2 s1 = (r2, s2)" "execute_action env3 i by3 s2 = (r3, s3)" by blast+
  note a = planned_facts [OF plan]
  have inv: "ledger_inv ledger" using assms(1) by (rule ledger_reachable_inv)
  have e: "map_of (ser_side_effects ledger) (se_id e) = Some e" "se_tenant_id e = t"
    using assms(3) inv by (auto simp: ledger.exact [OF inv] table_values_iff ledger_inv_def simp del: map_of_eq_Some_iff)
  note s1 = created_state [OF calls(1), unfolded a(1)]
  obtain b where b: "map_of (acr_actions (svc_actions s2)) i = Some b" "same_identity a b" "ca_status b = Approved"
    "ca_attempt_count b = 0" "svc_side_effects s2 = Some ledger"
    using approved_state [OF calls(2) s1(1) a(1,5,7)] s1(2) a(6) assms(2) by auto
  have id: "ca_id b = i" using b(2) a(1) by (simp add: same_identity_def)
  note run = executor_succeeds [OF plan b(2) e]
  have "xr_success (run_executor (env_us env3) (env_clock env3 0) (svc_side_effects s2) b)"
    unfolding b(5) by (rule run(1))
  from executed_state [OF calls(3) b(1) id run(2) [OF b(3)] this] show
    "\<exists>b. r3 = Inr b \<and> ca_status b = Executed \<and> ca_attempt_count b = 1 \<and> ca_id b = i \<and>
      map_of (acr_actions (svc_actions s3)) i = Some b"
    using b(4) by auto
qed

definition ex_ledger :: SideEffectRepo where
  "ex_ledger = snd (record_side_effect 5 0 1 3 1 S1InternalReversible ''write'' ''db'' SideEffectRepo_new)"

definition ex_effect :: SideEffect where
  "ex_effect = SideEffect_new 5 0 1 3 1 S1InternalReversible ''write'' ''db''"

lemma ex_ledger_facts: "ledger_reachable ex_ledger" "ex_effect \<in> set (se_list_by_intent ex_ledger 3 1)"
proof -
  have "ledger_step SideEffectRepo_new ex_ledger"
    unfolding ex_ledger_def by (rule step_record) (simp add: SideEffectRepo_new_def)
  then show reach: "ledger_reachable ex_ledger" by (rule r_into_rtranclp)
  have "map_of (ser_side_effects ex_ledger) 5 = Some ex_effect"
    by (simp add: ex_ledger_def record_side_effect_def se_create_def SideEffectRepo_new_def ex_effect_def SideEffect_new_def)
  then have "ex_effect \<in> table_values (ser_side_effects ex_ledger)" by (rule ranI)
  from ledger.complete [OF ledger_reachable_inv [OF reach] this, of 3]
  show "ex_effect \<in> set (se_list_by_intent ex_ledger 3 1)" by (simp add: ex_effect_def SideEffect_new_def)
qed

theorem planned_action_executes_witness:
  "\<exists>a r1 s1 r2 s2 r3 s3 b. classify_and_plan_action 7 0 1 ex_effect \<lparr>rc_intent_id = 3, rc_from_version = 1, rc_to_version = 2, rc_workflow_id = 4\<rparr> = Some a \<and>
     create_action ex_comp_env a (ex_comp_state\<lparr>svc_side_effects := Some ex_ledger\<rparr>) = (r1, s1) \<and>
     approve_action 1 7 0 (Some ''ann'') s1 = (r2, s2) \<and> execute_action ex_comp_env 7 None s2 = (r3, s3) \<and>
     r3 = Inr b \<and> ca_status b = Executed"
proof -
  let ?c = "\<lparr>rc_intent_id = 3, rc_from_version = 1, rc_to_version = 2, rc_workflow_id = 4\<rparr>"
  let ?s = "ex_comp_state\<lparr>svc_side_effects := Some ex_ledger\<rparr>"
  have "svc_side_effects ?s = Some ex_ledger" by simp
  note flow = planned_action_executes [OF ex_ledger_facts(1) this ex_ledger_facts(2), of 7 0 ?c ex_comp_env 1 "Some ''ann''" ex_comp_env None]
  obtain a where a: "classify_and_plan_action 7 0 1 ex_effect ?c = Some a"
    by (simp add: classify_and_plan_action_def ex_effect_def SideEffect_new_def)
  obtain r1 s1 where 1: "create_action ex_comp_env a ?s = (r1, s1)" by (rule prod.exhaust)
  obtain r2 s2 where 2: "approve_action 1 7 0 (Some ''ann'') s1 = (r2, s2)" by (rule prod.exhaust)
  obtain r3 s3 where 3: "execute_action ex_comp_env 7 None s2 = (r3, s3)" by (rule prod.exhaust)
  from flow a 1 2 3 show ?thesis by blast
qed

end
