(* ===== verification/Compensation_Policy.thy ===== *)
theory Compensation_Policy
  imports Compensation_Laws Binary64
begin

text \<open>
  The read models over compensation actions: \<open>compensation_action_types.rs\<close>,
  \<open>compensation_action_policy.rs\<close> (policy gates, risk metadata, coordination status) and the dry run of
  \<open>compensation_action_orchestration.rs\<close> in \<open>crates/compensation-service\<close>. The \<open>f32\<close> ratio of the retry risk is rounded to 24 significant bits.
\<close>

section \<open>Types\<close>

datatype (plugins only: size code) OrchestrationAction = Approve | Reapprove | Execute | NoAction

definition OrchestrationAction_as_str :: "OrchestrationAction \<Rightarrow> string" where
  "OrchestrationAction_as_str a = (case a of Approve \<Rightarrow> ''approve'' | Reapprove \<Rightarrow> ''reapprove'' | Execute \<Rightarrow> ''execute''
     | NoAction \<Rightarrow> ''no_action'')"

record OrchestrationActionProposal =
  oap_action_id :: uuid
  oap_proposed_action :: OrchestrationAction
  oap_reason :: string
  oap_current_status :: CompensationStatus

record OrchestrationDryRunSummary =
  drs_total :: usize
  drs_can_approve :: usize
  drs_can_reapprove :: usize
  drs_can_execute :: usize
  drs_no_action :: usize
  drs_not_found :: usize

record OrchestrationDryRunResult =
  drr_proposals :: "OrchestrationActionProposal list"
  drr_not_found :: "uuid list"
  drr_summary :: OrchestrationDryRunSummary

record BatchItemOutcome =
  bio_action_id :: uuid
  bio_success :: bool
  bio_result :: "string + CompensationAction"

record BatchOrchestrationSummary =
  bos_total :: usize
  bos_succeeded :: usize
  bos_failed :: usize
  bos_not_found :: usize

record BatchOrchestrationResult =
  bor_outcomes :: "BatchItemOutcome list"
  bor_not_found :: "uuid list"
  bor_summary :: BatchOrchestrationSummary

datatype (plugins only: size code) PolicyGateStatus = Eligible | Blocked | ManualReviewRequired

datatype (plugins only: size code) CoordinationStatus = Ready | AwaitingPolicy | AwaitingManualReview | Blocked | Terminal

datatype (plugins only: size code) StrategySeverity = Low | Medium | High | Critical

datatype (plugins only: size code) RetryExhaustionRisk = Low | Medium | High | Critical

datatype (plugins only: size code) FeasibilityRisk = Low | Medium | High | Critical

text \<open>\<open>ErrorSeverity::None\<close> is \<open>NoError\<close> here, since \<open>None\<close> belongs to \<open>option\<close>.\<close>

datatype (plugins only: size code) ErrorSeverity = NoError | Low | Medium | High

record ErrorClassification =
  ec_error_code :: string
  ec_retryable :: bool
  ec_reason :: string

record PolicyGateMetadata =
  pgm_auto_executable :: bool
  pgm_is_dlq_candidate :: bool
  pgm_can_reapprove :: bool
  pgm_retry_budget_exhausted :: bool
  pgm_has_non_retryable_error :: bool
  pgm_feasibility :: CompensationFeasibility
  pgm_strategy_type :: StrategyType
  pgm_status :: CompensationStatus
  pgm_attempt_count :: i32
  pgm_max_retries :: i32

record RiskMetadata =
  rm_strategy_severity :: StrategySeverity
  rm_retry_exhaustion_risk :: RetryExhaustionRisk
  rm_feasibility_risk :: FeasibilityRisk
  rm_error_severity :: ErrorSeverity
  rm_retry_budget_remaining :: i32
  rm_error_classification :: "ErrorClassification option"
  rm_is_terminal :: bool
  rm_requires_manual_intervention :: bool

record PolicyGateEvaluation =
  pge_action :: CompensationAction
  pge_gate_status :: PolicyGateStatus
  pge_gate_reason :: string
  pge_policy_metadata :: PolicyGateMetadata
  pge_risk_metadata :: RiskMetadata

record PolicyGateSummary =
  pgs_total_actions :: usize
  pgs_eligible_count :: usize
  pgs_blocked_count :: usize
  pgs_manual_review_required_count :: usize
  pgs_dlq_candidate_count :: usize
  pgs_pending_approval_count :: usize
  pgs_auto_executable_count :: usize

record PolicyGateEvaluationResult =
  pgr_evaluations :: "PolicyGateEvaluation list"
  pgr_summary :: PolicyGateSummary

record CoordinationRecord =
  cor_action :: CompensationAction
  cor_coordination_status :: CoordinationStatus
  cor_coordination_reason :: string
  cor_auto_executable :: bool
  cor_is_dlq_candidate :: bool
  cor_can_reapprove :: bool
  cor_retry_budget_exhausted :: bool
  cor_feasibility :: CompensationFeasibility
  cor_strategy_type :: StrategyType
  cor_status :: CompensationStatus
  cor_attempt_count :: i32
  cor_max_retries :: i32

record CoordinationSummary =
  cos_total_actions :: usize
  cos_ready_count :: usize
  cos_awaiting_policy_count :: usize
  cos_awaiting_manual_review_count :: usize
  cos_blocked_count :: usize
  cos_terminal_count :: usize
  cos_dlq_candidate_count :: usize
  cos_auto_executable_count :: usize

record CoordinationResult =
  cores_records :: "CoordinationRecord list"
  cores_summary :: CoordinationSummary

definition format_feasibility :: "CompensationFeasibility \<Rightarrow> string" where
  "format_feasibility f = (case f of Automatic \<Rightarrow> ''Automatic'' | SemiAutomatic \<Rightarrow> ''SemiAutomatic''
     | ManualOnly \<Rightarrow> ''ManualOnly'' | NotPossible \<Rightarrow> ''NotPossible'')"

section \<open>Policy gates\<close>

definition compute_gate_status :: "CompensationAction \<Rightarrow> PolicyGateStatus" where
  "compute_gate_status a =
     (if is_terminal (ca_status a) then PolicyGateStatus.Blocked
      else if is_dlq_candidate a then PolicyGateStatus.Blocked
      else if ca_status a = Pending then ManualReviewRequired
      else if ca_status a = Failed then (if can_be_reapproved a then ManualReviewRequired else PolicyGateStatus.Blocked)
      else if ca_status a = Approved then (if is_service_executable a then Eligible else ManualReviewRequired)
      else PolicyGateStatus.Blocked)"

definition error_code_of :: "CompensationAction \<Rightarrow> string option" where
  "error_code_of a = Option.bind (ca_execution_result_payload a) xr_error_code"

definition reapprovable_text :: "CompensationAction \<Rightarrow> string" where
  "reapprovable_text a = ''Action failed but can be reapproved ('' @ show_int (i32_wrap (ca_max_retries a - ca_attempt_count a)) @
     '' retry attempts remaining, '' @ format_feasibility (ca_feasibility a) @ '' feasibility)''"

definition compute_gate_reason :: "CompensationAction \<Rightarrow> PolicyGateStatus \<Rightarrow> string" where
  "compute_gate_reason a gate_status =
     (case gate_status of
        Eligible \<Rightarrow> ''Action is approved with '' @ format_feasibility (ca_feasibility a) @ '' feasibility and no blocking conditions''
      | PolicyGateStatus.Blocked \<Rightarrow>
          if is_terminal (ca_status a) then ''Action is in terminal status ('' @ debug_CompensationStatus (ca_status a) @ '')''
          else if is_dlq_candidate a then
            (if ca_attempt_count a \<ge> ca_max_retries a then
               ''Action is DLQ candidate: retry budget exhausted ('' @ show_int (ca_attempt_count a) @ ''/'' @
                 show_int (ca_max_retries a) @ '' attempts)''
             else case error_code_of a of
                 Some error_code \<Rightarrow> ''Action is DLQ candidate: non-retryable error ('' @ error_code @ '')''
               | None \<Rightarrow> ''Action is DLQ candidate'')
          else (case reapproval_denial_reason a of
              Some reason \<Rightarrow> reason
            | None \<Rightarrow> ''Action is blocked due to '' @ debug_CompensationStatus (ca_status a))
      | ManualReviewRequired \<Rightarrow>
          (case ca_status a of
             Pending \<Rightarrow> ''Action awaits approval ('' @ format_feasibility (ca_feasibility a) @ '' feasibility)''
           | Failed \<Rightarrow>
               if can_be_reapproved a then reapprovable_text a
               else (case reapproval_denial_reason a of
                   Some reason \<Rightarrow> reason
                 | None \<Rightarrow> ''Action failed and requires manual review ('' @ format_feasibility (ca_feasibility a) @ '' feasibility)'')
           | Approved \<Rightarrow> ''Action requires manual execution ('' @ format_feasibility (ca_feasibility a) @ '')''
           | _ \<Rightarrow> ''Action requires manual review ('' @ format_feasibility (ca_feasibility a) @ '')''))"

definition has_non_retryable_error :: "CompensationAction \<Rightarrow> bool" where
  "has_non_retryable_error a =
     (case error_code_of a of Some code \<Rightarrow> ecc_retryable (classify_error_code code) = NonRetryable | None \<Rightarrow> False)"

definition compute_policy_metadata :: "CompensationAction \<Rightarrow> PolicyGateMetadata" where
  "compute_policy_metadata a =
     \<lparr>pgm_auto_executable = is_auto_executable a, pgm_is_dlq_candidate = is_dlq_candidate a, pgm_can_reapprove = can_be_reapproved a,
      pgm_retry_budget_exhausted = (ca_attempt_count a \<ge> ca_max_retries a),
      pgm_has_non_retryable_error = has_non_retryable_error a, pgm_feasibility = ca_feasibility a,
      pgm_strategy_type = ca_strategy_type a, pgm_status = ca_status a, pgm_attempt_count = ca_attempt_count a,
      pgm_max_retries = ca_max_retries a\<rparr>"

definition StrategySeverity_from_strategy_type :: "StrategyType \<Rightarrow> StrategySeverity" where
  "StrategySeverity_from_strategy_type s = (case s of FollowupNotice \<Rightarrow> StrategySeverity.Low | Rollback \<Rightarrow> StrategySeverity.Medium
     | CounterAction \<Rightarrow> StrategySeverity.High | Quarantine \<Rightarrow> StrategySeverity.Critical | Escalation \<Rightarrow> StrategySeverity.Critical)"

definition FeasibilityRisk_from_feasibility :: "CompensationFeasibility \<Rightarrow> FeasibilityRisk" where
  "FeasibilityRisk_from_feasibility f = (case f of Automatic \<Rightarrow> FeasibilityRisk.Low | SemiAutomatic \<Rightarrow> FeasibilityRisk.Medium
     | ManualOnly \<Rightarrow> FeasibilityRisk.High | NotPossible \<Rightarrow> FeasibilityRisk.Critical)"

definition ErrorSeverity_from_retryable_class :: "RetryableErrorClass \<Rightarrow> ErrorSeverity" where
  "ErrorSeverity_from_retryable_class r = (case r of Retryable \<Rightarrow> ErrorSeverity.Low | NonRetryable \<Rightarrow> ErrorSeverity.High)"

definition RetryExhaustionRisk_from_attempts :: "i32 \<Rightarrow> i32 \<Rightarrow> RetryExhaustionRisk" where
  "RetryExhaustionRisk_from_attempts attempt_count max_retries =
     (if attempt_count \<ge> max_retries then RetryExhaustionRisk.Critical
      else
        let ratio = rnd32 (rnd32 (of_int attempt_count) / rnd32 (of_int max_retries)) in
        if ratio \<ge> rnd32 (66 / 100) then RetryExhaustionRisk.High
        else if ratio \<ge> rnd32 (33 / 100) then RetryExhaustionRisk.Medium
        else RetryExhaustionRisk.Low)"

definition compute_risk_metadata :: "CompensationAction \<Rightarrow> RiskMetadata" where
  "compute_risk_metadata a =
     \<lparr>rm_strategy_severity = StrategySeverity_from_strategy_type (ca_strategy_type a),
      rm_retry_exhaustion_risk = RetryExhaustionRisk_from_attempts (ca_attempt_count a) (ca_max_retries a),
      rm_feasibility_risk = FeasibilityRisk_from_feasibility (ca_feasibility a),
      rm_error_severity = (case error_code_of a of
          Some code \<Rightarrow> ErrorSeverity_from_retryable_class (ecc_retryable (classify_error_code code)) | None \<Rightarrow> NoError),
      rm_retry_budget_remaining = max (i32_wrap (ca_max_retries a - ca_attempt_count a)) 0,
      rm_error_classification = map_option (\<lambda>code. \<lparr>ec_error_code = code,
          ec_retryable = (ecc_retryable (classify_error_code code) = Retryable),
          ec_reason = ecc_reason (classify_error_code code)\<rparr>) (error_code_of a),
      rm_is_terminal = is_terminal (ca_status a),
      rm_requires_manual_intervention = (ca_status a = Pending \<or> ca_status a = Failed \<or> \<not> is_auto_executable a)\<rparr>"

definition evaluate_single_action :: "CompensationAction \<Rightarrow> PolicyGateEvaluation" where
  "evaluate_single_action a =
     \<lparr>pge_action = a, pge_gate_status = compute_gate_status a, pge_gate_reason = compute_gate_reason a (compute_gate_status a),
      pge_policy_metadata = compute_policy_metadata a, pge_risk_metadata = compute_risk_metadata a\<rparr>"

definition PolicyGateSummary_default :: PolicyGateSummary where
  "PolicyGateSummary_default = \<lparr>pgs_total_actions = 0, pgs_eligible_count = 0, pgs_blocked_count = 0,
     pgs_manual_review_required_count = 0, pgs_dlq_candidate_count = 0, pgs_pending_approval_count = 0,
     pgs_auto_executable_count = 0\<rparr>"

definition gate_summary_step :: "CompensationAction \<Rightarrow> PolicyGateSummary \<Rightarrow> PolicyGateSummary" where
  "gate_summary_step a sm =
     (let sm1 = (case compute_gate_status a of
            Eligible \<Rightarrow> sm\<lparr>pgs_eligible_count := pgs_eligible_count sm + 1\<rparr>
          | PolicyGateStatus.Blocked \<Rightarrow> sm\<lparr>pgs_blocked_count := pgs_blocked_count sm + 1\<rparr>
          | ManualReviewRequired \<Rightarrow> sm\<lparr>pgs_manual_review_required_count := pgs_manual_review_required_count sm + 1\<rparr>);
          sm2 = (if is_dlq_candidate a then sm1\<lparr>pgs_dlq_candidate_count := pgs_dlq_candidate_count sm1 + 1\<rparr> else sm1);
          sm3 = (if is_auto_executable a then sm2\<lparr>pgs_auto_executable_count := pgs_auto_executable_count sm2 + 1\<rparr> else sm2)
      in if ca_status a = Pending then sm3\<lparr>pgs_pending_approval_count := pgs_pending_approval_count sm3 + 1\<rparr> else sm3)"

definition evaluate_policy_gates_from_actions :: "CompensationAction list \<Rightarrow> PolicyGateEvaluationResult" where
  "evaluate_policy_gates_from_actions actions =
     \<lparr>pgr_evaluations = map (evaluate_single_action) actions,
      pgr_summary = (fold gate_summary_step actions PolicyGateSummary_default)\<lparr>pgs_total_actions := length actions\<rparr>\<rparr>"

definition evaluate_policy_gates :: "'j CompState \<Rightarrow> uuid \<Rightarrow> PolicyGateEvaluationResult" where
  "evaluate_policy_gates s tenant_id =
     evaluate_policy_gates_from_actions (ca_list_by_tenant (svc_actions s) tenant_id None)"

definition evaluate_policy_gates_for_intent :: "'j CompState \<Rightarrow> uuid \<Rightarrow> uuid \<Rightarrow> PolicyGateEvaluationResult" where
  "evaluate_policy_gates_for_intent s intent_id tenant_id =
     evaluate_policy_gates_from_actions (ca_list_by_intent (svc_actions s) intent_id tenant_id)"

section \<open>Coordination status\<close>

definition from_compensation_action :: "CompensationAction \<Rightarrow> CoordinationStatus" where
  "from_compensation_action a =
     (if is_terminal (ca_status a) then Terminal
      else if is_dlq_candidate a then CoordinationStatus.Blocked
      else case ca_status a of
          Pending \<Rightarrow> AwaitingPolicy
        | Failed \<Rightarrow> if can_be_reapproved a then AwaitingManualReview else CoordinationStatus.Blocked
        | Approved \<Rightarrow> if is_service_executable a then Ready else AwaitingManualReview
        | _ \<Rightarrow> Terminal)"

definition compute_coordination_reason :: "CompensationAction \<Rightarrow> CoordinationStatus \<Rightarrow> string" where
  "compute_coordination_reason a st =
     (case st of
        Ready \<Rightarrow> ''Action is ready: approved with '' @ format_feasibility (ca_feasibility a) @ '' feasibility and no blocking conditions''
      | AwaitingPolicy \<Rightarrow> ''Action is awaiting policy approval ('' @ format_feasibility (ca_feasibility a) @ '' feasibility)''
      | AwaitingManualReview \<Rightarrow>
          if ca_status a = Failed then
            (if can_be_reapproved a then reapprovable_text a
             else ''Action failed and requires manual review ('' @ format_feasibility (ca_feasibility a) @ '' feasibility)'')
          else if ca_status a = Approved then ''Action requires manual execution ('' @ format_feasibility (ca_feasibility a) @ '')''
          else ''Action requires manual review ('' @ format_feasibility (ca_feasibility a) @ '')''
      | CoordinationStatus.Blocked \<Rightarrow>
          if is_terminal (ca_status a) then ''Action is in terminal status ('' @ debug_CompensationStatus (ca_status a) @ '')''
          else if is_dlq_candidate a then
            (if ca_attempt_count a \<ge> ca_max_retries a then
               ''Action is blocked: retry budget exhausted ('' @ show_int (ca_attempt_count a) @ ''/'' @
                 show_int (ca_max_retries a) @ '' attempts)''
             else case error_code_of a of
                 Some error_code \<Rightarrow> ''Action is blocked: non-retryable error ('' @ error_code @ '')''
               | None \<Rightarrow> ''Action is blocked: DLQ candidate'')
          else (case reapproval_denial_reason a of
              Some reason \<Rightarrow> reason
            | None \<Rightarrow> ''Action is blocked due to '' @ debug_CompensationStatus (ca_status a))
      | Terminal \<Rightarrow> ''Action has reached terminal status ('' @ debug_CompensationStatus (ca_status a) @ '')'')"

definition CoordinationRecord_from_action :: "CompensationAction \<Rightarrow> CoordinationRecord" where
  "CoordinationRecord_from_action a =
     \<lparr>cor_action = a, cor_coordination_status = from_compensation_action a,
      cor_coordination_reason = compute_coordination_reason a (from_compensation_action a),
      cor_auto_executable = is_service_executable a, cor_is_dlq_candidate = is_dlq_candidate a,
      cor_can_reapprove = can_be_reapproved a, cor_retry_budget_exhausted = (ca_attempt_count a \<ge> ca_max_retries a),
      cor_feasibility = ca_feasibility a, cor_strategy_type = ca_strategy_type a, cor_status = ca_status a,
      cor_attempt_count = ca_attempt_count a, cor_max_retries = ca_max_retries a\<rparr>"

definition CoordinationSummary_default :: CoordinationSummary where
  "CoordinationSummary_default = \<lparr>cos_total_actions = 0, cos_ready_count = 0, cos_awaiting_policy_count = 0,
     cos_awaiting_manual_review_count = 0, cos_blocked_count = 0, cos_terminal_count = 0, cos_dlq_candidate_count = 0,
     cos_auto_executable_count = 0\<rparr>"

definition coordination_summary_step :: "CompensationAction \<Rightarrow> CoordinationSummary \<Rightarrow> CoordinationSummary" where
  "coordination_summary_step a sm =
     (let r = CoordinationRecord_from_action a;
          sm1 = (case cor_coordination_status r of
            Ready \<Rightarrow> sm\<lparr>cos_ready_count := cos_ready_count sm + 1\<rparr>
          | AwaitingPolicy \<Rightarrow> sm\<lparr>cos_awaiting_policy_count := cos_awaiting_policy_count sm + 1\<rparr>
          | AwaitingManualReview \<Rightarrow> sm\<lparr>cos_awaiting_manual_review_count := cos_awaiting_manual_review_count sm + 1\<rparr>
          | CoordinationStatus.Blocked \<Rightarrow> sm\<lparr>cos_blocked_count := cos_blocked_count sm + 1\<rparr>
          | Terminal \<Rightarrow> sm\<lparr>cos_terminal_count := cos_terminal_count sm + 1\<rparr>);
          sm2 = (if cor_is_dlq_candidate r then sm1\<lparr>cos_dlq_candidate_count := cos_dlq_candidate_count sm1 + 1\<rparr> else sm1)
      in if cor_auto_executable r then sm2\<lparr>cos_auto_executable_count := cos_auto_executable_count sm2 + 1\<rparr> else sm2)"

definition evaluate_coordination_from_actions :: "CompensationAction list \<Rightarrow> CoordinationResult" where
  "evaluate_coordination_from_actions actions =
     \<lparr>cores_records = map CoordinationRecord_from_action actions,
      cores_summary = (fold coordination_summary_step actions CoordinationSummary_default)\<lparr>cos_total_actions := length actions\<rparr>\<rparr>"

definition evaluate_coordination_status :: "'j CompState \<Rightarrow> uuid \<Rightarrow> CoordinationResult" where
  "evaluate_coordination_status s tenant_id =
     evaluate_coordination_from_actions (ca_list_by_tenant (svc_actions s) tenant_id None)"

definition evaluate_coordination_status_for_intent :: "'j CompState \<Rightarrow> uuid \<Rightarrow> uuid \<Rightarrow> CoordinationResult" where
  "evaluate_coordination_status_for_intent s intent_id tenant_id =
     evaluate_coordination_from_actions (ca_list_by_intent (svc_actions s) intent_id tenant_id)"

section \<open>Dry run\<close>

definition compute_action_proposal :: "CompensationAction \<Rightarrow> OrchestrationActionProposal" where
  "compute_action_proposal a =
     (let (proposed_action, reason) =
        (case ca_status a of
           Pending \<Rightarrow>
             if tv_allowed (can_transition_to (ca_status a) Approved)
             then (Approve, ''Action is pending approval with '' @ format_feasibility (ca_feasibility a) @ '' feasibility'')
             else (NoAction, ''Action is pending but cannot transition to approved'')
         | Approved \<Rightarrow>
             if is_service_executable a
             then (Execute, ''Action is approved with '' @ format_feasibility (ca_feasibility a) @
                 '' feasibility and no blocking conditions'')
             else (NoAction, ''Action is approved but requires manual execution ('' @ format_feasibility (ca_feasibility a) @ '')'')
         | Failed \<Rightarrow>
             if can_be_reapproved a then (Reapprove, reapprovable_text a)
             else (case reapproval_denial_reason a of
                 Some reason \<Rightarrow> (NoAction, reason)
               | None \<Rightarrow> (NoAction, ''Action failed with non-retryable error or exhausted budget ('' @
                   format_feasibility (ca_feasibility a) @ '' feasibility)''))
         | Executed \<Rightarrow> (NoAction, ''Action has already been executed (terminal state)'')
         | CompensationStatus.Waived \<Rightarrow> (NoAction, ''Action has been waived (terminal state)''))
      in \<lparr>oap_action_id = ca_id a, oap_proposed_action = proposed_action, oap_reason = reason, oap_current_status = ca_status a\<rparr>)"

definition count_proposal :: "OrchestrationAction \<Rightarrow> OrchestrationDryRunSummary \<Rightarrow> OrchestrationDryRunSummary" where
  "count_proposal p sm =
     (case p of
        Approve \<Rightarrow> sm\<lparr>drs_can_approve := drs_can_approve sm + 1\<rparr>
      | Reapprove \<Rightarrow> sm\<lparr>drs_can_reapprove := drs_can_reapprove sm + 1\<rparr>
      | Execute \<Rightarrow> sm\<lparr>drs_can_execute := drs_can_execute sm + 1\<rparr>
      | NoAction \<Rightarrow> sm\<lparr>drs_no_action := drs_no_action sm + 1\<rparr>)"

definition dry_run_missing :: "uuid \<Rightarrow> OrchestrationDryRunResult \<Rightarrow> OrchestrationDryRunResult" where
  "dry_run_missing i acc =
     acc\<lparr>drr_not_found := drr_not_found acc @ [i],
         drr_summary := (drr_summary acc)\<lparr>drs_not_found := drs_not_found (drr_summary acc) + 1,
           drs_no_action := drs_no_action (drr_summary acc) + 1\<rparr>\<rparr>"

fun dry_run_loop ::
  "'j CompState \<Rightarrow> uuid \<Rightarrow> uuid list \<Rightarrow> OrchestrationDryRunResult \<Rightarrow> OrchestrationDryRunResult ire_result" where
  "dry_run_loop s tenant_id [] acc = Inr acc"
| "dry_run_loop s tenant_id (i # action_ids) acc =
     (case ca_get (svc_actions s) i of
        Inr a \<Rightarrow>
          if ca_tenant_id a \<noteq> tenant_id then dry_run_loop s tenant_id action_ids (dry_run_missing i acc)
          else
            let proposal = compute_action_proposal a
            in dry_run_loop s tenant_id action_ids
                 (acc\<lparr>drr_proposals := drr_proposals acc @ [proposal],
                      drr_summary := count_proposal (oap_proposed_action proposal) (drr_summary acc)\<rparr>)
      | Inl (CompensationActionNotFound _) \<Rightarrow> dry_run_loop s tenant_id action_ids (dry_run_missing i acc)
      | Inl e \<Rightarrow> Inl e)"

definition plan_orchestration_actions :: "'j CompState \<Rightarrow> uuid \<Rightarrow> uuid list \<Rightarrow> OrchestrationDryRunResult ire_result" where
  "plan_orchestration_actions s tenant_id action_ids =
     dry_run_loop s tenant_id action_ids \<lparr>drr_proposals = [], drr_not_found = [],
       drr_summary = \<lparr>drs_total = length action_ids, drs_can_approve = 0, drs_can_reapprove = 0, drs_can_execute = 0,
         drs_no_action = 0, drs_not_found = 0\<rparr>\<rparr>"

section \<open>The three views agree\<close>

lemma status_cases_simps:
  "compute_gate_status a = Eligible \<longleftrightarrow> execute_gate a"
  "from_compensation_action a = Ready \<longleftrightarrow> execute_gate a"
  "oap_proposed_action (compute_action_proposal a) = Execute \<longleftrightarrow> execute_gate a"
  "from_compensation_action a = AwaitingPolicy \<longleftrightarrow> ca_status a = Pending"
  "oap_proposed_action (compute_action_proposal a) = Approve \<longleftrightarrow> ca_status a = Pending"
  by (auto simp: compute_gate_status_def from_compensation_action_def compute_action_proposal_def execute_gate_def is_terminal_def
      is_dlq_candidate_def is_service_executable_def can_transition_to_iff Let_def
      split: CompensationStatus.splits StrategyType.splits CompensationFeasibility.splits option.splits)

lemma gate_coordination:
  "compute_gate_status a = ManualReviewRequired \<longleftrightarrow> from_compensation_action a \<in> {AwaitingPolicy, AwaitingManualReview}"
  "compute_gate_status a = PolicyGateStatus.Blocked \<longleftrightarrow> from_compensation_action a \<in> {CoordinationStatus.Blocked, Terminal}"
  "compute_gate_status a = Eligible \<longleftrightarrow> from_compensation_action a = Ready"
  "from_compensation_action a = AwaitingPolicy \<longleftrightarrow> ca_status a = Pending"
  by (auto simp: compute_gate_status_def from_compensation_action_def is_terminal_def is_dlq_candidate_def
      split: CompensationStatus.splits)

text \<open>Each counter of the two summaries counts one predicate of the actions.\<close>

lemma count_filter_simps: "length (filter P (x # xs)) = (if P x then 1 else 0) + length (filter P xs)"
  by simp

lemma gate_summary_fold:
  "fold gate_summary_step actions sm = sm\<lparr>
     pgs_eligible_count := pgs_eligible_count sm + length (filter (\<lambda>a. compute_gate_status a = Eligible) actions),
     pgs_blocked_count := pgs_blocked_count sm + length (filter (\<lambda>a. compute_gate_status a = PolicyGateStatus.Blocked) actions),
     pgs_manual_review_required_count := pgs_manual_review_required_count sm +
       length (filter (\<lambda>a. compute_gate_status a = ManualReviewRequired) actions),
     pgs_dlq_candidate_count := pgs_dlq_candidate_count sm + length (filter is_dlq_candidate actions),
     pgs_pending_approval_count := pgs_pending_approval_count sm + length (filter (\<lambda>a. ca_status a = Pending) actions),
     pgs_auto_executable_count := pgs_auto_executable_count sm + length (filter is_auto_executable actions)\<rparr>"
proof (induction actions arbitrary: sm)
  case (Cons a actions)
  show ?case unfolding fold.simps comp_def Cons.IH count_filter_simps
    by (cases "compute_gate_status a") (simp_all add: gate_summary_step_def Let_def)
qed simp

lemma coordination_summary_fold:
  "fold coordination_summary_step actions sm = sm\<lparr>
     cos_ready_count := cos_ready_count sm + length (filter (\<lambda>a. from_compensation_action a = Ready) actions),
     cos_awaiting_policy_count := cos_awaiting_policy_count sm +
       length (filter (\<lambda>a. from_compensation_action a = AwaitingPolicy) actions),
     cos_awaiting_manual_review_count := cos_awaiting_manual_review_count sm +
       length (filter (\<lambda>a. from_compensation_action a = AwaitingManualReview) actions),
     cos_blocked_count := cos_blocked_count sm +
       length (filter (\<lambda>a. from_compensation_action a = CoordinationStatus.Blocked) actions),
     cos_terminal_count := cos_terminal_count sm + length (filter (\<lambda>a. from_compensation_action a = Terminal) actions),
     cos_dlq_candidate_count := cos_dlq_candidate_count sm + length (filter is_dlq_candidate actions),
     cos_auto_executable_count := cos_auto_executable_count sm + length (filter is_service_executable actions)\<rparr>"
proof (induction actions arbitrary: sm)
  case (Cons a actions)
  show ?case unfolding fold.simps comp_def Cons.IH count_filter_simps
    by (cases "from_compensation_action a") (simp_all add: coordination_summary_step_def CoordinationRecord_from_action_def Let_def)
qed simp

lemmas summary_simps = evaluate_policy_gates_from_actions_def evaluate_coordination_from_actions_def gate_summary_fold
  coordination_summary_fold PolicyGateSummary_default_def CoordinationSummary_default_def

lemma length_filter_split:
  "(\<And>x. x \<in> set xs \<Longrightarrow> P x \<longleftrightarrow> Q x \<or> R x) \<Longrightarrow> (\<And>x. x \<in> set xs \<Longrightarrow> \<not> (Q x \<and> R x)) \<Longrightarrow>
   length (filter P xs) = length (filter Q xs) + length (filter R xs)"
  by (induction xs) auto

text \<open>
  C27. The three views of the same actions agree. In the summaries of a tenant's actions the eligible, blocked
  and manual review counts add up to the total; what the policy gate calls eligible is what coordination calls ready, its blocked
  ones are the blocked and the terminal ones, its manual review ones are those awaiting policy or manual review, its
  pending ones are those awaiting policy, and both count the same dead letter candidates. For one action the dry run
  proposes to execute exactly when the gate is eligible, and exactly then the service's own execution gate lets it pass.
\<close>

theorem policy_views_agree:
  "(let g = pgr_summary (evaluate_policy_gates s t); c = cores_summary (evaluate_coordination_status s t) in
     pgs_total_actions g = pgs_eligible_count g + pgs_blocked_count g + pgs_manual_review_required_count g \<and>
     cos_total_actions c = pgs_total_actions g \<and>
     cos_ready_count c = pgs_eligible_count g \<and>
     cos_blocked_count c + cos_terminal_count c = pgs_blocked_count g \<and>
     cos_awaiting_policy_count c + cos_awaiting_manual_review_count c = pgs_manual_review_required_count g \<and>
     cos_awaiting_policy_count c = pgs_pending_approval_count g \<and>
     cos_dlq_candidate_count c = pgs_dlq_candidate_count g) \<and>
   (compute_gate_status a = Eligible \<longleftrightarrow> execute_gate a) \<and>
   (oap_proposed_action (compute_action_proposal a) = Execute \<longleftrightarrow> execute_gate a) \<and>
   (oap_proposed_action (compute_action_proposal a) = Approve \<longleftrightarrow> from_compensation_action a = AwaitingPolicy) \<and>
   (oap_proposed_action (compute_action_proposal a) = Reapprove \<longleftrightarrow> ca_status a = Failed \<and> can_be_reapproved a)"
proof -
  define xs where "xs = ca_list_by_tenant (svc_actions s) t None"
  let ?n = "\<lambda>P. length (filter P xs)"
  let ?co = "\<lambda>st a. from_compensation_action a = st"
  have "?n (\<lambda>a. compute_gate_status a = ManualReviewRequired) = ?n (?co AwaitingPolicy) + ?n (?co AwaitingManualReview)"
    and "?n (\<lambda>a. compute_gate_status a = PolicyGateStatus.Blocked) = ?n (?co CoordinationStatus.Blocked) + ?n (?co Terminal)"
    by (rule length_filter_split; simp add: gate_coordination(1,2))+
  moreover have "length xs = ?n (\<lambda>a. compute_gate_status a = Eligible) + ?n (\<lambda>a. compute_gate_status a = PolicyGateStatus.Blocked) +
      ?n (\<lambda>a. compute_gate_status a = ManualReviewRequired)"
  proof (induction xs)
    case (Cons b ys)
    then show ?case by (cases "compute_gate_status b") simp_all
  qed simp
  moreover have "oap_proposed_action (compute_action_proposal a) = Reapprove \<longleftrightarrow> ca_status a = Failed \<and> can_be_reapproved a"
    by (auto simp: compute_action_proposal_def Let_def split: CompensationStatus.splits option.splits)
  ultimately show ?thesis
    by (simp add: Let_def evaluate_policy_gates_def evaluate_coordination_status_def flip: xs_def)
      (simp add: summary_simps status_cases_simps gate_coordination(3,4))
qed

end
