(* ===== verification/Compensation_Batch.thy ===== *)
theory Compensation_Batch
  imports Compensation_Policy
begin

text \<open>
  The batch commands of \<open>compensation_action_orchestration.rs\<close>. The three methods differ in the operation they
  attempt on an action that exists and belongs to the tenant, so their loop is one definition with the
  operation as its argument. The locale \<open>batch_operation\<close> is what the loop relies on.
\<close>

section \<open>The loop\<close>

definition batch_push ::
  "uuid \<Rightarrow> string + CompensationAction \<Rightarrow> BatchOrchestrationResult \<Rightarrow> BatchOrchestrationResult" where
  "batch_push i result acc =
     acc\<lparr>bor_outcomes := bor_outcomes acc @ [\<lparr>bio_action_id = i, bio_success = (case result of Inl _ \<Rightarrow> False | Inr _ \<Rightarrow> True),
           bio_result = result\<rparr>],
         bor_summary := (case result of
             Inl _ \<Rightarrow> (bor_summary acc)\<lparr>bos_failed := bos_failed (bor_summary acc) + 1\<rparr>
           | Inr _ \<Rightarrow> (bor_summary acc)\<lparr>bos_succeeded := bos_succeeded (bor_summary acc) + 1\<rparr>)\<rparr>"

definition batch_missing :: "uuid \<Rightarrow> string \<Rightarrow> BatchOrchestrationResult \<Rightarrow> BatchOrchestrationResult" where
  "batch_missing i message acc =
     batch_push i (Inl message)
       (acc\<lparr>bor_not_found := bor_not_found acc @ [i],
            bor_summary := (bor_summary acc)\<lparr>bos_not_found := bos_not_found (bor_summary acc) + 1\<rparr>\<rparr>)"

text \<open>\<open>op k a\<close> is the call made for the \<open>k\<close>-th item, where \<open>a\<close> is the action that was read.\<close>

type_synonym 'j batch_op = "nat \<Rightarrow> CompensationAction \<Rightarrow> uuid \<Rightarrow> 'j CompState \<Rightarrow> CompensationAction ire_result \<times> 'j CompState"

fun batch_loop ::
  "(uuid \<Rightarrow> string) \<Rightarrow> 'j batch_op \<Rightarrow> uuid \<Rightarrow> nat \<Rightarrow> uuid list \<Rightarrow> BatchOrchestrationResult \<Rightarrow> 'j CompState \<Rightarrow>
   BatchOrchestrationResult ire_result \<times> 'j CompState" where
  "batch_loop us op tenant_id k [] acc s = (Inr acc, s)"
| "batch_loop us op tenant_id k (i # action_ids) acc s =
     (case ca_get (svc_actions s) i of
        Inr a \<Rightarrow>
          if ca_tenant_id a \<noteq> tenant_id then
            batch_loop us op tenant_id (Suc k) action_ids (batch_missing i ''Action not found or access denied'' acc) s
          else
            (case op k a i s of
               (Inr b, s') \<Rightarrow> batch_loop us op tenant_id (Suc k) action_ids (batch_push i (Inr b) acc) s'
             | (Inl e, s') \<Rightarrow>
                 batch_loop us op tenant_id (Suc k) action_ids (batch_push i (Inl (display_IntentRebaseError us e)) acc) s')
      | Inl (CompensationActionNotFound _) \<Rightarrow>
          batch_loop us op tenant_id (Suc k) action_ids (batch_missing i ''Compensation action not found'' acc) s
      | Inl e \<Rightarrow> (Inl e, s))"

definition batch_start :: "uuid list \<Rightarrow> BatchOrchestrationResult" where
  "batch_start action_ids = \<lparr>bor_outcomes = [], bor_not_found = [],
     bor_summary = \<lparr>bos_total = length action_ids, bos_succeeded = 0, bos_failed = 0, bos_not_found = 0\<rparr>\<rparr>"

definition approve_op :: "'j comp_env \<Rightarrow> string option \<Rightarrow> 'j batch_op" where
  "approve_op env approved_by k a i s = approve_action (env_clock env k) i (ca_lock_version a) approved_by s"

definition reapprove_op :: "'j batch_op" where
  "reapprove_op k a i s = reapprove_action i (ca_lock_version a) s"

text \<open>An execution draws at most three identifiers and four times.\<close>

definition execute_op :: "'j comp_env \<Rightarrow> string option \<Rightarrow> 'j batch_op" where
  "execute_op env executed_by k a i s = execute_action (shift_env (4 * k) env) i executed_by s"

definition batch_approve ::
  "'j comp_env \<Rightarrow> uuid \<Rightarrow> uuid list \<Rightarrow> string option \<Rightarrow> 'j CompState \<Rightarrow> BatchOrchestrationResult ire_result \<times> 'j CompState" where
  "batch_approve env tenant_id action_ids approved_by s =
     batch_loop (env_us env) (approve_op env approved_by) tenant_id 0 action_ids (batch_start action_ids) s"

definition batch_reapprove ::
  "'j comp_env \<Rightarrow> uuid \<Rightarrow> uuid list \<Rightarrow> 'j CompState \<Rightarrow> BatchOrchestrationResult ire_result \<times> 'j CompState" where
  "batch_reapprove env tenant_id action_ids s =
     batch_loop (env_us env) reapprove_op tenant_id 0 action_ids (batch_start action_ids) s"

definition batch_execute ::
  "'j comp_env \<Rightarrow> uuid \<Rightarrow> uuid list \<Rightarrow> string option \<Rightarrow> 'j CompState \<Rightarrow> BatchOrchestrationResult ire_result \<times> 'j CompState" where
  "batch_execute env tenant_id action_ids executed_by s =
     batch_loop (env_us env) (execute_op env executed_by) tenant_id 0 action_ids (batch_start action_ids) s"

section \<open>What the loop relies on\<close>

text \<open>
  The operation either leaves the repository alone or stores a new version of the action it was called on.
\<close>

definition keeps_or_stores ::
  "CompensationAction \<Rightarrow> ActionRepo \<Rightarrow> CompensationAction ire_result \<Rightarrow> ActionRepo \<Rightarrow> bool" where
  "keeps_or_stores a r res r' \<longleftrightarrow> (case res of
     Inl _ \<Rightarrow> r' = r
   | Inr b \<Rightarrow> same_identity a b \<and> r' = store_with_status (ca_status a) b r)"

locale batch_operation =
  fixes op :: "'j batch_op"
  assumes effect: "map_of (acr_actions (svc_actions s)) i = Some a \<Longrightarrow> op k a i s = (res, s') \<Longrightarrow>
    keeps_or_stores a (svc_actions s) res (svc_actions s')"

text \<open>The part of the repository a tenant has no business with.\<close>

definition foreign_actions :: "uuid \<Rightarrow> ActionRepo \<Rightarrow> (uuid \<times> CompensationAction) set" where
  "foreign_actions t r = {(i, a). map_of (acr_actions r) i = Some a \<and> ca_tenant_id a \<noteq> t}"

text \<open>The accounting of a batch result over the identifiers it was asked for.\<close>

definition batch_accounts :: "uuid list \<Rightarrow> BatchOrchestrationResult \<Rightarrow> bool" where
  "batch_accounts action_ids r \<longleftrightarrow>
     map bio_action_id (bor_outcomes r) = action_ids \<and>
     bos_succeeded (bor_summary r) = length (filter bio_success (bor_outcomes r)) \<and>
     bos_failed (bor_summary r) = length (filter (\<lambda>x. \<not> bio_success x) (bor_outcomes r)) \<and>
     bos_not_found (bor_summary r) = length (bor_not_found r) \<and>
     set (bor_not_found r) \<subseteq> bio_action_id ` set (filter (\<lambda>x. \<not> bio_success x) (bor_outcomes r)) \<and>
     list_all (\<lambda>x. bio_success x = (case bio_result x of Inl _ \<Rightarrow> False | Inr _ \<Rightarrow> True)) (bor_outcomes r)"

lemma batch_accounts_start: "batch_accounts [] (batch_start ids)"
  by (simp add: batch_accounts_def batch_start_def)

lemma batch_accounts_push: "batch_accounts done_ids acc \<Longrightarrow> batch_accounts (done_ids @ [i]) (batch_push i result acc)"
  by (cases result) (auto simp: batch_accounts_def batch_push_def)

lemma batch_accounts_missing: "batch_accounts done_ids acc \<Longrightarrow> batch_accounts (done_ids @ [i]) (batch_missing i m acc)"
  by (auto simp: batch_accounts_def batch_missing_def batch_push_def)

lemma batch_total [simp]: "bos_total (bor_summary (batch_push i result acc)) = bos_total (bor_summary acc)"
  "bos_total (bor_summary (batch_missing i m acc)) = bos_total (bor_summary acc)"
  by (simp_all add: batch_push_def batch_missing_def split: sum.splits)

lemma foreign_store:
  assumes "map_of (acr_actions r) (ca_id b) = Some a" and "ca_tenant_id a = t" and "same_identity a b"
  shows "foreign_actions t (store_with_status st b r) = foreign_actions t r"
  using assms by (auto simp: foreign_actions_def store_with_status_def same_identity_def simp del: map_of_eq_Some_iff split: if_splits)

context batch_operation
begin

lemma item:
  assumes "action_inv (svc_actions s)" and "ca_get (svc_actions s) i = Inr a" and "op k a i s = (res, s')"
  shows "action_inv (svc_actions s')" and "ca_tenant_id a = t \<Longrightarrow> foreign_actions t (svc_actions s') = foreign_actions t (svc_actions s)"
proof -
  have a: "map_of (acr_actions (svc_actions s)) i = Some a"
    using assms(2) by (simp add: ca_get_def del: map_of_eq_Some_iff split: option.splits)
  then have id: "ca_id a = i" using assms(1) by (simp add: action_inv_def del: map_of_eq_Some_iff)
  note eff = effect [OF a assms(3), unfolded keeps_or_stores_def]
  have stored: "map_of (acr_actions (svc_actions s)) (ca_id b) = Some a" if "same_identity a b" for b
    using that a id by (simp add: same_identity_def del: map_of_eq_Some_iff)
  from eff show "action_inv (svc_actions s')"
    using action_inv_store [OF assms(1) stored] assms(1) by (simp split: sum.splits)
  from eff show "foreign_actions t (svc_actions s') = foreign_actions t (svc_actions s)" if "ca_tenant_id a = t"
    using foreign_store [OF stored that] by (simp split: sum.splits)
qed

lemma loop:
  assumes "action_inv (svc_actions s)" and "batch_accounts done_ids acc"
  shows "\<exists>r s'. batch_loop us op t k action_ids acc s = (Inr r, s') \<and> batch_accounts (done_ids @ action_ids) r \<and>
    bos_total (bor_summary r) = bos_total (bor_summary acc) \<and> action_inv (svc_actions s') \<and>
    foreign_actions t (svc_actions s') = foreign_actions t (svc_actions s)"
  using assms
proof (induction action_ids arbitrary: k acc s done_ids)
  case (Cons i action_ids)
  show ?case
  proof (cases "ca_get (svc_actions s) i")
    case (Inl e)
    then have "e = CompensationActionNotFound i" by (simp add: ca_get_def split: option.splits)
    with Inl Cons.IH [OF Cons.prems(1) batch_accounts_missing [OF Cons.prems(2)]] show ?thesis by simp
  next
    case (Inr a)
    note mine = item [OF Cons.prems(1) Inr]
    show ?thesis
    proof (cases "ca_tenant_id a = t")
      case False
      with Inr Cons.IH [OF Cons.prems(1) batch_accounts_missing [OF Cons.prems(2)]] show ?thesis by simp
    next
      case True
      obtain res s1 where op: "op k a i s = (res, s1)" by (rule prod.exhaust)
      with mine True have s1: "action_inv (svc_actions s1)" "foreign_actions t (svc_actions s1) = foreign_actions t (svc_actions s)"
        by blast+
      have "\<exists>r s'. batch_loop us op t (Suc k) action_ids (batch_push i x acc) s1 = (Inr r, s') \<and>
          batch_accounts (done_ids @ i # action_ids) r \<and> bos_total (bor_summary r) = bos_total (bor_summary acc) \<and>
          action_inv (svc_actions s') \<and> foreign_actions t (svc_actions s') = foreign_actions t (svc_actions s)" for x
        using Cons.IH [OF s1(1) batch_accounts_push [OF Cons.prems(2)], of "Suc k" i x] s1(2) by simp
      with True Inr op show ?thesis by (cases res) simp_all
    qed
  qed
qed simp

lemma batch:
  assumes "action_inv (svc_actions s)"
  shows "\<exists>r s'. batch_loop us op t 0 action_ids (batch_start action_ids) s = (Inr r, s') \<and> batch_accounts action_ids r \<and>
    bos_total (bor_summary r) = length action_ids \<and> action_inv (svc_actions s') \<and>
    foreign_actions t (svc_actions s') = foreign_actions t (svc_actions s)"
  using loop [OF assms batch_accounts_start, of us t 0 action_ids action_ids] by (simp add: batch_start_def)

end

section \<open>The three operations\<close>

lemma updated_effect:
  assumes "updated i lock c b r res r'" and "map_of (acr_actions r) i = Some a"
  shows "keeps_or_stores a r res r'"
  using assms by (auto simp: updated_def keeps_or_stores_def simp del: map_of_eq_Some_iff)

lemma keeps_or_stores_Inl [simp]: "keeps_or_stores a r (Inl e) r"
  by (simp add: keeps_or_stores_def)

text \<open>The repository operations behind the three commands.\<close>

lemma repo_effects:
  assumes "map_of (acr_actions r) i = Some a"
  shows "ca_update_status now i st lock by1 by2 r = (res, r') \<Longrightarrow> keeps_or_stores a r res r'"
    and "ca_reapprove i lock r = (res, r') \<Longrightarrow> keeps_or_stores a r res r'"
    and "ca_record_result i result lock by1 r = (res, r') \<Longrightarrow> keeps_or_stores a r res r'"
  using updated_effect [OF _ assms]
  by (auto elim!: ca_update_status_cases ca_reapprove_cases ca_record_result_cases)

interpretation approving: batch_operation "approve_op env by"
  by unfold_locales
    (auto simp: approve_op_def approve_action_def approve_rest_def ca_get_def Let_def
      simp del: map_of_eq_Some_iff split: if_splits prod.splits intro: repo_effects(1))

interpretation reapproving: batch_operation reapprove_op
  by unfold_locales
    (auto simp: reapprove_op_def reapprove_action_def reapprove_rest_def ca_get_def Let_def
      simp del: map_of_eq_Some_iff split: if_splits option.splits prod.splits intro: repo_effects(2))

lemma execute_finish_result:
  assumes "ca_record_result i result (ca_lock_version a) by (svc_actions s) = (res, r)"
  shows "fst (execute_finish env i by a result s) = res" "svc_actions (snd (execute_finish env i by a result s)) = r"
  using assms by (simp_all add: execute_finish_def Let_def split: sum.splits)

interpretation executing: batch_operation "execute_op env by"
proof
  fix s i a k res s'
  assume a: "map_of (acr_actions (svc_actions s)) i = Some a" and run: "execute_op env by k a i s = (res, s')"
  let ?result = "run_executor (env_us (shift_env (4 * k) env)) (env_clock (shift_env (4 * k) env) 0) (svc_side_effects s) a"
  obtain res1 r1 where upd: "ca_record_result i ?result (ca_lock_version a) by (svc_actions s) = (res1, r1)" by (rule prod.exhaust)
  note fin = execute_finish_result [OF upd, of "shift_env (4 * k) env"]
  show "keeps_or_stores a (svc_actions s) res (svc_actions s')"
  proof (cases "execute_gate a")
    case True
    with run a have "(res, s') = execute_finish (shift_env (4 * k) env) i by a ?result s"
      by (simp add: execute_op_def execute_action_def ca_get_def del: map_of_eq_Some_iff)
    then have "res = res1" "svc_actions s' = r1" using fin by (metis fst_conv, metis snd_conv)
    then show ?thesis using repo_effects(3) [OF a upd] by simp
  next
    case False
    with run a show ?thesis by (auto simp: execute_op_def execute_action_def ca_get_def simp del: map_of_eq_Some_iff)
  qed
qed

text \<open>
  C28. The batch commands have bounded partial success semantics and keep tenants apart. On every repository whose
  indexes are consistent a batch never fails as a whole: it reports one outcome per requested identifier, in the order
  of the request, its counters count these outcomes, and identifiers that are not found are among the failed ones.
  Every action of another tenant is exactly as before, even when its identifier was in the request, and the
  indexes stay consistent.
\<close>

theorem batch_partial_success:
  assumes "action_inv (svc_actions s)"
    and "batch_approve env t action_ids by s = res \<or> batch_reapprove env t action_ids s = res \<or> batch_execute env t action_ids by s = res"
  shows "\<exists>r s'. res = (Inr r, s') \<and> batch_accounts action_ids r \<and> bos_total (bor_summary r) = length action_ids \<and>
    action_inv (svc_actions s') \<and> foreign_actions t (svc_actions s') = foreign_actions t (svc_actions s)"
  using assms approving.batch [OF assms(1)] reapproving.batch [OF assms(1)] executing.batch [OF assms(1)]
  by (auto simp: batch_approve_def batch_reapprove_def batch_execute_def)

theorem batch_partial_success_witness:
  "\<exists>r s'. batch_approve ex_comp_env 1 [7, 8] None (snd (create_action ex_comp_env ex_comp_action ex_comp_state)) = (Inr r, s') \<and>
     bos_total (bor_summary r) = 2 \<and> map bio_action_id (bor_outcomes r) = [7, 8]"
proof -
  have "action_inv (svc_actions (snd (create_action ex_comp_env ex_comp_action ex_comp_state)))"
    using reach_inv [OF ex_comp_reach] sys_invD(1) by force
  from batch_partial_success [OF this disjI1 [OF refl], of ex_comp_env 1 "[7, 8]" None] show ?thesis
    by (auto simp: batch_accounts_def)
qed

end
