(* ===== verification/Classification.thy ===== *)
theory Classification
  imports Traversal_Laws "HOL-Library.Multiset"
begin

text \<open>
  Impact classification, \<open>crates/graph-service/src/classification.rs\<close> and
  \<open>classify_affected_items_from_intent_version\<close> of \<open>lib.rs\<close>. The loop reads the graph through \<open>gn\<close>
  (\<open>get_node\<close>), \<open>ef\<close> (\<open>list_edges_from\<close>) and \<open>et\<close> (\<open>list_edges_to\<close>). A node whose type is not a target is passed through
  without being marked as visited, so it may be expanded several times; the loop ends because
  every entry it adds is one level deeper, up to the maximal depth.
\<close>

section \<open>The loop\<close>

type_synonym class_entry = "uuid \<times> usize \<times> string"

definition seed_edges :: "PropagationConfig \<Rightarrow> 'j GraphEdge list \<Rightarrow> class_entry list" where
  "seed_edges config es = concat (map (\<lambda>e.
     (if ge_edge_type e = DependsOn \<and> ge_edge_type e \<in> set (pc_traversable_edge_types config)
      then [(ge_from_node_id e, 1, ''directly depends on'')] else []) @
     (if ge_edge_type e = ValidatedBy \<and> ge_edge_type e \<in> set (pc_traversable_edge_types config)
      then [(ge_from_node_id e, 1, ''directly validates this version'')] else [])) es)"

definition enqueue_propagation_edges_with_config ::
  "(uuid \<Rightarrow> 'j GraphEdge list ire_result) \<Rightarrow> (uuid \<Rightarrow> 'j GraphEdge list ire_result) \<Rightarrow> uuid \<Rightarrow> usize \<Rightarrow> PropagationConfig \<Rightarrow>
   class_entry list ire_result" where
  "enqueue_propagation_edges_with_config ef et n current_depth config =
     (case et n of
        Inl e \<Rightarrow> Inl e
      | Inr incoming \<Rightarrow>
          (case ef n of
             Inl e \<Rightarrow> Inl e
           | Inr outgoing \<Rightarrow>
               Inr (concat (map (\<lambda>e.
                   if ge_edge_type e = DependsOn \<and> ge_edge_type e \<in> set (pc_traversable_edge_types config)
                   then [(ge_from_node_id e, current_depth + 1, ''downstream via dependency chain'')] else []) incoming) @
                 concat (map (\<lambda>e.
                   if ge_edge_type e = Triggers \<and> Triggers \<in> set (pc_traversable_edge_types config)
                   then [(ge_to_node_id e, current_depth + 1, ''downstream via triggered'')]
                   else if ge_edge_type e = GeneratedFrom \<and> GeneratedFrom \<in> set (pc_traversable_edge_types config)
                   then [(ge_to_node_id e, current_depth + 1, ''downstream via generated from'')] else []) outgoing))))"

definition is_target :: "NodeType list option \<Rightarrow> 'j GraphNode \<Rightarrow> bool" where
  "is_target target_types node =
     (case target_types of Some allowed_types \<Rightarrow> gn_node_type node \<in> set allowed_types | None \<Rightarrow> True)"

lemma enqueue_depth:
  "enqueue_propagation_edges_with_config ef et n d config = Inr new \<Longrightarrow> x \<in> set new \<Longrightarrow> fst (snd x) = Suc d"
  by (auto simp: enqueue_propagation_edges_with_config_def split: sum.splits if_splits)

text \<open>The levels that are left for the entries of the queue.\<close>

definition levels_left :: "usize \<Rightarrow> class_entry list \<Rightarrow> nat multiset" where
  "levels_left max_depth queue = image_mset (\<lambda>x. Suc max_depth - fst (snd x)) (mset queue)"

lemma levels_left_pop: "(levels_left m queue, levels_left m (x # queue)) \<in> mult less_than"
  by (simp add: levels_left_def subset_implies_mult)

lemma levels_left_push:
  assumes "depth < m" and "\<And>x. x \<in> set new \<Longrightarrow> fst (snd x) = Suc depth"
  shows "(levels_left m (queue @ new), levels_left m ((n, depth, r) # queue)) \<in> mult less_than"
proof -
  have "(levels_left m queue + image_mset (\<lambda>x. Suc m - fst (snd x)) (mset new), levels_left m queue + {#Suc m - depth#}) \<in> mult less_than"
    by (rule one_step_implies_mult) (use assms in auto)
  then show ?thesis by (simp add: levels_left_def)
qed

function classify_loop ::
  "(uuid \<Rightarrow> 'j GraphNode ire_result) \<Rightarrow> (uuid \<Rightarrow> 'j GraphEdge list ire_result) \<Rightarrow> (uuid \<Rightarrow> 'j GraphEdge list ire_result) \<Rightarrow>
   PropagationConfig \<Rightarrow> usize \<Rightarrow> NodeType list option \<Rightarrow> uuid list \<Rightarrow> 'j ClassifiedNode list \<Rightarrow> class_entry list \<Rightarrow>
   'j ClassifiedNode list ire_result" where
  "classify_loop gn ef et config max_depth target_types visited classified [] = Inr classified"
| "classify_loop gn ef et config max_depth target_types visited classified ((n, depth, reason) # queue) =
     (if depth > max_depth then classify_loop gn ef et config max_depth target_types visited classified queue
      else if n \<in> set visited then classify_loop gn ef et config max_depth target_types visited classified queue
      else case gn n of
          Inl _ \<Rightarrow> classify_loop gn ef et config max_depth target_types visited classified queue
        | Inr node \<Rightarrow>
            if \<not> is_target target_types node then
              (if depth < max_depth then
                 (case enqueue_propagation_edges_with_config ef et n depth config of
                    Inl e \<Rightarrow> Inl e
                  | Inr new \<Rightarrow> classify_loop gn ef et config max_depth target_types visited classified (queue @ new))
               else classify_loop gn ef et config max_depth target_types visited classified queue)
            else
              let impact = (if depth = 1 then Direct else Transitive);
                  visited' = visited @ [n];
                  classified' = classified @ [\<lparr>cn_node = node, cn_impact = impact, cn_reason = reason\<rparr>]
              in if depth < max_depth then
                   (case enqueue_propagation_edges_with_config ef et n depth config of
                      Inl e \<Rightarrow> Inl e
                    | Inr new \<Rightarrow> classify_loop gn ef et config max_depth target_types visited' classified' (queue @ new))
                 else classify_loop gn ef et config max_depth target_types visited' classified' queue)"
  by pat_completeness auto

termination
  by (relation "inv_image (mult less_than) (\<lambda>(gn, ef, et, config, max_depth, target_types, visited, classified, queue).
      levels_left max_depth queue)")
    (auto simp: wf_mult levels_left_pop intro!: levels_left_push intro: enqueue_depth)

section \<open>The request\<close>

definition request_config :: "ClassifyRequest \<Rightarrow> PropagationConfig" where
  "request_config r = (case cr_propagation_config r of Some c \<Rightarrow> c | None \<Rightarrow> PropagationConfig_default)"

definition request_max_depth :: "ClassifyRequest \<Rightarrow> usize" where
  "request_max_depth r =
     (case cr_propagation_config r of
        Some c \<Rightarrow> (case pc_max_depth c of Some m \<Rightarrow> m | None \<Rightarrow> (case cr_max_depth r of Some m \<Rightarrow> m | None \<Rightarrow> 3))
      | None \<Rightarrow> (case cr_max_depth r of Some m \<Rightarrow> m | None \<Rightarrow> 3))"

definition request_target_types :: "ClassifyRequest \<Rightarrow> NodeType list option" where
  "request_target_types r =
     (case cr_propagation_config r of
        Some c \<Rightarrow> Some (pc_target_node_types c)
      | None \<Rightarrow> (case cr_target_node_types r of
            Some ts \<Rightarrow> Some ts
          | None \<Rightarrow> Some (pc_target_node_types (request_config r))))"

definition classify_impact :: "'j GraphState \<Rightarrow> ClassifyRequest \<Rightarrow> 'j ClassificationResult ire_result" where
  "classify_impact g r =
     (case get_node g (cr_start_node_id r) of
        Inl e \<Rightarrow> Inl e
      | Inr start_node \<Rightarrow>
          (case list_edges_to g (cr_start_node_id r) of
             Inl e \<Rightarrow> Inl e
           | Inr incoming \<Rightarrow>
               (case classify_loop (get_node g) (list_edges_from g) (list_edges_to g) (request_config r) (request_max_depth r)
                   (request_target_types r) [] [] (seed_edges (request_config r) incoming) of
                  Inl e \<Rightarrow> Inl e
                | Inr classified \<Rightarrow> Inr \<lparr>classified_nodes = classified, cl_start_node_id = gn_id start_node,
                    cl_max_depth = request_max_depth r\<rparr>)))"

definition classify_affected_items_from_intent_version ::
  "(uuid, 'j GraphNode) hash_iter \<Rightarrow> 'j GraphState \<Rightarrow> uuid \<Rightarrow> usize option \<Rightarrow> 'j ClassificationResult option ire_result" where
  "classify_affected_items_from_intent_version it g intent_version_id max_depth =
     (case find_intent_version_node it g intent_version_id of
        Inl e \<Rightarrow> Inl e
      | Inr None \<Rightarrow> Inr None
      | Inr (Some start_node) \<Rightarrow>
          (case classify_impact g \<lparr>cr_start_node_id = gn_id start_node, cr_max_depth = max_depth, cr_target_node_types = None,
                cr_propagation_config = None\<rparr> of
             Inl e \<Rightarrow> Inl e
           | Inr result \<Rightarrow> Inr (Some result)))"

end
