(* ===== verification/Classification_Laws.thy ===== *)
theory Classification_Laws
  imports Classification
begin

text \<open>
  Impact classification is exact. The graph of the propagation gets a virtual root \<open>None\<close> whose successors are
  the seeds, so that the depth of an entry is its distance from the root and the laws of the
  theory \<open>Search\<close> apply.
\<close>

section \<open>The propagation graph\<close>

text \<open>The nodes the impact reaches from a node in one step, and the nodes it starts with.\<close>

definition impact_succs :: "PropagationConfig \<Rightarrow> 'j GraphEdge set \<Rightarrow> uuid \<Rightarrow> uuid set" where
  "impact_succs config E n =
     {ge_from_node_id e | e. e \<in> E \<and> ge_to_node_id e = n \<and> ge_edge_type e = DependsOn \<and> DependsOn \<in> set (pc_traversable_edge_types config)} \<union>
     {ge_to_node_id e | e. e \<in> E \<and> ge_from_node_id e = n \<and> ge_edge_type e \<in> {Triggers, GeneratedFrom} \<and>
        ge_edge_type e \<in> set (pc_traversable_edge_types config)}"

definition impact_seeds :: "PropagationConfig \<Rightarrow> 'j GraphEdge set \<Rightarrow> uuid \<Rightarrow> uuid set" where
  "impact_seeds config E start =
     {ge_from_node_id e | e. e \<in> E \<and> ge_to_node_id e = start \<and> ge_edge_type e \<in> {DependsOn, ValidatedBy} \<and>
        ge_edge_type e \<in> set (pc_traversable_edge_types config)}"

fun impact_step :: "PropagationConfig \<Rightarrow> 'j GraphEdge set \<Rightarrow> uuid \<Rightarrow> uuid option \<Rightarrow> uuid option set" where
  "impact_step config E start None = Some ` impact_seeds config E start"
| "impact_step config E start (Some n) = Some ` impact_succs config E n"

text \<open>\<open>n\<close> is at the end of a propagation path of \<open>k\<close> edges from the start node.\<close>

abbreviation impact_walk :: "PropagationConfig \<Rightarrow> 'j GraphEdge set \<Rightarrow> uuid \<Rightarrow> nat \<Rightarrow> uuid \<Rightarrow> bool" where
  "impact_walk config E start k n \<equiv> walk (impact_step config E start) None k (Some n)"

lemma impact_walk_pos: "impact_walk config E start k n \<Longrightarrow> 0 < k"
  by (cases k) simp_all

lemma impact_walk_1 [simp]: "impact_walk config E start (Suc 0) n \<longleftrightarrow> n \<in> impact_seeds config E start"
  by (auto simp: walk_Suc_iff)

text \<open>What edges preserve in both directions, propagation preserves.\<close>

lemma impact_walk_preserves:
  assumes "impact_walk config E start k n" and "P start" and edge: "\<And>e. e \<in> E \<Longrightarrow> P (ge_from_node_id e) \<longleftrightarrow> P (ge_to_node_id e)"
  shows "P n"
  using assms(1)
proof (induction k arbitrary: n)
  case (Suc k)
  then obtain p where p: "walk (impact_step config E start) None k p" "Some n \<in> impact_step config E start p"
    by (auto simp: walk_Suc_iff)
  show ?case
  proof (cases p)
    case None
    with p(2) obtain e where "e \<in> E" "ge_to_node_id e = start" "n = ge_from_node_id e" by (auto simp: impact_seeds_def)
    with edge [of e] assms(2) show ?thesis by simp
  next
    case (Some m)
    with Suc.IH p(1) have "P m" by simp
    moreover from p(2) Some obtain e where "e \<in> E" "{ge_from_node_id e, ge_to_node_id e} = {n, m}"
      by (auto simp: impact_succs_def)
    ultimately show ?thesis using edge [of e] by (auto simp: doubleton_eq_iff)
  qed
qed simp

section \<open>The invariant of the loop\<close>

text \<open>
  \<open>V\<close> are the nodes that have been expanded or passed through; among them the visited ones are the targets.
\<close>

definition class_waiting :: "class_entry list \<Rightarrow> nat \<Rightarrow> uuid option set" where
  "class_waiting queue j = {Some n | n r. (n, j, r) \<in> set queue}"

lemma class_waiting_simps [simp]:
  "class_waiting ((n, d, r) # queue) j = (if j = d then insert (Some n) (class_waiting queue j) else class_waiting queue j)"
  "class_waiting (q1 @ q2) j = class_waiting q1 j \<union> class_waiting q2 j"
  "class_waiting [] j = {}"
  by (auto simp: class_waiting_def)

definition class_inv ::
  "PropagationConfig \<Rightarrow> 'j GraphEdge set \<Rightarrow> uuid \<Rightarrow> nat \<Rightarrow> (uuid \<Rightarrow> bool) \<Rightarrow> uuid set \<Rightarrow> uuid list \<Rightarrow> class_entry list \<Rightarrow> bool" where
  "class_inv config E start mx tgt V visited queue \<longleftrightarrow>
     level_order (fst \<circ> snd) queue \<and>
     (\<forall>(n, d, r) \<in> set queue. impact_walk config E start d n) \<and>
     (\<forall>n \<in> V. \<exists>k \<le> mx. impact_walk config E start k n) \<and>
     frontier (impact_step config E start) None (Some mx) (insert None (Some ` V)) (class_waiting queue) \<and>
     set visited = {n \<in> V. tgt n}"

lemma class_invD:
  assumes "class_inv config E start mx tgt V visited queue"
  shows "level_order (fst \<circ> snd) queue" "(n, d, r) \<in> set queue \<Longrightarrow> impact_walk config E start d n"
    "m \<in> V \<Longrightarrow> \<exists>k \<le> mx. impact_walk config E start k m"
    "frontier (impact_step config E start) None (Some mx) (insert None (Some ` V)) (class_waiting queue)"
    "set visited = {n \<in> V. tgt n}"
  using assms unfolding class_inv_def by blast+

lemma class_inv_skip:
  assumes inv: "class_inv config E start mx tgt V visited ((n, d, r) # queue)" and "mx < d \<or> n \<in> V"
  shows "class_inv config E start mx tgt V visited queue"
proof -
  note D = class_invD [OF inv]
  let ?S = "impact_step config E start"
  have "m \<in> insert None (Some ` V) \<or> (\<exists>j \<le> Suc (hop_dist ?S None p). m \<in> class_waiting queue j)"
    if p: "p \<in> insert None (Some ` V)" "m \<in> ?S p" "in_depth (Some mx) (Suc (hop_dist ?S None p))" for p m
  proof -
    from D(4) p consider "m \<in> insert None (Some ` V)" | j where "j \<le> Suc (hop_dist ?S None p)" "m \<in> class_waiting ((n, d, r) # queue) j"
      unfolding frontier_def by blast
    then show ?thesis
    proof cases
      case 2
      with assms(2) p(3) show ?thesis by (auto simp: in_depth_def split: if_splits)
    qed simp
  qed
  then have "frontier ?S None (Some mx) (insert None (Some ` V)) (class_waiting queue)"
    by (simp add: frontier_def)
  with inv show ?thesis by (auto simp: class_inv_def dest: level_order_tail)
qed

text \<open>Entries one level below the head may always be added.\<close>

lemma class_inv_add:
  assumes inv: "class_inv config E start mx tgt V visited ((n, d, r) # queue)"
    and new: "\<And>m j s. (m, j, s) \<in> set new \<Longrightarrow> j = Suc d \<and> m \<in> impact_succs config E n"
  shows "class_inv config E start mx tgt V visited ((n, d, r) # queue @ new)"
proof -
  note D = class_invD [OF inv]
  have "level_order (fst \<circ> snd) ((n, d, r) # queue @ new)"
    by (rule level_order_grow [OF D(1)]) (use new in fastforce)
  moreover have w: "impact_walk config E start d n" using D(2) by (meson list.set_intros(1))
  then have "impact_walk config E start j m" if "(m, j, s) \<in> set new" for m j s
    using new [OF that] walk_Suc [OF w] by simp
  moreover have "frontier (impact_step config E start) None (Some mx) (insert None (Some ` V)) (class_waiting ((n, d, r) # queue @ new))"
    by (rule frontier_mono [OF D(4)]) auto
  ultimately show ?thesis using inv by (auto simp: class_inv_def simp del: class_waiting_simps)
qed

lemma class_inv_visit:
  assumes inv: "class_inv config E start mx tgt V visited ((n, d, r) # queue)"
    and n: "d \<le> mx" "n \<notin> V"
    and new: "\<And>m. d < mx \<Longrightarrow> m \<in> impact_succs config E n \<Longrightarrow> \<exists>s. (m, Suc d, s) \<in> set queue"
    and visited': "set visited' = (if tgt n then insert n (set visited) else set visited)"
  shows "class_inv config E start mx tgt (insert n V) visited' queue"
proof -
  note D = class_invD [OF inv]
  let ?S = "impact_step config E start"
  have w: "walk ?S None d (Some n)" using D(2) by (meson list.set_intros(1))
  have "class_waiting ((n, d, r) # queue) j = {}" if "j < d" for j
    using level_order_head [OF D(1)] that by (fastforce simp: class_waiting_def simp del: class_waiting_simps)
  then have dn: "hop_dist ?S None (Some n) = d"
    using frontier_dist [OF D(4) w] n by (auto simp: in_depth_def simp del: class_waiting_simps)
  have "m \<in> insert None (Some ` insert n V) \<or> (\<exists>j \<le> Suc (hop_dist ?S None p). m \<in> class_waiting queue j)"
    if p: "p \<in> insert None (Some ` insert n V)" "m \<in> ?S p" "in_depth (Some mx) (Suc (hop_dist ?S None p))" for p m
  proof (cases "p = Some n")
    case True
    with p(3) have "d < mx" by (simp add: dn in_depth_def)
    moreover obtain m' where "m = Some m'" "m' \<in> impact_succs config E n" using True p(2) by auto
    ultimately obtain s where "(m', Suc d, s) \<in> set queue" using new by blast
    then show ?thesis using \<open>m = Some m'\<close> True dn by (auto simp: class_waiting_def)
  next
    case False
    with p have "m \<in> insert None (Some ` V) \<or> (\<exists>j \<le> Suc (hop_dist ?S None p). m \<in> class_waiting ((n, d, r) # queue) j)"
      using D(4) unfolding frontier_def by blast
    then show ?thesis by (auto split: if_splits)
  qed
  then have "frontier ?S None (Some mx) (insert None (Some ` insert n V)) (class_waiting queue)"
    by (simp add: frontier_def)
  moreover have "set visited' = {m \<in> insert n V. tgt m}" using visited' D(5) by auto
  ultimately show ?thesis
    using inv w n(1) level_order_tail [OF D(1)] by (auto simp: class_inv_def)
qed

text \<open>Popping a node that exists: it is skipped, passed through again, or expanded for the first time.\<close>

lemma class_inv_expand:
  assumes inv: "class_inv config E start mx tgt V visited ((n, d, r) # queue)" and "d \<le> mx"
    and new: "d < mx \<Longrightarrow> fst ` set new = impact_succs config E n" "\<And>x. x \<in> set new \<Longrightarrow> fst (snd x) = Suc d" "\<not> d < mx \<Longrightarrow> new = []"
    and visited': "set visited' = (if tgt n then insert n (set visited) else set visited)"
  shows "class_inv config E start mx tgt (insert n V) visited' (queue @ new)"
proof -
  have "j = Suc d \<and> m \<in> impact_succs config E n" if "(m, j, s) \<in> set new" for m j s
    using new(1,3) new(2) [OF that] image_eqI [of m fst, OF _ that] that by (cases "d < mx") auto
  from class_inv_add [OF inv this] have added: "class_inv config E start mx tgt V visited ((n, d, r) # queue @ new)"
    by simp
  show ?thesis
  proof (cases "n \<in> V")
    case True
    with visited' class_invD(5) [OF inv] have "set visited' = set visited" by auto
    with class_inv_skip [OF added] True show ?thesis by (simp add: class_inv_def insert_absorb)
  next
    case False
    show ?thesis
    proof (rule class_inv_visit [OF added assms(2) False _ visited'])
      fix m
      assume "d < mx" "m \<in> impact_succs config E n"
      then have "m \<in> fst ` set new" using new(1) by simp
      then obtain j s where "(m, j, s) \<in> set new" by force
      with new(2) [OF this] show "\<exists>s. (m, Suc d, s) \<in> set (queue @ new)" by auto
    qed
  qed
qed

lemma class_inv_seed:
  assumes inv: "class_inv config E start mx tgt V visited ((n, d, r) # queue)" and "d \<le> mx" "n \<notin> V"
  shows "d = 1 \<longleftrightarrow> n \<in> impact_seeds config E start"
proof
  note D = class_invD [OF inv]
  have w: "impact_walk config E start d n" using D(2) by (meson list.set_intros(1))
  show "n \<in> impact_seeds config E start" if "d = 1" using w that by simp
  assume "n \<in> impact_seeds config E start"
  then have "Some n \<in> impact_step config E start None" by simp
  moreover have "in_depth (Some mx) (Suc 0)" using impact_walk_pos [OF w] assms(2) by (simp add: in_depth_def)
  ultimately have "Some n \<in> insert None (Some ` V) \<or> (\<exists>j \<le> Suc 0. Some n \<in> class_waiting ((n, d, r) # queue) j)"
    using D(4) unfolding frontier_def by (metis dist_start insertI1)
  then obtain j s where j: "j \<le> Suc 0" "(n, j, s) \<in> set ((n, d, r) # queue)"
    using assms(3) by (auto simp: class_waiting_def simp del: class_waiting_simps)
  then have "d \<le> j" using level_order_head [OF D(1), of "(n, j, s)"] by auto
  with j(1) impact_walk_pos [OF w] show "d = 1" by simp
qed

section \<open>The loop\<close>

text \<open>What the list of classified nodes says about the visited nodes.\<close>

definition class_out ::
  "(uuid \<Rightarrow> 'j GraphNode ire_result) \<Rightarrow> (uuid \<Rightarrow> bool) \<Rightarrow> uuid list \<Rightarrow> 'j ClassifiedNode list \<Rightarrow> bool" where
  "class_out gn seed visited classified \<longleftrightarrow> distinct visited \<and> map (\<lambda>c. gn_id (cn_node c)) classified = visited \<and>
     (\<forall>c \<in> set classified. gn (gn_id (cn_node c)) = Inr (cn_node c) \<and>
        cn_impact c = (if seed (gn_id (cn_node c)) then Direct else Transitive))"

lemma classify_loop_correct:
  fixes config E start mx tt gn ef et
  defines "tgt \<equiv> \<lambda>n. \<exists>x. gn n = Inr x \<and> is_target tt x"
  assumes ids: "\<And>n x. gn n = Inr x \<Longrightarrow> gn_id x = n"
    and nodes: "\<And>k n. impact_walk config E start k n \<Longrightarrow> \<exists>x. gn n = Inr x"
    and enq: "\<And>n d. \<exists>new. enqueue_propagation_edges_with_config ef et n d config = Inr new \<and> fst ` set new = impact_succs config E n"
    and "class_inv config E start mx tgt V visited queue" and "class_out gn (\<lambda>n. n \<in> impact_seeds config E start) visited classified"
  shows "\<exists>visited' cs. classify_loop gn ef et config mx tt visited classified queue = Inr cs \<and>
    class_out gn (\<lambda>n. n \<in> impact_seeds config E start) visited' cs \<and>
    set visited' = {n. tgt n \<and> (\<exists>k \<le> mx. impact_walk config E start k n)}"
  using assms(5,6)
proof (induction "levels_left mx queue" arbitrary: V visited classified queue rule: wf_induct_rule [OF wf_mult [OF wf_less_than]])
  case 1
  note inv = "1.prems"(1) and out = "1.prems"(2)
  show ?case
  proof (cases queue)
    case Nil
    have fr: "frontier (impact_step config E start) None (Some mx) (insert None (Some ` V)) (class_waiting [])"
      using class_invD(4) [OF inv] Nil by simp
    have "n \<in> V" if "impact_walk config E start k n" "k \<le> mx" for n k
      using frontier_complete [OF fr that(1)] that(2) by (auto simp: in_depth_def)
    then have "set visited = {n. tgt n \<and> (\<exists>k \<le> mx. impact_walk config E start k n)}"
      using class_invD(3,5) [OF inv] by blast
    with out Nil show ?thesis by auto
  next
    case (Cons x q)
    obtain n d r where x: "x = (n, d, r)" by (rule prod_cases3)
    note inv = inv [unfolded Cons x]
    obtain node where node: "gn n = Inr node" using nodes class_invD(2) [OF inv] by (meson list.set_intros(1))
    have pop: "(levels_left mx q, levels_left mx queue) \<in> mult less_than" unfolding Cons by (rule levels_left_pop)
    show ?thesis
    proof (cases "mx < d \<or> n \<in> set visited")
      case True
      then have "mx < d \<or> n \<in> V" using class_invD(5) [OF inv] by auto
      from "1.hyps" [OF pop class_inv_skip [OF inv this] out] True show ?thesis unfolding Cons x by auto
    next
      case False
      then have d: "d \<le> mx" "n \<notin> set visited" by simp_all
      obtain new0 where new0: "enqueue_propagation_edges_with_config ef et n d config = Inr new0"
        "fst ` set new0 = impact_succs config E n"
        using enq by blast
      define new where "new = (if d < mx then new0 else [])"
      define vis' where "vis' = (if tgt n then visited @ [n] else visited)"
      define cls' where "cls' = (if tgt n then classified @ [\<lparr>cn_node = node, cn_impact = (if d = 1 then Direct else Transitive),
        cn_reason = r\<rparr>] else classified)"
      have step: "classify_loop gn ef et config mx tt visited classified queue = classify_loop gn ef et config mx tt vis' cls' (q @ new)"
        using d node new0(1) unfolding Cons x new_def vis'_def cls'_def tgt_def by simp
      have smaller: "(levels_left mx (q @ new), levels_left mx queue) \<in> mult less_than"
        using pop levels_left_push [OF _ enqueue_depth [OF new0(1)], where m = mx and queue = q and n = n and r = r] unfolding Cons x new_def by simp
      have inv': "class_inv config E start mx tgt (insert n V) vis' (q @ new)"
        by (rule class_inv_expand [OF inv d(1)]) (simp_all add: new_def new0(2) vis'_def enqueue_depth [OF new0(1)])
      have "n \<notin> V" if "tgt n" using class_invD(5) [OF inv] d(2) that by blast
      then have "class_out gn (\<lambda>n. n \<in> impact_seeds config E start) vis' cls'"
        using out ids [OF node] node d class_inv_seed [OF inv d(1)] by (auto simp: class_out_def vis'_def cls'_def)
      from "1.hyps" [OF smaller inv' this] show ?thesis unfolding step .
    qed
  qed
qed

section \<open>Classification of a stored graph\<close>

lemma seed_edges_depth: "(n, d, r) \<in> set (seed_edges config es) \<Longrightarrow> d = 1"
  by (auto simp: seed_edges_def split: if_splits)

lemma image_concat_map:
  "(\<And>e. e \<in> set xs \<Longrightarrow> h ` set (f e) = g e) \<Longrightarrow> h ` set (concat (map f xs)) = (\<Union>e \<in> set xs. g e)"
  by (induction xs) (auto simp: image_Un)

lemma seed_edges_nodes:
  assumes "set es = {e \<in> E. ge_to_node_id e = start}"
  shows "fst ` set (seed_edges config es) = impact_seeds config E start"
proof -
  have "fst ` set (seed_edges config es) = (\<Union>e \<in> set es.
      if ge_edge_type e \<in> {DependsOn, ValidatedBy} \<and> ge_edge_type e \<in> set (pc_traversable_edge_types config)
      then {ge_from_node_id e} else {})"
    unfolding seed_edges_def by (rule image_concat_map) auto
  also have "\<dots> = impact_seeds config E start" using assms by (auto simp: impact_seeds_def split: if_splits)
  finally show ?thesis .
qed

lemma class_inv_init:
  assumes "set es = {e \<in> E. ge_to_node_id e = start}"
  shows "class_inv config E start mx tgt {} [] (seed_edges config es)"
proof -
  note S = seed_edges_nodes [OF assms, of config, symmetric]
  have "level_order (fst \<circ> snd) (seed_edges config es)"
    by (rule level_order_const [where d = 1]) (auto dest: seed_edges_depth)
  moreover have "\<exists>s. (m, Suc 0, s) \<in> set (seed_edges config es)" if "m \<in> impact_seeds config E start" for m
    using that seed_edges_depth unfolding S by fastforce
  then have "frontier (impact_step config E start) None (Some mx) {None} (class_waiting (seed_edges config es))"
    by (auto simp: frontier_def class_waiting_def intro!: exI [of _ "Suc 0"])
  moreover have "impact_walk config E start d n" if "(n, d, r) \<in> set (seed_edges config es)" for n d r
    using seed_edges_depth [OF that] image_eqI [of n fst, OF _ that] by (simp add: S)
  ultimately show ?thesis by (auto simp: class_inv_def)
qed

lemma enqueue_nodes:
  assumes "et n = Inr inc" "ef n = Inr out" "set inc = {e \<in> E. ge_to_node_id e = n}" "set out = {e \<in> E. ge_from_node_id e = n}"
  shows "\<exists>new. enqueue_propagation_edges_with_config ef et n d config = Inr new \<and> fst ` set new = impact_succs config E n"
proof -
  let ?ts = "set (pc_traversable_edge_types config)"
  let ?inc = "\<lambda>e. if ge_edge_type e = DependsOn \<and> ge_edge_type e \<in> ?ts
    then [(ge_from_node_id e, d + 1, ''downstream via dependency chain'')] else []"
  let ?out = "\<lambda>e. if ge_edge_type e = Triggers \<and> Triggers \<in> ?ts then [(ge_to_node_id e, d + 1, ''downstream via triggered'')]
    else if ge_edge_type e = GeneratedFrom \<and> GeneratedFrom \<in> ?ts
    then [(ge_to_node_id e, d + 1, ''downstream via generated from'')] else []"
  have new: "enqueue_propagation_edges_with_config ef et n d config = Inr (concat (map ?inc inc) @ concat (map ?out out))"
    by (simp only: enqueue_propagation_edges_with_config_def assms(1,2) sum.case)
  have "fst ` set (concat (map ?inc inc)) =
      (\<Union>e \<in> set inc. if ge_edge_type e = DependsOn \<and> DependsOn \<in> ?ts then {ge_from_node_id e} else {})"
    by (rule image_concat_map) auto
  moreover have "fst ` set (concat (map ?out out)) =
      (\<Union>e \<in> set out. if ge_edge_type e \<in> {Triggers, GeneratedFrom} \<and> ge_edge_type e \<in> ?ts then {ge_to_node_id e} else {})"
    by (rule image_concat_map) auto
  ultimately have "fst ` set (concat (map ?inc inc) @ concat (map ?out out)) =
      (\<Union>e \<in> set inc. if ge_edge_type e = DependsOn \<and> DependsOn \<in> ?ts then {ge_from_node_id e} else {}) \<union>
      (\<Union>e \<in> set out. if ge_edge_type e \<in> {Triggers, GeneratedFrom} \<and> ge_edge_type e \<in> ?ts then {ge_to_node_id e} else {})"
    by (simp only: set_append image_Un)
  also have "\<dots> = impact_succs config E n" using assms(3,4) by (auto simp: impact_succs_def split: if_splits)
  finally show ?thesis using new by blast
qed

section \<open>Properties\<close>

text \<open>
  C29. Impact classification is exact on every reachable graph. It ends without error, whatever cycles the graph has, and
  lists each affected node once: a node is listed exactly when its type is a target type and a propagation
  path of at most \<open>max_depth\<close> edges leads to it, first against a \<open>DependsOn\<close> or \<open>ValidatedBy\<close> edge into the start
  node, then against \<open>DependsOn\<close> and along \<open>Triggers\<close> and \<open>GeneratedFrom\<close> edges of the traversable types, through nodes of any type.
  Its impact is direct exactly when it has such an edge into the start node, and transitive otherwise. Every listed node is the
  stored node, in the tenant and workflow of the start node.
\<close>

theorem classify_impact_exact:
  assumes "graph_reachable g" and "get_node g (cr_start_node_id r) = Inr x"
  shows "\<exists>res. classify_impact g r = Inr res \<and> distinct (map (\<lambda>c. gn_id (cn_node c)) (classified_nodes res)) \<and>
    (\<forall>n. n \<in> (\<lambda>c. gn_id (cn_node c)) ` set (classified_nodes res) \<longleftrightarrow>
      (\<exists>y. get_node g n = Inr y \<and> is_target (request_target_types r) y) \<and>
      (\<exists>k \<le> request_max_depth r. impact_walk (request_config r) (edges_of g) (cr_start_node_id r) k n)) \<and>
    (\<forall>c \<in> set (classified_nodes res).
      get_node g (gn_id (cn_node c)) = Inr (cn_node c) \<and>
      cn_impact c = (if gn_id (cn_node c) \<in> impact_seeds (request_config r) (edges_of g) (cr_start_node_id r) then Direct else Transitive) \<and>
      gn_tenant_id (cn_node c) = gn_tenant_id x \<and> gn_workflow_id (cn_node c) = gn_workflow_id x)"
proof -
  have inv: "graph_inv g" using assms(1) by (rule reachable_inv)
  let ?start = "cr_start_node_id r" and ?E = "edges_of g" and ?c = "request_config r"
  have scope: "memory.in_scope_of g (gn_tenant_id x) (gn_workflow_id x) n" if "impact_walk ?c ?E ?start k n" for k n
  proof (rule impact_walk_preserves [where P = "memory.in_scope_of g (gn_tenant_id x) (gn_workflow_id x)", OF that])
    show "memory.in_scope_of g (gn_tenant_id x) (gn_workflow_id x) ?start"
      using assms(2) by (simp add: memory.in_scope_of_def)
  qed (rule memory.hop_scope [OF inv])
  obtain es where es: "list_edges_to g ?start = Inr es" "set es = {e \<in> ?E. ge_to_node_id e = ?start}"
    using memory.to_law [OF inv] by blast
  have enq: "\<exists>new. enqueue_propagation_edges_with_config (list_edges_from g) (list_edges_to g) n d ?c = Inr new \<and>
      fst ` set new = impact_succs ?c ?E n" for n d
    using memory.to_law [OF inv, of n] memory.from_law [OF inv, of n] by (elim exE conjE) (rule enqueue_nodes)
  have nodes: "\<exists>y. get_node g n = Inr y" if "impact_walk ?c ?E ?start k n" for k n
    using scope [OF that] by (auto simp: memory.in_scope_of_def)
  have out: "class_out (get_node g) (\<lambda>n. n \<in> impact_seeds ?c ?E ?start) [] []" by (simp add: class_out_def)
  have "\<exists>vs cs. classify_loop (get_node g) (list_edges_from g) (list_edges_to g) ?c (request_max_depth r)
      (request_target_types r) [] [] (seed_edges ?c es) = Inr cs \<and>
    class_out (get_node g) (\<lambda>n. n \<in> impact_seeds ?c ?E ?start) vs cs \<and>
    set vs = {n. (\<exists>y. get_node g n = Inr y \<and> is_target (request_target_types r) y) \<and>
       (\<exists>k \<le> request_max_depth r. impact_walk ?c ?E ?start k n)}"
    by (rule classify_loop_correct) (rule memory.get_id [OF inv] nodes enq class_inv_init [OF es(2)] out; assumption?)+
  then obtain vs cs where cs: "classify_loop (get_node g) (list_edges_from g) (list_edges_to g) ?c (request_max_depth r)
      (request_target_types r) [] [] (seed_edges ?c es) = Inr cs"
    "class_out (get_node g) (\<lambda>n. n \<in> impact_seeds ?c ?E ?start) vs cs"
    "set vs = {n. (\<exists>y. get_node g n = Inr y \<and> is_target (request_target_types r) y) \<and>
       (\<exists>k \<le> request_max_depth r. impact_walk ?c ?E ?start k n)}"
    by blast
  have vs: "set vs = (\<lambda>c. gn_id (cn_node c)) ` set cs" using cs(2) by (metis class_out_def set_map)
  have "gn_tenant_id (cn_node c) = gn_tenant_id x \<and> gn_workflow_id (cn_node c) = gn_workflow_id x" if "c \<in> set cs" for c
  proof -
    have "gn_id (cn_node c) \<in> set vs" using vs that by blast
    then obtain k where "impact_walk ?c ?E ?start k (gn_id (cn_node c))" unfolding cs(3) by blast
    moreover have "get_node g (gn_id (cn_node c)) = Inr (cn_node c)" using cs(2) that by (simp add: class_out_def)
    ultimately show ?thesis using scope [of k "gn_id (cn_node c)"] by (simp add: memory.in_scope_of_def)
  qed
  then show ?thesis
    using cs vs assms(2) es(1) by (simp add: classify_impact_def class_out_def set_eq_iff)
qed

theorem classify_impact_exact_witness:
  "\<exists>res. classify_impact ex_graph \<lparr>cr_start_node_id = 10, cr_max_depth = None, cr_target_node_types = None, cr_propagation_config = None\<rparr> = Inr res \<and>
     11 \<in> (\<lambda>c. gn_id (cn_node c)) ` set (classified_nodes res)"
proof -
  let ?r = "\<lparr>cr_start_node_id = 10, cr_max_depth = None, cr_target_node_types = None, cr_propagation_config = None\<rparr> :: ClassifyRequest"
  note ex_defs = get_node_def ex_graph_def create_edge_def create_node_def Let_def GraphState_default_def ex_node_request_def
    ex_edge_request_def
  obtain x y where x: "get_node ex_graph 10 = Inr x" and y: "get_node ex_graph 11 = Inr y" "gn_node_type y = NodeType.Artifact"
    by (simp add: ex_defs)
  have "11 \<in> impact_seeds (request_config ?r) (edges_of ex_graph) 10"
    by (auto simp: impact_seeds_def request_config_def PropagationConfig_default_def ex_defs)
  then have "\<exists>k \<le> request_max_depth ?r. impact_walk (request_config ?r) (edges_of ex_graph) 10 k 11"
    by (intro exI [of _ "Suc 0"]) (simp add: request_max_depth_def)
  moreover have "is_target (request_target_types ?r) y"
    using y(2) by (simp add: is_target_def request_target_types_def request_config_def PropagationConfig_default_def)
  ultimately show ?thesis
    using classify_impact_exact [OF ex_graph_reachable, of ?r x] x y(1) by auto
qed

end
