(* ===== verification/Cycle_Laws.thy ===== *)
theory Cycle_Laws
  imports Traversal_Laws
begin

text \<open>
  Correctness of the cycle detection of \<open>traversal.rs\<close>: the coloured depth-first search finds a cycle exactly when the
  workflow has one, and the path it reports is a cycle. The nodes on the stack are the gray ones, a black node has
  only black successors and lies on no cycle. A recursion as deep as the number of white nodes is enough.
\<close>

section \<open>The invariant\<close>

definition succs :: "(uuid, uuid list) hmap \<Rightarrow> uuid \<Rightarrow> uuid set" where
  "succs adj n = (case map_of adj n of None \<Rightarrow> {} | Some ns \<Rightarrow> set ns)"

definition links :: "(uuid, uuid list) hmap \<Rightarrow> (uuid \<times> uuid) set" where
  "links adj = {(n, m). m \<in> succs adj n}"

definition is_cycle :: "(uuid, uuid list) hmap \<Rightarrow> uuid list \<Rightarrow> bool" where
  "is_cycle adj c \<longleftrightarrow> 2 \<le> length c \<and> hd c = last c \<and> successively (\<lambda>n m. m \<in> succs adj n) c"

definition dfs_inv :: "(uuid, uuid list) hmap \<Rightarrow> (uuid \<rightharpoonup> Color) \<Rightarrow> uuid list \<Rightarrow> bool" where
  "dfs_inv adj col path \<longleftrightarrow>
     distinct path \<and> set path = {n. col n = Some Gray} \<and> successively (\<lambda>n m. m \<in> succs adj n) path \<and>
     (\<forall>n m. col n = Some Black \<and> m \<in> succs adj n \<longrightarrow> col m = Some Black) \<and>
     (\<forall>n. col n = Some Black \<longrightarrow> (n, n) \<notin> (links adj)\<^sup>+) \<and>
     (\<forall>n m. m \<in> succs adj n \<longrightarrow> m \<in> dom col)"

text \<open>Black nodes stay black, white ones are never created and the known nodes stay the same.\<close>

definition advances :: "(uuid \<rightharpoonup> Color) \<Rightarrow> (uuid \<rightharpoonup> Color) \<Rightarrow> bool" where
  "advances col col' \<longleftrightarrow> (\<forall>n. col n = Some Black \<longrightarrow> col' n = Some Black) \<and> (\<forall>n. col' n = Some White \<longrightarrow> col n = Some White) \<and>
     dom col' = dom col"

definition whites :: "(uuid \<rightharpoonup> Color) \<Rightarrow> uuid set" where
  "whites col = {n. col n = Some White}"

lemma advances_refl [simp]: "advances col col"
  by (simp add: advances_def)

lemma advances_trans: "advances c1 c2 \<Longrightarrow> advances c2 c3 \<Longrightarrow> advances c1 c3"
  unfolding advances_def by blast

lemma card_whites_mono: "advances col col' \<Longrightarrow> card (whites col') \<le> card (whites col)"
  by (rule card_mono) (auto simp: advances_def whites_def)

lemma card_whites_gray: "col n = Some White \<Longrightarrow> card (whites (col(n \<mapsto> Gray))) < card (whites col)"
  by (rule psubset_card_mono) (auto simp: whites_def)

lemma black_closed:
  assumes "(n, m) \<in> (links adj)\<^sup>*" and "col n = Some Black"
    and "\<forall>n m. col n = Some Black \<and> m \<in> succs adj n \<longrightarrow> col m = Some Black"
  shows "col m = Some Black"
  using assms by (induction rule: rtrancl_induct) (auto simp: links_def)

text \<open>Entering a white node and leaving a gray one whose successors are all black.\<close>

lemma dfs_inv_enter:
  assumes "dfs_inv adj col path" and "col n = Some White" and "path = [] \<or> n \<in> succs adj (last path)"
  shows "dfs_inv adj (col(n \<mapsto> Gray)) (path @ [n])"
proof -
  have "n \<notin> set path" using assms(1,2) by (auto simp: dfs_inv_def)
  with assms show ?thesis
    by (auto simp: dfs_inv_def successively_append_iff)
qed

lemma dfs_inv_leave:
  assumes inv: "dfs_inv adj col (path @ [n])" and black: "\<And>m. m \<in> succs adj n \<Longrightarrow> col m = Some Black"
  shows "dfs_inv adj (col(n \<mapsto> Black)) path"
proof -
  have gray: "col n = Some Gray" "set path = {m. col m = Some Gray} - {n}" using inv by (auto simp: dfs_inv_def)
  have closed: "\<forall>n m. col n = Some Black \<and> m \<in> succs adj n \<longrightarrow> col m = Some Black" using inv by (simp add: dfs_inv_def)
  have "(n, n) \<notin> (links adj)\<^sup>+"
  proof
    assume "(n, n) \<in> (links adj)\<^sup>+"
    then obtain m where "m \<in> succs adj n" "(m, n) \<in> (links adj)\<^sup>*" by (auto simp: links_def dest!: tranclD)
    then have "col n = Some Black" using black black_closed [OF _ _ closed] by blast
    with gray(1) show False by simp
  qed
  moreover have "distinct path" "successively (\<lambda>n m. m \<in> succs adj n) path"
    using inv by (simp_all add: dfs_inv_def successively_append_iff)
  ultimately show ?thesis
    using inv black gray unfolding dfs_inv_def by (auto split: if_splits)
qed

section \<open>Back edges\<close>

lemma position_Some: "position n path = Some p \<Longrightarrow> p < length path \<and> path ! p = n"
  by (induction path arbitrary: p) (auto split: if_splits)

lemma position_None: "position n path = None \<longleftrightarrow> n \<notin> set path"
  by (induction path) auto

lemma back_edge_position:
  "back_edge color path ns = Some c \<Longrightarrow> \<exists>n p. n \<in> set ns \<and> position n path = Some p \<and> c = drop p path @ [n]"
  by (induction ns) (auto simp del: map_of_eq_Some_iff split: if_splits option.splits)

lemma back_edge_Some:
  assumes "back_edge color path ns = Some c" and "successively (\<lambda>n m. m \<in> succs adj n) path" and "set ns \<subseteq> succs adj (last path)"
  shows "is_cycle adj c"
proof -
  obtain n p where "n \<in> set ns" and p: "position n path = Some p" and c: "c = drop p path @ [n]"
    using back_edge_position [OF assms(1)] by blast
  then have n: "n \<in> succs adj (last path)" using assms(3) by blast
  have p: "p < length path" "path ! p = n" using position_Some [OF p] by simp_all
  then have "hd (drop p path) = n" "drop p path \<noteq> []" "last (drop p path) = last path"
    by (simp_all add: hd_drop_conv_nth)
  moreover have "successively (\<lambda>n m. m \<in> succs adj n) (drop p path)"
    using assms(2) by (metis append_take_drop_id successively_append_iff)
  ultimately have "successively (\<lambda>n m. m \<in> succs adj n) (drop p path @ [n])" "hd (drop p path @ [n]) = n" "0 < length (drop p path)"
    using n by (simp_all add: successively_append_iff)
  then show ?thesis unfolding c is_cycle_def by simp
qed

lemma back_edge_None:
  assumes "back_edge color path ns = None" and "set path = {n. map_of color n = Some Gray}" and "n \<in> set ns"
  shows "map_of color n \<noteq> Some Gray"
  using assms
  by (induction ns) (auto split: if_splits option.splits simp: position_None simp del: map_of_eq_Some_iff)

section \<open>The search\<close>

text \<open>What a call does: it reports a cycle or finishes its node.\<close>

definition dfs_result ::
  "(uuid, uuid list) hmap \<Rightarrow> uuid set \<Rightarrow> dfs_state \<Rightarrow> (bool \<times> dfs_state) option \<Rightarrow> bool" where
  "dfs_result adj N st res \<longleftrightarrow> (case (st, res) of ((color, path, cycle), Some (found, color', path', cycle')) \<Rightarrow>
     if found then \<exists>c. cycle' = Some c \<and> is_cycle adj c
     else path' = path \<and> cycle' = cycle \<and> dfs_inv adj (map_of color') path \<and> advances (map_of color) (map_of color') \<and>
       (\<forall>n \<in> N. map_of color' n = Some Black)
   | _ \<Rightarrow> False)"

lemma dfs_result_extend:
  assumes "dfs_result adj N (color1, path, cycle) res" and adv: "advances (map_of color) (map_of color1)"
    and "\<And>n. n \<in> M \<Longrightarrow> map_of color1 n = Some Black"
  shows "dfs_result adj (M \<union> N) (color, path, cycle) res"
proof (cases res)
  case None
  with assms(1) show ?thesis by (simp add: dfs_result_def)
next
  case (Some r)
  obtain found color2 path2 cycle2 where r: "r = (found, color2, path2, cycle2)" by (metis prod_cases4)
  show ?thesis
  proof (cases found)
    case False
    with assms(1) Some r have 2: "path2 = path" "cycle2 = cycle" "dfs_inv adj (map_of color2) path"
      "advances (map_of color1) (map_of color2)" "\<forall>n \<in> N. map_of color2 n = Some Black"
      by (simp_all add: dfs_result_def del: map_of_eq_Some_iff)
    moreover have "map_of color2 n = Some Black" if "n \<in> M" for n
      using 2(4) assms(3) [OF that] unfolding advances_def by blast
    ultimately show ?thesis
      using False Some r advances_trans [OF adv 2(4)] by (auto simp: dfs_result_def simp del: map_of_eq_Some_iff)
  qed (use assms(1) Some r in \<open>simp add: dfs_result_def\<close>)
qed

lemma dfs_children_correct:
  assumes node: "\<And>n color path cycle. dfs_inv adj (map_of color) path \<Longrightarrow> map_of color n = Some White \<Longrightarrow>
      n \<in> succs adj (last path) \<Longrightarrow> card (whites (map_of color)) \<le> k \<Longrightarrow>
      dfs_result adj {n} (color, path, cycle) (dfs k adj n (color, path, cycle))"
    and "dfs_inv adj (map_of color) path" "set ns \<subseteq> succs adj (last path)" "\<And>n. n \<in> set ns \<Longrightarrow> map_of color n \<noteq> Some Gray"
      "card (whites (map_of color)) \<le> k"
  shows "dfs_result adj (set ns) (color, path, cycle) (dfs_children k adj ns (color, path, cycle))"
  using assms(2-)
proof (induction ns arbitrary: color cycle)
  case (Cons n ns)
  note prems = Cons.prems
  show ?case
  proof (cases "map_of color n = Some White")
    case False
    have "n \<in> dom (map_of color)" using prems(1,2) unfolding dfs_inv_def by (meson list.set_intros(1) subsetD)
    then have black: "map_of color n = Some Black"
      using prems(3) [of n] False by (cases "the (map_of color n)") (auto simp del: map_of_eq_Some_iff)
    have "dfs_result adj (set ns) (color, path, cycle) (dfs_children k adj ns (color, path, cycle))"
      using prems by (intro Cons.IH) auto
    with black dfs_result_extend [OF this, of color "{n}"] False show ?thesis by (simp del: map_of_eq_Some_iff)
  next
    case True
    have n: "dfs_result adj {n} (color, path, cycle) (dfs k adj n (color, path, cycle))"
      using prems True by (intro node) auto
    show ?thesis
    proof (cases "dfs k adj n (color, path, cycle)")
      case None
      with n show ?thesis by (simp add: dfs_result_def)
    next
      case (Some r)
      obtain found color1 path1 cycle1 where r: "r = (found, color1, path1, cycle1)" by (metis prod_cases4)
      show ?thesis
      proof (cases found)
        case True
        with n Some r \<open>map_of color n = Some White\<close> show ?thesis by (simp add: dfs_result_def del: map_of_eq_Some_iff)
      next
        case False
        then have 1: "path1 = path" "cycle1 = cycle" "dfs_inv adj (map_of color1) path" "advances (map_of color) (map_of color1)"
          "map_of color1 n = Some Black"
          using n Some r by (auto simp: dfs_result_def simp del: map_of_eq_Some_iff)
        have "set path = {n. map_of color n = Some Gray}" "set path = {n. map_of color1 n = Some Gray}"
          using prems(1) 1(3) by (simp_all add: dfs_inv_def)
        then have "dfs_result adj (set ns) (color1, path, cycle) (dfs_children k adj ns (color1, path, cycle))"
          using prems(2-4) 1(3) card_whites_mono [OF 1(4)] by (intro Cons.IH) auto
        from dfs_result_extend [OF this 1(4), of "{n}"] show ?thesis
          using True Some r False 1(1,2,5) by (simp del: map_of_eq_Some_iff)
      qed
    qed
  qed
qed (simp add: dfs_result_def)

lemma dfs_correct:
  assumes "dfs_inv adj (map_of color) path" and "map_of color n = Some White" and "path = [] \<or> n \<in> succs adj (last path)"
    and "card (whites (map_of color)) \<le> k"
  shows "dfs_result adj {n} (color, path, cycle) (dfs k adj n (color, path, cycle))"
  using assms
proof (induction k arbitrary: n color path cycle)
  case 0
  then show ?case using card_whites_gray [where col = "map_of color" and n = n, OF "0.prems"(2)] by simp
next
  case (Suc k)
  note white = Suc.prems(2)
  define color1 where "color1 = hm_insert n Gray color"
  have col1: "map_of color1 = (map_of color)(n \<mapsto> Gray)" by (simp add: color1_def)
  have inv1: "dfs_inv adj (map_of color1) (path @ [n])" unfolding col1 using Suc.prems by (intro dfs_inv_enter)
  have few: "card (whites (map_of color1)) \<le> k" unfolding col1 using card_whites_gray [where col = "map_of color" and n = n, OF white] Suc.prems(4) by simp
  have finish: "dfs_result adj {n} (color, path, cycle) (Some (False, hm_insert n Black color2, path, cycle))"
    if "dfs_inv adj (map_of color2) (path @ [n])" "advances (map_of color1) (map_of color2)"
      "\<And>m. m \<in> succs adj n \<Longrightarrow> map_of color2 m = Some Black" for color2
  proof -
    have "advances (map_of color) ((map_of color2)(n \<mapsto> Black))"
      using that(2) white unfolding advances_def col1 by (auto split: if_splits simp del: map_of_eq_Some_iff)
    with dfs_inv_leave [OF that(1,3)] show ?thesis by (simp add: dfs_result_def)
  qed
  show ?case
  proof (cases "map_of adj n")
    case None
    then have "succs adj n = {}" by (simp add: succs_def)
    with None finish [OF inv1] show ?thesis by (simp add: color1_def)
  next
    case (Some ns)
    then have ns: "set ns = succs adj n" by (simp add: succs_def)
    show ?thesis
    proof (cases "back_edge color1 (path @ [n]) ns")
      case (Some c)
      have "is_cycle adj c" using back_edge_Some [OF Some] inv1 ns by (simp add: dfs_inv_def)
      with Some \<open>map_of adj n = Some ns\<close> show ?thesis by (simp add: dfs_result_def color1_def del: map_of_eq_Some_iff)
    next
      case None
      have "map_of color1 m \<noteq> Some Gray" if "m \<in> set ns" for m
        using back_edge_None [OF None _ that] inv1 by (simp add: dfs_inv_def)
      then have kids: "dfs_result adj (set ns) (color1, path @ [n], cycle) (dfs_children k adj ns (color1, path @ [n], cycle))"
        using Suc.IH inv1 few ns by (intro dfs_children_correct) auto
      show ?thesis
      proof (cases "dfs_children k adj ns (color1, path @ [n], cycle)")
        case (Some r)
        obtain found color2 path2 cycle2 where r: "r = (found, color2, path2, cycle2)" by (metis prod_cases4)
        have step: "dfs (Suc k) adj n (color, path, cycle) =
            (if found then Some r else Some (False, hm_insert n Black color2, butlast path2, cycle2))"
          using Some None \<open>map_of adj n = Some ns\<close> unfolding r by (simp add: color1_def Let_def del: map_of_eq_Some_iff)
        show ?thesis
        proof (cases found)
          case True
          with kids Some r show ?thesis unfolding step by (simp add: dfs_result_def)
        next
          case False
          with kids Some r have "path2 = path @ [n]" "cycle2 = cycle" "dfs_inv adj (map_of color2) (path @ [n])"
            "advances (map_of color1) (map_of color2)" "\<And>m. m \<in> succs adj n \<Longrightarrow> map_of color2 m = Some Black"
            by (simp_all add: dfs_result_def ns del: map_of_eq_Some_iff)
          with False finish show ?thesis unfolding step by simp
        qed
      qed (use kids in \<open>simp add: dfs_result_def\<close>)
    qed
  qed
qed

section \<open>All roots\<close>

lemma dfs_roots_correct:
  assumes "dfs_inv adj (map_of color) []" and "set roots \<subseteq> dom (map_of color)" and "card (whites (map_of color)) \<le> k"
  shows "\<exists>res. dfs_roots k adj roots color None = Some res \<and>
    (case res of Some c \<Rightarrow> is_cycle adj c | None \<Rightarrow> \<forall>n \<in> set roots. (n, n) \<notin> (links adj)\<^sup>+)"
  using assms
proof (induction roots arbitrary: color)
  case (Cons n roots)
  note inv = Cons.prems(1)
  show ?case
  proof (cases "map_of color n = Some White")
    case False
    have "set [] = {n. map_of color n = Some Gray}" using inv unfolding dfs_inv_def by blast
    then have "map_of color n \<noteq> Some Gray" by (simp del: map_of_eq_Some_iff)
    moreover have "n \<in> dom (map_of color)" using Cons.prems(2) by simp
    ultimately have "map_of color n = Some Black"
      using False by (cases "the (map_of color n)") (auto simp del: map_of_eq_Some_iff)
    then have "(n, n) \<notin> (links adj)\<^sup>+" using inv unfolding dfs_inv_def by blast
    with False Cons.IH [OF inv] Cons.prems(2,3) show ?thesis
      by (auto simp del: map_of_eq_Some_iff split: option.splits)
  next
    case True
    have n: "dfs_result adj {n} (color, [], None) (dfs k adj n (color, [], None))"
      using inv True Cons.prems(3) by (intro dfs_correct) auto
    then obtain found color1 path1 cycle1 where r: "dfs k adj n (color, [], None) = Some (found, color1, path1, cycle1)"
      by (cases "dfs k adj n (color, [], None)") (auto simp: dfs_result_def)
    show ?thesis
    proof (cases found)
      case True
      with n r \<open>map_of color n = Some White\<close> show ?thesis by (auto simp: dfs_result_def simp del: map_of_eq_Some_iff)
    next
      case False
      with n r have 1: "cycle1 = None" "dfs_inv adj (map_of color1) []" "advances (map_of color) (map_of color1)"
        "map_of color1 n = Some Black"
        by (simp_all add: dfs_result_def del: map_of_eq_Some_iff)
      have "(n, n) \<notin> (links adj)\<^sup>+" using 1(2,4) unfolding dfs_inv_def by blast
      moreover have "set roots \<subseteq> dom (map_of color1)" using Cons.prems(2) 1(3) by (simp add: advances_def)
      moreover have "card (whites (map_of color1)) \<le> k" using card_whites_mono [OF 1(3)] Cons.prems(3) by simp
      ultimately show ?thesis
        using Cons.IH [OF 1(2)] True False r 1(1) by (auto simp del: map_of_eq_Some_iff split: option.splits)
    qed
  qed
qed simp

lemma successively_rtrancl:
  "successively (\<lambda>n m. m \<in> succs adj n) (x # xs) \<Longrightarrow> (x, last (x # xs)) \<in> (links adj)\<^sup>*"
proof (induction xs arbitrary: x)
  case (Cons y xs)
  then have "(x, y) \<in> links adj" "(y, last (y # xs)) \<in> (links adj)\<^sup>*" by (auto simp: links_def)
  then show ?case by simp
qed simp

lemma cycle_not_acyclic:
  assumes "is_cycle adj c"
  shows "\<not> acyclic (links adj)"
proof -
  from assms obtain x y xs where c: "c = x # y # xs" by (cases c; cases "tl c") (auto simp: is_cycle_def)
  have "y \<in> succs adj x" using assms unfolding is_cycle_def c successively.simps by blast
  then have "(x, y) \<in> links adj" by (simp add: links_def)
  moreover have "(y, x) \<in> (links adj)\<^sup>*"
    using assms successively_rtrancl [of adj y xs] by (simp add: is_cycle_def c)
  ultimately show ?thesis unfolding acyclic_def by (meson rtrancl_into_trancl2)
qed

section \<open>The stored graph\<close>

lemma succs_adjacency: "succs (adjacency nodes edges) n = {ge_to_node_id e | e. e \<in> set edges \<and> ge_from_node_id e = n}"
proof -
  let ?edge = "\<lambda>e adj. hm_insert (ge_from_node_id e)
    ((case map_of adj (ge_from_node_id e) of Some ns \<Rightarrow> ns | None \<Rightarrow> []) @ [ge_to_node_id e]) adj"
  let ?node = "\<lambda>n adj. case map_of adj (gn_id n) of Some _ \<Rightarrow> adj | None \<Rightarrow> hm_insert (gn_id n) [] adj"
  have edge: "succs (?edge e adj) n = succs adj n \<union> (if ge_from_node_id e = n then {ge_to_node_id e} else {})" for e adj
    by (auto simp: succs_def simp del: map_of_eq_Some_iff split: option.splits)
  have "succs (fold ?edge edges adj) n = succs adj n \<union> {ge_to_node_id e | e. e \<in> set edges \<and> ge_from_node_id e = n}" for adj
  proof (induction edges arbitrary: adj)
    case (Cons e edges)
    show ?case unfolding fold.simps comp_def Cons.IH edge by auto
  qed simp
  moreover have node: "succs (?node x adj) n = succs adj n" for x adj
    by (auto simp: succs_def simp del: map_of_eq_Some_iff split: option.splits)
  have "succs (fold ?node nodes adj) n = succs adj n" for adj
  proof (induction nodes arbitrary: adj)
    case (Cons x nodes)
    show ?case unfolding fold.simps comp_def Cons.IH node by (rule refl)
  qed simp
  then have "succs (fold ?node nodes []) n = {}" by (simp add: succs_def)
  ultimately show ?thesis unfolding adjacency_def by simp
qed

lemma white_colors_map: "map_of (white_colors nodes) n = (if n \<in> gn_id ` set nodes then Some White else None)"
proof -
  have "map_of (fold (\<lambda>n color. hm_insert (gn_id n) White color) nodes color) n =
      (if n \<in> gn_id ` set nodes then Some White else map_of color n)" for color :: "(uuid, Color) hmap"
    by (induction nodes arbitrary: color) auto
  then show ?thesis by (simp add: white_colors_def)
qed

lemma set_hash_iteration: "hash_iteration it \<Longrightarrow> set (it m) = set m"
  unfolding hash_iteration_def by (rule mset_eq_setD) (rule spec)

lemma workflow_lists:
  assumes "hash_iteration itn" and "hash_iteration ite"
  shows "\<exists>nodes. list_nodes itn g \<lparr>nf_tenant_id = None, nf_workflow_id = Some w, nf_node_type = None, nf_state = None\<rparr> = Inr nodes \<and>
      set nodes = {x \<in> snd ` set (gs_nodes g). gn_workflow_id x = w}"
    and "\<exists>edges. list_edges ite g \<lparr>ef_tenant_id = None, ef_workflow_id = Some w, ef_from_node_id = None, ef_to_node_id = None,
        ef_edge_type = None\<rparr> = Inr edges \<and> set edges = {e \<in> edges_of g. ge_workflow_id e = w}"
  by (auto simp: list_nodes_def list_edges_def retain_if_def Let_def set_hash_iteration [OF assms(1)] set_hash_iteration [OF assms(2)])

lemma workflow_ends:
  assumes inv: "graph_inv g" and nodes: "set nodes = {x \<in> snd ` set (gs_nodes g). gn_workflow_id x = w}"
    and e: "e \<in> edges_of g" "ge_workflow_id e = w"
  shows "ge_from_node_id e \<in> gn_id ` set nodes" "ge_to_node_id e \<in> gn_id ` set nodes"
proof -
  have node: "n \<in> gn_id ` set nodes" if "get_node g n = Inr x" "gn_workflow_id x = w" for n x
  proof -
    have "map_of (gs_nodes g) n = Some x"
      using that(1) by (simp add: get_node_def del: map_of_eq_Some_iff split: option.splits)
    then have "x \<in> set nodes" using that(2) unfolding nodes by (force dest: map_of_SomeD)
    then show ?thesis using memory.get_id [OF inv that(1)] by blast
  qed
  from memory.from_scope [OF inv e(1)] e(2) node show "ge_from_node_id e \<in> gn_id ` set nodes" by metis
  from memory.to_scope [OF inv e(1)] e(2) node show "ge_to_node_id e \<in> gn_id ` set nodes" by metis
qed

text \<open>The search started on all white nodes, with the number of nodes as fuel.\<close>

lemma dfs_from_white:
  assumes "\<And>n m. m \<in> succs adj n \<Longrightarrow> m \<in> gn_id ` set nodes"
  obtains res where "dfs_roots (length nodes) adj (map gn_id nodes) (white_colors nodes) None = Some res"
    and "case res of Some c \<Rightarrow> is_cycle adj c | None \<Rightarrow> \<forall>n \<in> set (map gn_id nodes). (n, n) \<notin> (links adj)\<^sup>+"
proof -
  have "dfs_inv adj (map_of (white_colors nodes)) []"
    using assms by (simp add: dfs_inv_def white_colors_map dom_def)
  moreover have "set (map gn_id nodes) \<subseteq> dom (map_of (white_colors nodes))" by (auto simp: white_colors_map dom_def)
  moreover have "card (whites (map_of (white_colors nodes))) \<le> length nodes"
  proof -
    have "whites (map_of (white_colors nodes)) = set (map gn_id nodes)" by (auto simp: whites_def white_colors_map)
    then show ?thesis using card_length [of "map gn_id nodes"] by simp
  qed
  ultimately show ?thesis using dfs_roots_correct that by blast
qed

text \<open>
  C30. Cycle detection is exact and always ends. On every reachable graph \<open>detect_cycles\<close> returns, its recursion never
  deeper than the number of nodes; it reports a cycle exactly when the edges of the workflow have
  one, and then the reported path is such a cycle: at least one edge of the workflow between each node and
  the next, the last node being the first.
\<close>

theorem detect_cycles_exact:
  assumes "graph_reachable g" and "hash_iteration itn" and "hash_iteration ite"
  shows "\<exists>res. detect_cycles itn ite g w = Some (Inr res) \<and>
    (has_cycle res \<longleftrightarrow> \<not> acyclic {(ge_from_node_id e, ge_to_node_id e) | e. e \<in> edges_of g \<and> ge_workflow_id e = w}) \<and>
    (case cycle_path res of
       None \<Rightarrow> \<not> has_cycle res
     | Some c \<Rightarrow> has_cycle res \<and> 2 \<le> length c \<and> hd c = last c \<and>
         successively (\<lambda>n m. \<exists>e \<in> edges_of g. ge_workflow_id e = w \<and> ge_from_node_id e = n \<and> ge_to_node_id e = m) c)"
proof -
  have inv: "graph_inv g" using assms(1) by (rule reachable_inv)
  obtain nodes edges where nodes: "list_nodes itn g \<lparr>nf_tenant_id = None, nf_workflow_id = Some w, nf_node_type = None, nf_state = None\<rparr> = Inr nodes"
      "set nodes = {x \<in> snd ` set (gs_nodes g). gn_workflow_id x = w}"
    and edges: "list_edges ite g \<lparr>ef_tenant_id = None, ef_workflow_id = Some w, ef_from_node_id = None, ef_to_node_id = None,
        ef_edge_type = None\<rparr> = Inr edges" "set edges = {e \<in> edges_of g. ge_workflow_id e = w}"
    using workflow_lists(1) [OF assms(2,3), of g w] workflow_lists(2) [OF assms(2,3), of g w] by (elim exE conjE) (rule that)
  define adj where "adj = adjacency nodes edges"
  have succ: "succs adj n = {ge_to_node_id e | e. e \<in> edges_of g \<and> ge_workflow_id e = w \<and> ge_from_node_id e = n}" for n
    unfolding adj_def succs_adjacency edges(2) by auto
  have links: "links adj = {(ge_from_node_id e, ge_to_node_id e) | e. e \<in> edges_of g \<and> ge_workflow_id e = w}"
    by (auto simp: links_def succ)
  note ends = workflow_ends [OF inv nodes(2)]
  have cycle: "(n, n) \<in> (links adj)\<^sup>+ \<Longrightarrow> n \<in> gn_id ` set nodes" for n
  proof -
    assume "(n, n) \<in> (links adj)\<^sup>+"
    then obtain e where "e \<in> edges_of g" "ge_workflow_id e = w" "ge_from_node_id e = n"
      unfolding links by (blast dest: tranclD)
    with ends(1) [OF this(1,2)] show ?thesis by simp
  qed
  show ?thesis
  proof (cases "nodes = []")
    case True
    then have "acyclic (links adj)" using cycle by (auto simp: acyclic_def)
    then show ?thesis using True nodes(1) by (simp add: detect_cycles_def links)
  next
    case False
    have "m \<in> gn_id ` set nodes" if "m \<in> succs adj n" for n m
      using that ends(2) unfolding succ by blast
    then obtain res where res: "dfs_roots (length nodes) adj (map gn_id nodes) (white_colors nodes) None = Some res"
      "case res of Some c \<Rightarrow> is_cycle adj c | None \<Rightarrow> \<forall>n \<in> set (map gn_id nodes). (n, n) \<notin> (links adj)\<^sup>+"
      by (rule dfs_from_white)
    show ?thesis
    proof (cases res)
      case None
      then have "acyclic (links adj)" using res(2) cycle by (auto simp: acyclic_def)
      then show ?thesis using False None res(1) nodes(1) edges(1) by (simp add: detect_cycles_def links flip: adj_def)
    next
      case (Some c)
      then have c: "is_cycle adj c" using res(2) by simp
      then have "\<not> acyclic (links adj)" by (rule cycle_not_acyclic)
      then show ?thesis
        using False Some res(1) nodes(1) edges(1) c by (auto simp: detect_cycles_def links is_cycle_def succ simp flip: adj_def elim: successively_mono)
    qed
  qed
qed

text \<open>The example graph, and the same graph with an edge back to the artifact.\<close>

definition ex_cyclic_graph :: "nat GraphState" where
  "ex_cyclic_graph = snd (create_edge ex_platform 21 0 (ex_edge_request 10 11 DependsOn) ex_graph)"

lemma ex_cyclic_graph_reachable: "graph_reachable ex_cyclic_graph"
  unfolding ex_cyclic_graph_def
  by (rule reach_step [OF ex_graph_reachable step_create_edge])
    (simp add: fresh_edge_def ex_graph_def create_edge_def create_node_def Let_def GraphState_default_def ex_node_request_def ex_edge_request_def)

theorem detect_cycles_exact_witness:
  "\<exists>res c. detect_cycles id id ex_cyclic_graph 2 = Some (Inr res) \<and> cycle_path res = Some c \<and> hd c = last c"
proof -
  have it: "hash_iteration id" by (simp add: hash_iteration_def)
  let ?E = "{(ge_from_node_id e, ge_to_node_id e) | e. e \<in> edges_of ex_cyclic_graph \<and> ge_workflow_id e = 2}"
  have "(11, 10) \<in> ?E" "(10, 11) \<in> ?E"
    by (simp_all add: ex_cyclic_graph_def ex_graph_def create_edge_def create_node_def Let_def GraphState_default_def ex_node_request_def
        ex_edge_request_def conj_disj_distribL conj_disj_distribR ex_disj_distrib)
  then have "(11, 11) \<in> ?E\<^sup>+" by (meson trancl.simps)
  then have "\<not> acyclic ?E" by (auto simp: acyclic_def)
  with detect_cycles_exact [OF ex_cyclic_graph_reachable it it, of 2] show ?thesis
    by (auto split: option.splits)
qed

end
