(* ===== verification/Forensic.thy ===== *)
theory Forensic
  imports Intent_Types Tenant_Store Indexed
begin

text \<open>
  Forensic bundles, \<open>crates/forensic-service\<close>: the hash chain (\<open>chain_hash.rs\<close>), section hashing (\<open>bundle_hasher.rs\<close>),
  bundle generation (\<open>bundle_generator.rs\<close>), the in-memory bundle repository with its status machine (\<open>bundle.rs\<close>,
  \<open>bundle_repo.rs\<close>), in-memory storage (\<open>bundle_storage.rs\<close>), creation (\<open>bundle_service.rs\<close>) and replay verification
  (\<open>bundle_replay.rs\<close>). SHA-256 and the JSON serialisation are third-party code: \<open>sha256\<close> maps a string to its
  hexadecimal digest, and the serialisers are the fields of the record \<open>serializers\<close>.
\<close>

section \<open>The hash chain\<close>

record ChainHashLink =
  chl_previous_bundle_hash :: "string option"
  chl_current_bundle_hash :: string
  chl_chain_hash :: string
  chl_linked_at :: timestamp

definition compute_chain_hash :: "(string \<Rightarrow> string) \<Rightarrow> timestamp \<Rightarrow> string option \<Rightarrow> string \<Rightarrow> ChainHashLink" where
  "compute_chain_hash sha256 now previous_bundle_hash manifest_json =
     (let current_bundle_hash = sha256 manifest_json;
          chain_hash = (case previous_bundle_hash of
              Some prev \<Rightarrow> sha256 (prev @ current_bundle_hash)
            | None \<Rightarrow> current_bundle_hash)
      in \<lparr>chl_previous_bundle_hash = previous_bundle_hash, chl_current_bundle_hash = current_bundle_hash,
          chl_chain_hash = chain_hash, chl_linked_at = now\<rparr>)"

definition debug_option_string :: "string option \<Rightarrow> string" where
  "debug_option_string x = (case x of None \<Rightarrow> ''None'' | Some s \<Rightarrow> ''Some('' @ debug_string s @ '')'')"

text \<open>The loop over the links, with the index, the hash expected next and the failures so far.\<close>

fun verify_chain_loop ::
  "(string \<Rightarrow> string) \<Rightarrow> timestamp \<Rightarrow> nat \<Rightarrow> string option \<Rightarrow> string list \<Rightarrow> (string option \<times> string) list \<Rightarrow> string list" where
  "verify_chain_loop sha256 now idx expected_previous failures [] = failures"
| "verify_chain_loop sha256 now idx expected_previous failures ((prev, manifest) # links) =
     (let failures1 = (if expected_previous \<noteq> prev then
            failures @ [''link '' @ show_nat idx @ '': previous_bundle_hash mismatch: expected '' @
              debug_option_string expected_previous @ '', got '' @ debug_option_string prev]
          else failures);
          computed = compute_chain_hash sha256 now prev manifest
      in verify_chain_loop sha256 now (idx + 1) (Some (chl_chain_hash computed)) failures1 links)"

definition verify_chain ::
  "(string \<Rightarrow> string) \<Rightarrow> timestamp \<Rightarrow> (string option \<times> string) list \<Rightarrow> (string list, unit) result" where
  "verify_chain sha256 now links =
     (let failures = verify_chain_loop sha256 now 0 None [] links in if failures = [] then Inr () else Inl failures)"

section \<open>Section hashes\<close>

record IntentVersionEntry =
  ive_intent_id :: uuid
  ive_version :: i32
  ive_content_hash :: string

record ArtifactEntry =
  are_artifact_id :: uuid
  are_content_hash :: string
  are_collected_at :: timestamp

record ApprovalEntry =
  ape_approval_id :: uuid
  ape_content_hash :: string

record AuditEventEntry =
  aee_event_id :: uuid
  aee_content_hash :: string
  aee_event_index :: usize

record PolicySnapshotEntry =
  pse_snapshot_id :: uuid
  pse_scope_hash :: string

record ContentSectionsForVerification =
  csv_intent_versions :: "IntentVersionEntry list"
  csv_artifacts :: "ArtifactEntry list"
  csv_approvals :: "ApprovalEntry list"
  csv_audit_events :: "AuditEventEntry list"
  csv_policy_snapshots :: "PolicySnapshotEntry list"

record ContentSectionHash =
  csh_section :: string
  csh_content_hash :: string
  csh_item_count :: usize

record BundleIntegrityHash =
  bih_manifest_hash :: string
  bih_intent_versions_hash :: string
  bih_intent_versions_count :: usize
  bih_artifacts_hash :: string
  bih_artifacts_count :: usize
  bih_approvals_hash :: string
  bih_approvals_count :: usize
  bih_audit_events_hash :: string
  bih_audit_events_count :: usize
  bih_policy_snapshots_hash :: string
  bih_policy_snapshots_count :: usize
  bih_computed_at :: timestamp

section \<open>Bundles\<close>

datatype (plugins only: size code) BundleStatus = Pending | Generating | Ready | Failed

datatype (plugins only: size code) BundlePurpose = IncidentInvestigation | ComplianceAudit | Legal

datatype (plugins only: size code) RetentionPolicy = Hot | Cold | Archive

record BundleRetention =
  brt_policy :: RetentionPolicy
  brt_expires_at :: "timestamp option"
  brt_retention_set_at :: timestamp
  brt_retention_set_by :: string

record BundleIntegrity =
  bi_manifest_hash :: string
  bi_previous_bundle_hash :: "string option"
  bi_chain_verified :: bool
  bi_verification_timestamp :: timestamp
  bi_intent_versions_hash :: string
  bi_artifacts_hash :: string
  bi_approvals_hash :: string
  bi_audit_events_hash :: string
  bi_policy_snapshots_hash :: string

record BundleTimeRange =
  btr_start :: timestamp
  btr_end :: timestamp

record BundleContents =
  bc_intent_versions :: usize
  bc_artifacts :: usize
  bc_approvals :: usize
  bc_audit_events :: usize
  bc_policy_snapshots :: usize

record ForensicBundle =
  fb_bundle_id :: uuid
  fb_bundle_version :: string
  fb_created_at :: timestamp
  fb_created_by :: string
  fb_tenant_id :: uuid
  fb_time_range :: BundleTimeRange
  fb_purpose :: BundlePurpose
  fb_status :: BundleStatus
  fb_contents :: BundleContents
  fb_integrity :: BundleIntegrity
  fb_retention :: "BundleRetention option"

definition BundleStatus_is_terminal :: "BundleStatus \<Rightarrow> bool" where
  "BundleStatus_is_terminal s \<longleftrightarrow> s = Ready \<or> s = Failed"

definition BundleStatus_can_transition_to :: "BundleStatus \<Rightarrow> BundleStatus \<Rightarrow> bool" where
  "BundleStatus_can_transition_to s target =
     (if s = target then True
      else case (s, target) of
          (Ready, _) \<Rightarrow> False
        | (Failed, _) \<Rightarrow> False
        | (Pending, Generating) \<Rightarrow> True
        | (Pending, Failed) \<Rightarrow> True
        | (Generating, Ready) \<Rightarrow> True
        | (Generating, Failed) \<Rightarrow> True
        | _ \<Rightarrow> False)"

definition debug_BundleStatus :: "BundleStatus \<Rightarrow> string" where
  "debug_BundleStatus s = (case s of Pending \<Rightarrow> ''Pending'' | Generating \<Rightarrow> ''Generating'' | Ready \<Rightarrow> ''Ready'' | Failed \<Rightarrow> ''Failed'')"

definition BundleRetention_new :: "timestamp \<Rightarrow> RetentionPolicy \<Rightarrow> string \<Rightarrow> BundleRetention" where
  "BundleRetention_new now policy set_by =
     \<lparr>brt_policy = policy, brt_expires_at = None, brt_retention_set_at = now, brt_retention_set_by = set_by\<rparr>"

definition with_expiry :: "BundleRetention \<Rightarrow> timestamp \<Rightarrow> BundleRetention" where
  "with_expiry r expires_at = r\<lparr>brt_expires_at := Some expires_at\<rparr>"

definition ForensicBundle_new ::
  "uuid \<Rightarrow> timestamp \<Rightarrow> timestamp \<Rightarrow> uuid \<Rightarrow> BundleTimeRange \<Rightarrow> BundlePurpose \<Rightarrow> BundleContents \<Rightarrow> string \<Rightarrow> BundleRetention option \<Rightarrow>
   ForensicBundle" where
  "ForensicBundle_new i now1 now2 tenant_id time_range purpose contents created_by retention =
     \<lparr>fb_bundle_id = i, fb_bundle_version = ''v1'', fb_created_at = now1, fb_created_by = created_by, fb_tenant_id = tenant_id,
      fb_time_range = time_range, fb_purpose = purpose, fb_status = Pending, fb_contents = contents,
      fb_integrity = \<lparr>bi_manifest_hash = [], bi_previous_bundle_hash = None, bi_chain_verified = False,
        bi_verification_timestamp = now2, bi_intent_versions_hash = [], bi_artifacts_hash = [], bi_approvals_hash = [],
        bi_audit_events_hash = [], bi_policy_snapshots_hash = []\<rparr>,
      fb_retention = retention\<rparr>"

section \<open>Hashing and generation\<close>

text \<open>\<open>serde_json::to_string\<close> of the five section types and of a bundle; \<open>Inl\<close> is its error message.\<close>

record serializers =
  ser_intent_versions :: "IntentVersionEntry list \<Rightarrow> string + string"
  ser_artifacts :: "ArtifactEntry list \<Rightarrow> string + string"
  ser_approvals :: "ApprovalEntry list \<Rightarrow> string + string"
  ser_audit_events :: "AuditEventEntry list \<Rightarrow> string + string"
  ser_policy_snapshots :: "PolicySnapshotEntry list \<Rightarrow> string + string"
  ser_bundle :: "ForensicBundle \<Rightarrow> string + string"

definition compute_sha256 :: "(string \<Rightarrow> string) \<Rightarrow> ('a \<Rightarrow> string + string) \<Rightarrow> 'a \<Rightarrow> string + string" where
  "compute_sha256 sha256 ser v = (case ser v of Inl e \<Rightarrow> Inl e | Inr json \<Rightarrow> Inr (sha256 json))"

text \<open>One section of \<open>verify_bundle_integrity\<close>: the failures it adds.\<close>

definition check_section :: "string \<Rightarrow> string \<Rightarrow> string + string \<Rightarrow> string list" where
  "check_section name recorded computed =
     (let (fs, h) = (case computed of Inr h \<Rightarrow> ([], h) | Inl e \<Rightarrow> ([name @ '' serialization failed: '' @ e], []))
      in fs @ (if h \<noteq> recorded then [name @ '' hash mismatch: expected '' @ recorded @ '', got '' @ h] else []))"

definition verify_bundle_integrity ::
  "(string \<Rightarrow> string) \<Rightarrow> serializers \<Rightarrow> BundleIntegrityHash \<Rightarrow> ContentSectionsForVerification \<Rightarrow> (string list, unit) result" where
  "verify_bundle_integrity sha256 ser computed sections =
     (let failures =
        check_section ''intent_versions'' (bih_intent_versions_hash computed)
          (compute_sha256 sha256 (ser_intent_versions ser) (csv_intent_versions sections)) @
        check_section ''artifacts'' (bih_artifacts_hash computed)
          (compute_sha256 sha256 (ser_artifacts ser) (csv_artifacts sections)) @
        check_section ''approvals'' (bih_approvals_hash computed)
          (compute_sha256 sha256 (ser_approvals ser) (csv_approvals sections)) @
        check_section ''audit_events'' (bih_audit_events_hash computed)
          (compute_sha256 sha256 (ser_audit_events ser) (csv_audit_events sections)) @
        check_section ''policy_snapshots'' (bih_policy_snapshots_hash computed)
          (compute_sha256 sha256 (ser_policy_snapshots ser) (csv_policy_snapshots sections))
      in if failures = [] then Inr () else Inl failures)"

record GenerateBundleRequest =
  gbr_tenant_id :: uuid
  gbr_time_range :: BundleTimeRange
  gbr_purpose :: BundlePurpose
  gbr_created_by :: string
  gbr_sections :: ContentSectionsForVerification

record BundleGenerationResult =
  bgr_bundle :: ForensicBundle
  bgr_integrity_hash :: BundleIntegrityHash
  bgr_section_hashes :: "ContentSectionHash list"

text \<open>
  \<open>generate\<close> calls \<open>expect\<close> on each hash, so a serialisation error is a panic, \<open>None\<close> here. The five entry lists of the
  request are kept together as \<open>gbr_sections\<close>.
\<close>

definition expect_ok :: "'e + 'a \<Rightarrow> 'a option" where
  "expect_ok x = (case x of Inl _ \<Rightarrow> None | Inr v \<Rightarrow> Some v)"

definition section_contents :: "ContentSectionsForVerification \<Rightarrow> BundleContents" where
  "section_contents s =
     \<lparr>bc_intent_versions = length (csv_intent_versions s), bc_artifacts = length (csv_artifacts s),
      bc_approvals = length (csv_approvals s), bc_audit_events = length (csv_audit_events s),
      bc_policy_snapshots = length (csv_policy_snapshots s)\<rparr>"

definition generate ::
  "(string \<Rightarrow> string) \<Rightarrow> serializers \<Rightarrow> uuid \<Rightarrow> (nat \<Rightarrow> timestamp) \<Rightarrow> GenerateBundleRequest \<Rightarrow> BundleGenerationResult option" where
  "generate sha256 ser i clock r =
     (let s = gbr_sections r; contents = section_contents s in
      Option.bind (expect_ok (compute_sha256 sha256 (ser_intent_versions ser) (csv_intent_versions s))) (\<lambda>intent_versions_hash.
      Option.bind (expect_ok (compute_sha256 sha256 (ser_artifacts ser) (csv_artifacts s))) (\<lambda>artifacts_hash.
      Option.bind (expect_ok (compute_sha256 sha256 (ser_approvals ser) (csv_approvals s))) (\<lambda>approvals_hash.
      Option.bind (expect_ok (compute_sha256 sha256 (ser_audit_events ser) (csv_audit_events s))) (\<lambda>audit_events_hash.
      Option.bind (expect_ok (compute_sha256 sha256 (ser_policy_snapshots ser) (csv_policy_snapshots s))) (\<lambda>policy_snapshots_hash.
        let integrity_hash =
              \<lparr>bih_manifest_hash = [], bih_intent_versions_hash = intent_versions_hash,
               bih_intent_versions_count = bc_intent_versions contents, bih_artifacts_hash = artifacts_hash,
               bih_artifacts_count = bc_artifacts contents, bih_approvals_hash = approvals_hash,
               bih_approvals_count = bc_approvals contents, bih_audit_events_hash = audit_events_hash,
               bih_audit_events_count = bc_audit_events contents, bih_policy_snapshots_hash = policy_snapshots_hash,
               bih_policy_snapshots_count = bc_policy_snapshots contents, bih_computed_at = clock 0\<rparr>;
            bundle0 = ForensicBundle_new i (clock 1) (clock 2) (gbr_tenant_id r) (gbr_time_range r) (gbr_purpose r) contents
              (gbr_created_by r) None;
            bundle1 = bundle0\<lparr>fb_status := Generating,
              fb_integrity := (fb_integrity bundle0)\<lparr>bi_intent_versions_hash := intent_versions_hash,
                bi_artifacts_hash := artifacts_hash, bi_approvals_hash := approvals_hash,
                bi_audit_events_hash := audit_events_hash, bi_policy_snapshots_hash := policy_snapshots_hash,
                bi_verification_timestamp := clock 3, bi_manifest_hash := []\<rparr>\<rparr>;
            section_hashes =
              [\<lparr>csh_section = ''intent_versions'', csh_content_hash = intent_versions_hash, csh_item_count = bc_intent_versions contents\<rparr>,
               \<lparr>csh_section = ''artifacts'', csh_content_hash = artifacts_hash, csh_item_count = bc_artifacts contents\<rparr>,
               \<lparr>csh_section = ''approvals'', csh_content_hash = approvals_hash, csh_item_count = bc_approvals contents\<rparr>,
               \<lparr>csh_section = ''audit_events'', csh_content_hash = audit_events_hash, csh_item_count = bc_audit_events contents\<rparr>,
               \<lparr>csh_section = ''policy_snapshots'', csh_content_hash = policy_snapshots_hash,
                csh_item_count = bc_policy_snapshots contents\<rparr>]
        in map_option (\<lambda>manifest_hash.
             \<lparr>bgr_bundle = bundle1\<lparr>fb_integrity := (fb_integrity bundle1)\<lparr>bi_manifest_hash := manifest_hash\<rparr>\<rparr>,
              bgr_integrity_hash = integrity_hash\<lparr>bih_manifest_hash := manifest_hash\<rparr>,
              bgr_section_hashes = section_hashes\<rparr>)
           (expect_ok (compute_sha256 sha256 (ser_bundle ser) bundle1))))))))"

end
