(* ===== verification/Intent_Repo.thy ===== *)
theory Intent_Repo
  imports Intent_Types Indexed
begin

text \<open>
  The in-memory intent repository, \<open>crates/intent-service/src/in_memory_intent_repository.rs\<close>: creation of an intent with
  its first version, creation of further versions under optimistic concurrency control, lookups. A write takes the three locks of the
  repository together and is one function on the state. Identifiers, the time and the hash of a payload are
  arguments (\<open>compute_payload_hash\<close> of \<open>lib.rs\<close> is SHA-256 over the JSON text, both third-party code).
\<close>

section \<open>Requests and responses\<close>

record 'j CreateIntentRequest =
  cir_tenant_id :: "uuid option"
  cir_workflow_id :: uuid
  cir_source_refs :: "SourceRef list"
  cir_payload :: "'j IntentPayload"
  cir_created_by :: ActorRef
  cir_tags :: "string list"

record CreateIntentResponse =
  cis_intent_id :: uuid
  cis_current_version :: i32
  cis_status :: IntentStatus

record 'j CreateVersionRequest =
  cvr_payload :: "'j IntentPayload"
  cvr_change_reason :: string
  cvr_change_channel :: ChangeChannel
  cvr_created_by :: ActorRef

record CreateVersionResponse =
  cvs_intent_version_id :: uuid
  cvs_intent_id :: uuid
  cvs_version_number :: i32
  cvs_status :: VersionStatus

section \<open>The repository\<close>

record 'j IntentRepo =
  ir_intents :: "(uuid, Intent) hmap"
  ir_versions :: "(uuid, 'j IntentVersion) hmap"
  ir_versions_by_intent :: "(uuid, uuid list) hmap"

definition IntentRepo_new :: "'j IntentRepo" where
  "IntentRepo_new = \<lparr>ir_intents = [], ir_versions = [], ir_versions_by_intent = []\<rparr>"

definition compute_payload_hash :: "(string \<Rightarrow> string) \<Rightarrow> ('j IntentPayload \<Rightarrow> string + string) \<Rightarrow> 'j IntentPayload \<Rightarrow> string" where
  "compute_payload_hash sha256 to_json payload = sha256 (case to_json payload of Inr json \<Rightarrow> json | Inl _ \<Rightarrow> [])"

definition create_intent_tx ::
  "('j IntentPayload \<Rightarrow> string) \<Rightarrow> uuid \<Rightarrow> uuid \<Rightarrow> uuid \<Rightarrow> timestamp \<Rightarrow> 'j CreateIntentRequest \<Rightarrow> 'j IntentRepo \<Rightarrow>
   CreateIntentResponse ire_result \<times> 'j IntentRepo" where
  "create_intent_tx hash intent_id version_id default_tenant now request r =
     (let tenant_id = (case cir_tenant_id request of Some t \<Rightarrow> t | None \<Rightarrow> default_tenant);
          intent = \<lparr>i_id = intent_id, i_tenant_id = tenant_id, i_workflow_id = cir_workflow_id request, i_current_version = 1,
            i_status = IntentStatus.Active, i_created_at = now, i_created_by = cir_created_by request,
            i_source_refs = cir_source_refs request, i_tags = cir_tags request\<rparr>;
          version = \<lparr>v_id = version_id, v_intent_id = intent_id, v_version_number = 1, v_parent_version_id = None,
            v_created_at = now, v_created_by = cir_created_by request, v_change_reason = ''Initial creation'',
            v_change_channel = UserEdit, v_status = VersionStatus.Active, v_hash = hash (cir_payload request),
            v_payload = cir_payload request\<rparr>
      in (Inr \<lparr>cis_intent_id = intent_id, cis_current_version = 1, cis_status = IntentStatus.Active\<rparr>,
          r\<lparr>ir_intents := hm_insert intent_id intent (ir_intents r), ir_versions := hm_insert version_id version (ir_versions r),
            ir_versions_by_intent := hm_insert intent_id [version_id] (ir_versions_by_intent r)\<rparr>))"

definition get_intent :: "'j IntentRepo \<Rightarrow> uuid \<Rightarrow> Intent ire_result" where
  "get_intent r i = (case map_of (ir_intents r) i of Some x \<Rightarrow> Inr x | None \<Rightarrow> Inl (IntentNotFound i))"

text \<open>The row version is not tracked in memory: the argument is ignored.\<close>

definition create_version_with_occ ::
  "('j IntentPayload \<Rightarrow> string) \<Rightarrow> uuid \<Rightarrow> timestamp \<Rightarrow> uuid \<Rightarrow> 'j CreateVersionRequest \<Rightarrow> i32 \<Rightarrow> i32 \<Rightarrow> 'j IntentRepo \<Rightarrow>
   CreateVersionResponse ire_result \<times> 'j IntentRepo" where
  "create_version_with_occ hash version_id now intent_id request expected_version expected_row_version r =
     (case map_of (ir_intents r) intent_id of
        None \<Rightarrow> (Inl (IntentNotFound intent_id), r)
      | Some intent \<Rightarrow>
          if i_current_version intent \<noteq> expected_version then (Inl (ConcurrencyConflict intent_id), r)
          else
            let new_version_number = i32_wrap (i_current_version intent + 1);
                parent_version_id = (case map_of (ir_versions_by_intent r) intent_id of
                    Some ids \<Rightarrow> (if ids = [] then None else Some (last ids)) | None \<Rightarrow> None);
                version = \<lparr>v_id = version_id, v_intent_id = intent_id, v_version_number = new_version_number,
                  v_parent_version_id = parent_version_id, v_created_at = now, v_created_by = cvr_created_by request,
                  v_change_reason = cvr_change_reason request, v_change_channel = cvr_change_channel request,
                  v_status = VersionStatus.Active, v_hash = hash (cvr_payload request), v_payload = cvr_payload request\<rparr>
            in (Inr \<lparr>cvs_intent_version_id = version_id, cvs_intent_id = intent_id, cvs_version_number = new_version_number,
                  cvs_status = VersionStatus.Active\<rparr>,
                r\<lparr>ir_intents := hm_insert intent_id (intent\<lparr>i_current_version := new_version_number\<rparr>) (ir_intents r),
                  ir_versions := hm_insert version_id version (ir_versions r),
                  ir_versions_by_intent := index_push intent_id version_id (ir_versions_by_intent r)\<rparr>))"

definition get_version :: "'j IntentRepo \<Rightarrow> uuid \<Rightarrow> 'j IntentVersion ire_result" where
  "get_version r i = (case map_of (ir_versions r) i of Some v \<Rightarrow> Inr v | None \<Rightarrow> Inl (IntentVersionNotFound i))"

definition get_versions_by_intent :: "'j IntentRepo \<Rightarrow> uuid \<Rightarrow> 'j IntentVersion list" where
  "get_versions_by_intent r intent_id = sort_key v_version_number (indexed (ir_versions r) (ir_versions_by_intent r) intent_id)"

definition get_version_by_intent_and_number ::
  "(uuid \<Rightarrow> string) \<Rightarrow> 'j IntentRepo \<Rightarrow> uuid \<Rightarrow> i32 \<Rightarrow> 'j IntentVersion ire_result" where
  "get_version_by_intent_and_number us r intent_id version_number =
     (case List.find (\<lambda>v. v_version_number v = version_number) (get_versions_by_intent r intent_id) of
        Some v \<Rightarrow> Inr v
      | None \<Rightarrow> Inl (InvalidIntentVersion (''version '' @ show_int version_number @ '' not found for intent '' @ us intent_id)))"

definition get_intent_for_update :: "'j IntentRepo \<Rightarrow> uuid \<Rightarrow> (Intent \<times> i32) ire_result" where
  "get_intent_for_update r i = (case get_intent r i of Inr x \<Rightarrow> Inr (x, 0) | Inl e \<Rightarrow> Inl e)"

section \<open>Version histories\<close>

text \<open>
  The steps of the repository: an intent is created under a fresh identifier, or a version is requested with any
  expectation. \<open>intent_reach n r\<close>: the repository is reached in \<open>n\<close> steps.
\<close>

inductive intent_step :: "'j IntentRepo \<Rightarrow> 'j IntentRepo \<Rightarrow> bool" where
  step_intent: "map_of (ir_intents r) i = None \<Longrightarrow> map_of (ir_versions r) v = None \<Longrightarrow>
    intent_step r (snd (create_intent_tx hash i v t now request r))"
| step_version: "map_of (ir_versions r) v = None \<Longrightarrow>
    intent_step r (snd (create_version_with_occ hash v now i request' expected row r))"

inductive intent_steps :: "nat \<Rightarrow> 'j IntentRepo \<Rightarrow> 'j IntentRepo \<Rightarrow> bool" where
  steps_refl: "intent_steps 0 r r"
| steps_next: "intent_steps n r r' \<Longrightarrow> intent_step r' r'' \<Longrightarrow> intent_steps (Suc n) r r''"

inductive_cases intent_stepE: "intent_step r r'"

abbreviation intent_reach :: "nat \<Rightarrow> 'j IntentRepo \<Rightarrow> bool" where
  "intent_reach n r \<equiv> intent_steps n IntentRepo_new r"

text \<open>The abstract view: the history of an intent is the list of its versions, oldest first.\<close>

definition version_log :: "'j IntentRepo \<Rightarrow> uuid \<Rightarrow> 'j IntentVersion list" where
  "version_log r i = indexed (ir_versions r) (ir_versions_by_intent r) i"

text \<open>A history is numbered from 1, and every version but the first names its predecessor as parent.\<close>

definition entry_ok :: "uuid \<Rightarrow> 'j IntentVersion list \<Rightarrow> nat \<Rightarrow> bool" where
  "entry_ok i vs k \<longleftrightarrow> v_intent_id (vs ! k) = i \<and> v_version_number (vs ! k) = int k + 1 \<and>
     v_parent_version_id (vs ! k) = (if k = 0 then None else Some (v_id (vs ! (k - 1))))"

definition log_ok :: "uuid \<Rightarrow> 'j IntentVersion list \<Rightarrow> bool" where
  "log_ok i vs \<longleftrightarrow> (\<forall>k < length vs. entry_ok i vs k)"

text \<open>The stored intent counts the versions of its history; an intent that is not stored has none.\<close>

fun head_ok :: "nat \<Rightarrow> uuid \<Rightarrow> 'j IntentVersion list \<Rightarrow> Intent option \<Rightarrow> bool" where
  "head_ok n i vs (Some x) \<longleftrightarrow> i_id x = i \<and> i_current_version x = int (length vs) \<and> vs \<noteq> [] \<and> length vs \<le> n"
| "head_ok n i vs None \<longleftrightarrow> vs = []"

definition intent_inv :: "nat \<Rightarrow> 'j IntentRepo \<Rightarrow> bool" where
  "intent_inv n r \<longleftrightarrow>
     (\<forall>i v. map_of (ir_versions r) i = Some v \<longrightarrow> v_id v = i) \<and>
     (\<forall>i. map (map_of (ir_versions r)) (index_ids (ir_versions_by_intent r) i) = map Some (version_log r i)) \<and>
     (\<forall>i. log_ok i (version_log r i)) \<and> (\<forall>i. head_ok n i (version_log r i) (map_of (ir_intents r) i))"

lemma entry_ok_append: "k < length vs \<Longrightarrow> entry_ok i (vs @ ws) k = entry_ok i vs k"
  by (simp add: entry_ok_def nth_append less_imp_diff_less)

lemma entry_ok_last:
  "entry_ok i (vs @ [v]) (length vs) \<longleftrightarrow> v_intent_id v = i \<and> v_version_number v = int (length vs) + 1 \<and>
     v_parent_version_id v = (if vs = [] then None else Some (v_id (last vs)))"
  by (cases vs rule: rev_cases) (simp_all add: entry_ok_def nth_append)

lemma log_ok_snoc:
  "log_ok i (vs @ [v]) \<longleftrightarrow> log_ok i vs \<and> v_intent_id v = i \<and> v_version_number v = int (length vs) + 1 \<and>
     v_parent_version_id v = (if vs = [] then None else Some (v_id (last vs)))"
  unfolding entry_ok_last [symmetric] by (simp add: log_ok_def All_less_Suc entry_ok_append conj_commute)

lemma log_ok_sorted: "log_ok i vs \<Longrightarrow> map v_version_number vs = map (\<lambda>k. int k + 1) [0..<length vs]"
  by (rule nth_equalityI) (simp_all add: log_ok_def entry_ok_def)

lemma sorted_numbers: "sorted (map (\<lambda>k. int k + 1) [0..<n])"
  by (simp add: sorted_iff_nth_mono)

lemma versions_log: "log_ok i (version_log r i) \<Longrightarrow> get_versions_by_intent r i = version_log r i"
  unfolding get_versions_by_intent_def version_log_def [symmetric]
  by (rule sort_key_id_if_sorted) (simp add: log_ok_sorted sorted_numbers)

lemma log_number: "log_ok i vs \<Longrightarrow> k < length vs \<Longrightarrow> v_version_number (vs ! k) = int k + 1"
  by (simp add: log_ok_def entry_ok_def)

lemma find_number:
  assumes "log_ok i vs"
  shows "List.find (\<lambda>v. v_version_number v = n) vs = (if 1 \<le> n \<and> n \<le> int (length vs) then Some (vs ! nat (n - 1)) else None)"
proof (cases "1 \<le> n \<and> n \<le> int (length vs)")
  case True
  then have lt: "nat (n - 1) < length vs" by linarith
  have "List.find (\<lambda>v. v_version_number v = n) vs = Some (vs ! nat (n - 1))"
    unfolding find_Some_iff
  proof (intro exI [of _ "nat (n - 1)"] conjI allI impI lt refl)
    show "v_version_number (vs ! nat (n - 1)) = n" using True by (simp add: log_number [OF assms lt])
    show "v_version_number (vs ! j) \<noteq> n" if "j < nat (n - 1)" for j
      using that lt True log_number [OF assms, of j] by linarith
  qed
  with True show ?thesis by simp
next
  case False
  then have "List.find (\<lambda>v. v_version_number v = n) vs = None"
    unfolding find_None_iff by (auto simp: in_set_conv_nth log_number [OF assms])
  with False show ?thesis by (simp only: if_False)
qed


section \<open>Preservation\<close>

lemma intent_invD:
  assumes "intent_inv n r"
  shows "\<And>k v. map_of (ir_versions r) k = Some v \<Longrightarrow> v_id v = k"
    and "\<And>i. map (map_of (ir_versions r)) (index_ids (ir_versions_by_intent r) i) = map Some (version_log r i)"
    and "\<And>i. log_ok i (version_log r i)" and "\<And>i. head_ok n i (version_log r i) (map_of (ir_intents r) i)"
  using assms unfolding intent_inv_def by blast+

lemma head_ok_mono: "head_ok n i vs x \<Longrightarrow> n \<le> m \<Longrightarrow> head_ok m i vs x"
  by (cases x) auto

lemma intent_inv_mono: "intent_inv n r \<Longrightarrow> n \<le> m \<Longrightarrow> intent_inv m r"
  unfolding intent_inv_def using head_ok_mono by blast

lemma intent_inv_new: "intent_inv 0 IntentRepo_new"
  by (simp add: intent_inv_def IntentRepo_new_def version_log_def indexed_def log_ok_def map_filter_simps)

definition appends :: "uuid \<Rightarrow> 'j IntentVersion \<Rightarrow> 'j IntentRepo \<Rightarrow> 'j IntentRepo \<Rightarrow> bool" where
  "appends i w r r' \<longleftrightarrow> (\<forall>j. version_log r' j = version_log r j @ (if j = i then [w] else []))"

text \<open>A version stored under a fresh identifier is appended to the history it is indexed in and leaves the others alone.\<close>

lemma lookup_ids:
  assumes "map (map_of t) ids = map Some vs" and "map_of t v = None"
  shows "map ((map_of t)(v \<mapsto> x)) ids = map Some vs" and "List.map_filter ((map_of t)(v \<mapsto> x)) ids = vs"
    and "List.map_filter (map_of t) ids = vs"
proof -
  have "map_of t i \<noteq> None" if "i \<in> set ids" for i
    using that arg_cong [OF assms(1), of set] by (force simp: set_eq_iff)
  then have "v \<notin> set ids" using assms(2) by blast
  then have eq: "map ((map_of t)(v \<mapsto> x)) ids = map (map_of t) ids" by auto
  have filt: "List.map_filter f ids = vs" if "map f ids = map Some vs" for f :: "'b \<Rightarrow> 'a option"
    using that by (induction ids arbitrary: vs) (auto simp: map_filter_simps Cons_eq_map_conv)
  show "map ((map_of t)(v \<mapsto> x)) ids = map Some vs" using eq assms(1) by simp
  then show "List.map_filter ((map_of t)(v \<mapsto> x)) ids = vs" by (rule filt)
  show "List.map_filter (map_of t) ids = vs" using assms(1) by (rule filt)
qed

lemma stored_version:
  assumes inv: "intent_inv n r" and fresh: "map_of (ir_versions r) v = None" and num: "v_id w = v" "v_intent_id w = i"
    "v_version_number w = int (length (version_log r i)) + 1"
    "v_parent_version_id w = (if version_log r i = [] then None else Some (v_id (last (version_log r i))))"
    and intents: "map_of (ir_intents r') = (map_of (ir_intents r))(i \<mapsto> x)" "i_id x = i"
      "i_current_version x = int (length (version_log r i)) + 1"
    and versions: "ir_versions r' = hm_insert v w (ir_versions r)"
    and ids: "\<And>j. index_ids (ir_versions_by_intent r') j = index_ids (ir_versions_by_intent r) j @ (if j = i then [v] else [])"
    and bound: "length (version_log r i) \<le> n"
  shows "intent_inv (Suc n) r' \<and> appends i w r r'"
proof -
  note old = intent_invD [OF inv] and look = lookup_ids [OF intent_invD(2) [OF inv] fresh]
  have log: "version_log r' j = version_log r j @ (if j = i then [w] else [])" for j
    unfolding version_log_def [of r'] indexed_def ids versions by (simp add: look map_filter_append map_filter_simps)
  have "map (map_of (ir_versions r')) (index_ids (ir_versions_by_intent r') j) = map Some (version_log r' j)" for j
    unfolding ids versions log by (simp add: look)
  moreover have "log_ok j (version_log r' j)" for j
    unfolding log using old(3) by (simp add: log_ok_snoc num)
  moreover have "head_ok (Suc n) j (version_log r' j) (map_of (ir_intents r') j)" for j
    unfolding log intents(1) using old(4) [of j] bound by (cases "j = i") (auto simp: intents intro: head_ok_mono)
  ultimately show ?thesis
    unfolding intent_inv_def appends_def using log old(1) num(1) by (auto simp: versions simp del: map_of_eq_Some_iff)
qed

lemma parent_of_log:
  assumes "intent_inv n r"
  shows "(case map_of (ir_versions_by_intent r) i of Some ids \<Rightarrow> (if ids = [] then None else Some (last ids)) | None \<Rightarrow> None) =
    (if version_log r i = [] then None else Some (v_id (last (version_log r i))))"
proof -
  let ?ids = "index_ids (ir_versions_by_intent r) i"
  note look = intent_invD(2) [OF assms, of i]
  have "?ids = [] \<longleftrightarrow> version_log r i = []" using arg_cong [OF look, of length] by (metis length_0_conv length_map)
  moreover have "v_id (last (version_log r i)) = last ?ids" if "?ids \<noteq> []" "version_log r i \<noteq> []"
    using arg_cong [OF look, of last] that intent_invD(1) [OF assms] by (simp add: last_map del: map_of_eq_Some_iff)
  moreover have "(case map_of (ir_versions_by_intent r) i of Some ids \<Rightarrow> (if ids = [] then None else Some (last ids)) | None \<Rightarrow> None) =
      (if ?ids = [] then None else Some (last ?ids))"
    by (simp split: option.split)
  ultimately show ?thesis by auto
qed

text \<open>What a step does to the histories: nothing, or it appends one version to one of them.\<close>

definition log_step :: "'j IntentRepo \<Rightarrow> 'j IntentRepo \<Rightarrow> bool" where
  "log_step r r' \<longleftrightarrow> r' = r \<or> (\<exists>i w. appends i w r r')"

lemma create_intent_step:
  assumes inv: "intent_inv n r" and fresh: "map_of (ir_intents r) i = None" "map_of (ir_versions r) v = None"
  shows "intent_inv (Suc n) (snd (create_intent_tx hash i v t now request r)) \<and> log_step r (snd (create_intent_tx hash i v t now request r))"
    (is "intent_inv _ ?r' \<and> _")
proof -
  have empty: "version_log r i = []" using intent_invD(4) [OF inv, of i] fresh(1) by simp
  then have ids: "index_ids (ir_versions_by_intent r) i = []" using intent_invD(2) [OF inv, of i] by (metis map_is_Nil_conv)
  have "intent_inv (Suc n) ?r' \<and> appends i (the (map_of (ir_versions ?r') v)) r ?r'"
    by (rule stored_version [OF inv fresh(2), where x = "the (map_of (ir_intents ?r') i)"])
      (simp_all add: create_intent_tx_def Let_def empty ids)
  then show ?thesis unfolding log_step_def by blast
qed

text \<open>A version is created exactly when the expectation names the current version.\<close>

lemma create_version_cases:
  assumes inv: "intent_inv n r" and fresh: "map_of (ir_versions r) v = None" and bound: "Suc n < 2 ^ 31"
  shows "case create_version_with_occ hash v now i request expected row r of
      (Inl e, r') \<Rightarrow> r' = r \<and> (if map_of (ir_intents r) i = None then e = IntentNotFound i
        else e = ConcurrencyConflict i \<and> expected \<noteq> int (length (version_log r i)))
    | (Inr resp, r') \<Rightarrow> map_of (ir_intents r) i \<noteq> None \<and> expected = int (length (version_log r i)) \<and>
        cvs_version_number resp = expected + 1 \<and> intent_inv (Suc n) r' \<and>
        (\<exists>w. v_payload w = cvr_payload request \<and> v_id w = v \<and> appends i w r r')"
proof (cases "map_of (ir_intents r) i")
  case (Some x)
  have head: "i_id x = i" "i_current_version x = int (length (version_log r i))" "length (version_log r i) \<le> n"
    using intent_invD(4) [OF inv, of i] by (simp_all add: Some del: map_of_eq_Some_iff)
  show ?thesis
  proof (cases "expected = int (length (version_log r i))")
    case True
    let ?r' = "snd (create_version_with_occ hash v now i request expected row r)"
    let ?w = "the (map_of (ir_versions ?r') v)"
    have wrap: "i32_wrap (expected + 1) = expected + 1" using head(3) bound True by simp
    have "intent_inv (Suc n) ?r' \<and> appends i ?w r ?r'"
      by (rule stored_version [OF inv fresh, where x = "the (map_of (ir_intents ?r') i)"])
        (use Some True head wrap in \<open>simp_all add: create_version_with_occ_def Let_def parent_of_log [OF inv] index_ids_push\<close>)
    moreover have "v_payload ?w = cvr_payload request" "v_id ?w = v"
      using Some True head by (simp_all add: create_version_with_occ_def Let_def)
    ultimately obtain w where w: "intent_inv (Suc n) ?r'" "appends i w r ?r'" "v_payload w = cvr_payload request" "v_id w = v"
      by blast
    obtain resp where eq: "create_version_with_occ hash v now i request expected row r = (Inr resp, ?r')"
      and resp: "cvs_version_number resp = expected + 1"
      using Some True head wrap by (simp add: create_version_with_occ_def Let_def)
    show ?thesis
      by (subst eq) (use w resp Some True in \<open>auto simp del: map_of_eq_Some_iff\<close>)
  qed (use Some head in \<open>simp add: create_version_with_occ_def\<close>)
qed (simp add: create_version_with_occ_def)

lemma intent_step_inv:
  assumes "intent_step r r'" and "intent_inv n r" and "Suc n < 2 ^ 31"
  shows "intent_inv (Suc n) r' \<and> log_step r r'"
  using assms(1)
proof (cases rule: intent_step.cases)
  case (step_intent i v hash t now request)
  then show ?thesis using create_intent_step [OF assms(2)] by simp
next
  case (step_version v hash now i request expected row)
  then show ?thesis
    using create_version_cases [OF assms(2) step_version(2) assms(3), where hash = hash and now = now and i = i and request = request and
      expected = expected and row = row] intent_inv_mono [OF assms(2)]
    by (auto simp: log_step_def split: prod.splits sum.splits)
qed

lemma steps_inv:
  assumes "intent_steps m r r'" and "intent_inv n r" and "n + m < 2 ^ 31"
  shows "intent_inv (n + m) r' \<and> (\<forall>i. \<exists>ws. version_log r' i = version_log r i @ ws)"
  using assms
proof (induction rule: intent_steps.induct)
  case (steps_next m r r' r'')
  then have IH: "intent_inv (n + m) r'" "\<forall>i. \<exists>ws. version_log r' i = version_log r i @ ws" by simp_all
  from intent_step_inv [OF steps_next(2) IH(1)] steps_next.prems have "intent_inv (n + Suc m) r''" "log_step r' r''" by simp_all
  with IH(2) show ?case unfolding log_step_def appends_def by (metis append.assoc)
qed simp

lemma intent_reach_inv: "intent_reach n r \<Longrightarrow> n < 2 ^ 31 \<Longrightarrow> intent_inv n r"
  using steps_inv [OF _ intent_inv_new, of n r] by simp

lemma version_lookup:
  assumes "intent_inv n r" and "map_of (ir_intents r) i = Some x"
  shows "get_version_by_intent_and_number us r i k =
    (if 1 \<le> k \<and> k \<le> i_current_version x then Inr (get_versions_by_intent r i ! nat (k - 1))
     else Inl (InvalidIntentVersion (''version '' @ show_int k @ '' not found for intent '' @ us i)))"
  using intent_invD(4) [OF assms(1), of i] unfolding assms(2)
  by (simp add: get_version_by_intent_and_number_def versions_log intent_invD(3) [OF assms(1)] find_number [OF intent_invD(3) [OF assms(1)]])

lemma occ_outcome:
  assumes "intent_inv n r" and "map_of (ir_intents r) i = Some x" and "n < 2 ^ 31 - 1"
  shows "case fst (create_version_with_occ hash v now i request expected row r) of
      Inr resp \<Rightarrow> expected = i_current_version x \<and> cvs_version_number resp = i_current_version x + 1
    | Inl e \<Rightarrow> expected \<noteq> i_current_version x \<and> e = ConcurrencyConflict i"
proof -
  have "int (length (version_log r i)) = i_current_version x" "length (version_log r i) \<le> n"
    using intent_invD(4) [OF assms(1), of i] by (simp_all add: assms(2) del: map_of_eq_Some_iff)
  then have "i32_wrap (i_current_version x + 1) = i_current_version x + 1" using assms(3) by simp
  then show ?thesis
    by (cases "expected = i_current_version x") (simp_all add: create_version_with_occ_def Let_def assms(2) del: map_of_eq_Some_iff)
qed

end
