(* ===== verification/Policy_Snapshots.thy ===== *)
theory Policy_Snapshots
  imports Intent_Types Tenant_Store
begin

text \<open>
  Policy snapshots: the types and the canonical hash of \<open>crates/intent-rebase-types/src/policy_snapshot.rs\<close> and the
  in-memory repository of \<open>crates/intent-service/src/policy_snapshot_repo.rs\<close>. Here the structure of JSON values matters, so they are a
  datatype: a number is kept as its text, an object as its entries in the order of iteration. \<open>to_text\<close>
  is \<open>serde_json::to_string\<close>, which does not fail on values.
\<close>

section \<open>JSON values and their canonical form\<close>

datatype json = JNull | JBool bool | JNumber string | JString string | JArray "json list" | JObject "(string \<times> json) list"

primrec canonicalize_json_value :: "json \<Rightarrow> json" where
  "canonicalize_json_value JNull = JNull"
| "canonicalize_json_value (JBool b) = JBool b"
| "canonicalize_json_value (JNumber n) = JNumber n"
| "canonicalize_json_value (JString s) = JString s"
| "canonicalize_json_value (JArray xs) = JArray (map canonicalize_json_value xs)"
| "canonicalize_json_value (JObject m) = JObject (sort_key fst (map (map_prod id canonicalize_json_value) m))"

definition canonicalize_array_sorted :: "(json \<Rightarrow> string) \<Rightarrow> json list \<Rightarrow> json list" where
  "canonicalize_array_sorted to_text arr = sort_key to_text (map canonicalize_json_value arr)"

section \<open>Snapshots\<close>

datatype (plugins only: size code) ScopeType = Full | Partial | None_scope

definition ScopeType_to_json :: "ScopeType \<Rightarrow> json" where
  "ScopeType_to_json t = JString (case t of Full \<Rightarrow> ''full'' | Partial \<Rightarrow> ''partial'' | None_scope \<Rightarrow> ''none'')"

record ScopeDefinition =
  scd_scope_type :: ScopeType
  scd_affected_resources :: "json list"
  scd_required_approvers :: "json list"
  scd_min_approvals :: i32

definition ScopeDefinition_default :: ScopeDefinition where
  "ScopeDefinition_default = \<lparr>scd_scope_type = None_scope, scd_affected_resources = [], scd_required_approvers = [], scd_min_approvals = 1\<rparr>"

definition canonicalize_scope_definition :: "(json \<Rightarrow> string) \<Rightarrow> ScopeDefinition \<Rightarrow> json" where
  "canonicalize_scope_definition to_text scope = JObject
     [(''affected_resources'', JArray (canonicalize_array_sorted to_text (scd_affected_resources scope))),
      (''min_approvals'', JNumber (show_int (scd_min_approvals scope))),
      (''required_approvers'', JArray (canonicalize_array_sorted to_text (scd_required_approvers scope))),
      (''scope_type'', ScopeType_to_json (scd_scope_type scope))]"

definition compute_scope_hash :: "(string \<Rightarrow> string) \<Rightarrow> (json \<Rightarrow> string) \<Rightarrow> ScopeDefinition \<Rightarrow> string" where
  "compute_scope_hash sha256 to_text scope = sha256 (to_text (canonicalize_scope_definition to_text scope))"

record PolicySnapshot =
  ps_id :: uuid
  ps_tenant_id :: uuid
  ps_intent_id :: uuid
  ps_intent_version :: i32
  ps_rule_pack_version :: string
  ps_scope_definition :: ScopeDefinition
  ps_scope_hash :: string
  ps_snapshot_uri :: string
  ps_created_at :: timestamp
  ps_canonicalized_at :: timestamp

definition PolicySnapshot_new ::
  "(string \<Rightarrow> string) \<Rightarrow> (json \<Rightarrow> string) \<Rightarrow> (uuid \<Rightarrow> string) \<Rightarrow> uuid \<Rightarrow> timestamp \<Rightarrow> uuid \<Rightarrow> uuid \<Rightarrow> i32 \<Rightarrow> string \<Rightarrow> ScopeDefinition \<Rightarrow>
   PolicySnapshot" where
  "PolicySnapshot_new sha256 to_text us i now tenant_id intent_id intent_version rule_pack_version scope_definition =
     \<lparr>ps_id = i, ps_tenant_id = tenant_id, ps_intent_id = intent_id, ps_intent_version = intent_version,
      ps_rule_pack_version = rule_pack_version, ps_scope_definition = scope_definition,
      ps_scope_hash = compute_scope_hash sha256 to_text scope_definition,
      ps_snapshot_uri = ''memory://policy-snapshots/'' @ us intent_id @ ''/v'' @ show_int intent_version,
      ps_created_at = now, ps_canonicalized_at = now\<rparr>"

section \<open>The repository\<close>

record SnapshotRepo =
  psr_snapshots :: "(uuid, PolicySnapshot) hmap"
  psr_by_intent :: "(uuid, uuid list) hmap"

definition SnapshotRepo_new :: SnapshotRepo where
  "SnapshotRepo_new = \<lparr>psr_snapshots = [], psr_by_intent = []\<rparr>"

definition create_snapshot :: "PolicySnapshot \<Rightarrow> SnapshotRepo \<Rightarrow> PolicySnapshot ire_result \<times> SnapshotRepo" where
  "create_snapshot p r =
     (Inr p, r\<lparr>psr_snapshots := hm_insert (ps_id p) p (psr_snapshots r),
        psr_by_intent := index_push (ps_intent_id p) (ps_id p) (psr_by_intent r)\<rparr>)"

definition get_snapshot :: "SnapshotRepo \<Rightarrow> uuid \<Rightarrow> uuid \<Rightarrow> PolicySnapshot ire_result" where
  "get_snapshot r i tenant_id =
     (case map_of (psr_snapshots r) i of
        Some p \<Rightarrow> if ps_tenant_id p = tenant_id then Inr p else Inl (PolicySnapshotNotFound i)
      | None \<Rightarrow> Inl (PolicySnapshotNotFound i))"

definition ps_list_by_intent :: "SnapshotRepo \<Rightarrow> uuid \<Rightarrow> uuid \<Rightarrow> PolicySnapshot list" where
  "ps_list_by_intent r intent_id tenant_id =
     sort_key (\<lambda>p. - ps_intent_version p)
       (filter (\<lambda>p. ps_tenant_id p = tenant_id) (indexed (psr_snapshots r) (psr_by_intent r) intent_id))"

definition get_latest_by_intent :: "SnapshotRepo \<Rightarrow> uuid \<Rightarrow> uuid \<Rightarrow> PolicySnapshot option" where
  "get_latest_by_intent r intent_id tenant_id =
     (case ps_list_by_intent r intent_id tenant_id of [] \<Rightarrow> None | p # _ \<Rightarrow> Some p)"

definition get_by_intent_version :: "SnapshotRepo \<Rightarrow> uuid \<Rightarrow> i32 \<Rightarrow> uuid \<Rightarrow> PolicySnapshot option" where
  "get_by_intent_version r intent_id intent_version tenant_id =
     List.find (\<lambda>p. ps_tenant_id p = tenant_id \<and> ps_intent_version p = intent_version)
       (indexed (psr_snapshots r) (psr_by_intent r) intent_id)"

definition snapshot_inv :: "SnapshotRepo \<Rightarrow> bool" where
  "snapshot_inv r \<longleftrightarrow> (\<forall>i p. map_of (psr_snapshots r) i = Some p \<longrightarrow> ps_id p = i) \<and>
     index_ok ps_intent_id (psr_snapshots r) (psr_by_intent r)"

lemma snapshot_inv_new: "snapshot_inv SnapshotRepo_new"
  by (simp add: snapshot_inv_def SnapshotRepo_new_def)

lemma snapshot_inv_create:
  "snapshot_inv r \<Longrightarrow> map_of (psr_snapshots r) (ps_id p) = None \<Longrightarrow> snapshot_inv (snd (create_snapshot p r))"
  by (auto simp: snapshot_inv_def create_snapshot_def index_ok_push simp del: map_of_eq_Some_iff)

interpretation snapshots: tenant_store snapshot_inv "\<lambda>r. table_values (psr_snapshots r)" ps_tenant_id
  "\<lambda>intent_id p. ps_intent_id p = intent_id" ps_list_by_intent
  by unfold_locales (auto simp: ps_list_by_intent_def set_indexed_values snapshot_inv_def)

section \<open>The canonical hash\<close>

text \<open>
  Values that differ only in the order of the entries of objects, at any depth. The keys of an object are distinct, as in
  the map it stands for.
\<close>

inductive json_equiv :: "json \<Rightarrow> json \<Rightarrow> bool" where
  equiv_refl: "json_equiv x x"
| equiv_array: "list_all2 json_equiv xs ys \<Longrightarrow> json_equiv (JArray xs) (JArray ys)"
| equiv_object: "distinct (map fst m) \<Longrightarrow> mset m = mset m1 \<Longrightarrow> list_all2 (\<lambda>kv kv'. fst kv = fst kv' \<and> json_equiv (snd kv) (snd kv')) m1 m' \<Longrightarrow>
    json_equiv (JObject m) (JObject m')"

lemma sort_key_perm: "inj_on f (set xs) \<Longrightarrow> mset xs = mset ys \<Longrightarrow> sort_key f xs = sort_key f ys"
  by (rule sort_key_inj_key_eq) simp_all

lemma canonical_equiv: "json_equiv x y \<Longrightarrow> canonicalize_json_value x = canonicalize_json_value y"
proof (induction rule: json_equiv.induct)
  case (equiv_array xs ys)
  then have "map canonicalize_json_value xs = map canonicalize_json_value ys"
    unfolding list.rel_eq [symmetric] list_all2_map1 list_all2_map2 by (rule list_all2_mono) simp
  then show ?case by simp
next
  case (equiv_object m m1 m')
  let ?c = "map (map_prod id canonicalize_json_value)"
  have "inj_on fst (set (?c m))"
    using equiv_object(1) by (intro distinct_map [THEN iffD1, THEN conjunct2]) (simp add: comp_def)
  then have "sort_key fst (?c m) = sort_key fst (?c m1)"
    using equiv_object(2) by (intro sort_key_perm) simp_all
  moreover have "?c m1 = ?c m'"
    unfolding list.rel_eq [symmetric] list_all2_map1 list_all2_map2
    by (rule list_all2_mono [OF equiv_object(3)]) (auto simp: map_prod_def split: prod.split)
  ultimately show ?case by simp
qed simp

text \<open>Two arrays of resources or approvers that agree up to the order of their elements and of the entries of objects.\<close>

definition array_equiv :: "json list \<Rightarrow> json list \<Rightarrow> bool" where
  "array_equiv xs ys \<longleftrightarrow> (\<exists>zs. mset zs = mset xs \<and> list_all2 json_equiv zs ys)"

lemma array_canonical:
  assumes "array_equiv xs ys" and "inj_on to_text (canonicalize_json_value ` set xs)"
  shows "canonicalize_array_sorted to_text xs = canonicalize_array_sorted to_text ys"
proof -
  obtain zs where zs: "mset zs = mset xs" "list_all2 json_equiv zs ys" using assms(1) by (auto simp: array_equiv_def)
  then have "map canonicalize_json_value zs = map canonicalize_json_value ys"
    unfolding list.rel_eq [symmetric] list_all2_map1 list_all2_map2 using canonical_equiv by (auto elim: list_all2_mono)
  then show ?thesis
    unfolding canonicalize_array_sorted_def using assms(2) zs(1)
    by (metis image_set mset_map sort_key_perm)
qed

lemma canonical_parts:
  assumes "canonicalize_scope_definition to_text s = canonicalize_scope_definition to_text s'"
  shows "scd_scope_type s = scd_scope_type s' \<and> scd_min_approvals s = scd_min_approvals s' \<and>
    mset (map canonicalize_json_value (scd_affected_resources s)) = mset (map canonicalize_json_value (scd_affected_resources s')) \<and>
    mset (map canonicalize_json_value (scd_required_approvers s)) = mset (map canonicalize_json_value (scd_required_approvers s'))"
proof -
  have sorted: "canonicalize_array_sorted to_text (scd_affected_resources s) = canonicalize_array_sorted to_text (scd_affected_resources s')"
    "canonicalize_array_sorted to_text (scd_required_approvers s) = canonicalize_array_sorted to_text (scd_required_approvers s')"
    and ty: "ScopeType_to_json (scd_scope_type s) = ScopeType_to_json (scd_scope_type s')"
    using assms by (simp_all add: canonicalize_scope_definition_def)
  from ty have "scd_scope_type s = scd_scope_type s'"
    by (cases "scd_scope_type s"; cases "scd_scope_type s'") (simp_all add: ScopeType_to_json_def)
  moreover have "scd_min_approvals s = scd_min_approvals s'"
    using assms by (simp add: canonicalize_scope_definition_def show_int_inj)
  ultimately show ?thesis using sorted [THEN arg_cong, of mset] by (simp add: canonicalize_array_sorted_def)
qed

text \<open>
  C37. The scope hash is canonical. Scopes with the same type and minimal number of approvals whose resources and
  approvers agree up to the order of the elements and up to the order of the entries of objects at any depth have the same
  hash, provided that distinct elements are serialised differently. Conversely, scopes with the same hash have the same type, the same
  minimal number of approvals and, as multisets of canonical values, the same resources and approvers, provided that the serialisation tells
  the canonical documents of the two scopes apart and that the texts of these two documents are not a collision of the digest.
\<close>

theorem scope_hash_canonical:
  assumes "inj_on to_text (canonicalize_json_value ` set (scd_affected_resources s))"
    and "inj_on to_text (canonicalize_json_value ` set (scd_required_approvers s))"
    and "inj_on to_text {canonicalize_scope_definition to_text s, canonicalize_scope_definition to_text s''}"
  shows "(scd_scope_type s = scd_scope_type s' \<and> scd_min_approvals s = scd_min_approvals s' \<and>
      array_equiv (scd_affected_resources s) (scd_affected_resources s') \<and> array_equiv (scd_required_approvers s) (scd_required_approvers s') \<longrightarrow>
      compute_scope_hash sha256 to_text s = compute_scope_hash sha256 to_text s') \<and>
    (compute_scope_hash sha256 to_text s = compute_scope_hash sha256 to_text s'' \<longrightarrow>
      scd_scope_type s = scd_scope_type s'' \<and> scd_min_approvals s = scd_min_approvals s'' \<and>
      mset (map canonicalize_json_value (scd_affected_resources s)) = mset (map canonicalize_json_value (scd_affected_resources s'')) \<and>
      mset (map canonicalize_json_value (scd_required_approvers s)) = mset (map canonicalize_json_value (scd_required_approvers s'')) \<or>
      (let a = to_text (canonicalize_scope_definition to_text s); b = to_text (canonicalize_scope_definition to_text s'')
       in a \<noteq> b \<and> sha256 a = sha256 b))"
proof (intro conjI impI)
  assume "scd_scope_type s = scd_scope_type s' \<and> scd_min_approvals s = scd_min_approvals s' \<and>
      array_equiv (scd_affected_resources s) (scd_affected_resources s') \<and> array_equiv (scd_required_approvers s) (scd_required_approvers s')"
  then show "compute_scope_hash sha256 to_text s = compute_scope_hash sha256 to_text s'"
    using array_canonical [OF _ assms(1), of "scd_affected_resources s'"] array_canonical [OF _ assms(2), of "scd_required_approvers s'"]
    by (simp add: compute_scope_hash_def canonicalize_scope_definition_def)
next
  assume hash: "compute_scope_hash sha256 to_text s = compute_scope_hash sha256 to_text s''"
  show "scd_scope_type s = scd_scope_type s'' \<and> scd_min_approvals s = scd_min_approvals s'' \<and>
      mset (map canonicalize_json_value (scd_affected_resources s)) = mset (map canonicalize_json_value (scd_affected_resources s'')) \<and>
      mset (map canonicalize_json_value (scd_required_approvers s)) = mset (map canonicalize_json_value (scd_required_approvers s'')) \<or>
      (let a = to_text (canonicalize_scope_definition to_text s); b = to_text (canonicalize_scope_definition to_text s'')
       in a \<noteq> b \<and> sha256 a = sha256 b)"
  proof (cases "to_text (canonicalize_scope_definition to_text s) = to_text (canonicalize_scope_definition to_text s'')")
    case True
    then have "canonicalize_scope_definition to_text s = canonicalize_scope_definition to_text s''"
      using inj_onD [OF assms(3)] by blast
    from canonical_parts [OF this] show ?thesis by blast
  next
    case False
    with hash show ?thesis by (simp add: compute_scope_hash_def Let_def)
  qed
qed

text \<open>The compact text of a value whose strings need no escapes.\<close>

fun ex_text :: "json \<Rightarrow> string" where
  "ex_text JNull = ''null''"
| "ex_text (JBool b) = show_bool b"
| "ex_text (JNumber n) = n"
| "ex_text (JString s) = debug_string s"
| "ex_text (JArray xs) = ''['' @ join '','' (map ex_text xs) @ '']''"
| "ex_text (JObject m) = ''{'' @ join '','' (map (\<lambda>(k, v). debug_string k @ '':'' @ ex_text v) m) @ ''}''"

definition ex_scope :: "json list \<Rightarrow> int \<Rightarrow> ScopeDefinition" where
  "ex_scope resources k =
     \<lparr>scd_scope_type = Full, scd_affected_resources = resources, scd_required_approvers = [], scd_min_approvals = k\<rparr>"

lemma ex_text_approvals:
  "ex_text (canonicalize_scope_definition ex_text (ex_scope [JObject [(''id'', JString ''a''), (''type'', JString ''t'')], JString ''x''] 1)) \<noteq>
   ex_text (canonicalize_scope_definition ex_text (ex_scope [JObject [(''id'', JString ''a''), (''type'', JString ''t'')], JString ''x''] 2))"
  by code_simp

theorem scope_hash_canonical_witness:
  "compute_scope_hash (\<lambda>t. t) ex_text (ex_scope [JObject [(''id'', JString ''a''), (''type'', JString ''t'')], JString ''x''] 1) =
   compute_scope_hash (\<lambda>t. t) ex_text (ex_scope [JString ''x'', JObject [(''type'', JString ''t''), (''id'', JString ''a'')]] 1) \<and>
   compute_scope_hash (\<lambda>t. t) ex_text (ex_scope [JObject [(''id'', JString ''a''), (''type'', JString ''t'')], JString ''x''] 1) \<noteq>
   compute_scope_hash (\<lambda>t. t) ex_text (ex_scope [JObject [(''id'', JString ''a''), (''type'', JString ''t'')], JString ''x''] 2)"
  (is "compute_scope_hash _ _ ?s = compute_scope_hash _ _ ?s' \<and> _ \<noteq> compute_scope_hash _ _ ?s''")
proof -
  let ?m = "[(''id'', JString ''a''), (''type'', JString ''t'')]" and ?m' = "[(''type'', JString ''t''), (''id'', JString ''a'')]"
  have obj: "json_equiv (JObject ?m) (JObject ?m')"
    by (rule equiv_object [of _ ?m']) (auto intro: equiv_refl simp: add_mset_commute)
  have res: "array_equiv (scd_affected_resources ?s) (scd_affected_resources ?s')"
    unfolding array_equiv_def
    by (rule exI [of _ "[JString ''x'', JObject ?m]"]) (simp add: ex_scope_def equiv_refl obj add_mset_commute)
  have app: "array_equiv (scd_required_approvers ?s) (scd_required_approvers ?s')"
    by (simp add: ex_scope_def array_equiv_def)
  have inj: "inj_on ex_text (canonicalize_json_value ` set (scd_affected_resources ?s))"
      "inj_on ex_text (canonicalize_json_value ` set (scd_required_approvers ?s))"
      "inj_on ex_text {canonicalize_scope_definition ex_text ?s, canonicalize_scope_definition ex_text ?s''}"
    using ex_text_approvals by (simp_all add: inj_on_def ex_scope_def debug_string_def)
  note canonical = scope_hash_canonical [OF inj, of ?s' "\<lambda>t. t"]
  have "scd_scope_type ?s = scd_scope_type ?s'" "scd_min_approvals ?s = scd_min_approvals ?s'"
    by (simp_all add: ex_scope_def)
  with canonical [THEN conjunct1] res app have 1: "compute_scope_hash (\<lambda>t. t) ex_text ?s = compute_scope_hash (\<lambda>t. t) ex_text ?s'"
    by blast
  have "scd_min_approvals ?s \<noteq> scd_min_approvals ?s''" by (simp add: ex_scope_def)
  with canonical [THEN conjunct2] have 2: "compute_scope_hash (\<lambda>t. t) ex_text ?s \<noteq> compute_scope_hash (\<lambda>t. t) ex_text ?s''"
    unfolding Let_def by blast
  from 1 2 show ?thesis ..
qed

end
