(* ===== verification/Forensic_Collector.thy ===== *)
theory Forensic_Collector
  imports Intent_Repo Audit_Log Policy_Snapshots
begin

text \<open>
  Collecting the data of a forensic bundle, \<open>crates/forensic-service/src/collector.rs\<close> and \<open>real_collector.rs\<close>. The collector calls three repositories through their traits: these
  calls are the fields of \<open>collector_repos\<close>, and \<open>memory_repos\<close> fills them in with the in-memory repositories.
\<close>

section \<open>Collected data\<close>

record CollectedVersionData =
  cvd_version_number :: nat
  cvd_summary :: string
  cvd_change_type :: string
  cvd_created_at :: timestamp

record 'j CollectedIntentData =
  cid_intent_id :: uuid
  cid_tenant_id :: "uuid option"
  cid_name :: string
  cid_versions :: "CollectedVersionData list"
  cid_policy_snapshots :: "PolicySnapshot list"
  cid_audit_events :: "'j AuditEvent list"

record 'j CollectionResult =
  cor_tenant_id :: "uuid option"
  cor_intent_id :: uuid
  cor_collected_at :: timestamp
  cor_intents :: "'j CollectedIntentData list"
  cor_total_audit_events :: usize
  cor_total_policy_snapshots :: usize

record CollectionCounts =
  coc_intent_count :: usize
  coc_version_count :: usize
  coc_audit_event_count :: usize
  coc_policy_snapshot_count :: usize

datatype (plugins only: size code) CollectorError =
    Repository string | TenantAccessDenied string | InvalidTimeRange string | Timeout string

definition display_CollectorError :: "CollectorError \<Rightarrow> string" where
  "display_CollectorError e = (case e of
       Repository s \<Rightarrow> ''Repository error: '' @ s
     | TenantAccessDenied s \<Rightarrow> ''Tenant access denied: '' @ s
     | InvalidTimeRange s \<Rightarrow> ''Invalid time range: '' @ s
     | Timeout s \<Rightarrow> ''Collection timeout: '' @ s)"

abbreviation in_range :: "timestamp \<times> timestamp \<Rightarrow> timestamp \<Rightarrow> bool" where
  "in_range time_range t \<equiv> fst time_range \<le> t \<and> t \<le> snd time_range"

section \<open>The collector over the repositories\<close>

record 'j collector_repos =
  cr_get_intent :: "uuid \<Rightarrow> Intent ire_result"
  cr_versions :: "uuid \<Rightarrow> 'j IntentVersion list ire_result"
  cr_audit :: "uuid \<Rightarrow> uuid \<Rightarrow> 'j AuditEvent list ire_result"
  cr_snapshots :: "uuid \<Rightarrow> uuid \<Rightarrow> PolicySnapshot list ire_result"

definition memory_repos :: "'j IntentRepo \<Rightarrow> 'j AuditRepo \<Rightarrow> SnapshotRepo \<Rightarrow> 'j collector_repos" where
  "memory_repos ir ar pr = \<lparr>cr_get_intent = get_intent ir, cr_versions = (\<lambda>i. Inr (get_versions_by_intent ir i)),
     cr_audit = (\<lambda>i t. Inr (audit_list_by_intent ar i t)), cr_snapshots = (\<lambda>i t. Inr (ps_list_by_intent pr i t))\<rparr>"

definition debug_ChangeChannel :: "ChangeChannel \<Rightarrow> string" where
  "debug_ChangeChannel c = (case c of UserEdit \<Rightarrow> ''UserEdit'' | Webhook \<Rightarrow> ''Webhook'' | PolicyUpdate \<Rightarrow> ''PolicyUpdate''
     | SystemNormalization \<Rightarrow> ''SystemNormalization'')"

text \<open>\<open>version_number as u64\<close> sign-extends.\<close>

definition collected_version :: "'j IntentVersion \<Rightarrow> CollectedVersionData" where
  "collected_version v = \<lparr>cvd_version_number = nat (v_version_number v mod 2 ^ 64), cvd_summary = ''Version '' @ show_int (v_version_number v),
     cvd_change_type = debug_ChangeChannel (v_change_channel v), cvd_created_at = v_created_at v\<rparr>"

text \<open>One iteration of the loop of \<open>collect\<close>: every failure ends the collection.\<close>

definition collect_intent ::
  "(uuid \<Rightarrow> string) \<Rightarrow> 'j collector_repos \<Rightarrow> uuid option \<Rightarrow> timestamp \<times> timestamp \<Rightarrow> uuid \<Rightarrow> (CollectorError, 'j CollectedIntentData) result" where
  "collect_intent us repos tenant_id time_range intent_id =
     (let repo_error = (\<lambda>what e. Inl (Repository (''failed to get '' @ what @ us intent_id @ '': '' @ display_IntentRebaseError us e))) in
      case cr_get_intent repos intent_id of
        Inl e \<Rightarrow> repo_error ''intent '' e
      | Inr intent \<Rightarrow>
          if (case tenant_id of Some tid \<Rightarrow> i_tenant_id intent \<noteq> tid | None \<Rightarrow> False) then
            Inl (TenantAccessDenied (''intent '' @ us intent_id @ '' does not belong to tenant '' @ us (the tenant_id)))
          else case cr_versions repos intent_id of
              Inl e \<Rightarrow> repo_error ''versions for intent '' e
            | Inr versions \<Rightarrow> (case cr_audit repos intent_id (i_tenant_id intent) of
                Inl e \<Rightarrow> repo_error ''audit events for intent '' e
              | Inr events \<Rightarrow> (case cr_snapshots repos intent_id (i_tenant_id intent) of
                  Inl e \<Rightarrow> repo_error ''policy snapshots for intent '' e
                | Inr snapshots \<Rightarrow>
                    Inr \<lparr>cid_intent_id = intent_id, cid_tenant_id = Some (i_tenant_id intent), cid_name = ''intent-'' @ us intent_id,
                      cid_versions = map collected_version (filter (\<lambda>v. in_range time_range (v_created_at v)) versions),
                      cid_policy_snapshots = filter (\<lambda>p. in_range time_range (ps_created_at p)) snapshots,
                      cid_audit_events = filter (\<lambda>e. in_range time_range (ae_occurred_at e)) events\<rparr>)))"

fun collect_loop ::
  "(uuid \<Rightarrow> (CollectorError, 'j CollectedIntentData) result) \<Rightarrow> 'j CollectedIntentData list \<Rightarrow> uuid list \<Rightarrow>
   (CollectorError, 'j CollectedIntentData list) result" where
  "collect_loop f collected [] = Inr collected"
| "collect_loop f collected (i # ids) = (case f i of Inl e \<Rightarrow> Inl e | Inr d \<Rightarrow> collect_loop f (collected @ [d]) ids)"

definition first_or_nil :: "uuid list \<Rightarrow> uuid" where
  "first_or_nil ids = (case ids of [] \<Rightarrow> 0 | i # _ \<Rightarrow> i)"

definition real_collect ::
  "(uuid \<Rightarrow> string) \<Rightarrow> 'j collector_repos \<Rightarrow> timestamp \<Rightarrow> uuid option \<Rightarrow> uuid list \<Rightarrow> timestamp \<times> timestamp \<Rightarrow>
   (CollectorError, 'j CollectionResult) result" where
  "real_collect us repos now tenant_id intent_ids time_range =
     (if fst time_range > snd time_range then Inl (InvalidTimeRange ''start time must be before end time'')
      else case collect_loop (collect_intent us repos tenant_id time_range) [] intent_ids of
          Inl e \<Rightarrow> Inl e
        | Inr intents \<Rightarrow>
            Inr \<lparr>cor_tenant_id = tenant_id, cor_intent_id = first_or_nil intent_ids, cor_collected_at = now, cor_intents = intents,
              cor_total_audit_events = sum_list (map (\<lambda>d. length (cid_audit_events d)) intents),
              cor_total_policy_snapshots = sum_list (map (\<lambda>d. length (cid_policy_snapshots d)) intents)\<rparr>)"

text \<open>The loop of \<open>count_available\<close> skips what it cannot read; events and snapshots are looked up under the given tenant or nil.\<close>

definition count_ok :: "('a \<Rightarrow> timestamp) \<Rightarrow> timestamp \<times> timestamp \<Rightarrow> 'a list ire_result \<Rightarrow> usize" where
  "count_ok stamp time_range result = (case result of Inr xs \<Rightarrow> length (filter (\<lambda>x. in_range time_range (stamp x)) xs) | Inl _ \<Rightarrow> 0)"

fun count_loop ::
  "'j collector_repos \<Rightarrow> uuid option \<Rightarrow> timestamp \<times> timestamp \<Rightarrow> CollectionCounts \<Rightarrow> uuid list \<Rightarrow> CollectionCounts" where
  "count_loop repos tenant_id time_range n [] = n"
| "count_loop repos tenant_id time_range n (intent_id # ids) =
     (case cr_get_intent repos intent_id of
        Inl _ \<Rightarrow> count_loop repos tenant_id time_range n ids
      | Inr intent \<Rightarrow>
          if (case tenant_id of Some tid \<Rightarrow> i_tenant_id intent \<noteq> tid | None \<Rightarrow> False) then count_loop repos tenant_id time_range n ids
          else let tenant_uuid = (case tenant_id of Some t \<Rightarrow> t | None \<Rightarrow> 0) in
            count_loop repos tenant_id time_range
              \<lparr>coc_intent_count = coc_intent_count n + 1,
               coc_version_count = coc_version_count n + count_ok v_created_at time_range (cr_versions repos intent_id),
               coc_audit_event_count = coc_audit_event_count n + count_ok ae_occurred_at time_range (cr_audit repos intent_id tenant_uuid),
               coc_policy_snapshot_count = coc_policy_snapshot_count n + count_ok ps_created_at time_range (cr_snapshots repos intent_id tenant_uuid)\<rparr> ids)"

definition real_count_available ::
  "'j collector_repos \<Rightarrow> uuid option \<Rightarrow> uuid list \<Rightarrow> timestamp \<times> timestamp \<Rightarrow> (CollectorError, CollectionCounts) result" where
  "real_count_available repos tenant_id intent_ids time_range =
     (if fst time_range > snd time_range then Inl (InvalidTimeRange ''start time must be before end time'')
      else Inr (count_loop repos tenant_id time_range
        \<lparr>coc_intent_count = 0, coc_version_count = 0, coc_audit_event_count = 0, coc_policy_snapshot_count = 0\<rparr> intent_ids))"

section \<open>The in-memory collector\<close>

text \<open>It keeps a list of intents and filters by identifier only; \<open>count_available\<close> also filters by time.\<close>

definition memory_collect ::
  "'j CollectedIntentData list \<Rightarrow> timestamp \<Rightarrow> uuid option \<Rightarrow> uuid list \<Rightarrow> timestamp \<times> timestamp \<Rightarrow> (CollectorError, 'j CollectionResult) result" where
  "memory_collect intents now tenant_id intent_ids time_range =
     (if fst time_range > snd time_range then Inl (InvalidTimeRange ''start must be before end'')
      else let filtered = filter (\<lambda>d. cid_intent_id d \<in> set intent_ids) intents in
        Inr \<lparr>cor_tenant_id = tenant_id, cor_intent_id = first_or_nil intent_ids, cor_collected_at = now, cor_intents = filtered,
          cor_total_audit_events = sum_list (map (\<lambda>d. length (cid_audit_events d)) filtered),
          cor_total_policy_snapshots = sum_list (map (\<lambda>d. length (cid_policy_snapshots d)) filtered)\<rparr>)"

definition memory_count_available ::
  "'j CollectedIntentData list \<Rightarrow> uuid option \<Rightarrow> uuid list \<Rightarrow> timestamp \<times> timestamp \<Rightarrow> (CollectorError, CollectionCounts) result" where
  "memory_count_available intents tenant_id intent_ids time_range =
     (if fst time_range > snd time_range then Inl (InvalidTimeRange ''start must be before end'')
      else let filtered = filter (\<lambda>d. cid_intent_id d \<in> set intent_ids) intents in
        Inr \<lparr>coc_intent_count = length filtered,
          coc_version_count = sum_list (map (\<lambda>d. length (filter (\<lambda>v. in_range time_range (cvd_created_at v)) (cid_versions d))) filtered),
          coc_audit_event_count = sum_list (map (\<lambda>d. length (filter (\<lambda>e. in_range time_range (ae_occurred_at e)) (cid_audit_events d))) filtered),
          coc_policy_snapshot_count = sum_list (map (\<lambda>d. length (filter (\<lambda>p. in_range time_range (ps_created_at p)) (cid_policy_snapshots d))) filtered)\<rparr>)"

end
