(* ===== verification/Forensic_Service.thy ===== *)
theory Forensic_Service
  imports Forensic Forensic_Collector
begin

text \<open>
  The operations on stored forensic bundles: the in-memory repository (\<open>bundle_repo.rs\<close>), the status transitions
  (\<open>bundle_gen.rs\<close>), the in-memory storage (\<open>bundle_storage.rs\<close>), creation (\<open>bundle_service.rs\<close>) and replay verification
  (\<open>bundle_replay.rs\<close>).
\<close>

section \<open>The repository\<close>

record BundleRepo =
  br_bundles :: "(uuid, ForensicBundle) hmap"
  br_by_tenant :: "(uuid, uuid list) hmap"
  br_by_status :: "(uuid \<times> BundleStatus, uuid list) hmap"
  br_by_purpose :: "(uuid \<times> BundlePurpose, uuid list) hmap"

definition BundleRepo_new :: BundleRepo where
  "BundleRepo_new = \<lparr>br_bundles = [], br_by_tenant = [], br_by_status = [], br_by_purpose = []\<rparr>"

definition bundle_create ::
  "(uuid \<Rightarrow> string) \<Rightarrow> ForensicBundle \<Rightarrow> BundleRepo \<Rightarrow> ForensicBundle ire_result \<times> BundleRepo" where
  "bundle_create us b r =
     (case map_of (br_bundles r) (fb_bundle_id b) of
        Some _ \<Rightarrow> (Inl (Internal (''bundle with id '' @ [CHR 0x27] @ us (fb_bundle_id b) @ [CHR 0x27] @ '' already exists'')), r)
      | None \<Rightarrow> (Inr b, r\<lparr>br_bundles := hm_insert (fb_bundle_id b) b (br_bundles r),
          br_by_tenant := index_push (fb_tenant_id b) (fb_bundle_id b) (br_by_tenant r),
          br_by_status := index_push (fb_tenant_id b, fb_status b) (fb_bundle_id b) (br_by_status r),
          br_by_purpose := index_push (fb_tenant_id b, fb_purpose b) (fb_bundle_id b) (br_by_purpose r)\<rparr>))"

definition bundle_get :: "BundleRepo \<Rightarrow> uuid \<Rightarrow> ForensicBundle ire_result" where
  "bundle_get r i = (case map_of (br_bundles r) i of Some b \<Rightarrow> Inr b | None \<Rightarrow> Inl (ForensicBundleNotFound i))"

definition truncate_vec :: "usize option \<Rightarrow> 'a list \<Rightarrow> 'a list" where
  "truncate_vec limit xs = (case limit of Some l \<Rightarrow> take l xs | None \<Rightarrow> xs)"

definition bundle_list_by_tenant :: "BundleRepo \<Rightarrow> uuid \<Rightarrow> usize option \<Rightarrow> ForensicBundle list" where
  "bundle_list_by_tenant r tenant_id limit =
     truncate_vec limit (newest_first fb_created_at (indexed (br_bundles r) (br_by_tenant r) tenant_id))"

definition list_by_tenant_and_status :: "BundleRepo \<Rightarrow> uuid \<Rightarrow> BundleStatus \<Rightarrow> ForensicBundle list" where
  "list_by_tenant_and_status r tenant_id status = indexed (br_bundles r) (br_by_status r) (tenant_id, status)"

definition list_by_tenant_and_purpose :: "BundleRepo \<Rightarrow> uuid \<Rightarrow> BundlePurpose \<Rightarrow> ForensicBundle list" where
  "list_by_tenant_and_purpose r tenant_id purpose = indexed (br_bundles r) (br_by_purpose r) (tenant_id, purpose)"

definition bundle_update_status :: "uuid \<Rightarrow> BundleStatus \<Rightarrow> BundleRepo \<Rightarrow> ForensicBundle ire_result \<times> BundleRepo" where
  "bundle_update_status i new_status r =
     (case map_of (br_bundles r) i of
        None \<Rightarrow> (Inl (ForensicBundleNotFound i), r)
      | Some b \<Rightarrow>
          if \<not> BundleStatus_can_transition_to (fb_status b) new_status then
            (Inl (InvalidForensicBundleStatusTransition (debug_BundleStatus (fb_status b)) (debug_BundleStatus new_status)
               ''invalid status transition''), r)
          else
            let b' = b\<lparr>fb_status := new_status\<rparr>
            in (Inr b', r\<lparr>br_bundles := hm_insert i b' (br_bundles r),
                 br_by_status := index_push (fb_tenant_id b, new_status) i
                   (index_retain (fb_tenant_id b, fb_status b) i (br_by_status r))\<rparr>))"

definition update_contents :: "uuid \<Rightarrow> BundleContents \<Rightarrow> BundleRepo \<Rightarrow> ForensicBundle ire_result \<times> BundleRepo" where
  "update_contents i contents r =
     (case map_of (br_bundles r) i of
        None \<Rightarrow> (Inl (ForensicBundleNotFound i), r)
      | Some b \<Rightarrow>
          let b' = b\<lparr>fb_contents := contents\<rparr> in (Inr b', r\<lparr>br_bundles := hm_insert i b' (br_bundles r)\<rparr>))"

definition list_terminal_bundles :: "BundleRepo \<Rightarrow> uuid \<Rightarrow> usize option \<Rightarrow> ForensicBundle list" where
  "list_terminal_bundles r tenant_id limit =
     truncate_vec limit (newest_first fb_created_at
       (filter (\<lambda>b. BundleStatus_is_terminal (fb_status b)) (indexed (br_bundles r) (br_by_tenant r) tenant_id)))"

section \<open>Status transitions\<close>

datatype (plugins only: size code) BundleGenError =
    NotFound uuid | InvalidTransition BundleStatus BundleStatus string | Repository IntentRebaseError | Serialization string

definition parse_status :: "BundleStatus \<Rightarrow> string \<Rightarrow> BundleStatus" where
  "parse_status fallback s =
     (if s = ''Pending'' then Pending else if s = ''Generating'' then Generating else if s = ''Ready'' then Ready
      else if s = ''Failed'' then Failed else fallback)"

definition transition_error :: "BundleStatus \<Rightarrow> BundleStatus \<Rightarrow> IntentRebaseError \<Rightarrow> BundleGenError" where
  "transition_error from_default to_default e =
     (case e of
        ForensicBundleNotFound i \<Rightarrow> NotFound i
      | InvalidForensicBundleStatusTransition from_status to_status reason \<Rightarrow>
          InvalidTransition (parse_status from_default from_status) (parse_status to_default to_status) reason
      | _ \<Rightarrow> Repository e)"

definition transition_with ::
  "BundleStatus \<Rightarrow> BundleStatus \<Rightarrow> uuid \<Rightarrow> BundleRepo \<Rightarrow> (BundleGenError, ForensicBundle) result \<times> BundleRepo" where
  "transition_with from_default target i r =
     (case bundle_update_status i target r of
        (Inl e, r') \<Rightarrow> (Inl (transition_error from_default target e), r')
      | (Inr b, r') \<Rightarrow> (Inr b, r'))"

definition initiate_bundle ::
  "(uuid \<Rightarrow> string) \<Rightarrow> uuid \<Rightarrow> (nat \<Rightarrow> timestamp) \<Rightarrow> uuid \<Rightarrow> BundleTimeRange \<Rightarrow> BundlePurpose \<Rightarrow> string \<Rightarrow> BundleRepo \<Rightarrow>
   (BundleGenError, ForensicBundle) result \<times> BundleRepo" where
  "initiate_bundle us i clock tenant_id time_range purpose created_by r =
     (case bundle_create us (ForensicBundle_new i (clock 0) (clock 1) tenant_id time_range purpose
         \<lparr>bc_intent_versions = 0, bc_artifacts = 0, bc_approvals = 0, bc_audit_events = 0, bc_policy_snapshots = 0\<rparr> created_by None) r of
        (Inl e, r') \<Rightarrow> (Inl (Repository e), r')
      | (Inr b, r') \<Rightarrow> (Inr b, r'))"

definition transition_to_generating :: "uuid \<Rightarrow> BundleRepo \<Rightarrow> (BundleGenError, ForensicBundle) result \<times> BundleRepo" where
  "transition_to_generating = transition_with Pending Generating"

definition transition_to_ready :: "uuid \<Rightarrow> BundleRepo \<Rightarrow> (BundleGenError, ForensicBundle) result \<times> BundleRepo" where
  "transition_to_ready = transition_with Generating Ready"

definition transition_to_failed :: "uuid \<Rightarrow> BundleRepo \<Rightarrow> (BundleGenError, ForensicBundle) result \<times> BundleRepo" where
  "transition_to_failed = transition_with Generating Failed"

definition complete_bundle_creation :: "uuid \<Rightarrow> BundleRepo \<Rightarrow> (BundleGenError, ForensicBundle) result \<times> BundleRepo" where
  "complete_bundle_creation i r =
     (case transition_to_generating i r of
        (Inl e, r') \<Rightarrow> (Inl e, r')
      | (Inr _, r') \<Rightarrow> transition_to_ready i r')"

definition get_bundle :: "BundleRepo \<Rightarrow> uuid \<Rightarrow> (BundleGenError, ForensicBundle) result" where
  "get_bundle r i =
     (case bundle_get r i of
        Inr b \<Rightarrow> Inr b
      | Inl (ForensicBundleNotFound j) \<Rightarrow> Inl (NotFound j)
      | Inl e \<Rightarrow> Inl (Repository e))"

definition download_bundle :: "(ForensicBundle \<Rightarrow> string + string) \<Rightarrow> BundleRepo \<Rightarrow> uuid \<Rightarrow> (BundleGenError, string) result" where
  "download_bundle to_vec_pretty r i =
     (case get_bundle r i of
        Inl e \<Rightarrow> Inl e
      | Inr b \<Rightarrow> (case to_vec_pretty b of
            Inr data \<Rightarrow> Inr data
          | Inl e \<Rightarrow> Inl (Serialization (''JSON serialization failed: '' @ e))))"

section \<open>Storage\<close>

record BundleStore =
  bst_store :: "(uuid, string) hmap"
  bst_by_tenant :: "(uuid, uuid list) hmap"
  bst_location :: string

definition storage_put :: "uuid \<Rightarrow> uuid \<Rightarrow> string \<Rightarrow> BundleStore \<Rightarrow> BundleStore" where
  "storage_put i tenant_id data st =
     st\<lparr>bst_store := hm_insert i data (bst_store st), bst_by_tenant := index_push tenant_id i (bst_by_tenant st)\<rparr>"

definition storage_get :: "BundleStore \<Rightarrow> uuid \<Rightarrow> uuid \<Rightarrow> string option" where
  "storage_get st i tenant_id = map_of (bst_store st) i"

definition storage_exists :: "BundleStore \<Rightarrow> uuid \<Rightarrow> uuid \<Rightarrow> bool" where
  "storage_exists st i tenant_id \<longleftrightarrow> map_of (bst_store st) i \<noteq> None"

definition storage_delete :: "uuid \<Rightarrow> uuid \<Rightarrow> BundleStore \<Rightarrow> BundleStore" where
  "storage_delete i tenant_id st = st\<lparr>bst_store := hm_remove i (bst_store st)\<rparr>"

section \<open>Creation\<close>

datatype (plugins only: size code) ForensicBundleServiceError =
    NotFound uuid | Collection CollectorError | Generation string | Storage string | Repository IntentRebaseError | Serialization string
  | InvalidTimeRange string | Replay string

record CreateForensicBundleRequest =
  cfr_tenant_id :: uuid
  cfr_intent_ids :: "uuid list"
  cfr_time_range :: BundleTimeRange
  cfr_purpose :: BundlePurpose
  cfr_created_by :: string

record CreateForensicBundleResponse =
  cfs_bundle :: ForensicBundle
  cfs_storage_location :: string
  cfs_bundle_size_bytes :: usize
  cfs_message :: string

record ForensicState =
  fst_repo :: BundleRepo
  fst_storage :: BundleStore

text \<open>\<open>format!("{:032x}", n)\<close>.\<close>

definition hex_char :: "nat \<Rightarrow> char" where
  "hex_char d = ''0123456789abcdef'' ! d"

fun hex_nat :: "nat \<Rightarrow> string" where
  "hex_nat n = (if n < 16 then [hex_char n] else hex_nat (n div 16) @ [hex_char (n mod 16)])"

definition hex32 :: "nat \<Rightarrow> string" where
  "hex32 n = replicate (32 - length (hex_nat n)) (CHR ''0'') @ hex_nat n"

definition collected_sections ::
  "(string \<Rightarrow> string) \<Rightarrow> (uuid \<Rightarrow> string + string) \<Rightarrow> 'j CollectedIntentData list \<Rightarrow> ContentSectionsForVerification" where
  "collected_sections sha256 ser_uuid intents =
     \<lparr>csv_intent_versions = concat (map (\<lambda>d. map (\<lambda>v. \<lparr>ive_intent_id = cid_intent_id d,
        ive_version = i32_wrap (int (cvd_version_number v)), ive_content_hash = hex32 (cvd_version_number v)\<rparr>) (cid_versions d)) intents),
      csv_artifacts = concat (map (\<lambda>d. List.map_filter (\<lambda>e. map_option (\<lambda>a. \<lparr>are_artifact_id = a,
        are_content_hash = (case compute_sha256 sha256 ser_uuid a of Inr h \<Rightarrow> h | Inl _ \<Rightarrow> replicate 32 (CHR ''0'')),
        are_collected_at = ae_occurred_at e\<rparr>) (ae_artifact_id e)) (cid_audit_events d)) intents),
      csv_approvals = [],
      csv_audit_events = concat (map (\<lambda>d. map (\<lambda>(idx, e). \<lparr>aee_event_id = ae_id e, aee_content_hash = hex32 idx,
        aee_event_index = idx\<rparr>) (enumerate 0 (cid_audit_events d))) intents),
      csv_policy_snapshots = concat (map (\<lambda>d. map (\<lambda>p. \<lparr>pse_snapshot_id = ps_id p, pse_scope_hash = ps_scope_hash p\<rparr>)
        (cid_policy_snapshots d)) intents)\<rparr>"

text \<open>The collector is called through its trait and is the argument \<open>collect\<close>. The outer \<open>None\<close> is the panic of \<open>generate\<close>.\<close>

definition prepare_bundle ::
  "(string \<Rightarrow> string) \<Rightarrow> serializers \<Rightarrow> (uuid \<Rightarrow> string + string) \<Rightarrow> (uuid option \<Rightarrow> uuid list \<Rightarrow> timestamp \<times> timestamp \<Rightarrow> (CollectorError, 'j CollectionResult) result) \<Rightarrow>
   uuid \<Rightarrow> (nat \<Rightarrow> timestamp) \<Rightarrow> CreateForensicBundleRequest \<Rightarrow> (ForensicBundleServiceError, ForensicBundle \<times> string) result option" where
  "prepare_bundle sha256 ser ser_uuid collect i clock r =
     (if btr_start (cfr_time_range r) > btr_end (cfr_time_range r) then Some (Inl (InvalidTimeRange ''start must be before end''))
      else case collect (Some (cfr_tenant_id r)) (cfr_intent_ids r) (btr_start (cfr_time_range r), btr_end (cfr_time_range r)) of
          Inl e \<Rightarrow> Some (Inl (Collection e))
        | Inr collected \<Rightarrow>
            map_option (\<lambda>g. case ser_bundle ser (bgr_bundle g) of
                Inl e \<Rightarrow> Inl (Serialization e)
              | Inr json \<Rightarrow> Inr (bgr_bundle g, json))
              (generate sha256 ser i clock \<lparr>gbr_tenant_id = cfr_tenant_id r, gbr_time_range = cfr_time_range r,
                gbr_purpose = cfr_purpose r, gbr_created_by = cfr_created_by r,
                gbr_sections = collected_sections sha256 ser_uuid (cor_intents collected)\<rparr>))"

definition create_bundle ::
  "(string \<Rightarrow> string) \<Rightarrow> serializers \<Rightarrow> (uuid \<Rightarrow> string + string) \<Rightarrow> (uuid \<Rightarrow> string) \<Rightarrow>
   (uuid option \<Rightarrow> uuid list \<Rightarrow> timestamp \<times> timestamp \<Rightarrow> (CollectorError, 'j CollectionResult) result) \<Rightarrow>
   uuid \<Rightarrow> (nat \<Rightarrow> timestamp) \<Rightarrow> CreateForensicBundleRequest \<Rightarrow> ForensicState \<Rightarrow>
   ((ForensicBundleServiceError, CreateForensicBundleResponse) result \<times> ForensicState) option" where
  "create_bundle sha256 ser ser_uuid us collect i clock r s =
     (case prepare_bundle sha256 ser ser_uuid collect i clock r of
        None \<Rightarrow> None
      | Some (Inl e) \<Rightarrow> Some (Inl e, s)
      | Some (Inr (bundle, bundle_json)) \<Rightarrow>
          (case bundle_create us bundle (fst_repo s) of
             (Inl e, repo1) \<Rightarrow> Some (Inl (Repository e), s\<lparr>fst_repo := repo1\<rparr>)
           | (Inr _, repo1) \<Rightarrow>
               let storage1 = storage_put (fb_bundle_id bundle) (fb_tenant_id bundle) bundle_json (fst_storage s)
               in (case bundle_update_status (fb_bundle_id bundle) Ready repo1 of
                     (Inl e, repo2) \<Rightarrow> Some (Inl (Repository e), \<lparr>fst_repo = repo2, fst_storage = storage1\<rparr>)
                   | (Inr final_bundle, repo2) \<Rightarrow>
                       Some (Inr \<lparr>cfs_bundle = final_bundle,
                          cfs_storage_location = bst_location storage1 @ ''/'' @ us (fb_bundle_id bundle),
                          cfs_bundle_size_bytes = length bundle_json,
                          cfs_message = ''Bundle generated and stored successfully''\<rparr>,
                        \<lparr>fst_repo = repo2, fst_storage = storage1\<rparr>))))"

definition svc_get_bundle :: "ForensicState \<Rightarrow> uuid \<Rightarrow> (ForensicBundleServiceError, ForensicBundle) result" where
  "svc_get_bundle s i =
     (case bundle_get (fst_repo s) i of
        Inr b \<Rightarrow> Inr b
      | Inl (ForensicBundleNotFound j) \<Rightarrow> Inl (NotFound j)
      | Inl e \<Rightarrow> Inl (Repository e))"

definition download_bundle_bytes :: "ForensicState \<Rightarrow> uuid \<Rightarrow> (ForensicBundleServiceError, string) result" where
  "download_bundle_bytes s i =
     (case svc_get_bundle s i of
        Inl e \<Rightarrow> Inl e
      | Inr b \<Rightarrow> (case storage_get (fst_storage s) i (fb_tenant_id b) of Some data \<Rightarrow> Inr data | None \<Rightarrow> Inl (NotFound i)))"

section \<open>Replay verification\<close>

record ReplaySectionResult =
  rsr_section :: string
  rsr_verified :: bool
  rsr_item_count :: usize
  rsr_recorded_hash :: string
  rsr_computed_hash :: string
  rsr_details :: string

record ReplayVerificationReport =
  rvr_bundle_id :: uuid
  rvr_tenant_id :: uuid
  rvr_verified_at :: timestamp
  rvr_overall_verified :: bool
  rvr_purpose :: BundlePurpose
  rvr_time_range :: BundleTimeRange
  rvr_sections :: "ReplaySectionResult list"
  rvr_total_items :: BundleContents
  rvr_summary :: string
  rvr_sections_passed :: usize
  rvr_sections_failed :: usize

datatype (plugins only: size code) BundleReplayError =
    InvalidBundleState uuid BundleStatus string | VerificationFailed uuid "string list" | BundleNotReady uuid BundleStatus

record VerifyBundleReplayResponse =
  vbr_report :: ReplayVerificationReport
  vbr_bundle :: ForensicBundle
  vbr_section_hashes :: "ContentSectionHash list"

definition from_results ::
  "(uuid \<Rightarrow> string) \<Rightarrow> timestamp \<Rightarrow> ForensicBundle \<Rightarrow> ReplaySectionResult list \<Rightarrow> ReplayVerificationReport" where
  "from_results us now b section_results =
     (let sections_passed = length (filter rsr_verified section_results);
          sections_failed = length (filter (\<lambda>x. \<not> rsr_verified x) section_results);
          overall_verified = (sections_failed = 0);
          summary = (if overall_verified
            then ''Bundle '' @ us (fb_bundle_id b) @ '' verified successfully. All '' @ show_nat (length section_results) @
              '' sections passed integrity check.''
            else ''Bundle '' @ us (fb_bundle_id b) @ '' verification FAILED. '' @ show_nat sections_failed @ ''/'' @
              show_nat (length section_results) @ '' sections failed integrity check.'')
      in \<lparr>rvr_bundle_id = fb_bundle_id b, rvr_tenant_id = fb_tenant_id b, rvr_verified_at = now,
          rvr_overall_verified = overall_verified, rvr_purpose = fb_purpose b, rvr_time_range = fb_time_range b,
          rvr_sections = section_results, rvr_total_items = fb_contents b, rvr_summary = summary,
          rvr_sections_passed = sections_passed, rvr_sections_failed = sections_failed\<rparr>)"

definition unwrap_or_default :: "string + string \<Rightarrow> string" where
  "unwrap_or_default x = (case x of Inl _ \<Rightarrow> [] | Inr h \<Rightarrow> h)"

definition replay_section :: "string \<Rightarrow> usize \<Rightarrow> string \<Rightarrow> string \<Rightarrow> ReplaySectionResult" where
  "replay_section name item_count recorded computed =
     (let verified = (computed = recorded)
      in \<lparr>rsr_section = name, rsr_verified = verified, rsr_item_count = item_count, rsr_recorded_hash = recorded,
          rsr_computed_hash = computed,
          rsr_details = (if verified then name @ '' verified: '' @ show_nat item_count @ '' items, hash match''
            else name @ '' FAILED: '' @ show_nat item_count @ '' items, hash mismatch'')\<rparr>)"

text \<open>The computation that the two verification variants share; they differ in where the recorded hashes come from.\<close>

definition replay_response ::
  "(string \<Rightarrow> string) \<Rightarrow> serializers \<Rightarrow> (uuid \<Rightarrow> string) \<Rightarrow> timestamp \<Rightarrow> ForensicBundle \<Rightarrow> ContentSectionsForVerification \<Rightarrow>
   string \<Rightarrow> string \<Rightarrow> string \<Rightarrow> string \<Rightarrow> string \<Rightarrow> VerifyBundleReplayResponse" where
  "replay_response sha256 ser us now b c recorded_intent_versions recorded_artifacts recorded_approvals recorded_audit_events
     recorded_policy_snapshots =
     (let intent_hash = unwrap_or_default (compute_sha256 sha256 (ser_intent_versions ser) (csv_intent_versions c));
         artifacts_hash = unwrap_or_default (compute_sha256 sha256 (ser_artifacts ser) (csv_artifacts c));
         approvals_hash = unwrap_or_default (compute_sha256 sha256 (ser_approvals ser) (csv_approvals c));
         audit_hash = unwrap_or_default (compute_sha256 sha256 (ser_audit_events ser) (csv_audit_events c));
         policy_hash = unwrap_or_default (compute_sha256 sha256 (ser_policy_snapshots ser) (csv_policy_snapshots c));
         n = section_contents c;
         section_hashes =
           [\<lparr>csh_section = ''intent_versions'', csh_content_hash = intent_hash, csh_item_count = bc_intent_versions n\<rparr>,
            \<lparr>csh_section = ''artifacts'', csh_content_hash = artifacts_hash, csh_item_count = bc_artifacts n\<rparr>,
            \<lparr>csh_section = ''approvals'', csh_content_hash = approvals_hash, csh_item_count = bc_approvals n\<rparr>,
            \<lparr>csh_section = ''audit_events'', csh_content_hash = audit_hash, csh_item_count = bc_audit_events n\<rparr>,
            \<lparr>csh_section = ''policy_snapshots'', csh_content_hash = policy_hash, csh_item_count = bc_policy_snapshots n\<rparr>];
         section_results =
           [replay_section ''intent_versions'' (bc_intent_versions n) recorded_intent_versions intent_hash,
            replay_section ''artifacts'' (bc_artifacts n) recorded_artifacts artifacts_hash,
            replay_section ''approvals'' (bc_approvals n) recorded_approvals approvals_hash,
            replay_section ''audit_events'' (bc_audit_events n) recorded_audit_events audit_hash,
            replay_section ''policy_snapshots'' (bc_policy_snapshots n) recorded_policy_snapshots policy_hash]
     in \<lparr>vbr_report = from_results us now b section_results, vbr_bundle = b, vbr_section_hashes = section_hashes\<rparr>)"

definition verify_bundle_with_integrity ::
  "(string \<Rightarrow> string) \<Rightarrow> serializers \<Rightarrow> (uuid \<Rightarrow> string) \<Rightarrow> timestamp \<Rightarrow> ForensicBundle \<Rightarrow> ContentSectionsForVerification \<Rightarrow>
   string \<Rightarrow> string \<Rightarrow> string \<Rightarrow> string \<Rightarrow> string \<Rightarrow> (BundleReplayError, VerifyBundleReplayResponse) result" where
  "verify_bundle_with_integrity sha256 ser us now b c intent_versions_hash artifacts_hash approvals_hash audit_events_hash policy_snapshots_hash =
     Inr (replay_response sha256 ser us now b c intent_versions_hash artifacts_hash approvals_hash audit_events_hash policy_snapshots_hash)"

definition verify_bundle_from_integrity ::
  "(string \<Rightarrow> string) \<Rightarrow> serializers \<Rightarrow> (uuid \<Rightarrow> string) \<Rightarrow> timestamp \<Rightarrow> ForensicBundle \<Rightarrow> ContentSectionsForVerification \<Rightarrow>
   (BundleReplayError, VerifyBundleReplayResponse) result" where
  "verify_bundle_from_integrity sha256 ser us now b c =
     (if fb_status b \<noteq> Ready then Inl (BundleNotReady (fb_bundle_id b) (fb_status b))
      else let n = fb_integrity b in
        Inr (replay_response sha256 ser us now b c (bi_intent_versions_hash n) (bi_artifacts_hash n) (bi_approvals_hash n)
          (bi_audit_events_hash n) (bi_policy_snapshots_hash n)))"

definition display_BundleReplayError :: "(uuid \<Rightarrow> string) \<Rightarrow> BundleReplayError \<Rightarrow> string" where
  "display_BundleReplayError us e = (case e of
       InvalidBundleState i st reason \<Rightarrow> ''Bundle '' @ us i @ '' is in invalid state '' @ debug_BundleStatus st @ '': '' @ reason
     | VerificationFailed i failures \<Rightarrow> ''Bundle '' @ us i @ '' verification failed: '' @ join ''; '' failures
     | BundleNotReady i st \<Rightarrow> ''Bundle '' @ us i @ '' is not ready for replay (current status: '' @ debug_BundleStatus st @ '')'')"

definition verify_bundle_replay ::
  "(string \<Rightarrow> string) \<Rightarrow> serializers \<Rightarrow> (uuid \<Rightarrow> string) \<Rightarrow> timestamp \<Rightarrow> ForensicState \<Rightarrow> uuid \<Rightarrow> ContentSectionsForVerification \<Rightarrow>
   (ForensicBundleServiceError, VerifyBundleReplayResponse) result" where
  "verify_bundle_replay sha256 ser us now s i c =
     (case svc_get_bundle s i of
        Inl e \<Rightarrow> Inl e
      | Inr b \<Rightarrow> (case verify_bundle_from_integrity sha256 ser us now b c of
            Inl e \<Rightarrow> Inl (Replay (display_BundleReplayError us e))
          | Inr r \<Rightarrow> Inr r))"

definition verify_manifest_integrity :: "(string \<Rightarrow> string) \<Rightarrow> serializers \<Rightarrow> ForensicBundle \<Rightarrow> bool" where
  "verify_manifest_integrity sha256 ser b \<longleftrightarrow>
     unwrap_or_default (compute_sha256 sha256 (ser_bundle ser) (b\<lparr>fb_integrity := (fb_integrity b)\<lparr>bi_manifest_hash := []\<rparr>\<rparr>))
       = bi_manifest_hash (fb_integrity b)"

record BundleReplaySummary =
  brs_bundle_id :: uuid
  brs_tenant_id :: uuid
  brs_purpose :: BundlePurpose
  brs_time_range :: BundleTimeRange
  brs_status :: BundleStatus
  brs_contents :: BundleContents
  brs_created_at :: timestamp
  brs_created_by :: string
  brs_manifest_hash :: string
  brs_chain_verified :: bool
  brs_summary :: string

definition generate_summary :: "(uuid \<Rightarrow> string) \<Rightarrow> ForensicBundle \<Rightarrow> BundleReplaySummary" where
  "generate_summary us b =
     (let n = fb_contents b in
      \<lparr>brs_bundle_id = fb_bundle_id b, brs_tenant_id = fb_tenant_id b, brs_purpose = fb_purpose b, brs_time_range = fb_time_range b,
       brs_status = fb_status b, brs_contents = n, brs_created_at = fb_created_at b, brs_created_by = fb_created_by b,
       brs_manifest_hash = bi_manifest_hash (fb_integrity b), brs_chain_verified = bi_chain_verified (fb_integrity b),
       brs_summary = ''Bundle '' @ us (fb_bundle_id b) @ '' contains: '' @ show_nat (bc_intent_versions n) @ '' intent versions, '' @
         show_nat (bc_artifacts n) @ '' artifacts, '' @ show_nat (bc_approvals n) @ '' approvals, '' @
         show_nat (bc_audit_events n) @ '' audit events, '' @ show_nat (bc_policy_snapshots n) @ '' policy snapshots''\<rparr>)"

end
