(* ===== verification/Forensic_Laws.thy ===== *)
theory Forensic_Laws
  imports Forensic_Service
begin

text \<open>
  What the hashes of forensic bundles prove, and the life cycle of stored bundles. SHA-256 is not injective, so the
  tamper evidence is stated as a reduction: a manipulation that goes unnoticed exhibits two different strings
  with the same digest among those that were hashed.
\<close>

section \<open>The hash chain\<close>

abbreviation link_hash :: "(string \<Rightarrow> string) \<Rightarrow> string option \<Rightarrow> string \<Rightarrow> string" where
  "link_hash sha256 prev manifest \<equiv> chl_chain_hash (compute_chain_hash sha256 0 prev manifest)"

fun chain_ok :: "(string \<Rightarrow> string) \<Rightarrow> string option \<Rightarrow> (string option \<times> string) list \<Rightarrow> bool" where
  "chain_ok sha256 expected [] = True"
| "chain_ok sha256 expected ((prev, manifest) # links) = (prev = expected \<and> chain_ok sha256 (Some (link_hash sha256 prev manifest)) links)"

text \<open>The chain hash after the last link.\<close>

fun chain_head :: "(string \<Rightarrow> string) \<Rightarrow> string option \<Rightarrow> (string option \<times> string) list \<Rightarrow> string option" where
  "chain_head sha256 start [] = start"
| "chain_head sha256 start ((prev, manifest) # links) = chain_head sha256 (Some (link_hash sha256 prev manifest)) links"

text \<open>The strings hashed while a chain is computed.\<close>

definition hashed :: "(string \<Rightarrow> string) \<Rightarrow> (string option \<times> string) list \<Rightarrow> string set" where
  "hashed sha256 links = (\<Union>(prev, manifest) \<in> set links.
     insert manifest (case prev of Some p \<Rightarrow> {p @ sha256 manifest} | None \<Rightarrow> {}))"

definition collision :: "(string \<Rightarrow> string) \<Rightarrow> string set \<Rightarrow> string set \<Rightarrow> bool" where
  "collision sha256 A B \<longleftrightarrow> (\<exists>a \<in> A. \<exists>b \<in> B. a \<noteq> b \<and> sha256 a = sha256 b)"

lemma collision_mono: "collision sha256 A B \<Longrightarrow> A \<subseteq> A' \<Longrightarrow> B \<subseteq> B' \<Longrightarrow> collision sha256 A' B'"
  unfolding collision_def by blast

lemma collisionI: "sha256 a = sha256 b \<Longrightarrow> a \<in> A \<Longrightarrow> b \<in> B \<Longrightarrow> a = b \<or> collision sha256 A B"
  unfolding collision_def by blast

lemma hashed_Cons: "hashed sha256 ((p, m) # links) = insert m (case p of Some q \<Rightarrow> {q @ sha256 m} | None \<Rightarrow> {}) \<union> hashed sha256 links"
  by (simp add: hashed_def)

lemma verify_chain_loop_append:
  "verify_chain_loop sha256 now idx expected failures links = failures @ verify_chain_loop sha256 now idx expected [] links"
proof (induction links arbitrary: idx expected failures)
  case (Cons l links)
  obtain p m where l: "l = (p, m)" by (rule prod.exhaust)
  show ?case
    unfolding l verify_chain_loop.simps Let_def
    using Cons.IH [where failures = "failures @ [x]" for x] Cons.IH [where failures = "[x]" for x] Cons.IH [where failures = failures]
    by (cases "expected = p") (simp_all only: simp_thms not_True_eq_False not_False_eq_True if_True if_False append_assoc append_Nil)
qed simp

lemma verify_chain_loop_ok:
  "verify_chain_loop sha256 now idx expected [] links = [] \<longleftrightarrow> chain_ok sha256 expected links"
proof (induction links arbitrary: idx expected)
  case (Cons l links)
  obtain p m where l: "l = (p, m)" by (rule prod.exhaust)
  show ?case
    using verify_chain_loop_append [where failures = "[x]" for x]
    by (cases "expected = p") (simp_all add: l Let_def Cons.IH compute_chain_hash_def)
qed simp

lemma verify_chain_iff: "verify_chain sha256 now links = Inr () \<longleftrightarrow> chain_ok sha256 None links"
  by (simp add: verify_chain_def Let_def verify_chain_loop_ok)

text \<open>Equal links hash equal inputs, or two hashed strings collide.\<close>

lemma link_hash_inj:
  assumes len: "\<And>s. length (sha256 s) = 64" and eq: "link_hash sha256 p m = link_hash sha256 p' m'" and none: "p = None \<longleftrightarrow> p' = None"
  shows "(p = p' \<and> m = m') \<or> collision sha256 (hashed sha256 [(p, m)]) (hashed sha256 [(p', m')])"
proof (cases p)
  case None
  with none eq have "sha256 m = sha256 m'" by (simp add: compute_chain_hash_def Let_def)
  then show ?thesis using None none collisionI [of sha256 m m'] by (auto simp: hashed_def)
next
  case (Some q)
  with none obtain q' where q': "p' = Some q'" by auto
  from eq Some q' have "sha256 (q @ sha256 m) = sha256 (q' @ sha256 m')" by (simp add: compute_chain_hash_def Let_def)
  then have "q @ sha256 m = q' @ sha256 m' \<or> collision sha256 (hashed sha256 [(p, m)]) (hashed sha256 [(p', m')])"
    by (rule collisionI) (simp_all add: hashed_def Some q')
  then show ?thesis
  proof
    assume "q @ sha256 m = q' @ sha256 m'"
    then have "q = q'" "sha256 m = sha256 m'" using len by (simp_all add: append_eq_append_conv)
    then show ?thesis using Some q' collisionI [of sha256 m m'] by (auto simp: hashed_def)
  qed blast
qed

lemma chain_binding:
  assumes len: "\<And>s. length (sha256 s) = 64" and "length xs = length ys"
    and "chain_ok sha256 e xs" "chain_ok sha256 e' ys" "chain_head sha256 e xs = chain_head sha256 e' ys" "e = None \<longleftrightarrow> e' = None"
  shows "(e = e' \<and> xs = ys) \<or> collision sha256 (hashed sha256 xs) (hashed sha256 ys)"
  using assms(2-)
proof (induction xs ys arbitrary: e e' rule: list_induct2)
  case (Cons x xs y ys)
  obtain p m p' m' where xy: "x = (p, m)" "y = (p', m')" by (meson prod.exhaust)
  have pe: "p = e" "p' = e'" using Cons.prems by (simp_all add: xy)
  have IH: "(Some (link_hash sha256 p m) = Some (link_hash sha256 p' m') \<and> xs = ys) \<or> collision sha256 (hashed sha256 xs) (hashed sha256 ys)"
    by (rule Cons.IH) (use Cons.prems in \<open>auto simp: xy\<close>)
  then show ?case
  proof
    assume eq: "Some (link_hash sha256 p m) = Some (link_hash sha256 p' m') \<and> xs = ys"
    then have "(p = p' \<and> m = m') \<or> collision sha256 (hashed sha256 [(p, m)]) (hashed sha256 [(p', m')])"
      using Cons.prems(4) pe by (intro link_hash_inj [OF len]) simp_all
    moreover have "hashed sha256 [(p, m)] \<subseteq> hashed sha256 (x # xs)" "hashed sha256 [(p', m')] \<subseteq> hashed sha256 (y # ys)"
      by (auto simp: xy hashed_Cons hashed_def)
    ultimately show ?thesis
      using eq pe collision_mono unfolding xy by blast
  next
    assume "collision sha256 (hashed sha256 xs) (hashed sha256 ys)"
    moreover have "hashed sha256 xs \<subseteq> hashed sha256 (x # xs)" "hashed sha256 ys \<subseteq> hashed sha256 (y # ys)"
      by (auto simp: xy hashed_Cons)
    ultimately show ?thesis using collision_mono by blast
  qed
qed simp

text \<open>
  C31. The hash chain is tamper evident for its head. Two chains of the same length that both verify and end in
  the same chain hash are identical, or two different strings hashed for them have the same digest; all that is assumed of
  SHA-256 is that a digest has 64 characters. Verification alone says nothing about the last manifest, which no later link
  covers: it may be replaced by any other.
\<close>

theorem chain_tamper_evident:
  assumes "\<And>s. length (sha256 s) = 64" and "length xs = length ys"
    and "verify_chain sha256 now xs = Inr ()" and "verify_chain sha256 now' ys = Inr ()"
    and "chain_head sha256 None xs = chain_head sha256 None ys"
  shows "(xs = ys \<or> collision sha256 (hashed sha256 xs) (hashed sha256 ys)) \<and>
    (verify_chain sha256 now (links @ [(p, m)]) = Inr () \<longleftrightarrow> verify_chain sha256 now (links @ [(p, m')]) = Inr ())"
proof
  show "xs = ys \<or> collision sha256 (hashed sha256 xs) (hashed sha256 ys)"
    using chain_binding [where e = None and e' = None, OF assms(1,2)] assms(3-) by (simp add: verify_chain_iff)
  have "chain_ok sha256 e (links @ [(p, m)]) \<longleftrightarrow> chain_ok sha256 e (links @ [(p, m')])" for e
    by (induction sha256 e links rule: chain_ok.induct) simp_all
  then show "verify_chain sha256 now (links @ [(p, m)]) = Inr () \<longleftrightarrow> verify_chain sha256 now (links @ [(p, m')]) = Inr ()"
    by (simp add: verify_chain_iff)
qed

definition ex_sha :: "string \<Rightarrow> string" where
  "ex_sha s = take 64 (s @ replicate 64 (CHR ''0''))"

theorem chain_tamper_evident_witness:
  "verify_chain ex_sha 0 [(None, ''a''), (Some (ex_sha ''a''), ''b'')] = Inr () \<and>
   (verify_chain ex_sha 0 ([(None, ''a'')] @ [(Some (ex_sha ''a''), ''b'')]) = Inr () \<longleftrightarrow>
    verify_chain ex_sha 0 ([(None, ''a'')] @ [(Some (ex_sha ''a''), ''c'')]) = Inr ())"
proof -
  let ?c = "[(None, ''a''), (Some (ex_sha ''a''), ''b'')]"
  have len: "length (ex_sha s) = 64" for s by (simp add: ex_sha_def)
  have ok: "verify_chain ex_sha 0 ?c = Inr ()" by (simp add: verify_chain_iff compute_chain_hash_def Let_def)
  from chain_tamper_evident [OF len refl ok ok refl, of "[(None, ''a'')]"] ok show ?thesis by blast
qed

section \<open>Created bundles\<close>

text \<open>The digests recorded in a bundle, and the digests of given sections.\<close>

definition recorded_hashes :: "ForensicBundle \<Rightarrow> string list" where
  "recorded_hashes b = (let n = fb_integrity b in
     [bi_intent_versions_hash n, bi_artifacts_hash n, bi_approvals_hash n, bi_audit_events_hash n, bi_policy_snapshots_hash n])"

definition section_hashes :: "(string \<Rightarrow> string) \<Rightarrow> serializers \<Rightarrow> ContentSectionsForVerification \<Rightarrow> (string + string) list" where
  "section_hashes sha256 ser c =
     [compute_sha256 sha256 (ser_intent_versions ser) (csv_intent_versions c), compute_sha256 sha256 (ser_artifacts ser) (csv_artifacts c),
      compute_sha256 sha256 (ser_approvals ser) (csv_approvals c), compute_sha256 sha256 (ser_audit_events ser) (csv_audit_events c),
      compute_sha256 sha256 (ser_policy_snapshots ser) (csv_policy_snapshots c)]"

abbreviation unhashed :: "ForensicBundle \<Rightarrow> ForensicBundle" where
  "unhashed b \<equiv> b\<lparr>fb_integrity := (fb_integrity b)\<lparr>bi_manifest_hash := []\<rparr>\<rparr>"

lemma expect_ok_Some: "expect_ok x = Some v \<longleftrightarrow> x = Inr v"
  by (cases x) (simp_all add: expect_ok_def)

lemma bind_Some: "Option.bind x f = Some y \<longleftrightarrow> (\<exists>a. x = Some a \<and> f a = Some y)"
  by (cases x) simp_all

lemma generated_bundle:
  assumes "generate sha256 ser i clock r = Some g"
  shows "fb_bundle_id (bgr_bundle g) = i \<and> fb_tenant_id (bgr_bundle g) = gbr_tenant_id r \<and> fb_purpose (bgr_bundle g) = gbr_purpose r \<and>
    fb_status (bgr_bundle g) = Generating \<and> fb_contents (bgr_bundle g) = section_contents (gbr_sections r)"
    and "section_hashes sha256 ser (gbr_sections r) = map Inr (recorded_hashes (bgr_bundle g))"
    and "compute_sha256 sha256 (ser_bundle ser) (unhashed (bgr_bundle g)) = Inr (bi_manifest_hash (fb_integrity (bgr_bundle g)))"
  using assms
  by (auto simp: generate_def Let_def bind_Some expect_ok_Some ForensicBundle_new_def section_hashes_def recorded_hashes_def)

lemma prepared_bundle:
  assumes "prepare_bundle sha256 ser ser_uuid collect i clock r = Some (Inr (b, json))"
  obtains collected g where "collect (Some (cfr_tenant_id r)) (cfr_intent_ids r) (btr_start (cfr_time_range r), btr_end (cfr_time_range r)) = Inr collected"
    and "btr_start (cfr_time_range r) \<le> btr_end (cfr_time_range r)"
    and "generate sha256 ser i clock \<lparr>gbr_tenant_id = cfr_tenant_id r, gbr_time_range = cfr_time_range r, gbr_purpose = cfr_purpose r,
           gbr_created_by = cfr_created_by r, gbr_sections = collected_sections sha256 ser_uuid (cor_intents collected)\<rparr> = Some g"
    and "b = bgr_bundle g" and "ser_bundle ser b = Inr json"
  using assms
  by (auto simp: prepare_bundle_def not_less split: if_splits sum.splits) (metis sumE)

lemma created_bundle:
  assumes "create_bundle sha256 ser ser_uuid us collect i clock r s = Some (Inr resp, s')"
  obtains b json where "prepare_bundle sha256 ser ser_uuid collect i clock r = Some (Inr (b, json))"
    and "map_of (br_bundles (fst_repo s)) (fb_bundle_id b) = None"
    and "cfs_bundle resp = b\<lparr>fb_status := Ready\<rparr>"
    and "map_of (br_bundles (fst_repo s')) = (map_of (br_bundles (fst_repo s)))(fb_bundle_id b \<mapsto> b\<lparr>fb_status := Ready\<rparr>)"
    and "map_of (bst_store (fst_storage s')) = (map_of (bst_store (fst_storage s)))(fb_bundle_id b \<mapsto> json)"
  using assms
  by (auto simp: create_bundle_def bundle_create_def bundle_update_status_def storage_put_def Let_def
      split: option.splits sum.splits prod.splits if_splits)

lemma replay_verdict:
  assumes "fb_status b = Ready"
  shows "\<exists>v. verify_bundle_from_integrity sha256 ser us now b c = Inr v \<and> vbr_bundle v = b \<and>
    (rvr_overall_verified (vbr_report v) \<longleftrightarrow> map unwrap_or_default (section_hashes sha256 ser c) = recorded_hashes b)"
  using assms
  by (simp add: verify_bundle_from_integrity_def replay_response_def Let_def from_results_def replay_section_def section_hashes_def recorded_hashes_def filter_empty_conv)

lemma replay_of_stored:
  assumes "map_of (br_bundles (fst_repo s)) i = Some b" and "fb_status b = Ready"
  shows "\<exists>v. verify_bundle_replay sha256 ser us now s i c = Inr v \<and> vbr_bundle v = b \<and>
    (rvr_overall_verified (vbr_report v) \<longleftrightarrow> map unwrap_or_default (section_hashes sha256 ser c) = recorded_hashes b)"
proof -
  obtain v where "verify_bundle_from_integrity sha256 ser us now b c = Inr v" and "vbr_bundle v = b"
    and "rvr_overall_verified (vbr_report v) \<longleftrightarrow> map unwrap_or_default (section_hashes sha256 ser c) = recorded_hashes b"
    using replay_verdict [OF assms(2)] by blast
  then show ?thesis
    by (simp add: verify_bundle_replay_def svc_get_bundle_def bundle_get_def assms(1) del: map_of_eq_Some_iff)
qed

text \<open>
  C32. A bundle that was created can be replayed. After a successful \<open>create_bundle\<close> the bundle is
  stored under its identifier with status \<open>Ready\<close>, the tenant and purpose of the request and the item counts of the collected
  sections; the download returns the serialised bundle as it was generated; replaying the collected sections verifies, and
  replaying any other sections verifies exactly when their five digests are the recorded ones. The manifest hash verifies for the
  generated bundle. It was computed while the status was \<open>Generating\<close>: it verifies for the stored bundle exactly when the
  serialisations with the two statuses have the same digest.
\<close>

theorem create_bundle_replayable:
  assumes "create_bundle sha256 ser ser_uuid us collect i clock r s = Some (Inr resp, s')"
    and "collect (Some (cfr_tenant_id r)) (cfr_intent_ids r) (btr_start (cfr_time_range r), btr_end (cfr_time_range r)) = Inr collected"
  shows "let b = cfs_bundle resp; generated = b\<lparr>fb_status := Generating\<rparr>; sections = collected_sections sha256 ser_uuid (cor_intents collected) in
    svc_get_bundle s' i = Inr b \<and> fb_status b = Ready \<and> fb_tenant_id b = cfr_tenant_id r \<and> fb_purpose b = cfr_purpose r \<and>
    fb_contents b = section_contents sections \<and>
    (\<exists>json. ser_bundle ser generated = Inr json \<and> download_bundle_bytes s' i = Inr json) \<and>
    (\<exists>v. verify_bundle_replay sha256 ser us now s' i sections = Inr v \<and> rvr_overall_verified (vbr_report v)) \<and>
    (\<forall>c. \<exists>v. verify_bundle_replay sha256 ser us now s' i c = Inr v \<and>
       (rvr_overall_verified (vbr_report v) \<longleftrightarrow>
        map unwrap_or_default (section_hashes sha256 ser c) = map unwrap_or_default (section_hashes sha256 ser sections))) \<and>
    verify_manifest_integrity sha256 ser generated \<and>
    (verify_manifest_integrity sha256 ser b \<longleftrightarrow>
       unwrap_or_default (compute_sha256 sha256 (ser_bundle ser) (unhashed b)) =
       unwrap_or_default (compute_sha256 sha256 (ser_bundle ser) (unhashed generated)))"
proof -
  from assms(1) obtain b json where prep: "prepare_bundle sha256 ser ser_uuid collect i clock r = Some (Inr (b, json))"
    and resp: "cfs_bundle resp = b\<lparr>fb_status := Ready\<rparr>"
    and repo: "map_of (br_bundles (fst_repo s')) = (map_of (br_bundles (fst_repo s)))(fb_bundle_id b \<mapsto> b\<lparr>fb_status := Ready\<rparr>)"
    and store: "map_of (bst_store (fst_storage s')) = (map_of (bst_store (fst_storage s)))(fb_bundle_id b \<mapsto> json)"
    by (rule created_bundle)
  let ?c = "collected_sections sha256 ser_uuid (cor_intents collected)"
  from prep assms(2) obtain g where g: "generate sha256 ser i clock \<lparr>gbr_tenant_id = cfr_tenant_id r, gbr_time_range = cfr_time_range r,
      gbr_purpose = cfr_purpose r, gbr_created_by = cfr_created_by r, gbr_sections = ?c\<rparr> = Some g"
    and b: "b = bgr_bundle g" and json: "ser_bundle ser b = Inr json"
    by (elim prepared_bundle) simp
  note gen = generated_bundle [OF g, folded b, simplified]
  have same: "cfs_bundle resp\<lparr>fb_status := Generating\<rparr> = b" using gen(1) by (simp add: resp)
  have stored: "map_of (br_bundles (fst_repo s')) i = Some (cfs_bundle resp)" "fb_status (cfs_bundle resp) = Ready"
    using gen(1) by (simp_all add: repo resp del: map_of_eq_Some_iff)
  have rec: "recorded_hashes (cfs_bundle resp) = map unwrap_or_default (section_hashes sha256 ser ?c)"
    unfolding gen(2) by (simp add: unwrap_or_default_def resp recorded_hashes_def Let_def)
  note replay = replay_of_stored [OF stored, of sha256 ser us now, unfolded rec]
  show ?thesis
    unfolding Let_def same
  proof (intro conjI)
    show get: "svc_get_bundle s' i = Inr (cfs_bundle resp)"
      by (simp add: svc_get_bundle_def bundle_get_def stored(1) del: map_of_eq_Some_iff)
    show "\<exists>json. ser_bundle ser b = Inr json \<and> download_bundle_bytes s' i = Inr json"
      using gen(1) by (simp add: json download_bundle_bytes_def get storage_get_def store del: map_of_eq_Some_iff)
    show "verify_manifest_integrity sha256 ser b"
      by (simp add: verify_manifest_integrity_def gen(3) unwrap_or_default_def)
    show "verify_manifest_integrity sha256 ser (cfs_bundle resp) \<longleftrightarrow>
        unwrap_or_default (compute_sha256 sha256 (ser_bundle ser) (unhashed (cfs_bundle resp))) =
        unwrap_or_default (compute_sha256 sha256 (ser_bundle ser) (unhashed b))"
      by (simp add: verify_manifest_integrity_def gen(3) unwrap_or_default_def resp)
  qed (use gen(1) stored(2) replay resp in \<open>auto simp: resp\<close>)
qed

definition ex_ser :: serializers where
  "ex_ser = \<lparr>ser_intent_versions = \<lambda>xs. Inr (show_nat (length xs)), ser_artifacts = \<lambda>xs. Inr (show_nat (length xs)),
     ser_approvals = \<lambda>xs. Inr (show_nat (length xs)), ser_audit_events = \<lambda>xs. Inr (show_nat (length xs)),
     ser_policy_snapshots = \<lambda>xs. Inr (show_nat (length xs)), ser_bundle = \<lambda>b. Inr (debug_BundleStatus (fb_status b))\<rparr>"

definition ex_request :: CreateForensicBundleRequest where
  "ex_request = \<lparr>cfr_tenant_id = 1, cfr_intent_ids = [2], cfr_time_range = \<lparr>btr_start = 0, btr_end = 9\<rparr>, cfr_purpose = Legal,
     cfr_created_by = ''auditor''\<rparr>"

definition ex_collected :: "nat CollectionResult" where
  "ex_collected = \<lparr>cor_tenant_id = Some 1, cor_intent_id = 2, cor_collected_at = 0, cor_intents =
     [\<lparr>cid_intent_id = 2, cid_tenant_id = Some 1, cid_name = ''intent-2'', cid_versions =
       [\<lparr>cvd_version_number = 1, cvd_summary = ''Version 1'', cvd_change_type = ''UserEdit'', cvd_created_at = 3\<rparr>],
       cid_policy_snapshots = [], cid_audit_events = []\<rparr>], cor_total_audit_events = 0, cor_total_policy_snapshots = 0\<rparr>"

definition ex_collect :: "uuid option \<Rightarrow> uuid list \<Rightarrow> timestamp \<times> timestamp \<Rightarrow> (CollectorError, nat CollectionResult) result" where
  "ex_collect t ids rng = Inr ex_collected"

definition ex_forensic_state :: ForensicState where
  "ex_forensic_state = \<lparr>fst_repo = BundleRepo_new, fst_storage = \<lparr>bst_store = [], bst_by_tenant = [], bst_location = ''memory''\<rparr>\<rparr>"

theorem create_bundle_replayable_witness:
  "\<exists>resp s' sections v. create_bundle ex_sha ex_ser (\<lambda>u. Inr (show_nat (unat u))) (\<lambda>u. show_nat (unat u)) ex_collect 5 (\<lambda>n. int n) ex_request ex_forensic_state = Some (Inr resp, s') \<and>
     verify_bundle_replay ex_sha ex_ser (\<lambda>u. show_nat (unat u)) 7 s' 5 sections = Inr v \<and> rvr_overall_verified (vbr_report v) \<and>
     \<not> verify_manifest_integrity ex_sha ex_ser (cfs_bundle resp)"
proof -
  obtain resp s' where c: "create_bundle ex_sha ex_ser (\<lambda>u. Inr (show_nat (unat u))) (\<lambda>u. show_nat (unat u)) ex_collect 5 (\<lambda>n. int n) ex_request ex_forensic_state
      = Some (Inr resp, s')"
    by (simp add: create_bundle_def prepare_bundle_def ex_collect_def ex_request_def ex_forensic_state_def generate_def ex_ser_def
        compute_sha256_def expect_ok_def Let_def ForensicBundle_new_def bundle_create_def bundle_update_status_def BundleRepo_new_def
        BundleStatus_can_transition_to_def storage_put_def)
  have coll: "ex_collect (Some (cfr_tenant_id ex_request)) (cfr_intent_ids ex_request)
      (btr_start (cfr_time_range ex_request), btr_end (cfr_time_range ex_request)) =
      Inr ex_collected"
    by (simp add: ex_collect_def)
  have "\<not> verify_manifest_integrity ex_sha ex_ser (cfs_bundle resp)"
    using create_bundle_replayable [OF c coll]
    by (simp add: Let_def compute_sha256_def ex_ser_def ex_sha_def debug_BundleStatus_def unwrap_or_default_def)
  with c create_bundle_replayable [OF c coll] show ?thesis unfolding Let_def by blast
qed

section \<open>The life cycle of stored bundles\<close>

text \<open>
  The steps of the repository: every operation of the code that changes it is one of these or a sequence of them. An
  identifier is drawn at random for a new bundle, the repository refuses one that is taken.
\<close>

inductive bundle_step :: "BundleRepo \<Rightarrow> BundleRepo \<Rightarrow> bool" where
  step_create: "bundle_step r (snd (bundle_create us b r))"
| step_status: "bundle_step r (snd (bundle_update_status i st r))"
| step_contents: "bundle_step r (snd (update_contents i contents r))"

inductive_cases bundle_stepE: "bundle_step r r'"

definition bundle_inv :: "BundleRepo \<Rightarrow> bool" where
  "bundle_inv r \<longleftrightarrow> (\<forall>i b. map_of (br_bundles r) i = Some b \<longrightarrow> fb_bundle_id b = i) \<and>
     index_ok fb_tenant_id (br_bundles r) (br_by_tenant r) \<and>
     index_ok (\<lambda>b. (fb_tenant_id b, fb_status b)) (br_bundles r) (br_by_status r) \<and>
     index_ok (\<lambda>b. (fb_tenant_id b, fb_purpose b)) (br_bundles r) (br_by_purpose r)"

lemma bundle_inv_new: "bundle_inv BundleRepo_new"
  by (simp add: bundle_inv_def BundleRepo_new_def)

lemma bundle_inv_create: "bundle_inv r \<Longrightarrow> bundle_inv (snd (bundle_create us b r))"
  by (auto simp: bundle_inv_def bundle_create_def intro!: index_ok_push simp del: map_of_eq_Some_iff split: option.split)

lemma bundle_inv_status: "bundle_inv r \<Longrightarrow> bundle_inv (snd (bundle_update_status i st r))"
proof (cases "map_of (br_bundles r) i")
  case (Some b)
  assume inv: "bundle_inv r"
  note moved = index_ok_move [where v' = "b\<lparr>fb_status := st\<rparr>" and key = "\<lambda>b. (fb_tenant_id b, fb_status b)", OF _ Some refl, simplified]
  show ?thesis
    using inv Some
    by (auto simp: bundle_inv_def bundle_update_status_def Let_def simp del: map_of_eq_Some_iff
        intro: moved index_ok_update [OF _ Some])
qed (simp add: bundle_update_status_def)

lemma bundle_inv_contents: "bundle_inv r \<Longrightarrow> bundle_inv (snd (update_contents i contents r))"
  by (auto simp: bundle_inv_def update_contents_def Let_def simp del: map_of_eq_Some_iff intro: index_ok_update split: option.split)

lemma bundle_inv_step: "bundle_step r r' \<Longrightarrow> bundle_inv r \<Longrightarrow> bundle_inv r'"
  by (erule bundle_stepE) (simp_all add: bundle_inv_create bundle_inv_status bundle_inv_contents)

lemma bundle_inv_reachable: "bundle_step\<^sup>*\<^sup>* BundleRepo_new r \<Longrightarrow> bundle_inv r"
  by (induction rule: rtranclp_induct) (auto intro: bundle_inv_new bundle_inv_step)

interpretation by_status: tenant_store bundle_inv "\<lambda>r. table_values (br_bundles r)" fb_tenant_id
  "\<lambda>st b. fb_status b = st" "\<lambda>r st t. list_by_tenant_and_status r t st"
  by unfold_locales (auto simp: list_by_tenant_and_status_def set_indexed_values bundle_inv_def)

interpretation by_purpose: tenant_store bundle_inv "\<lambda>r. table_values (br_bundles r)" fb_tenant_id
  "\<lambda>p b. fb_purpose b = p" "\<lambda>r p t. list_by_tenant_and_purpose r t p"
  by unfold_locales (auto simp: list_by_tenant_and_purpose_def set_indexed_values bundle_inv_def)

interpretation terminals: tenant_store bundle_inv "\<lambda>r. table_values (br_bundles r)" fb_tenant_id
  "\<lambda>(_ :: unit) b. BundleStatus_is_terminal (fb_status b)" "\<lambda>r _ t. list_terminal_bundles r t None"
  by unfold_locales (auto simp: list_terminal_bundles_def truncate_vec_def set_indexed_values bundle_inv_def)

text \<open>What a step leaves of a stored bundle: everything but its status and item counts.\<close>

definition bundle_core where
  "bundle_core b = (fb_bundle_id b, fb_bundle_version b, fb_created_at b, fb_created_by b, fb_tenant_id b, fb_time_range b,
     fb_purpose b, fb_integrity b, fb_retention b)"

definition bundle_advances :: "ForensicBundle \<Rightarrow> ForensicBundle \<Rightarrow> bool" where
  "bundle_advances b b' \<longleftrightarrow> bundle_core b' = bundle_core b \<and>
     (fb_status b' = fb_status b \<or> fb_status b = Pending \<or> fb_status b = Generating \<and> BundleStatus_is_terminal (fb_status b'))"

lemma bundle_advances_refl: "bundle_advances b b"
  by (simp add: bundle_advances_def)

lemma bundle_advances_trans: "bundle_advances a b \<Longrightarrow> bundle_advances b c \<Longrightarrow> bundle_advances a c"
  by (auto simp: bundle_advances_def BundleStatus_is_terminal_def)

lemma can_transition_advances:
  "BundleStatus_can_transition_to (fb_status b) st \<Longrightarrow> bundle_advances b (b\<lparr>fb_status := st\<rparr>)"
  by (cases "fb_status b"; cases st)
    (simp_all add: bundle_advances_def bundle_core_def BundleStatus_can_transition_to_def BundleStatus_is_terminal_def)

lemma bundle_advances_contents: "bundle_advances b (b\<lparr>fb_contents := c\<rparr>)"
  by (simp add: bundle_advances_def bundle_core_def)

lemma bundle_step_advances:
  assumes "bundle_step r r'" and "map_of (br_bundles r) i = Some b"
  shows "\<exists>b'. map_of (br_bundles r') i = Some b' \<and> bundle_advances b b'"
  using assms
  by (cases rule: bundle_step.cases)
    (auto simp: bundle_create_def bundle_update_status_def update_contents_def Let_def simp del: map_of_eq_Some_iff
      intro: bundle_advances_refl can_transition_advances bundle_advances_contents split: option.split if_splits)

lemma bundle_steps_advance:
  assumes "bundle_step\<^sup>*\<^sup>* r r'" and "map_of (br_bundles r) i = Some b"
  shows "\<exists>b'. map_of (br_bundles r') i = Some b' \<and> bundle_advances b b'"
  using assms
  by (induction rule: rtranclp_induct) (meson bundle_advances_refl bundle_advances_trans bundle_step_advances)+

lemma complete_bundle_creation_result:
  assumes "map_of (br_bundles r) i = Some b"
  shows "fst (complete_bundle_creation i r) =
    (if BundleStatus_is_terminal (fb_status b) then Inl (InvalidTransition (fb_status b) Generating ''invalid status transition'')
     else Inr (b\<lparr>fb_status := Ready\<rparr>))"
  using assms
  by (cases "fb_status b")
    (simp_all add: complete_bundle_creation_def transition_to_generating_def transition_to_ready_def transition_with_def
      bundle_update_status_def transition_error_def parse_status_def debug_BundleStatus_def BundleStatus_can_transition_to_def
      BundleStatus_is_terminal_def Let_def del: map_of_eq_Some_iff)

text \<open>
  C33. The life cycle of a stored bundle. Whatever the repository does after a bundle was stored, the bundle stays
  under its identifier and only its status and item counts change; a terminal status is final and no bundle returns to
  \<open>Pending\<close>. In every reachable state the queries by status, by purpose and for terminal bundles return
  exactly the matching bundles of the tenant, the first two without repetition, and completing a bundle makes it \<open>Ready\<close> unless its
  status is terminal, in which case the error names the status it is in.
\<close>

theorem bundle_life_cycle:
  assumes "bundle_step\<^sup>*\<^sup>* BundleRepo_new r" and "bundle_step\<^sup>*\<^sup>* r r'" and "map_of (br_bundles r) i = Some b"
  shows "(\<exists>b'. map_of (br_bundles r') i = Some b' \<and> bundle_core b' = bundle_core b \<and>
      (BundleStatus_is_terminal (fb_status b) \<longrightarrow> fb_status b' = fb_status b) \<and> (fb_status b' = Pending \<longrightarrow> fb_status b = Pending)) \<and>
    set (list_by_tenant_and_status r' t st) = {b. (\<exists>j. map_of (br_bundles r') j = Some b) \<and> fb_tenant_id b = t \<and> fb_status b = st} \<and>
    set (list_by_tenant_and_purpose r' t p) = {b. (\<exists>j. map_of (br_bundles r') j = Some b) \<and> fb_tenant_id b = t \<and> fb_purpose b = p} \<and>
    set (list_terminal_bundles r' t None) =
      {b. (\<exists>j. map_of (br_bundles r') j = Some b) \<and> fb_tenant_id b = t \<and> BundleStatus_is_terminal (fb_status b)} \<and>
    distinct (map fb_bundle_id (list_by_tenant_and_status r' t st)) \<and> distinct (map fb_bundle_id (list_by_tenant_and_purpose r' t p)) \<and>
    fst (complete_bundle_creation i r) =
      (if BundleStatus_is_terminal (fb_status b) then Inl (InvalidTransition (fb_status b) Generating ''invalid status transition'')
       else Inr (b\<lparr>fb_status := Ready\<rparr>))"
proof -
  have inv: "bundle_inv r'" using assms(1,2) by (meson bundle_inv_reachable rtranclp_trans)
  then have "distinct (map fb_bundle_id (list_by_tenant_and_status r' t st))" "distinct (map fb_bundle_id (list_by_tenant_and_purpose r' t p))"
    unfolding list_by_tenant_and_status_def list_by_tenant_and_purpose_def bundle_inv_def
    by (auto intro!: distinct_indexed simp del: map_of_eq_Some_iff)
  moreover obtain b' where "map_of (br_bundles r') i = Some b'" "bundle_advances b b'"
    using bundle_steps_advance [OF assms(2,3)] by blast
  ultimately show ?thesis
    using complete_bundle_creation_result [OF assms(3)] by_status.exact [OF inv, of t st] by_purpose.exact [OF inv, of t p] terminals.exact [OF inv, of t]
    by (auto simp: bundle_advances_def BundleStatus_is_terminal_def table_values_iff simp del: map_of_eq_Some_iff)
qed

definition ex_bundle :: ForensicBundle where
  "ex_bundle = ForensicBundle_new 5 0 0 1 \<lparr>btr_start = 0, btr_end = 9\<rparr> Legal
     \<lparr>bc_intent_versions = 0, bc_artifacts = 0, bc_approvals = 0, bc_audit_events = 0, bc_policy_snapshots = 0\<rparr> ''auditor'' None"

theorem bundle_life_cycle_witness:
  "\<exists>r. map_of (br_bundles r) 5 = Some ex_bundle \<and> fst (complete_bundle_creation 5 r) = Inr (ex_bundle\<lparr>fb_status := Ready\<rparr>)"
proof -
  let ?r = "snd (bundle_create (\<lambda>u. []) ex_bundle BundleRepo_new)"
  have step: "bundle_step\<^sup>*\<^sup>* BundleRepo_new ?r" by (rule r_into_rtranclp, rule step_create)
  have get: "map_of (br_bundles ?r) 5 = Some ex_bundle"
    by (simp add: bundle_create_def BundleRepo_new_def ex_bundle_def ForensicBundle_new_def)
  from bundle_life_cycle [OF step rtranclp.rtrancl_refl get] get show ?thesis
    by (auto simp: ex_bundle_def ForensicBundle_new_def BundleStatus_is_terminal_def simp del: map_of_eq_Some_iff)
qed

end
