(* ===== verification/Approval_Requests.thy ===== *)
theory Approval_Requests
  imports Intent_Types Tenant_Store
begin

text \<open>
  Approval requests, \<open>crates/intent-service/src/approval_request_repo.rs\<close>: the record, the in-memory repository and the database
  encoding of the status. Identifiers and the time are arguments; \<open>empty_object\<close> stands for the empty JSON object.
\<close>

section \<open>Requests\<close>

datatype (plugins only: size code) ApprovalRequestStatus = Pending | Approved | Rejected | Expired | Cancelled

record 'j ApprovalRequest =
  aq_id :: uuid
  aq_intent_id :: uuid
  aq_intent_version_from :: i32
  aq_intent_version_to :: i32
  aq_workflow_id :: uuid
  aq_tenant_id :: uuid
  aq_requestor_id :: string
  aq_requestor_type :: string
  aq_decision_class :: string
  aq_reason :: string
  aq_metadata :: 'j
  aq_status :: ApprovalRequestStatus
  aq_created_at :: timestamp
  aq_updated_at :: timestamp
  aq_expires_at :: "timestamp option"
  aq_resolved_at :: "timestamp option"
  aq_resolved_by :: "string option"
  aq_resolution_notes :: "string option"

definition new_pending ::
  "'j \<Rightarrow> uuid \<Rightarrow> timestamp \<Rightarrow> uuid \<Rightarrow> i32 \<Rightarrow> i32 \<Rightarrow> uuid \<Rightarrow> uuid \<Rightarrow> string \<Rightarrow> string \<Rightarrow> string \<Rightarrow> string \<Rightarrow> 'j ApprovalRequest" where
  "new_pending empty_object i now intent_id intent_version_from intent_version_to workflow_id tenant_id requestor_id requestor_type
     decision_class reason =
     \<lparr>aq_id = i, aq_intent_id = intent_id, aq_intent_version_from = intent_version_from, aq_intent_version_to = intent_version_to,
      aq_workflow_id = workflow_id, aq_tenant_id = tenant_id, aq_requestor_id = requestor_id, aq_requestor_type = requestor_type,
      aq_decision_class = decision_class, aq_reason = reason, aq_metadata = empty_object, aq_status = Pending, aq_created_at = now,
      aq_updated_at = now, aq_expires_at = None, aq_resolved_at = None, aq_resolved_by = None, aq_resolution_notes = None\<rparr>"

text \<open>The fields that every resolution of a request sets.\<close>

definition resolve_request ::
  "ApprovalRequestStatus \<Rightarrow> timestamp \<Rightarrow> string \<Rightarrow> string option \<Rightarrow> 'j ApprovalRequest \<Rightarrow> 'j ApprovalRequest" where
  "resolve_request status now resolved_by notes q =
     q\<lparr>aq_status := status, aq_updated_at := now, aq_resolved_at := Some now, aq_resolved_by := Some resolved_by,
       aq_resolution_notes := notes\<rparr>"

definition debug_ApprovalRequestStatus :: "ApprovalRequestStatus \<Rightarrow> string" where
  "debug_ApprovalRequestStatus st = (case st of Pending \<Rightarrow> ''Pending'' | Approved \<Rightarrow> ''Approved'' | Rejected \<Rightarrow> ''Rejected''
     | Expired \<Rightarrow> ''Expired'' | Cancelled \<Rightarrow> ''Cancelled'')"

section \<open>The repository\<close>

record 'j ApprovalRepo =
  apr_requests :: "(uuid, 'j ApprovalRequest) hmap"
  apr_by_intent :: "(uuid, uuid list) hmap"
  apr_by_tenant :: "(uuid, uuid list) hmap"

definition ApprovalRepo_new :: "'j ApprovalRepo" where
  "ApprovalRepo_new = \<lparr>apr_requests = [], apr_by_intent = [], apr_by_tenant = []\<rparr>"

definition create_approval_request :: "'j ApprovalRequest \<Rightarrow> 'j ApprovalRepo \<Rightarrow> 'j ApprovalRequest ire_result \<times> 'j ApprovalRepo" where
  "create_approval_request q r =
     (Inr q, r\<lparr>apr_requests := hm_insert (aq_id q) q (apr_requests r),
        apr_by_intent := index_push (aq_intent_id q) (aq_id q) (apr_by_intent r),
        apr_by_tenant := index_push (aq_tenant_id q) (aq_id q) (apr_by_tenant r)\<rparr>)"

definition get_approval_request :: "'j ApprovalRepo \<Rightarrow> uuid \<Rightarrow> 'j ApprovalRequest ire_result" where
  "get_approval_request r i = (case map_of (apr_requests r) i of Some q \<Rightarrow> Inr q | None \<Rightarrow> Inl (ApprovalRequestNotFound i))"

definition list_pending_by_intent :: "'j ApprovalRepo \<Rightarrow> uuid \<Rightarrow> uuid \<Rightarrow> 'j ApprovalRequest list" where
  "list_pending_by_intent r intent_id tenant_id =
     newest_first aq_created_at (filter (\<lambda>q. aq_tenant_id q = tenant_id \<and> aq_status q = Pending)
       (indexed (apr_requests r) (apr_by_intent r) intent_id))"

definition list_pending_by_tenant :: "'j ApprovalRepo \<Rightarrow> uuid \<Rightarrow> 'j ApprovalRequest list" where
  "list_pending_by_tenant r tenant_id =
     newest_first aq_created_at (filter (\<lambda>q. aq_tenant_id q = tenant_id \<and> aq_status q = Pending)
       (indexed (apr_requests r) (apr_by_tenant r) tenant_id))"

definition aq_list_by_intent :: "'j ApprovalRepo \<Rightarrow> uuid \<Rightarrow> uuid \<Rightarrow> 'j ApprovalRequest list" where
  "aq_list_by_intent r intent_id tenant_id =
     newest_first aq_created_at (filter (\<lambda>q. aq_tenant_id q = tenant_id) (indexed (apr_requests r) (apr_by_intent r) intent_id))"

text \<open>The check that a request is pending and its resolution; the two operations differ in the error for a missing request.\<close>

definition resolve_pending ::
  "IntentRebaseError \<Rightarrow> uuid \<Rightarrow> ApprovalRequestStatus \<Rightarrow> timestamp \<Rightarrow> string \<Rightarrow> string option \<Rightarrow> 'j ApprovalRepo \<Rightarrow>
   'j ApprovalRequest ire_result \<times> 'j ApprovalRepo" where
  "resolve_pending missing i status now resolved_by notes r =
     (case map_of (apr_requests r) i of
        None \<Rightarrow> (Inl missing, r)
      | Some q \<Rightarrow>
          if aq_status q \<noteq> Pending then (Inl (ApprovalRequestNotPending i (debug_ApprovalRequestStatus (aq_status q))), r)
          else let q' = resolve_request status now resolved_by notes q
               in (Inr q', r\<lparr>apr_requests := hm_insert i q' (apr_requests r)\<rparr>))"

definition update_approval_request_status ::
  "(uuid \<Rightarrow> string) \<Rightarrow> uuid \<Rightarrow> ApprovalRequestStatus \<Rightarrow> timestamp \<Rightarrow> string \<Rightarrow> string option \<Rightarrow> 'j ApprovalRepo \<Rightarrow>
   'j ApprovalRequest ire_result \<times> 'j ApprovalRepo" where
  "update_approval_request_status us i status now resolved_by resolution_notes =
     resolve_pending (Internal (''approval request not found: '' @ us i)) i status now resolved_by resolution_notes"

definition mark_expired ::
  "uuid \<Rightarrow> timestamp \<Rightarrow> string \<Rightarrow> string \<Rightarrow> 'j ApprovalRepo \<Rightarrow> 'j ApprovalRequest ire_result \<times> 'j ApprovalRepo" where
  "mark_expired i now expired_by reason =
     resolve_pending (ApprovalRequestNotFound i) i Expired now expired_by (Some reason)"

text \<open>\<open>for request in requests.values_mut()\<close>: the requests that satisfy the condition are cancelled in place.\<close>

definition cancel_where ::
  "('j ApprovalRequest \<Rightarrow> bool) \<Rightarrow> timestamp \<Rightarrow> string \<Rightarrow> string \<Rightarrow> 'j ApprovalRepo \<Rightarrow> usize ire_result \<times> 'j ApprovalRepo" where
  "cancel_where P now cancelled_by reason r =
     (Inr (length (filter (\<lambda>kq. P (snd kq)) (apr_requests r))),
      r\<lparr>apr_requests := map (\<lambda>(k, q). (k, if P q then resolve_request Cancelled now cancelled_by (Some reason) q else q)) (apr_requests r)\<rparr>)"

definition cancel_pending_by_intent ::
  "uuid \<Rightarrow> uuid \<Rightarrow> timestamp \<Rightarrow> string \<Rightarrow> string \<Rightarrow> 'j ApprovalRepo \<Rightarrow> usize ire_result \<times> 'j ApprovalRepo" where
  "cancel_pending_by_intent intent_id tenant_id =
     cancel_where (\<lambda>q. aq_intent_id q = intent_id \<and> aq_tenant_id q = tenant_id \<and> aq_status q = Pending)"

definition cancel_approved_by_intent ::
  "uuid \<Rightarrow> uuid \<Rightarrow> timestamp \<Rightarrow> string \<Rightarrow> string \<Rightarrow> 'j ApprovalRepo \<Rightarrow> usize ire_result \<times> 'j ApprovalRepo" where
  "cancel_approved_by_intent intent_id tenant_id =
     cancel_where (\<lambda>q. aq_intent_id q = intent_id \<and> aq_tenant_id q = tenant_id \<and> aq_status q = Approved)"

definition cancel_approved_by_ids ::
  "uuid list \<Rightarrow> uuid \<Rightarrow> timestamp \<Rightarrow> string \<Rightarrow> string \<Rightarrow> 'j ApprovalRepo \<Rightarrow> usize ire_result \<times> 'j ApprovalRepo" where
  "cancel_approved_by_ids approval_ids tenant_id =
     cancel_where (\<lambda>q. aq_id q \<in> set approval_ids \<and> aq_tenant_id q = tenant_id \<and> aq_status q = Approved)"

definition approval_request_status_to_string :: "ApprovalRequestStatus \<Rightarrow> string" where
  "approval_request_status_to_string st = (case st of Pending \<Rightarrow> ''pending'' | Approved \<Rightarrow> ''approved'' | Rejected \<Rightarrow> ''rejected''
     | Expired \<Rightarrow> ''expired'' | Cancelled \<Rightarrow> ''cancelled'')"

definition approval_request_status_from_string :: "string \<Rightarrow> ApprovalRequestStatus" where
  "approval_request_status_from_string s =
     (if s = ''approved'' then Approved else if s = ''rejected'' then Rejected else if s = ''expired'' then Expired
      else if s = ''cancelled'' then Cancelled else Pending)"

section \<open>The invariant\<close>

definition approval_inv :: "'j ApprovalRepo \<Rightarrow> bool" where
  "approval_inv r \<longleftrightarrow> distinct (map fst (apr_requests r)) \<and> (\<forall>i q. map_of (apr_requests r) i = Some q \<longrightarrow> aq_id q = i) \<and>
     index_ok aq_intent_id (apr_requests r) (apr_by_intent r) \<and> index_ok aq_tenant_id (apr_requests r) (apr_by_tenant r)"

lemma approval_inv_new: "approval_inv ApprovalRepo_new"
  by (simp add: approval_inv_def ApprovalRepo_new_def)

lemma approval_inv_create:
  assumes "approval_inv r" and "map_of (apr_requests r) (aq_id q) = None"
  shows "approval_inv (snd (create_approval_request q r))"
  using assms by (auto simp: approval_inv_def create_approval_request_def index_ok_push distinct_hm_insert simp del: map_of_eq_Some_iff)

text \<open>Changing the values of a table without changing their keys keeps every index.\<close>

lemma map_of_map_values: "map_of (map (\<lambda>(k, v). (k, f v)) t) i = map_option f (map_of t i)"
  by (induction t) auto

lemma index_ok_map_values:
  assumes "index_ok key t m" and "\<And>v. key (f v) = key v"
  shows "index_ok key (map (\<lambda>(k, v). (k, f v)) t) m"
  using assms(1) unfolding index_ok_opt_def map_of_map_values
  by (auto simp: assms(2) simp del: map_of_eq_Some_iff)

lemma resolve_request_fields [simp]:
  "aq_id (resolve_request st now by n q) = aq_id q" "aq_intent_id (resolve_request st now by n q) = aq_intent_id q"
  "aq_tenant_id (resolve_request st now by n q) = aq_tenant_id q" "aq_status (resolve_request st now by n q) = st"
  by (simp_all add: resolve_request_def)

lemma approval_inv_cancel: "approval_inv r \<Longrightarrow> approval_inv (snd (cancel_where P now by reason r))"
  unfolding approval_inv_def cancel_where_def
  by (auto simp: index_ok_map_values [where f = "\<lambda>q. if P q then resolve_request Cancelled now by (Some reason) q else q"]
      map_of_map_values [where f = "\<lambda>q. if P q then resolve_request Cancelled now by (Some reason) q else q"]
      comp_def case_prod_beta simp del: map_of_eq_Some_iff)

lemma approval_inv_resolve: "approval_inv r \<Longrightarrow> approval_inv (snd (resolve_pending e i st now by n r))"
  by (auto simp: approval_inv_def resolve_pending_def Let_def distinct_hm_insert simp del: map_of_eq_Some_iff
      intro: index_ok_update split: option.split)

interpretation approvals: tenant_store approval_inv "\<lambda>r. table_values (apr_requests r)" aq_tenant_id
  "\<lambda>intent_id q. aq_intent_id q = intent_id" aq_list_by_intent
  by unfold_locales (auto simp: aq_list_by_intent_def set_indexed_values approval_inv_def)

interpretation pending_requests: tenant_store approval_inv "\<lambda>r. table_values (apr_requests r)" aq_tenant_id
  "\<lambda>intent_id q. aq_intent_id q = intent_id \<and> aq_status q = Pending" list_pending_by_intent
  by unfold_locales (auto simp: list_pending_by_intent_def set_indexed_values approval_inv_def)

interpretation pending_of_tenant: tenant_store approval_inv "\<lambda>r. table_values (apr_requests r)" aq_tenant_id
  "\<lambda>(_ :: unit) q. aq_status q = Pending" "\<lambda>r _. list_pending_by_tenant r"
  by unfold_locales (auto simp: list_pending_by_tenant_def set_indexed_values approval_inv_def)

end
