(* ===== verification/Intent_Service.thy ===== *)
theory Intent_Service
  imports Planner Classification Intent_Repo Approval_Requests Audit_Log
begin

text \<open>
  The intent service, \<open>crates/intent-service/src/intent_service.rs\<close>, over the in-memory repositories: creating intents and
  versions, with the cancellation of the approval requests that a new version makes stale and its audit event; reading versions;
  the diff and the rebase preview of two versions, with the affected items of the impact classification.
  The graph, the approvals and the audit log are optional, as in the constructors of the service. Its methods take the locks of
  one repository after the other: \<open>create_version\<close> is split at the point where it has read the intent.
\<close>

section \<open>State\<close>

record 'j IntentService =
  is_repo :: "'j IntentRepo"
  is_graph :: "'j GraphState option"
  is_approvals :: "'j ApprovalRepo option"
  is_audit :: "'j AuditRepo option"

definition system_actor_id :: string where
  "system_actor_id = ''intent-service/system''"

record 'j IntentHeadResponse =
  ihr_intent :: Intent
  ihr_version :: "'j IntentVersion"
  ihr_row_version :: i32

record 'j ListVersionsResponse =
  lvr_intent_id :: uuid
  lvr_versions :: "'j IntentVersion list"
  lvr_total :: usize

record ApprovalCancelledAuditPayload =
  acp_intent_id :: uuid
  acp_cancelled_version_from :: i32
  acp_cancelled_version_to :: i32
  acp_decision_class :: string
  acp_cancelled_by :: string
  acp_cancellation_reason :: string
  acp_cancelled_count :: usize

text \<open>
  What a call draws from outside: the hash of a payload, fresh identifiers, the clock, the trace context of the task and
  \<open>serde_json::to_value\<close> on the audit payload, which does not fail.
\<close>

record 'j version_env =
  ve_hash :: "'j IntentPayload \<Rightarrow> string"
  ve_version_id :: uuid
  ve_now :: timestamp
  ve_cancelled_at :: timestamp
  ve_audit_id :: uuid
  ve_audit_at :: timestamp
  ve_trace :: TraceContext
  ve_json :: "ApprovalCancelledAuditPayload \<Rightarrow> 'j"

section \<open>Creating versions\<close>

definition create_intent ::
  "('j IntentPayload \<Rightarrow> string) \<Rightarrow> uuid \<Rightarrow> uuid \<Rightarrow> uuid \<Rightarrow> timestamp \<Rightarrow> 'j CreateIntentRequest \<Rightarrow> 'j IntentService \<Rightarrow>
   CreateIntentResponse ire_result \<times> 'j IntentService" where
  "create_intent hash intent_id version_id default_tenant now request s =
     (let (result, repo) = create_intent_tx hash intent_id version_id default_tenant now request (is_repo s) in (result, s\<lparr>is_repo := repo\<rparr>))"

definition record_approval_cancelled ::
  "'j version_env \<Rightarrow> uuid \<Rightarrow> string \<Rightarrow> uuid \<Rightarrow> ApprovalCancelledAuditPayload \<Rightarrow> 'j AuditRepo \<Rightarrow> unit ire_result \<times> 'j AuditRepo" where
  "record_approval_cancelled env tenant_id actor_id intent_id payload =
     create_audit_event \<lparr>ae_id = ve_audit_id env, ae_tenant_id = tenant_id, ae_event_type = ApprovalCancelled, ae_actor_id = actor_id,
       ae_intent_id = Some intent_id, ae_artifact_id = None, ae_payload = ve_json env payload, ae_trace_id = trace_id (ve_trace env),
       ae_span_id = span_id (ve_trace env), ae_occurred_at = ve_audit_at env\<rparr>"

text \<open>Phase 2b of \<open>create_version\<close>: pending approval requests of the intent are cancelled, and an event records how many.\<close>

definition cancellation_reason :: "i32 \<Rightarrow> i32 \<Rightarrow> string" where
  "cancellation_reason old_version new_version =
     ''Intent version changed from v'' @ show_int old_version @ '' to v'' @ show_int new_version"

definition cancel_stale_requests :: "'j version_env \<Rightarrow> uuid \<Rightarrow> Intent \<Rightarrow> i32 \<Rightarrow> 'j IntentService \<Rightarrow> 'j IntentService" where
  "cancel_stale_requests env intent_id intent new_version s =
     (case is_approvals s of
        None \<Rightarrow> s
      | Some approvals \<Rightarrow>
          let reason = cancellation_reason (i_current_version intent) new_version;
              (result, approvals') = cancel_pending_by_intent intent_id (i_tenant_id intent) (ve_cancelled_at env) system_actor_id reason approvals;
              cancelled_count = (case result of Inr n \<Rightarrow> n | Inl _ \<Rightarrow> 0);
              s1 = s\<lparr>is_approvals := Some approvals'\<rparr>
          in if cancelled_count > 0 then
               s1\<lparr>is_audit := map_option (\<lambda>audit. snd (record_approval_cancelled env (i_tenant_id intent) system_actor_id intent_id
                 \<lparr>acp_intent_id = intent_id, acp_cancelled_version_from = i_current_version intent,
                  acp_cancelled_version_to = new_version, acp_decision_class = ''D/E'', acp_cancelled_by = system_actor_id,
                  acp_cancellation_reason = reason, acp_cancelled_count = cancelled_count\<rparr> audit)) (is_audit s1)\<rparr>
             else s1)"

text \<open>What follows the read of the intent and its row version.\<close>

definition create_version_rest ::
  "'j version_env \<Rightarrow> uuid \<Rightarrow> 'j CreateVersionRequest \<Rightarrow> i32 option \<Rightarrow> i32 option \<Rightarrow> Intent \<times> i32 \<Rightarrow> 'j IntentService \<Rightarrow>
   CreateVersionResponse ire_result \<times> 'j IntentService" where
  "create_version_rest env intent_id request expected_version expected_row_version read s =
     (let (intent, row_version) = read;
          exp_ver = (case expected_version of Some v \<Rightarrow> v | None \<Rightarrow> i_current_version intent);
          exp_row_ver = (case expected_row_version of Some v \<Rightarrow> v | None \<Rightarrow> row_version);
          (result, repo) = create_version_with_occ (ve_hash env) (ve_version_id env) (ve_now env) intent_id request exp_ver exp_row_ver (is_repo s);
          s1 = s\<lparr>is_repo := repo\<rparr>
      in case result of
           Inl e \<Rightarrow> (Inl e, s1)
         | Inr response \<Rightarrow> (Inr response, cancel_stale_requests env intent_id intent (cvs_version_number response) s1))"

definition create_version ::
  "'j version_env \<Rightarrow> uuid \<Rightarrow> 'j CreateVersionRequest \<Rightarrow> i32 option \<Rightarrow> i32 option \<Rightarrow> 'j IntentService \<Rightarrow>
   CreateVersionResponse ire_result \<times> 'j IntentService" where
  "create_version env intent_id request expected_version expected_row_version s =
     (case get_intent_for_update (is_repo s) intent_id of
        Inl e \<Rightarrow> (Inl e, s)
      | Inr read \<Rightarrow> create_version_rest env intent_id request expected_version expected_row_version read s)"

section \<open>Reading versions\<close>

definition get_intent_head ::
  "(uuid \<Rightarrow> string) \<Rightarrow> 'j IntentService \<Rightarrow> uuid \<Rightarrow> 'j IntentHeadResponse ire_result" where
  "get_intent_head us s intent_id =
     (case get_intent_for_update (is_repo s) intent_id of
        Inl e \<Rightarrow> Inl e
      | Inr (intent, row_version) \<Rightarrow>
          (case get_version_by_intent_and_number us (is_repo s) intent_id (i_current_version intent) of
             Inl e \<Rightarrow> Inl e
           | Inr version \<Rightarrow> Inr \<lparr>ihr_intent = intent, ihr_version = version, ihr_row_version = row_version\<rparr>))"

definition list_versions :: "'j IntentService \<Rightarrow> uuid \<Rightarrow> 'j ListVersionsResponse ire_result" where
  "list_versions s intent_id =
     (case get_intent (is_repo s) intent_id of
        Inl e \<Rightarrow> Inl e
      | Inr _ \<Rightarrow>
          let versions = sort_key (\<lambda>v. - v_version_number v) (get_versions_by_intent (is_repo s) intent_id)
          in Inr \<lparr>lvr_intent_id = intent_id, lvr_versions = versions, lvr_total = length versions\<rparr>)"

section \<open>Diff and preview\<close>

text \<open>The checks that both methods start with: the order of the numbers, then the two lookups.\<close>

definition fetch_versions ::
  "(uuid \<Rightarrow> string) \<Rightarrow> 'j IntentService \<Rightarrow> uuid \<Rightarrow> i32 \<Rightarrow> i32 \<Rightarrow> ('j IntentVersion \<times> 'j IntentVersion) ire_result" where
  "fetch_versions us s intent_id from_version to_version =
     (if from_version \<ge> to_version then
        Inl (InvalidIntentVersion (''from_version ('' @ show_int from_version @ '') must be less than to_version ('' @ show_int to_version @ '')''))
      else case get_version_by_intent_and_number us (is_repo s) intent_id from_version of
          Inl e \<Rightarrow> Inl e
        | Inr v1 \<Rightarrow> (case get_version_by_intent_and_number us (is_repo s) intent_id to_version of
              Inl e \<Rightarrow> Inl e
            | Inr v2 \<Rightarrow> Inr (v1, v2)))"

definition svc_compute_diff ::
  "'j hash_orders \<Rightarrow> (uuid \<Rightarrow> string) \<Rightarrow> 'j IntentService \<Rightarrow> uuid \<Rightarrow> i32 \<Rightarrow> i32 \<Rightarrow>
   ('j IntentVersion \<times> 'j IntentVersion \<times> 'j IntentVersionDiff \<times> DiffRiskAnalysis) ire_result" where
  "svc_compute_diff ho us s intent_id from_version to_version =
     (case fetch_versions us s intent_id from_version to_version of
        Inl e \<Rightarrow> Inl e
      | Inr (v1, v2) \<Rightarrow> (case compute_diff_with_risk ho v1 v2 of Inl e \<Rightarrow> Inl e | Inr (d, risk) \<Rightarrow> Inr (v1, v2, d, risk)))"

text \<open>The outer \<open>None\<close> is a panic of the planner.\<close>

definition compute_rebase_preview ::
  "'j hash_orders \<Rightarrow> formats \<Rightarrow> (uuid \<Rightarrow> string) \<Rightarrow> 'j IntentService \<Rightarrow> uuid \<Rightarrow> i32 \<Rightarrow> i32 \<Rightarrow> RebasePlan ire_result option" where
  "compute_rebase_preview ho fm us s intent_id from_version to_version =
     (case fetch_versions us s intent_id from_version to_version of
        Inl e \<Rightarrow> Some (Inl e)
      | Inr (v1, v2) \<Rightarrow> (case compute_diff_with_risk ho v1 v2 of
            Inl e \<Rightarrow> Some (Inl e)
          | Inr (d, risk) \<Rightarrow> map_option Inr (from_diff_and_risk fm d risk)))"

definition affected_item :: "'j ClassifiedNode \<Rightarrow> AffectedItem" where
  "affected_item c = \<lparr>af_node_id = gn_id (cn_node c), af_label = gn_label (cn_node c), af_impact = cn_impact c,
     af_reason = cn_reason c, af_external_ref = gn_external_ref (cn_node c)\<rparr>"

fun classify_nodes_loop ::
  "AffectedItem list \<times> AffectedItem list \<times> AffectedItem list \<Rightarrow> 'j ClassifiedNode list \<Rightarrow>
   AffectedItem list \<times> AffectedItem list \<times> AffectedItem list" where
  "classify_nodes_loop acc [] = acc"
| "classify_nodes_loop (artifacts, approvals, side_effects) (c # cs) =
     classify_nodes_loop (case gn_node_type (cn_node c) of
         NodeType.Artifact \<Rightarrow> (artifacts @ [affected_item c], approvals, side_effects)
       | NodeType.Approval \<Rightarrow> (artifacts, approvals @ [affected_item c], side_effects)
       | NodeType.SideEffect \<Rightarrow> (artifacts, approvals, side_effects @ [affected_item c])
       | _ \<Rightarrow> (artifacts, approvals, side_effects)) cs"

definition classify_nodes_by_type :: "'j ClassifiedNode list \<Rightarrow> AffectedItem list \<times> AffectedItem list \<times> AffectedItem list" where
  "classify_nodes_by_type = classify_nodes_loop ([], [], [])"

definition compute_rebase_preview_with_graph ::
  "'j hash_orders \<Rightarrow> formats \<Rightarrow> (uuid \<Rightarrow> string) \<Rightarrow> (uuid, 'j GraphNode) hash_iter \<Rightarrow> 'j IntentService \<Rightarrow> uuid \<Rightarrow> i32 \<Rightarrow> i32 \<Rightarrow>
   RebasePlan ire_result option" where
  "compute_rebase_preview_with_graph ho fm us it s intent_id from_version to_version =
     (case compute_rebase_preview ho fm us s intent_id from_version to_version of
        None \<Rightarrow> None
      | Some (Inl e) \<Rightarrow> Some (Inl e)
      | Some (Inr plan) \<Rightarrow>
          (case is_graph s of
             None \<Rightarrow> Some (Inr plan)
           | Some g \<Rightarrow>
               (case get_version_by_intent_and_number us (is_repo s) intent_id to_version of
                  Inl e \<Rightarrow> Some (Inl e)
                | Inr v2 \<Rightarrow>
                    (case classify_affected_items_from_intent_version it g (v_id v2) (Some 3) of
                       Inr (Some result) \<Rightarrow>
                         let (artifacts, approvals, side_effects) = classify_nodes_by_type (classified_nodes result)
                         in Some (Inr (plan\<lparr>rp_affected_items := from_classification artifacts approvals side_effects\<rparr>))
                     | _ \<Rightarrow> Some (Inr plan)))))"

end
