(* ===== verification/Intent_Service_Laws.thy ===== *)
theory Intent_Service_Laws
  imports Intent_Service Planner_Laws
begin

text \<open>
  The correctness of the intent service: version histories (\<open>Intent_Repo\<close>), the cancellation of stale approval
  requests, and the rebase preview, which joins the repository, the diff, the risk analysis, the planner and the impact
  classification.
\<close>

section \<open>Version histories\<close>

text \<open>
  C34. Version histories are append-only and no update is lost. From any reachable repository, whatever is done to it
  (fewer than \<open>2^31\<close> steps in all, the range of the version counter), the versions of an intent are listed in order, numbered from 1 up
  to its current version, each but the first with its predecessor as parent; the versions listed before remain, unchanged and in place;
  a version number is found exactly when it lies between 1 and the current version. A writer that expects the version
  it has read succeeds exactly when nobody has added a version since, and gets a concurrency conflict otherwise.
\<close>

theorem version_history_append_only:
  assumes "intent_reach n r" and "intent_steps m r r'" and "Suc (n + m) < 2 ^ 31"
    and "map_of (ir_intents r) i = Some x" and "map_of (ir_intents r') i = Some x'"
  shows "log_ok i (get_versions_by_intent r' i) \<and> i_current_version x' = int (length (get_versions_by_intent r' i)) \<and>
    (\<exists>ws. get_versions_by_intent r' i = get_versions_by_intent r i @ ws) \<and>
    get_version_by_intent_and_number us r' i k =
      (if 1 \<le> k \<and> k \<le> i_current_version x' then Inr (get_versions_by_intent r' i ! nat (k - 1))
       else Inl (InvalidIntentVersion (''version '' @ show_int k @ '' not found for intent '' @ us i))) \<and>
    (case fst (create_version_with_occ hash v now i request (i_current_version x) row r') of
       Inr resp \<Rightarrow> get_versions_by_intent r' i = get_versions_by_intent r i \<and> cvs_version_number resp = i_current_version x' + 1
     | Inl e \<Rightarrow> get_versions_by_intent r' i \<noteq> get_versions_by_intent r i \<and> e = ConcurrencyConflict i)"
proof -
  have inv: "intent_inv n r" "intent_inv (n + m) r'" and ext: "\<exists>ws. version_log r' i = version_log r i @ ws"
    using intent_reach_inv [OF assms(1)] steps_inv [OF assms(2)] assms(3) by simp_all
  note log = versions_log [OF intent_invD(3) [OF inv(1)]] versions_log [OF intent_invD(3) [OF inv(2)]]
  have cur: "i_current_version x = int (length (version_log r i))" "i_current_version x' = int (length (version_log r' i))"
    using intent_invD(4) [OF inv(1), of i] intent_invD(4) [OF inv(2), of i] by (simp_all add: assms(4,5) del: map_of_eq_Some_iff)
  have "i_current_version x = int (length (version_log r' i)) \<longleftrightarrow> version_log r' i = version_log r i"
  proof -
    obtain ws where "version_log r' i = version_log r i @ ws" using ext by blast
    then show ?thesis by (simp add: cur)
  qed
  with cur(2) have same: "i_current_version x = i_current_version x' \<longleftrightarrow> get_versions_by_intent r' i = get_versions_by_intent r i"
    by (simp add: log)
  have occ: "case fst (create_version_with_occ hash v now i request (i_current_version x) row r') of
      Inr resp \<Rightarrow> i_current_version x = i_current_version x' \<and> cvs_version_number resp = i_current_version x' + 1
    | Inl e \<Rightarrow> i_current_version x \<noteq> i_current_version x' \<and> e = ConcurrencyConflict i"
    by (rule occ_outcome [OF inv(2) assms(5)]) (use assms(3) in simp)
  show ?thesis
    by (intro conjI version_lookup [OF inv(2) assms(5)] occ [unfolded same])
      (use cur ext intent_invD(3) [OF inv(2)] in \<open>simp_all add: log\<close>)
qed


definition ex_hash :: "nat IntentPayload \<Rightarrow> string" where
  "ex_hash p = ''hash''"

definition ex_create :: "nat CreateIntentRequest" where
  "ex_create = \<lparr>cir_tenant_id = Some 9, cir_workflow_id = 8, cir_source_refs = [], cir_payload = v_payload ex_v1,
     cir_created_by = v_created_by ex_v1, cir_tags = []\<rparr>"

definition ex_change :: "nat CreateVersionRequest" where
  "ex_change = \<lparr>cvr_payload = v_payload ex_v2, cvr_change_reason = ''r'', cvr_change_channel = UserEdit,
     cvr_created_by = v_created_by ex_v2\<rparr>"

text \<open>Intent 1 with its first version 11, and after the second version 12.\<close>

definition ex_repo1 :: "nat IntentRepo" where
  "ex_repo1 = snd (create_intent_tx ex_hash 1 11 9 0 ex_create IntentRepo_new)"

definition ex_repo2 :: "nat IntentRepo" where
  "ex_repo2 = snd (create_version_with_occ ex_hash 12 0 1 ex_change 1 0 ex_repo1)"

lemma ex_repo1_reach: "intent_reach 1 ex_repo1"
  unfolding ex_repo1_def One_nat_def
  by (intro steps_next [OF steps_refl] step_intent) (simp_all add: IntentRepo_new_def)

lemma ex_repo1_step: "intent_steps 1 ex_repo1 ex_repo2"
  unfolding ex_repo2_def One_nat_def
  by (intro steps_next [OF steps_refl] step_version) (simp add: ex_repo1_def create_intent_tx_def IntentRepo_new_def Let_def)

lemma ex_intents:
  "\<exists>x. map_of (ir_intents ex_repo1) 1 = Some x \<and> i_current_version x = 1 \<and> i_tenant_id x = 9"
  "\<exists>x. map_of (ir_intents ex_repo2) 1 = Some x \<and> i_current_version x = 2 \<and> i_tenant_id x = 9"
  by (simp_all add: ex_repo1_def ex_repo2_def create_intent_tx_def create_version_with_occ_def IntentRepo_new_def Let_def ex_create_def i32_wrap_def)

theorem version_history_append_only_witness:
  "length (get_versions_by_intent ex_repo2 1) = 2 \<and>
   (\<exists>w. get_versions_by_intent ex_repo2 1 = get_versions_by_intent ex_repo1 1 @ [w]) \<and>
   fst (create_version_with_occ ex_hash 13 0 1 ex_change 1 0 ex_repo2) = Inl (ConcurrencyConflict 1)"
proof -
  obtain x x' where x: "map_of (ir_intents ex_repo1) 1 = Some x" "i_current_version x = 1"
    "map_of (ir_intents ex_repo2) 1 = Some x'" "i_current_version x' = 2"
    using ex_intents by blast
  note hist = version_history_append_only [OF ex_repo1_reach ex_repo1_step _ x(1,3), where us = "\<lambda>u. []" and hash = ex_hash and v = 13 and now = 0
      and request = ex_change and row = 0, unfolded x]
  have first: "length (get_versions_by_intent ex_repo1 1) = 1" by code_simp
  from hist [of 1] have len: "length (get_versions_by_intent ex_repo2 1) = 2"
    and ext: "\<exists>ws. get_versions_by_intent ex_repo2 1 = get_versions_by_intent ex_repo1 1 @ ws" by simp_all
  from ext first len obtain w where w: "get_versions_by_intent ex_repo2 1 = get_versions_by_intent ex_repo1 1 @ [w]"
    by (auto simp: length_Suc_conv)
  with hist [of 1] len show ?thesis by (auto split: sum.splits)
qed

section \<open>Stale approval requests\<close>

text \<open>The requests that a new version of an intent makes stale, and what becomes of them.\<close>

definition stale :: "uuid \<Rightarrow> uuid \<Rightarrow> 'j ApprovalRequest \<Rightarrow> bool" where
  "stale intent_id tenant_id q \<longleftrightarrow> aq_intent_id q = intent_id \<and> aq_tenant_id q = tenant_id \<and> aq_status q = Pending"

definition cancel_if_stale :: "uuid \<Rightarrow> uuid \<Rightarrow> timestamp \<Rightarrow> string \<Rightarrow> string \<Rightarrow> 'j ApprovalRequest \<Rightarrow> 'j ApprovalRequest" where
  "cancel_if_stale i t now who why q = (if stale i t q then resolve_request Cancelled now who (Some why) q else q)"

lemma count_pending:
  assumes "approval_inv r"
  shows "length (filter (\<lambda>kq. stale i t (snd kq)) (apr_requests r)) = length (list_pending_by_intent r i t)"
proof -
  have ident: "\<And>i q. map_of (apr_requests r) i = Some q \<Longrightarrow> aq_id q = i" and keys: "distinct (map fst (apr_requests r))"
    and ok: "index_ok aq_intent_id (apr_requests r) (apr_by_intent r)"
    using assms by (simp_all add: approval_inv_def del: map_of_eq_Some_iff)
  let ?F = "filter (\<lambda>kq. stale i t (snd kq)) (apr_requests r)" and ?L = "list_pending_by_intent r i t"
  have "distinct (map aq_id (filter P (indexed (apr_requests r) (apr_by_intent r) i)))" for P
    by (intro distinct_map_filter distinct_indexed [where ident = aq_id, OF ok] ident)
  then have L: "distinct (map aq_id ?L)"
    unfolding list_pending_by_intent_def
    by (metis (no_types, lifting) distinct_map mset_eq_imp_distinct_iff mset_newest_first set_newest_first)
  have "fst ` set ?F = aq_id ` set ?L"
    unfolding pending_requests.exact [OF assms] table_values_iff stale_def
    using ident keys by (force simp: map_of_eq_Some_iff image_iff)
  then show ?thesis
    using distinct_card [OF L] distinct_card [OF distinct_map_filter [OF keys]] by (metis length_map list.set_map)
qed

lemma cancel_pending_effect:
  assumes "approval_inv r"
  shows "\<exists>r'. cancel_pending_by_intent i t now who why r = (Inr (length (list_pending_by_intent r i t)), r') \<and> approval_inv r' \<and>
    list_pending_by_intent r' i t = [] \<and> (\<forall>k. map_of (apr_requests r') k = map_option (cancel_if_stale i t now who why) (map_of (apr_requests r) k))"
proof -
  let ?r' = "snd (cancel_pending_by_intent i t now who why r)"
  have looked: "map_of (apr_requests ?r') k = map_option (cancel_if_stale i t now who why) (map_of (apr_requests r) k)" for k
    by (simp add: cancel_pending_by_intent_def cancel_where_def map_of_map_values stale_def cancel_if_stale_def [abs_def])
  have inv: "approval_inv ?r'" unfolding cancel_pending_by_intent_def by (rule approval_inv_cancel [OF assms(1)])
  have "\<not> stale i t q'" if mem: "q' \<in> table_values (apr_requests ?r')" for q'
  proof -
    obtain q where "q' = cancel_if_stale i t now who why q" using mem unfolding table_values_iff looked map_option_eq_Some by metis
    then show ?thesis by (cases "stale i t q") (simp_all add: cancel_if_stale_def stale_def)
  qed
  then have "set (list_pending_by_intent ?r' i t) = {}" unfolding pending_requests.exact [OF inv] stale_def by blast
  moreover have "fst (cancel_pending_by_intent i t now who why r) = Inr (length (list_pending_by_intent r i t))"
    using count_pending [OF assms(1), of i t] by (simp add: cancel_pending_by_intent_def cancel_where_def stale_def)
  ultimately show ?thesis using inv looked by (intro exI [of _ ?r'] conjI allI) (simp_all add: prod_eq_iff)
qed

text \<open>
  C35. A new version makes the pending approvals of its intent stale. When the service creates a version, whatever
  happened since it read the intent, every pending request of that intent and tenant is cancelled, with the version it had read and
  the new version in the reason, and no other request changes; none of them is listed as pending afterwards. If there were any, exactly one event is recorded, which
  counts them; otherwise the audit log is untouched. When the version is refused, the service is left as it was.
\<close>

theorem create_version_cancels_stale:
  assumes "is_approvals s = Some r" and "approval_inv r"
    and "create_version_rest env i request ev rv (intent, row) s = (result, s')"
  shows "case result of
      Inl e \<Rightarrow> s' = s
    | Inr resp \<Rightarrow> \<exists>r'. is_approvals s' = Some r' \<and> approval_inv r' \<and> list_pending_by_intent r' i (i_tenant_id intent) = [] \<and>
        (\<forall>k. map_of (apr_requests r') k = map_option (cancel_if_stale i (i_tenant_id intent) (ve_cancelled_at env) system_actor_id
           (cancellation_reason (i_current_version intent) (cvs_version_number resp))) (map_of (apr_requests r) k)) \<and>
        is_graph s' = is_graph s \<and>
        is_audit s' = (if list_pending_by_intent r i (i_tenant_id intent) = [] then is_audit s
          else map_option (\<lambda>audit. snd (record_approval_cancelled env (i_tenant_id intent) system_actor_id i
            \<lparr>acp_intent_id = i, acp_cancelled_version_from = i_current_version intent,
             acp_cancelled_version_to = cvs_version_number resp, acp_decision_class = ''D/E'', acp_cancelled_by = system_actor_id,
             acp_cancellation_reason = cancellation_reason (i_current_version intent) (cvs_version_number resp),
             acp_cancelled_count = length (list_pending_by_intent r i (i_tenant_id intent))\<rparr> audit)) (is_audit s))"
proof (cases result)
  case (Inl e)
  then show ?thesis using assms(3)
    by (auto simp: create_version_rest_def create_version_with_occ_def Let_def
        split: option.splits if_splits prod.splits)
next
  case (Inr resp)
  let ?t = "i_tenant_id intent" and ?why = "cancellation_reason (i_current_version intent) (cvs_version_number resp)"
  obtain repo where s': "s' = cancel_stale_requests env i intent (cvs_version_number resp) (s\<lparr>is_repo := repo\<rparr>)"
    using assms(3) Inr by (auto simp: create_version_rest_def Let_def split: prod.splits sum.splits)
  obtain r' where eq: "cancel_pending_by_intent i ?t (ve_cancelled_at env) system_actor_id ?why r = (Inr (length (list_pending_by_intent r i ?t)), r')"
    and r': "approval_inv r'" "list_pending_by_intent r' i ?t = []"
      "\<forall>k. map_of (apr_requests r') k = map_option (cancel_if_stale i ?t (ve_cancelled_at env) system_actor_id ?why) (map_of (apr_requests r) k)"
    using cancel_pending_effect [OF assms(2)] by blast
  have post: "is_approvals s' = Some r'" "is_graph s' = is_graph s"
    by (simp_all add: s' cancel_stale_requests_def assms(1) Let_def eq)
  show ?thesis
    unfolding Inr sum.case
    by (rule exI [of _ r'], intro conjI post r') (simp add: s' cancel_stale_requests_def assms(1) Let_def eq)
qed

definition ex_request_approval :: "nat ApprovalRequest" where
  "ex_request_approval = new_pending 0 21 0 1 1 2 8 9 ''agent'' ''user'' ''D'' ''risk''"

definition ex_intent_service :: "nat IntentService" where
  "ex_intent_service = \<lparr>is_repo = ex_repo1, is_graph = None,
     is_approvals = Some (snd (create_approval_request ex_request_approval ApprovalRepo_new)), is_audit = Some AuditRepo_new\<rparr>"

definition ex_version_env :: "nat version_env" where
  "ex_version_env = \<lparr>ve_hash = ex_hash, ve_version_id = 12, ve_now = 5, ve_cancelled_at = 6, ve_audit_id = 31, ve_audit_at = 7,
     ve_trace = \<lparr>trace_id = None, span_id = None\<rparr>, ve_json = acp_cancelled_count\<rparr>"

theorem create_version_cancels_stale_witness:
  "\<exists>resp s' r'. create_version ex_version_env 1 ex_change None None ex_intent_service = (Inr resp, s') \<and> is_approvals s' = Some r' \<and>
     list_pending_by_intent r' 1 9 = []"
proof -
  obtain x where x: "map_of (ir_intents ex_repo1) 1 = Some x" "i_current_version x = 1" "i_tenant_id x = 9"
    using ex_intents by blast
  let ?r = "snd (create_approval_request ex_request_approval ApprovalRepo_new)"
  have inv: "approval_inv ?r"
    by (rule approval_inv_create [OF approval_inv_new]) (simp add: ApprovalRepo_new_def)
  have read: "create_version ex_version_env 1 ex_change None None ex_intent_service =
      create_version_rest ex_version_env 1 ex_change None None (x, 0) ex_intent_service"
    by (simp add: create_version_def get_intent_for_update_def get_intent_def ex_intent_service_def x del: map_of_eq_Some_iff)
  obtain resp s' where created: "create_version_rest ex_version_env 1 ex_change None None (x, 0) ex_intent_service = (Inr resp, s')"
    by (simp add: create_version_rest_def create_version_with_occ_def ex_intent_service_def x Let_def del: map_of_eq_Some_iff)
  have approvals: "is_approvals ex_intent_service = Some ?r" by (simp add: ex_intent_service_def)
  show ?thesis
    using create_version_cancels_stale [OF approvals inv created] unfolding read created x(3) by auto
qed

section \<open>The rebase preview\<close>

lemma fetch_versions_cases:
  assumes inv: "intent_inv n (is_repo s)" and x: "map_of (ir_intents (is_repo s)) i = Some x"
  defines "vs \<equiv> get_versions_by_intent (is_repo s) i"
  shows "fetch_versions us s i from_version to_version =
    (if from_version \<ge> to_version then Inl (InvalidIntentVersion
       (''from_version ('' @ show_int from_version @ '') must be less than to_version ('' @ show_int to_version @ '')''))
     else if from_version < 1 \<or> from_version > i_current_version x then
       Inl (InvalidIntentVersion (''version '' @ show_int from_version @ '' not found for intent '' @ us i))
     else if to_version > i_current_version x then
       Inl (InvalidIntentVersion (''version '' @ show_int to_version @ '' not found for intent '' @ us i))
     else Inr (vs ! nat (from_version - 1), vs ! nat (to_version - 1)))"
  by (simp add: fetch_versions_def version_lookup [OF inv x] vs_def)

lemma history_diff:
  assumes "log_ok i vs" and "1 \<le> f" and "f < t" and "t \<le> int (length vs)"
  shows "compute_diff_with_risk ho (vs ! nat (f - 1)) (vs ! nat (t - 1)) =
    (let d = diff_intent_version ho (vs ! nat (f - 1)) (vs ! nat (t - 1))
     in Inr (d, analyze_diff_risk (ivd_scope d) (ivd_constraints d) (ivd_acceptance_criteria d) (ivd_authority d)))"
proof -
  have "nat (f - 1) < length vs" "nat (t - 1) < length vs" using assms(2-4) by linarith+
  moreover from this have "v_version_number (vs ! nat (f - 1)) = f" "v_version_number (vs ! nat (t - 1)) = t"
    using log_number [OF assms(1)] assms(2,3) by simp_all
  ultimately show ?thesis
    using assms(1,3) by (simp add: compute_diff_with_risk_def compute_diff_def log_ok_def entry_ok_def Let_def)
qed

text \<open>The preview of the affected items, as the service fills it in.\<close>

lemma classify_nodes_loop_eq:
  "classify_nodes_loop (a, p, e) cs =
    (a @ map affected_item (filter (\<lambda>c. gn_node_type (cn_node c) = NodeType.Artifact) cs),
     p @ map affected_item (filter (\<lambda>c. gn_node_type (cn_node c) = NodeType.Approval) cs),
     e @ map affected_item (filter (\<lambda>c. gn_node_type (cn_node c) = NodeType.SideEffect) cs))"
  by (induction cs arbitrary: a p e) (simp_all split: NodeType.split)

definition affected_of :: "NodeType \<Rightarrow> 'j ClassificationResult \<Rightarrow> AffectedItem list" where
  "affected_of ty res = map affected_item (filter (\<lambda>c. gn_node_type (cn_node c) = ty) (classified_nodes res))"

lemma generate_plan_unavailable:
  "\<exists>plan. generate_plan fm d = Some plan \<and> rp_affected_items plan = AffectedItemsPreview_unavailable"
proof -
  let ?r = "analyze_diff_risk (ivd_scope d) (ivd_constraints d) (ivd_acceptance_criteria d) (ivd_authority d)"
  obtain sel where "with_heuristic (compute_decision_class d ?r) AffectedItemsPreview_unavailable = Some sel"
    using with_heuristic_selects by blast
  then show ?thesis by (simp add: generate_plan_def from_diff_and_risk_def phase1_baseline_def Let_def)
qed

text \<open>
  C36. The rebase preview of a stored intent, end to end. In every reachable repository the preview never panics. It is
  an error exactly when the version numbers are not increasing or one of them is outside of the intent's history, and
  otherwise the plan that the planner generates from the diff of the two stored versions. With the graph, the errors are the same,
  and the plan differs at most in its affected items: they are the classified artifacts, approvals and side effects
  of the new version where the graph knows it, and the unavailable preview in every other case, errors of the classification included.
\<close>

theorem rebase_preview_end_to_end:
  assumes "intent_reach n (is_repo s)" and "n < 2 ^ 31" and "map_of (ir_intents (is_repo s)) i = Some x"
  shows "let vs = get_versions_by_intent (is_repo s) i; v2 = vs ! nat (t - 1) in
    if f < t \<and> 1 \<le> f \<and> t \<le> i_current_version x then
      \<exists>plan. generate_plan fm (diff_intent_version ho (vs ! nat (f - 1)) v2) = Some plan \<and>
        compute_rebase_preview ho fm us s i f t = Some (Inr plan) \<and>
        compute_rebase_preview_with_graph ho fm us it s i f t = Some (Inr (plan\<lparr>rp_affected_items :=
          (case Option.bind (is_graph s) (\<lambda>g. case classify_affected_items_from_intent_version it g (v_id v2) (Some 3) of Inl _ \<Rightarrow> None | Inr res \<Rightarrow> res) of
             Some res \<Rightarrow> from_classification (affected_of NodeType.Artifact res) (affected_of NodeType.Approval res) (affected_of NodeType.SideEffect res)
           | None \<Rightarrow> AffectedItemsPreview_unavailable)\<rparr>))
    else \<exists>m. compute_rebase_preview ho fm us s i f t = Some (Inl (InvalidIntentVersion m)) \<and>
        compute_rebase_preview_with_graph ho fm us it s i f t = Some (Inl (InvalidIntentVersion m))"
proof -
  have inv: "intent_inv n (is_repo s)" using assms(1,2) by (rule intent_reach_inv)
  have cur: "i_current_version x = int (length (get_versions_by_intent (is_repo s) i))" and ok: "log_ok i (get_versions_by_intent (is_repo s) i)"
    using intent_invD(3,4) [OF inv, of i] by (simp_all add: assms(3) versions_log del: map_of_eq_Some_iff)
  note fetch = fetch_versions_cases [OF inv assms(3), of us f t]
  show ?thesis
  proof (cases "f < t \<and> 1 \<le> f \<and> t \<le> i_current_version x")
    case True
    let ?vs = "get_versions_by_intent (is_repo s) i"
    let ?d = "diff_intent_version ho (?vs ! nat (f - 1)) (?vs ! nat (t - 1))"
    obtain plan where plan: "generate_plan fm ?d = Some plan" "rp_affected_items plan = AffectedItemsPreview_unavailable"
      using generate_plan_unavailable by blast
    have "compute_rebase_preview ho fm us s i f t = Some (Inr plan)"
      using True plan(1) history_diff [OF ok, of f t ho] cur
      by (simp add: compute_rebase_preview_def fetch Let_def generate_plan_def)
    then show ?thesis
      using True plan
      by (simp add: compute_rebase_preview_with_graph_def version_lookup [OF inv assms(3)] classify_nodes_by_type_def classify_nodes_loop_eq
          affected_of_def Let_def split: option.split sum.split)
  next
    case False
    then have "\<exists>m. fetch_versions us s i f t = Inl (InvalidIntentVersion m)" unfolding fetch by auto
    with False show ?thesis by (auto simp: compute_rebase_preview_def compute_rebase_preview_with_graph_def Let_def)
  qed
qed

theorem rebase_preview_end_to_end_witness:
  "\<exists>plan. compute_rebase_preview_with_graph ex_orders ex_formats (\<lambda>u. []) (\<lambda>m. m) (ex_intent_service\<lparr>is_repo := ex_repo2\<rparr>) 1 1 2 =
     Some (Inr plan) \<and> rp_affected_items plan = AffectedItemsPreview_unavailable"
proof -
  have "intent_reach 2 ex_repo2"
    using steps_next [OF ex_repo1_reach] ex_repo1_step by (auto simp: One_nat_def numeral_2_eq_2 elim: intent_steps.cases)
  then have reach: "intent_reach 2 (is_repo (ex_intent_service\<lparr>is_repo := ex_repo2\<rparr>))" by simp
  obtain x where x: "map_of (ir_intents ex_repo2) 1 = Some x" "i_current_version x = 2" using ex_intents by blast
  then have stored: "map_of (ir_intents (is_repo (ex_intent_service\<lparr>is_repo := ex_repo2\<rparr>))) 1 = Some x" by simp
  from rebase_preview_end_to_end [OF reach _ stored, of 2 1 ex_formats ex_orders "\<lambda>u. []" "\<lambda>m. m"] show ?thesis
    by (auto simp: Let_def x(2) ex_intent_service_def)
qed

end
