(* ===== verification/Forensic_Verification.thy ===== *)
theory Forensic_Verification
  imports Forensic_Collector
begin

text \<open>
  The feasibility check of forensic bundles, \<open>crates/forensic-service/src/verification.rs\<close>: the request and response types and
  \<open>RealForensicVerificationService\<close>, which reports what a bundle would contain from the counts of the collector.
\<close>

section \<open>The feasibility check\<close>

datatype (plugins only: size code) VerificationPurpose = IncidentInvestigation | ComplianceAudit | Legal

datatype (plugins only: size code) VerificationStatus = Ready | Incomplete | NotSupported

record VerificationTimeRange =
  vtr_start :: timestamp
  vtr_end :: timestamp

record ForensicVerificationRequest =
  fvr_tenant_id :: uuid
  fvr_intent_id :: uuid
  fvr_time_range :: VerificationTimeRange
  fvr_purpose :: VerificationPurpose
  fvr_include_artifacts :: bool
  fvr_include_audit_events :: bool
  fvr_include_policy_snapshots :: bool

record IntentVersionCoverage =
  ivc_intent_exists :: bool
  ivc_intent_id :: uuid
  ivc_version_count :: usize
  ivc_earliest_version :: "timestamp option"
  ivc_latest_version :: "timestamp option"
  ivc_has_artifact_traceability :: bool

record ArtifactCoverage =
  arc_artifact_count :: usize
  arc_artifacts_with_provenance :: usize
  arc_coverage_complete :: bool

record AuditEventCoverage =
  aec_event_count :: usize
  aec_time_range_complete :: bool
  aec_first_event :: "timestamp option"
  aec_last_event :: "timestamp option"

record PolicySnapshotCoverage =
  psc_snapshot_count :: usize
  psc_coverage_complete :: bool

record ForensicVerificationResponse =
  fvs_verification_id :: uuid
  fvs_verified_at :: timestamp
  fvs_status :: VerificationStatus
  fvs_status_reason :: string
  fvs_tenant_id :: uuid
  fvs_intent_id :: uuid
  fvs_time_range :: VerificationTimeRange
  fvs_purpose :: VerificationPurpose
  fvs_intent_version_coverage :: IntentVersionCoverage
  fvs_artifact_coverage :: "ArtifactCoverage option"
  fvs_audit_event_coverage :: "AuditEventCoverage option"
  fvs_policy_snapshot_coverage :: "PolicySnapshotCoverage option"
  fvs_estimated_bundle_item_count :: usize

definition ForensicVerificationResponse_new ::
  "uuid \<Rightarrow> timestamp \<Rightarrow> uuid \<Rightarrow> uuid \<Rightarrow> VerificationTimeRange \<Rightarrow> VerificationPurpose \<Rightarrow> ForensicVerificationResponse" where
  "ForensicVerificationResponse_new i now tenant_id intent_id time_range purpose =
     \<lparr>fvs_verification_id = i, fvs_verified_at = now, fvs_status = Ready, fvs_status_reason = [], fvs_tenant_id = tenant_id,
      fvs_intent_id = intent_id, fvs_time_range = time_range, fvs_purpose = purpose,
      fvs_intent_version_coverage = \<lparr>ivc_intent_exists = False, ivc_intent_id = intent_id, ivc_version_count = 0,
        ivc_earliest_version = None, ivc_latest_version = None, ivc_has_artifact_traceability = False\<rparr>,
      fvs_artifact_coverage = None, fvs_audit_event_coverage = None, fvs_policy_snapshot_coverage = None,
      fvs_estimated_bundle_item_count = 0\<rparr>"

definition compute_estimated_count :: "ForensicVerificationResponse \<Rightarrow> ForensicVerificationResponse" where
  "compute_estimated_count v = v\<lparr>fvs_estimated_bundle_item_count :=
     ivc_version_count (fvs_intent_version_coverage v) +
     (case fvs_artifact_coverage v of Some a \<Rightarrow> arc_artifact_count a | None \<Rightarrow> 0) +
     (case fvs_audit_event_coverage v of Some a \<Rightarrow> aec_event_count a | None \<Rightarrow> 0) +
     (case fvs_policy_snapshot_coverage v of Some p \<Rightarrow> psc_snapshot_count p | None \<Rightarrow> 0)\<rparr>"

text \<open>\<open>RealForensicVerificationService::verify\<close>; \<open>counting\<close> is \<open>count_available\<close> of its collector.\<close>

definition verify ::
  "(uuid option \<Rightarrow> uuid list \<Rightarrow> timestamp \<times> timestamp \<Rightarrow> (CollectorError, CollectionCounts) result) \<Rightarrow> uuid \<Rightarrow> timestamp \<Rightarrow>
   ForensicVerificationRequest \<Rightarrow> ForensicVerificationResponse" where
  "verify counting i now q =
     (let r0 = ForensicVerificationResponse_new i now (fvr_tenant_id q) (fvr_intent_id q) (fvr_time_range q) (fvr_purpose q) in
      compute_estimated_count
        (case counting (Some (fvr_tenant_id q)) [fvr_intent_id q] (vtr_start (fvr_time_range q), vtr_end (fvr_time_range q)) of
           Inl e \<Rightarrow> r0\<lparr>fvs_status := Incomplete, fvs_status_reason := ''Failed to verify: '' @ display_CollectorError e\<rparr>
         | Inr n \<Rightarrow>
             r0\<lparr>fvs_intent_version_coverage := (fvs_intent_version_coverage r0)
                  \<lparr>ivc_intent_exists := coc_intent_count n > 0, ivc_version_count := coc_version_count n\<rparr>,
                fvs_artifact_coverage := (if fvr_include_artifacts q then Some \<lparr>arc_artifact_count = 0,
                  arc_artifacts_with_provenance = 0, arc_coverage_complete = False\<rparr> else None),
                fvs_audit_event_coverage := (if fvr_include_audit_events q then Some \<lparr>aec_event_count = coc_audit_event_count n,
                  aec_time_range_complete = False, aec_first_event = None, aec_last_event = None\<rparr> else None),
                fvs_policy_snapshot_coverage := (if fvr_include_policy_snapshots q then Some
                  \<lparr>psc_snapshot_count = coc_policy_snapshot_count n, psc_coverage_complete = False\<rparr> else None),
                fvs_status := (if coc_intent_count n = 0 then Incomplete else Ready),
                fvs_status_reason := (if coc_intent_count n = 0 then ''No matching intents found for tenant in time range''
                  else ''All referenced entities exist and are within time range'')\<rparr>))"

end
