(* ===== verification/Forensic_Collector_Laws.thy ===== *)
theory Forensic_Collector_Laws
  imports Forensic_Verification
begin

text \<open>
  Collection over the in-memory repositories is exact: what is collected is all the data of the tenant in the
  time range and nothing else, and counting agrees with collecting when a tenant is given.
\<close>

lemma collect_loop_result:
  "case collect_loop f acc ids of
     Inl e \<Rightarrow> (\<exists>i \<in> set ids. f i = Inl e)
   | Inr ds \<Rightarrow> (\<exists>ds'. ds = acc @ ds' \<and> list_all2 (\<lambda>i d. f i = Inr d) ids ds')"
proof (induction ids arbitrary: acc)
  case (Cons i ids)
  then show ?case
    by (cases "f i") (fastforce split: sum.splits simp: list_all2_Cons1)+
qed simp

text \<open>One intent: it is stored and of the tenant, and its data is what the queries of the repositories return.\<close>

definition intent_data ::
  "(uuid \<Rightarrow> string) \<Rightarrow> 'j IntentRepo \<Rightarrow> 'j AuditRepo \<Rightarrow> SnapshotRepo \<Rightarrow> timestamp \<times> timestamp \<Rightarrow> uuid \<Rightarrow> uuid \<Rightarrow> 'j CollectedIntentData" where
  "intent_data us ir ar pr time_range t i =
     \<lparr>cid_intent_id = i, cid_tenant_id = Some t, cid_name = ''intent-'' @ us i,
      cid_versions = map collected_version (filter (\<lambda>v. in_range time_range (v_created_at v)) (get_versions_by_intent ir i)),
      cid_policy_snapshots = filter (\<lambda>p. in_range time_range (ps_created_at p)) (ps_list_by_intent pr i t),
      cid_audit_events = filter (\<lambda>e. in_range time_range (ae_occurred_at e)) (audit_list_by_intent ar i t)\<rparr>"

text \<open>The tenant of a stored intent; the intents that a caller with or without a tenant may read.\<close>

definition owner :: "'j IntentRepo \<Rightarrow> uuid \<Rightarrow> uuid option" where
  "owner ir i = map_option i_tenant_id (map_of (ir_intents ir) i)"

definition readable :: "'j IntentRepo \<Rightarrow> uuid option \<Rightarrow> uuid \<Rightarrow> bool" where
  "readable ir tid i \<longleftrightarrow> owner ir i \<noteq> None \<and> (tid = None \<or> owner ir i = tid)"

lemma collect_intent_readable:
  "collect_intent us (memory_repos ir ar pr) tid rng i = Inr d \<longleftrightarrow>
     readable ir tid i \<and> d = intent_data us ir ar pr rng (the (owner ir i)) i"
  by (cases tid) (auto simp: collect_intent_def memory_repos_def get_intent_def Let_def owner_def readable_def intent_data_def
      split: option.splits)

lemma collect_intent_refused:
  "collect_intent us (memory_repos ir ar pr) tid rng i = Inl e \<Longrightarrow> \<not> readable ir tid i"
  using collect_intent_readable [of us ir ar pr tid rng i] by auto

lemma count_loop_owned:
  assumes "\<And>i. i \<in> set ids \<Longrightarrow> readable ir (Some t) i" and "ds = map (\<lambda>i. intent_data us ir ar pr rng (the (owner ir i)) i) ids"
  shows "count_loop (memory_repos ir ar pr) (Some t) rng n ids =
    \<lparr>coc_intent_count = coc_intent_count n + length ds,
     coc_version_count = coc_version_count n + sum_list (map (\<lambda>d. length (cid_versions d)) ds),
     coc_audit_event_count = coc_audit_event_count n + sum_list (map (\<lambda>d. length (cid_audit_events d)) ds),
     coc_policy_snapshot_count = coc_policy_snapshot_count n + sum_list (map (\<lambda>d. length (cid_policy_snapshots d)) ds)\<rparr>"
  using assms(1) unfolding assms(2)
proof (induction ids arbitrary: n)
  case (Cons i ids)
  then obtain x where "map_of (ir_intents ir) i = Some x" "i_tenant_id x = t" by (force simp: readable_def owner_def)
  then show ?case
    using Cons by (simp add: memory_repos_def get_intent_def count_ok_def intent_data_def owner_def del: map_of_eq_Some_iff)
qed simp

lemma count_loop_nil:
  assumes "\<And>i. audit_list_by_intent ar i 0 = []" and "\<And>i. ps_list_by_intent pr i 0 = []"
  shows "coc_audit_event_count (count_loop (memory_repos ir ar pr) None rng n ids) = coc_audit_event_count n \<and>
    coc_policy_snapshot_count (count_loop (memory_repos ir ar pr) None rng n ids) = coc_policy_snapshot_count n"
  by (induction ids arbitrary: n) (simp_all add: memory_repos_def get_intent_def count_ok_def assms split: option.split)

lemma count_loop_intents:
  "coc_intent_count (count_loop (memory_repos ir ar pr) None rng n ids) = coc_intent_count n + length (filter (readable ir None) ids)"
  by (induction ids arbitrary: n) (simp_all add: memory_repos_def get_intent_def readable_def owner_def split: option.split)

text \<open>
  C38. Collection is exact and stays within the tenant. Given a time range and a tenant or none, the collector fails exactly when
  the range is reversed or an intent of the request is not stored or belongs to another tenant than the one given. Otherwise
  it returns the intents in the order of the request, each with its tenant, with all the audit events and policy snapshots of the intent and of that
  tenant in the range and no others, and with the versions of its history in the range. For a tenant \<open>count_available\<close> reports precisely
  these numbers. Without one it counts the intents that are stored but no events and no snapshots at all (unless some are stored under the nil
  tenant), although \<open>collect\<close> returns those of each intent's own tenant. The indexes of the audit and snapshot repositories
  are consistent, as every operation of the repositories keeps them (\<open>audit_inv\<close>, \<open>snapshot_inv\<close>).
\<close>

theorem collection_exact:
  assumes "audit_inv ar" and "snapshot_inv pr"
  shows "(case real_collect us (memory_repos ir ar pr) now tid ids rng of
      Inl e \<Rightarrow> fst rng > snd rng \<or> (\<exists>i \<in> set ids. \<not> readable ir tid i)
    | Inr res \<Rightarrow> fst rng \<le> snd rng \<and> (\<forall>i \<in> set ids. readable ir tid i) \<and> map cid_intent_id (cor_intents res) = ids \<and>
        (\<forall>d \<in> set (cor_intents res).
          cid_tenant_id d = owner ir (cid_intent_id d) \<and>
          set (cid_audit_events d) = {e \<in> table_values (ar_events ar). Some (ae_tenant_id e) = owner ir (cid_intent_id d) \<and>
            ae_intent_id e = Some (cid_intent_id d) \<and> in_range rng (ae_occurred_at e)} \<and>
          set (cid_policy_snapshots d) = {p \<in> table_values (psr_snapshots pr). Some (ps_tenant_id p) = owner ir (cid_intent_id d) \<and>
            ps_intent_id p = cid_intent_id d \<and> in_range rng (ps_created_at p)} \<and>
          cid_versions d = map collected_version (filter (\<lambda>v. in_range rng (v_created_at v)) (get_versions_by_intent ir (cid_intent_id d)))) \<and>
        (tid \<noteq> None \<longrightarrow> real_count_available (memory_repos ir ar pr) tid ids rng =
          Inr \<lparr>coc_intent_count = length (cor_intents res),
            coc_version_count = sum_list (map (\<lambda>d. length (cid_versions d)) (cor_intents res)),
            coc_audit_event_count = cor_total_audit_events res, coc_policy_snapshot_count = cor_total_policy_snapshots res\<rparr>)) \<and>
    (fst rng \<le> snd rng \<and> (\<forall>e \<in> table_values (ar_events ar). ae_tenant_id e \<noteq> 0) \<and> (\<forall>p \<in> table_values (psr_snapshots pr). ps_tenant_id p \<noteq> 0) \<longrightarrow>
      (\<exists>c. real_count_available (memory_repos ir ar pr) None ids rng = Inr c \<and> coc_intent_count c = length (filter (readable ir None) ids) \<and>
        coc_audit_event_count c = 0 \<and> coc_policy_snapshot_count c = 0))"
    (is "?collected \<and> ?counted")
proof
  let ?f = "collect_intent us (memory_repos ir ar pr) tid rng"
  show ?collected
  proof (cases "collect_loop ?f [] ids")
    case (Inl e)
    then show ?thesis
      using collect_loop_result [where f = ?f and acc = "[]" and ids = ids] by (auto simp: real_collect_def dest: collect_intent_refused)
  next
    case (Inr ds)
    then have all: "list_all2 (\<lambda>i d. readable ir tid i \<and> d = intent_data us ir ar pr rng (the (owner ir i)) i) ids ds"
      using collect_loop_result [where f = ?f and acc = "[]" and ids = ids] by (simp add: collect_intent_readable)
    then have own: "\<forall>i \<in> set ids. readable ir tid i" and ds: "ds = map (\<lambda>i. intent_data us ir ar pr rng (the (owner ir i)) i) ids"
      by (induction rule: list_all2_induct) auto
    have owner: "owner ir i = Some (the (owner ir i))" if "i \<in> set ids" for i
      using own that by (auto simp: readable_def)
    have tenant: "t = the (owner ir i)" if "Some t = owner ir i" for t i
      using that by (metis option.sel)
    have count: "real_count_available (memory_repos ir ar pr) tid ids rng =
          Inr \<lparr>coc_intent_count = length ds, coc_version_count = sum_list (map (\<lambda>d. length (cid_versions d)) ds),
            coc_audit_event_count = sum_list (map (\<lambda>d. length (cid_audit_events d)) ds),
            coc_policy_snapshot_count = sum_list (map (\<lambda>d. length (cid_policy_snapshots d)) ds)\<rparr>" if "fst rng \<le> snd rng" "tid \<noteq> None"
      using that own by (cases tid) (auto simp: real_count_available_def count_loop_owned [OF _ ds])
    show ?thesis
      using own owner audit_intent.exact [OF assms(1)] snapshots.exact [OF assms(2)] count
      by (auto simp: real_collect_def Inr ds intent_data_def comp_def dest: tenant)
  qed
  show ?counted
  proof
    assume hyp: "fst rng \<le> snd rng \<and> (\<forall>e \<in> table_values (ar_events ar). ae_tenant_id e \<noteq> 0) \<and> (\<forall>p \<in> table_values (psr_snapshots pr). ps_tenant_id p \<noteq> 0)"
    then have "set (audit_list_by_intent ar i 0) = {}" "set (ps_list_by_intent pr i 0) = {}" for i
      unfolding audit_intent.exact [OF assms(1)] snapshots.exact [OF assms(2)] by blast+
    then show "\<exists>c. real_count_available (memory_repos ir ar pr) None ids rng = Inr c \<and> coc_intent_count c = length (filter (readable ir None) ids) \<and>
        coc_audit_event_count c = 0 \<and> coc_policy_snapshot_count c = 0"
      using hyp count_loop_nil [of ar pr ir rng _ ids] by (simp add: real_count_available_def count_loop_intents)
  qed
qed

definition ex_collector_intents :: "nat IntentRepo" where
  "ex_collector_intents = \<lparr>ir_intents = [(1, \<lparr>i_id = 1, i_tenant_id = 9, i_workflow_id = 8, i_current_version = 1, i_status = IntentStatus.Active,
     i_created_at = 0, i_created_by = \<lparr>ar_actor_type = ''user'', ar_actor_id = ''u''\<rparr>, i_source_refs = [], i_tags = []\<rparr>)],
     ir_versions = [], ir_versions_by_intent = []\<rparr>"

definition ex_event :: "nat AuditEvent" where
  "ex_event = \<lparr>ae_id = 31, ae_tenant_id = 9, ae_event_type = IntentCreated, ae_actor_id = ''u'', ae_intent_id = Some 1, ae_artifact_id = None,
     ae_payload = 0, ae_trace_id = None, ae_span_id = None, ae_occurred_at = 5\<rparr>"

theorem collection_exact_witness:
  "(\<exists>res d. real_collect (\<lambda>u. []) (memory_repos ex_collector_intents (snd (create_audit_event ex_event AuditRepo_new)) SnapshotRepo_new) 7 None [1] (0, 10)
      = Inr res \<and> cor_intents res = [d] \<and> set (cid_audit_events d) = {ex_event}) \<and>
   (\<exists>c. real_count_available (memory_repos ex_collector_intents (snd (create_audit_event ex_event AuditRepo_new)) SnapshotRepo_new) None [1] (0, 10)
      = Inr c \<and> coc_intent_count c = 1 \<and> coc_audit_event_count c = 0)"
proof -
  let ?ar = "snd (create_audit_event ex_event AuditRepo_new)"
  have inv: "audit_inv ?ar" by (rule audit_inv_create [OF audit_inv_new]) (simp add: AuditRepo_new_def)
  have own: "owner ex_collector_intents 1 = Some 9" by (simp add: owner_def ex_collector_intents_def)
  then have may: "readable ex_collector_intents None 1" by (simp add: readable_def)
  have stored: "table_values (ar_events ?ar) = {ex_event}" "table_values (psr_snapshots SnapshotRepo_new) = {}"
    by (simp_all add: create_audit_event_def AuditRepo_new_def SnapshotRepo_new_def)
  note exact = collection_exact [OF inv snapshot_inv_new, where us = "\<lambda>u. []" and ir = ex_collector_intents and now = 7 and tid = None and ids = "[1]"
      and rng = "(0, 10)", unfolded stored]
  obtain res where res: "real_collect (\<lambda>u. []) (memory_repos ex_collector_intents ?ar SnapshotRepo_new) 7 None [1] (0, 10) = Inr res"
    using exact [THEN conjunct1] may by (cases "real_collect (\<lambda>u. []) (memory_repos ex_collector_intents ?ar SnapshotRepo_new) 7 None [1] (0, 10)") simp_all
  have fields: "ae_tenant_id ex_event = 9" "ae_intent_id ex_event = Some 1" "ae_occurred_at ex_event = 5" by (simp_all add: ex_event_def)
  note collected = exact [THEN conjunct1, unfolded res sum.case, THEN conjunct2, THEN conjunct2]
  from collected [THEN conjunct1] obtain d where d: "cor_intents res = [d]" "cid_intent_id d = 1" by (auto simp: map_eq_Cons_conv)
  have mem: "d \<in> set (cor_intents res)" by (simp add: d(1))
  have "set (cid_audit_events d) = {ex_event}"
    unfolding bspec [OF collected [THEN conjunct2, THEN conjunct1] mem, THEN conjunct2, THEN conjunct1] using fields d(2) own by auto
  moreover have "\<exists>c. real_count_available (memory_repos ex_collector_intents ?ar SnapshotRepo_new) None [1] (0, 10) = Inr c \<and>
      coc_intent_count c = 1 \<and> coc_audit_event_count c = 0"
    using exact [THEN conjunct2, THEN mp] may by (force simp: fields)
  ultimately show ?thesis using res d(1) by blast
qed

end
