(* ===== verification/Spec2Isabelle.thy ===== *)
theory Spec2Isabelle
  imports
    Planner_Laws
    Ingestion_Laws
    Path_Laws
    Compensation_Batch
    Classification_Laws
    Cycle_Laws
    Forensic_Laws
    Intent_Service_Laws
    Forensic_Collector_Laws
begin

text \<open>
  A model of the core of the Intent Rebase Engine (\<open>crates/\<close>, Rust) and its correctness.

  \<^bold>\<open>The program.\<close> An \<^emph>\<open>intent\<close> is a versioned statement of what an automated workflow may do: its scope,
  constraints, acceptance criteria and authority. When a new version arrives, the rebase engine
  compares it with the previous one (\<open>rebase-engine/src/diff.rs\<close>), rates the difference
  (\<open>risk.rs\<close>, \<open>rules.rs\<close>) and derives a plan (\<open>planner.rs\<close>) that says how much of the running work
  can be kept. Work products, approvals and side effects are nodes of a dependency graph
  (\<open>graph-service\<close>) that is filled by the ingestors (\<open>ingestion.rs\<close>), kept in a repository
  (\<open>in_memory.rs\<close>), searched by the traversals (\<open>traversal.rs\<close>) and used to classify what a new version affects
  (\<open>classification.rs\<close>). Side effects that the new intent no longer allows are undone by compensation actions
  (\<open>compensation-service\<close>), which are planned, approved, executed, retried or waived. The intent service
  (\<open>intent-service\<close>) keeps the versions under optimistic concurrency control and answers rebase previews; the
  forensic service (\<open>forensic-service\<close>) collects the history of intents into hashed bundles that can be verified later.

  \<^bold>\<open>Theories and the code they model.\<close>
  \<^item> \<open>Prelude\<close>: names of the machine types (\<open>Uuid\<close> is a 128-bit word), hash maps as association lists
    whose iteration order is a parameter, printing of numbers, shared lemmas.
  \<^item> \<open>Intent_Types\<close>: \<open>intent-rebase-types/src/intent.rs\<close> and \<open>error.rs\<close>. JSON values are a type parameter.
  \<^item> \<open>Matching\<close>: the specification \<open>key_diff\<close> of a conservative list diff and its laws (locale
    \<open>conservative_diff\<close>).
  \<^item> \<open>Diff\<close>, \<open>Diff_Laws\<close>: \<open>diff.rs\<close> and \<open>compute_diff\<close>. The four list diffs follow the specification by
    refinement lemmas and four interpretations; from them the diff is independent of the hash maps,
    it is a lossless patch, and it matches items only by unique identities.
  \<^item> \<open>Binary64\<close>: rounding to the nearest binary64 number, ties to even, on rationals in the normal range, as the
    locale \<open>f64_rounding\<close> with the definition \<open>rnd\<close> as its model.
  \<^item> \<open>Risk\<close>, \<open>Risk_Laws\<close>: \<open>risk.rs\<close> and \<open>rules.rs\<close>: severities, matching statistics, the confidence score in
    binary64 arithmetic, manual review.
  \<^item> \<open>Planner\<close>, \<open>Planner_Laws\<close>: \<open>planner.rs\<close> and \<open>generate_plan\<close>: the decision class as a table, absence of the
    panic in the checkpoint selection, what lifting a restriction leads to, when nothing is to be done.
  \<^item> \<open>Graph_Types\<close>: \<open>intent-rebase-types/src/graph.rs\<close>.
  \<^item> \<open>Graph_Repo\<close>, \<open>Graph_Repo_Laws\<close>: \<open>in_memory.rs\<close> as operations on the record \<open>GraphState\<close>, the step relation
    \<open>graph_step\<close>, the invariant of every reachable state, and the contract of a graph repository
    (locale \<open>graph_repository\<close>, interpreted as \<open>memory\<close>) that the clients rely on.
  \<^item> \<open>Ingestion\<close>, \<open>Ingestion_Laws\<close>: \<open>ingestion.rs\<close>; ingestion is all-or-nothing.
  \<^item> \<open>Search\<close>: walks, distances and the invariant of breadth-first search, independent of the program.
  \<^item> \<open>Traversal\<close>, \<open>Traversal_Laws\<close>, \<open>Path_Laws\<close>, \<open>Cycle_Laws\<close>: \<open>traversal.rs\<close>; reachability is exact, paths are shortest, a
    cycle is reported exactly when there is one.
  \<^item> \<open>Classification\<close>, \<open>Classification_Laws\<close>: \<open>classification.rs\<close>; impact classification is exact.
  \<^item> \<open>Indexed\<close>, \<open>Tenant_Store\<close>: the layout of the in-memory repositories, tables with secondary indices, and the contract
    of a tenant-scoped query (locale \<open>tenant_store\<close>), interpreted for every list operation of the repositories.
  \<^item> \<open>Side_Effects\<close>, \<open>Rollback_Records\<close>, \<open>Audit_Log\<close>: \<open>side_effect*.rs\<close>, \<open>rollback_record*.rs\<close> and the audit types and repository of
    \<open>intent-rebase-types\<close>.
  \<^item> \<open>Compensation\<close>, \<open>Compensation_Service\<close>, \<open>Compensation_Laws\<close>: compensation actions, their repository with optimistic locking,
    the service with the four executors. The service reads an action, then decides, then writes: \<open>comp_step\<close>
    interleaves these halves of concurrent calls of all public methods, with any arguments and with the actions read so far in the
    state. With clients that respect the protocol of the lock versions (\<open>honest_call\<close>) it refines the abstract life cycle
    of an action and the queues are exact; without it neither holds, the lock alone is not enough. What is planned as executable executes once approved.
  \<^item> \<open>Compensation_Policy\<close>, \<open>Compensation_Batch\<close>: policy gates, risk metadata, coordination, dry run, and the three batch
    commands as interpretations of one locale \<open>batch_operation\<close>.
  \<^item> \<open>Forensic\<close>, \<open>Forensic_Service\<close>, \<open>Forensic_Laws\<close>: hash chain, section hashes, bundle generation, the bundle repository and its status
    machine, storage, creation and replay verification. Tamper evidence is a reduction to collisions of the digest.
  \<^item> \<open>Policy_Snapshots\<close>: JSON values, the canonical scope hash and the snapshot repository.
  \<^item> \<open>Forensic_Collector\<close>, \<open>Forensic_Verification\<close>, \<open>Forensic_Collector_Laws\<close>: \<open>collector.rs\<close>, \<open>real_collector.rs\<close> and
    \<open>verification.rs\<close>, over the intent, audit and snapshot repositories.
  \<^item> \<open>Approval_Requests\<close>, \<open>Intent_Repo\<close>, \<open>Intent_Service\<close>, \<open>Intent_Service_Laws\<close>: \<open>intent-service\<close>; append-only version histories
    without lost updates, cancellation of stale approvals, and the rebase preview end to end, which joins the repository, diff, risk
    analysis, planner and impact classification.

  \<^bold>\<open>Conventions.\<close> A \<open>Result\<close> is a sum with the error at the left; a panic is the value \<open>None\<close>. The lock of the repository makes
  each operation one atomic step, so a state is passed and returned; a service method that locks twice is split where it
  releases the lock. New identifiers and the time are
  arguments; that \<open>Uuid::new_v4\<close> does not return an identifier in use is the hypothesis \<open>fresh_node\<close> or
  \<open>fresh_edge\<close>. The iteration order of a hash map is an argument of type \<open>hash_iter\<close>, required to be a
  permutation of the entries (\<open>hash_iteration\<close>). Formatting of identifiers and floats, and JSON
  construction, are fields of records of functions (\<open>formats\<close>, \<open>platform\<close>, \<open>audit_json\<close>, \<open>serializers\<close>). SHA-256 is an
  argument \<open>sha256\<close>, a function from texts to texts; where its digests must have 64 characters this is a hypothesis.

  \<^bold>\<open>Termination and bounds.\<close> The breadth-first loops are total functions: identifiers are finitely many and each
  is marked once; the classification loop, which may expand a node again, moves one level down with every entry it adds
  (\<open>levels_left\<close>). The depth-first search has the number of nodes as fuel, and \<open>detect_cycles_exact\<close> shows that it never
  runs out. \<open>reconstruct_loop\<close> is a partial function; \<open>find_path\<close> is proved to return. The confidence
  bounds hold for diffs of up to \<open>2\<^sup>4\<^sup>8\<close> entries, for which the conversion of the counts to binary64 is exact.
  Lock versions, attempt counters and version numbers are \<open>i32\<close> and wrap around in the release profile: the laws of compensation
  actions and version histories are stated for runs of fewer than \<open>2\<^sup>3\<^sup>1\<close> steps, which cannot reach the wrap. The risk metadata of
  compensation actions is computed in binary32 (\<open>rnd32\<close>).

  \<^bold>\<open>Not modelled.\<close> The SQL repositories, the HTTP API, the message transport and the object stores are input
  and output around other systems, and the methods that run in a PostgreSQL transaction (\<open>_with_rls\<close>, \<open>_with_tx\<close>) belong to
  them. The orchestrator, rule packs, approval revalidation, checkpoints, propagation records, edge re-evaluation, the compensation
  simulator, the tenant service, quotas and the webhook outbox are not part of the model yet.
\<close>

end
